(* ===== verification/Prelude.thy ===== *)
theory Prelude
  imports Main
begin

text \<open>
  Shared vocabulary of the development.

  \<^item> Results of fallible code: \<open>'e + 'a\<close>, with \<open>Inl\<close> the thrown error. \<open>bindE\<close> is
    sequencing (a throw skips the rest), \<open>assertE\<close> is the guard
    \<^verbatim>\<open>if (!c) throw e\<close>, \<open>mapE\<close> is a \<^verbatim>\<open>for\<close> loop or \<^verbatim>\<open>.map\<close> whose
    body may throw.
  \<^item> Tables of the database: lists of row records in insertion order.
    \<open>find\<close> is \<^verbatim>\<open>findFirst\<close>, \<open>filter\<close> is \<^verbatim>\<open>where\<close>,
    \<open>updateWhere\<close> is \<^verbatim>\<open>update ... set ... where\<close>.
  \<^item> Strings of the source are \<open>string\<close>; \<open>js_trim\<close> and \<open>toUpperCase\<close> act on
    the code units the type has.
  \<^item> \<open>nullish\<close> separates an omitted field from an explicit \<^verbatim>\<open>null\<close>, where
    the source does.

  The collection \<open>resE\<close> holds the equations that take a successful or failed
  pipeline apart; \<open>rows\<close> holds the lemmas on row updates.
\<close>

named_theorems resE
named_theorems rows

section \<open>Results\<close>

fun bindE :: "'e + 'a \<Rightarrow> ('a \<Rightarrow> 'e + 'b) \<Rightarrow> 'e + 'b" where
  "bindE (Inl e) f = Inl e"
| "bindE (Inr x) f = f x"

text \<open>Evaluation takes the continuation apart only once its argument is a value.\<close>

lemma bindE_case [code_unfold]:
  "bindE m f = (case m of Inl e \<Rightarrow> Inl e | Inr x \<Rightarrow> f x)"
  by (cases m) auto

definition assertE :: "bool \<Rightarrow> 'e \<Rightarrow> 'e + unit" where
  "assertE b e = (if b then Inr () else Inl e)"

fun mapE :: "('a \<Rightarrow> 'e + 'b) \<Rightarrow> 'a list \<Rightarrow> 'e + 'b list" where
  "mapE f [] = Inr []"
| "mapE f (x # xs) = bindE (f x) (\<lambda>y. bindE (mapE f xs) (\<lambda>ys. Inr (y # ys)))"

definition fromOption :: "'e \<Rightarrow> 'a option \<Rightarrow> 'e + 'a" where
  "fromOption e m = (case m of None \<Rightarrow> Inl e | Some x \<Rightarrow> Inr x)"

lemma bindE_Inr_iff [resE, simp]:
  "bindE m f = Inr y \<longleftrightarrow> (\<exists>x. m = Inr x \<and> f x = Inr y)"
  by (cases m) auto

lemma bindE_Inl_iff [resE]:
  "bindE m f = Inl e \<longleftrightarrow> m = Inl e \<or> (\<exists>x. m = Inr x \<and> f x = Inl e)"
  by (cases m) auto

lemma bindE_assoc: "bindE (bindE m f) g = bindE m (\<lambda>x. bindE (f x) g)"
  by (cases m) auto

lemma bindE_Inr_right [simp]: "bindE m Inr = m"
  by (cases m) auto

lemma bindE_cong [fundef_cong]:
  "m = m' \<Longrightarrow> (\<And>x. m' = Inr x \<Longrightarrow> f x = g x) \<Longrightarrow> bindE m f = bindE m' g"
  by (cases m') auto

lemma assertE_Inr_iff [resE, simp]: "assertE b e = Inr u \<longleftrightarrow> b"
  by (cases b) (auto simp: assertE_def)

lemma assertE_Inl_iff [resE]: "assertE b e = Inl e' \<longleftrightarrow> \<not> b \<and> e' = e"
  by (auto simp: assertE_def)

lemma assertE_simps [simp]: "assertE True e = Inr ()" "assertE False e = Inl e"
  by (simp_all add: assertE_def)

lemma fromOption_Inr_iff [resE, simp]: "fromOption e m = Inr x \<longleftrightarrow> m = Some x"
  by (auto simp: fromOption_def split: option.splits)

lemma fromOption_Inl_iff [resE]: "fromOption e m = Inl e' \<longleftrightarrow> m = None \<and> e' = e"
  by (auto simp: fromOption_def split: option.splits)

lemma fromOption_simps [simp]: "fromOption e None = Inl e" "fromOption e (Some x) = Inr x"
  by (simp_all add: fromOption_def)

lemma mapE_Inr_iff:
  "mapE f xs = Inr ys \<longleftrightarrow> length ys = length xs \<and> (\<forall>i < length xs. f (xs ! i) = Inr (ys ! i))"
proof (induction xs arbitrary: ys)
  case Nil
  then show ?case by auto
next
  case (Cons x xs)
  show ?case
  proof (cases ys)
    case Nil
    then show ?thesis by auto
  next
    case (Cons z zs)
    then show ?thesis
      using Cons.IH [of zs] by (auto simp: less_Suc_eq_0_disj)
  qed
qed

lemma mapE_length: "mapE f xs = Inr ys \<Longrightarrow> length ys = length xs"
  by (simp add: mapE_Inr_iff)

lemma mapE_list_all2: "mapE f xs = Inr ys \<longleftrightarrow> list_all2 (\<lambda>x y. f x = Inr y) xs ys"
  by (auto simp: mapE_Inr_iff list_all2_conv_all_nth)

lemma mapE_total: "(\<And>x. x \<in> set xs \<Longrightarrow> f x = Inr (g x)) \<Longrightarrow> mapE f xs = Inr (map g xs)"
  by (induction xs) auto

lemma mapE_Inr_total: "mapE (\<lambda>x. Inr (g x)) xs = Inr (map g xs)"
  by (rule mapE_total) simp

lemma mapE_mem:
  "mapE f xs = Inr ys \<Longrightarrow> y \<in> set ys \<Longrightarrow> \<exists>x \<in> set xs. f x = Inr y"
  by (induction xs arbitrary: ys) auto

lemma mapE_map: "mapE f (map g xs) = mapE (\<lambda>x. f (g x)) xs"
  by (induction xs) auto

lemma mapE_append:
  "mapE f (xs @ ys) = bindE (mapE f xs) (\<lambda>us. bindE (mapE f ys) (\<lambda>vs. Inr (us @ vs)))"
  by (induction xs) (auto simp: bindE_assoc intro!: bindE_cong)

section \<open>Tables\<close>

definition updateWhere :: "('r \<Rightarrow> bool) \<Rightarrow> ('r \<Rightarrow> 'r) \<Rightarrow> 'r list \<Rightarrow> 'r list" where
  "updateWhere p f t = map (\<lambda>r. if p r then f r else r) t"

lemma length_updateWhere [rows, simp]: "length (updateWhere p f t) = length t"
  by (simp add: updateWhere_def)

lemma updateWhere_Nil [rows, simp]: "updateWhere p f [] = []"
  by (simp add: updateWhere_def)

lemma updateWhere_Cons [rows, simp]:
  "updateWhere p f (r # t) = (if p r then f r else r) # updateWhere p f t"
  by (simp add: updateWhere_def)

lemma updateWhere_append [rows, simp]:
  "updateWhere p f (t @ u) = updateWhere p f t @ updateWhere p f u"
  by (simp add: updateWhere_def)

lemma set_updateWhere:
  "set (updateWhere p f t) = {r \<in> set t. \<not> p r} \<union> f ` {r \<in> set t. p r}"
  by (auto simp: updateWhere_def)

lemma updateWhere_id: "(\<And>r. r \<in> set t \<Longrightarrow> \<not> p r) \<Longrightarrow> updateWhere p f t = t"
  by (simp add: updateWhere_def map_idI)

lemma map_updateWhere:
  "(\<And>r. r \<in> set t \<Longrightarrow> p r \<Longrightarrow> g (f r) = g r) \<Longrightarrow> map g (updateWhere p f t) = map g t"
  by (simp add: updateWhere_def)

lemma find_append:
  "find p (xs @ ys) = (case find p xs of None \<Rightarrow> find p ys | Some x \<Rightarrow> Some x)"
  by (induction xs) auto

lemma find_SomeD: "find p xs = Some x \<Longrightarrow> x \<in> set xs \<and> p x"
  by (induction xs) (auto split: if_splits)

lemma find_NoneD: "find p xs = None \<Longrightarrow> x \<in> set xs \<Longrightarrow> \<not> p x"
  by (auto simp: find_None_iff)

lemma find_key_unique:
  assumes "distinct (map k t)" and "r \<in> set t"
  shows "find (\<lambda>x. k x = k r) t = Some r"
  using assms by (induction t) auto

lemma find_updateWhere:
  assumes "\<And>r. r \<in> set t \<Longrightarrow> q (f r) = q r"
  shows "find q (updateWhere p f t) = map_option (\<lambda>r. if p r then f r else r) (find q t)"
  using assms by (induction t) auto

lemma find_updateWhere_key:
  assumes "\<And>r. k (f r) = k r"
  shows "find (\<lambda>x. k x = i) (updateWhere (\<lambda>r. k r = i) f t) = map_option f (find (\<lambda>x. k x = i) t)"
  using assms by (induction t) auto

lemma find_other_key:
  assumes "\<And>r. k (f r) = k r" and "i \<noteq> j"
  shows "find (\<lambda>x. k x = j) (updateWhere (\<lambda>r. k r = i) f t) = find (\<lambda>x. k x = j) t"
  using assms by (induction t) auto

lemma distinct_key_eq:
  "distinct (map k t) \<Longrightarrow> x \<in> set t \<Longrightarrow> y \<in> set t \<Longrightarrow> k x = k y \<Longrightarrow> x = y"
  by (metis distinct_map inj_onD)

lemma filter_updateWhere_other:
  "(\<And>r. r \<in> set t \<Longrightarrow> p r \<Longrightarrow> \<not> q r \<and> \<not> q (f r)) \<Longrightarrow>
     filter q (updateWhere p f t) = filter q t"
  by (induction t) auto

text \<open>A table in which no two different rows clash keeps that property when one row changes,
  if its new value clashes with no other row; and when a row that clashes with none is added.\<close>

definition clashFree :: "('r \<Rightarrow> 'r \<Rightarrow> bool) \<Rightarrow> 'r list \<Rightarrow> bool" where
  "clashFree C t \<longleftrightarrow> (\<forall>x \<in> set t. \<forall>y \<in> set t. C x y \<longrightarrow> x = y)"

lemma clashFree_update:
  assumes sym: "\<And>x y. C x y \<Longrightarrow> C y x" and free: "clashFree C t" and keys: "distinct (map k t)"
    and old: "old \<in> set t" "k old = i"
    and new: "\<forall>x \<in> set t. k x \<noteq> i \<longrightarrow> \<not> C (f old) x"
  shows "clashFree C (updateWhere (\<lambda>r. k r = i) f t)"
proof -
  let ?g = "\<lambda>r. if k r = i then f r else r"
  have uniq: "x = old" if "x \<in> set t" "k x = i" for x
    using keys old that by (auto intro: distinct_key_eq)
  have "?g x = ?g y" if xy: "x \<in> set t" "y \<in> set t" "C (?g x) (?g y)" for x y
  proof (cases "k x = i"; cases "k y = i")
    assume "k x = i" "k y = i"
    then show ?thesis using uniq xy by blast
  next
    assume "k x = i" "k y \<noteq> i"
    then show ?thesis using uniq [of x] xy new by simp
  next
    assume "k x \<noteq> i" "k y = i"
    then show ?thesis using uniq [of y] xy new sym [of x "f old"] by simp
  next
    assume "k x \<noteq> i" "k y \<noteq> i"
    then show ?thesis using xy free by (simp add: clashFree_def)
  qed
  then have "\<forall>x \<in> set t. \<forall>y \<in> set t. C (?g x) (?g y) \<longrightarrow> ?g x = ?g y" by blast
  then show ?thesis unfolding clashFree_def updateWhere_def set_map ball_simps .
qed

lemma clashFree_append:
  assumes sym: "\<And>x y. C x y \<Longrightarrow> C y x" and "clashFree C t" and "\<forall>x \<in> set t. \<forall>r \<in> set rs. \<not> C x r"
    and "sorted_wrt (\<lambda>x y. \<not> C x y) rs"
  shows "clashFree C (t @ rs)"
proof -
  have "x = y" if xy: "x \<in> set rs" "y \<in> set rs" "C x y" for x y
  proof -
    obtain i where i: "i < length rs" "x = rs ! i" using xy(1) unfolding in_set_conv_nth by blast
    obtain j where j: "j < length rs" "y = rs ! j" using xy(2) unfolding in_set_conv_nth by blast
    have free: "\<not> C (rs ! m) (rs ! n)" if "m < n" "n < length rs" for m n
      using assms(4) that by (simp add: sorted_wrt_iff_nth_less)
    have "C (rs ! i) (rs ! j)" "C (rs ! j) (rs ! i)" using xy(3) sym [OF xy(3)] i j by simp_all
    then have "\<not> i < j" "\<not> j < i" using free i(1) j(1) by blast+
    then show ?thesis using i j by simp
  qed
  moreover have "\<not> C r x" if "x \<in> set t" "r \<in> set rs" for x r
    using assms(3) that sym by blast
  ultimately show ?thesis using assms(2,3) unfolding clashFree_def set_append Un_iff by blast
qed

section \<open>Language values\<close>

datatype 'a nullish = Undefined | Null | Val 'a

fun nullishOr :: "'a option \<Rightarrow> 'a nullish \<Rightarrow> 'a option" where
  "nullishOr d Undefined = d"
| "nullishOr d Null = None"
| "nullishOr d (Val x) = Some x"

definition isSpace :: "char \<Rightarrow> bool" where
  "isSpace c \<longleftrightarrow> (let n = (of_char c :: nat) in (9 \<le> n \<and> n \<le> 13) \<or> n = 32 \<or> n = 160)"

definition js_trim :: "string \<Rightarrow> string" where
  "js_trim s = rev (dropWhile isSpace (rev (dropWhile isSpace s)))"

definition upperChar :: "char \<Rightarrow> char" where
  "upperChar c = (let n = (of_char c :: nat) in if 97 \<le> n \<and> n \<le> 122 then char_of (n - 32) else c)"

text \<open>For evaluation, code units are compared as integers.\<close>

lemma charCode_less: "numeral k \<le> (of_char c :: nat) \<longleftrightarrow> numeral k \<le> (of_char c :: int)"
  "(of_char c :: nat) \<le> numeral k \<longleftrightarrow> (of_char c :: int) \<le> numeral k"
  "(of_char c :: nat) = numeral k \<longleftrightarrow> (of_char c :: int) = numeral k"
  by (simp_all flip: of_nat_of_char [where 'a = int])

lemma isSpace_code [code]:
  "isSpace c \<longleftrightarrow> (let n = (of_char c :: int) in (9 \<le> n \<and> n \<le> 13) \<or> n = 32 \<or> n = 160)"
  by (simp add: isSpace_def charCode_less Let_def)

lemma upperChar_code [code]:
  "upperChar (Char b0 b1 b2 b3 b4 b5 b6 b7) =
     (let n = (of_char (Char b0 b1 b2 b3 b4 b5 b6 b7) :: int)
      in if 97 \<le> n \<and> n \<le> 122 then Char b0 b1 b2 b3 b4 False b6 b7 else Char b0 b1 b2 b3 b4 b5 b6 b7)"
proof -
  let ?c = "Char b0 b1 b2 b3 b4 b5 b6 b7" and ?d = "Char b0 b1 b2 b3 b4 False b6 b7"
  have "b5" if "97 \<le> (of_char ?c :: nat)" "(of_char ?c :: nat) \<le> 122"
  proof (rule ccontr)
    assume "\<not> b5"
    moreover have "of_bool b \<le> (1 :: nat)" for b by simp
    from this [of b0] this [of b1] this [of b2] this [of b3] this [of b4]
    have "of_bool b0 + 2 * of_bool b1 + 4 * of_bool b2 + 8 * of_bool b3 + 16 * of_bool b4 \<le> (31 :: nat)" by linarith
    ultimately show False using that by (cases b6; cases b7) simp_all
  qed
  then have "of_char ?c - 32 = (of_char ?d :: nat)" if "97 \<le> (of_char ?c :: nat)" "(of_char ?c :: nat) \<le> 122"
    using that by simp
  then have "char_of (of_char ?c - 32 :: nat) = ?d" if "97 \<le> (of_char ?c :: nat)" "(of_char ?c :: nat) \<le> 122"
    using that by (metis char_of_char)
  then show ?thesis unfolding upperChar_def Let_def charCode_less [symmetric] by auto
qed

definition toUpperCase :: "string \<Rightarrow> string" where
  "toUpperCase s = map upperChar s"

definition startsWith :: "string \<Rightarrow> string \<Rightarrow> bool" where
  "startsWith p s \<longleftrightarrow> take (length p) s = p"

fun joinWith :: "string \<Rightarrow> string list \<Rightarrow> string" where
  "joinWith sep [] = []"
| "joinWith sep [s] = s"
| "joinWith sep (s # t # ts) = s @ sep @ joinWith sep (t # ts)"

section \<open>Sums\<close>

lemma sum_list_updateWhere_same:
  "(\<And>r. r \<in> set t \<Longrightarrow> p r \<Longrightarrow> g (f r) = g r) \<Longrightarrow>
     sum_list (map g (updateWhere p f t)) = sum_list (map g t)"
  by (simp add: map_updateWhere)

lemma sum_list_uminus: "sum_list (map (\<lambda>x. - f x) xs) = - sum_list (map f xs :: int list)"
  by (induction xs) auto

lemma sum_list_filter_split:
  "sum_list (map f (filter p xs)) + sum_list (map f (filter (\<lambda>x. \<not> p x) xs))
     = (sum_list (map f xs) :: int)"
  by (induction xs) auto

lemma sum_list_nonneg_mem:
  "(\<And>x. x \<in> set xs \<Longrightarrow> 0 \<le> f x) \<Longrightarrow> (0 :: int) \<le> sum_list (map f xs)"
  by (induction xs) auto

end
