(* ===== verification/Errors.thy ===== *)
theory Errors
  imports Prelude
begin

text \<open>
  The errors the modelled packages throw. \<open>acc_error\<close> is the class hierarchy of
  \<^verbatim>\<open>packages/accounting/src/errors.ts\<close>, one constructor per class (a class's message is
  not part of the model), and \<open>DatabaseError\<close> is an error the PostgreSQL driver raises, by
  its SQLSTATE: the constraint and trigger checks of the migrations are written out where
  the rows are inserted. \<open>inv_error\<close> is the same for the inventory package, which also lets
  the commerce package's decimal errors through.
\<close>

datatype pg_error =
    UniqueViolation        \<comment> \<open>23505\<close>
  | ExclusionViolation     \<comment> \<open>23P01\<close>
  | CheckViolation         \<comment> \<open>23514\<close>
  | ForeignKeyViolation    \<comment> \<open>23503\<close>
  | NumericOutOfRange      \<comment> \<open>22003\<close>
  | DatetimeFieldOverflow  \<comment> \<open>22008\<close>
  | RaiseException         \<comment> \<open>P0001, raised by a trigger\<close>

datatype acc_error =
    AccountingValidationError
  | AccountingNotFoundError
  | AccountingConflictError
  | ExpenseNotEditableError
  | ExpenseOverAllocatedError
  | ExpenseLinesOverTranscribedError
  | BookRoutingError
  | FiscalPeriodClosedError
  | UnbalancedEntryError
  | LedgerImmutableError
  | UnsupportedCurrencyError
  | PlainError             \<comment> \<open>a bare \<^verbatim>\<open>Error\<close>\<close>
  | DatabaseError pg_error

text \<open>\<^verbatim>\<open>codes.ts\<close>: \<open>isUniqueViolation\<close>, and \<^verbatim>\<open>periods.ts\<close>: \<open>isExclusionViolation\<close>.\<close>

definition isUniqueViolation :: "acc_error \<Rightarrow> bool" where
  "isUniqueViolation e \<longleftrightarrow> e = DatabaseError UniqueViolation"

definition isExclusionViolation :: "acc_error \<Rightarrow> bool" where
  "isExclusionViolation e \<longleftrightarrow> e = DatabaseError ExclusionViolation"

type_synonym 'a acc = "acc_error + 'a"

datatype inv_error =
    InventoryValidationError
  | InventoryNotFoundError
  | CommerceValidationError
  | InvDatabaseError pg_error

type_synonym 'a inv = "inv_error + 'a"

type_synonym uuid = string

end
