(* ===== verification/Decimal.thy ===== *)
theory Decimal
  imports Errors
begin

text \<open>
  Exact decimal-string arithmetic: \<^verbatim>\<open>packages/accounting/src/decimal.ts\<close>.

  An amount is a decimal string. \<open>parseScaledWith\<close> reads it into scaled units (a BigInt, here
  \<open>int\<close>), \<open>formatDecimal\<close> writes units back. The package throws its own validation error, so
  the shared routines take the error as an argument and the accounting functions fix it.
  The lemmas show the round trip between strings and units, that every arithmetic function
  computes the exact (or correctly rounded) result on units, and that results are again
  well-formed money strings. Clients use them through the locale \<open>money_codec\<close>.
\<close>

named_theorems money

section \<open>Digits\<close>

definition is_digit :: "char \<Rightarrow> bool" where
  "is_digit c \<longleftrightarrow> (let n = (of_char c :: nat) in 48 \<le> n \<and> n \<le> 57)"

lemma is_digit_code [code]: "is_digit c \<longleftrightarrow> (let n = (of_char c :: int) in 48 \<le> n \<and> n \<le> 57)"
  by (simp add: is_digit_def charCode_less Let_def)

definition digit_val :: "char \<Rightarrow> nat" where
  "digit_val c = of_char c - 48"

definition digit_char :: "nat \<Rightarrow> char" where
  "digit_char n = char_of (48 + n)"

definition BigInt :: "string \<Rightarrow> nat" where
  "BigInt ds = foldl (\<lambda>a c. 10 * a + digit_val c) 0 ds"

fun nat_toString :: "nat \<Rightarrow> string" where
  "nat_toString n =
     (if n < 10 then [digit_char n] else nat_toString (n div 10) @ [digit_char (n mod 10)])"

declare nat_toString.simps [simp del]

definition padStart :: "nat \<Rightarrow> char \<Rightarrow> string \<Rightarrow> string" where
  "padStart n c s = replicate (n - length s) c @ s"

section \<open>Parsing and printing\<close>

record scaled =
  units :: int
  scale :: nat

definition unsignedPart :: "string \<Rightarrow> string" where
  "unsignedPart v = (if startsWith ''-'' v then drop 1 v else v)"

definition DECIMAL_STRING :: "string \<Rightarrow> bool" where
  "DECIMAL_STRING v \<longleftrightarrow>
     (let u = unsignedPart v in
      takeWhile is_digit u \<noteq> [] \<and>
      (case dropWhile is_digit u of
         [] \<Rightarrow> True
       | c # f \<Rightarrow> c = CHR ''.'' \<and> f \<noteq> [] \<and> list_all is_digit f))"

definition MONEY_SCALE :: nat where
  "MONEY_SCALE = 6"

definition ZERO :: string where
  "ZERO = ''0.000000''"

definition parseScaledWith :: "'e \<Rightarrow> string \<Rightarrow> 'e + scaled" where
  "parseScaledWith err value =
     (if \<not> DECIMAL_STRING value then Inl err
      else
        let negative = startsWith ''-'' value;
            unsigned = unsignedPart value;
            whole = takeWhile (\<lambda>c. c \<noteq> CHR ''.'') unsigned;
            rest = dropWhile (\<lambda>c. c \<noteq> CHR ''.'') unsigned;
            digits = (if rest = [] then unsigned else whole @ drop 1 rest);
            sc = (if rest = [] then 0 else length unsigned - length whole - 1);
            u = int (BigInt digits)
        in Inr \<lparr>units = (if negative then - u else u), scale = sc\<rparr>)"

definition rescaleWith :: "'e \<Rightarrow> scaled \<Rightarrow> nat \<Rightarrow> 'e + int" where
  "rescaleWith err v sc =
     (if sc = scale v then Inr (units v)
      else if sc < scale v then Inl err
      else Inr (units v * 10 ^ (sc - scale v)))"

definition formatDecimal :: "int \<Rightarrow> nat \<Rightarrow> string" where
  "formatDecimal u sc =
     (let negative = u < 0;
          digits = padStart (sc + 1) (CHR ''0'') (nat_toString (nat (if negative then - u else u)));
          whole = take (length digits - sc) digits;
          fraction = (if sc = 0 then [] else CHR ''.'' # drop (length digits - sc) digits)
      in (if negative then ''-'' else []) @ whole @ fraction)"

section \<open>The accounting package's functions\<close>

definition parseScaled :: "string \<Rightarrow> scaled acc" where
  "parseScaled = parseScaledWith AccountingValidationError"

definition rescale :: "scaled \<Rightarrow> nat \<Rightarrow> int acc" where
  "rescale = rescaleWith AccountingValidationError"

definition toUnits :: "string \<Rightarrow> nat \<Rightarrow> int acc" where
  "toUnits value sc = bindE (parseScaled value) (\<lambda>p. rescale p sc)"

definition fromUnits :: "int \<Rightarrow> nat \<Rightarrow> string" where
  "fromUnits u sc = formatDecimal u sc"

abbreviation moneyUnits :: "string \<Rightarrow> int acc" where
  "moneyUnits value \<equiv> toUnits value MONEY_SCALE"

abbreviation money_text :: "int \<Rightarrow> string" where
  "money_text u \<equiv> formatDecimal u MONEY_SCALE"

definition toMoneyString :: "string \<Rightarrow> string acc" where
  "toMoneyString value = bindE (moneyUnits value) (\<lambda>u. Inr (money_text u))"

definition sumDecimals :: "string list \<Rightarrow> string acc" where
  "sumDecimals values =
     bindE (mapE moneyUnits values) (\<lambda>us. Inr (money_text (sum_list us)))"

definition subtractDecimals :: "string \<Rightarrow> string \<Rightarrow> string acc" where
  "subtractDecimals a b =
     bindE (moneyUnits a) (\<lambda>x. bindE (moneyUnits b) (\<lambda>y. Inr (money_text (x - y))))"

definition compareDecimals :: "string \<Rightarrow> string \<Rightarrow> int acc" where
  "compareDecimals a b =
     bindE (moneyUnits a) (\<lambda>left. bindE (moneyUnits b) (\<lambda>right.
       Inr (if left = right then 0 else if left < right then - 1 else 1)))"

definition absDecimal :: "string \<Rightarrow> string acc" where
  "absDecimal value =
     bindE (moneyUnits value) (\<lambda>u. Inr (money_text (if u < 0 then - u else u)))"

definition negateDecimal :: "string \<Rightarrow> string acc" where
  "negateDecimal value = bindE (moneyUnits value) (\<lambda>u. Inr (money_text (- u)))"

definition multiplyDecimals :: "string \<Rightarrow> string \<Rightarrow> string acc" where
  "multiplyDecimals value multiplier =
     bindE (moneyUnits value) (\<lambda>a. bindE (moneyUnits multiplier) (\<lambda>b.
       let scaled = a * b;
           divisor = 10 ^ MONEY_SCALE;
           negative = scaled < 0;
           magnitude = (if negative then - scaled else scaled);
           quotient = magnitude div divisor;
           remainder = magnitude mod divisor;
           rounded = (if remainder * 2 \<ge> divisor then quotient + 1 else quotient)
       in Inr (money_text (if negative then - rounded else rounded))))"

definition proRataShare :: "string \<Rightarrow> string \<Rightarrow> string \<Rightarrow> string acc" where
  "proRataShare amount part whole =
     bindE (moneyUnits whole) (\<lambda>wholeUnits.
     bindE (moneyUnits part) (\<lambda>partUnits.
       if wholeUnits \<le> 0 then Inr ZERO
       else if partUnits \<le> 0 then Inr ZERO
       else if partUnits \<ge> wholeUnits then toMoneyString amount
       else bindE (moneyUnits amount) (\<lambda>totalUnits.
         let negative = totalUnits < 0;
             magnitude = (if negative then - totalUnits else totalUnits);
             numerator = magnitude * partUnits;
             quotient = numerator div wholeUnits;
             remainder = numerator mod wholeUnits;
             rounded = (if remainder * 2 \<ge> wholeUnits then quotient + 1 else quotient)
         in Inr (money_text (if negative then - rounded else rounded)))))"

definition isZeroDecimal :: "string \<Rightarrow> bool acc" where
  "isZeroDecimal value = bindE (moneyUnits value) (\<lambda>u. Inr (u = 0))"

definition isNegative :: "string \<Rightarrow> bool acc" where
  "isNegative value = bindE (moneyUnits value) (\<lambda>u. Inr (u < 0))"

section \<open>Digit lemmas\<close>

lemma is_digit_digit_char: "n < 10 \<Longrightarrow> is_digit (digit_char n)"
  by (simp add: is_digit_def digit_char_def Let_def)

lemma digit_val_digit_char: "n < 10 \<Longrightarrow> digit_val (digit_char n) = n"
  by (simp add: digit_val_def digit_char_def)

lemma digit_val_less: "is_digit c \<Longrightarrow> digit_val c < 10"
  by (auto simp: is_digit_def digit_val_def Let_def)

lemma digit_not_special: "is_digit c \<Longrightarrow> c \<noteq> CHR ''.'' \<and> c \<noteq> CHR ''-''"
  by (auto simp: is_digit_def)

lemma is_digit_zero [simp]: "is_digit (CHR ''0'')" and digit_val_zero [simp]: "digit_val (CHR ''0'') = 0"
  by (simp_all add: is_digit_def digit_val_def)

lemma BigInt_append: "BigInt (xs @ ys) = BigInt xs * 10 ^ length ys + BigInt ys"
proof -
  have fold: "foldl (\<lambda>a c. 10 * a + digit_val c) n ys = n * 10 ^ length ys + BigInt ys" for n
    unfolding BigInt_def
  proof (induction ys rule: rev_induct)
    case Nil
    then show ?case by simp
  next
    case (snoc y ys)
    then show ?case by simp
  qed
  have "BigInt (xs @ ys) = foldl (\<lambda>a c. 10 * a + digit_val c) (BigInt xs) ys"
    by (simp add: BigInt_def)
  then show ?thesis by (simp only: fold)
qed

lemma BigInt_single [simp]: "BigInt [c] = digit_val c"
  by (simp only: BigInt_def foldl.simps mult_0_right add_0)

lemma BigInt_Nil [simp]: "BigInt [] = 0"
  by (simp add: BigInt_def)

lemma BigInt_Cons: "BigInt (c # s) = digit_val c * 10 ^ length s + BigInt s"
  using BigInt_append [of "[c]" s] by simp

lemma BigInt_zeros [simp]: "BigInt (replicate n (CHR ''0'')) = 0"
  by (induction n) (simp_all add: BigInt_Cons)

lemma nat_toString_digits: "list_all is_digit (nat_toString n)"
proof (induction n rule: nat_toString.induct)
  case (1 n)
  then show ?case
    by (subst nat_toString.simps) (simp add: is_digit_digit_char)
qed

lemma nat_toString_nonempty: "nat_toString n \<noteq> []"
  by (subst nat_toString.simps) simp

lemma BigInt_nat_toString [simp]: "BigInt (nat_toString n) = n"
proof (induction n rule: nat_toString.induct)
  case (1 n)
  show ?case
  proof (cases "n < 10")
    case True
    then show ?thesis by (subst nat_toString.simps) (simp add: digit_val_digit_char)
  next
    case False
    with 1 show ?thesis
      by (subst nat_toString.simps) (simp add: BigInt_append digit_val_digit_char)
  qed
qed

text \<open>
  The same functions on binary integers, as code equations: without them the evaluation of a
  seven-digit amount would count in unary.
\<close>

definition BigInt_int :: "string \<Rightarrow> int" where
  "BigInt_int ds = foldl (\<lambda>a c. 10 * a + int (digit_val c)) 0 ds"

fun int_toString :: "int \<Rightarrow> string" where
  "int_toString n =
     (if n < 10 then [digit_char (nat n)]
      else int_toString (n div 10) @ [digit_char (nat (n mod 10))])"

declare int_toString.simps [simp del]

lemma BigInt_int_eq: "BigInt_int ds = int (BigInt ds)"
proof -
  have "foldl (\<lambda>a c. 10 * a + int (digit_val c)) (int k) ds
      = int (foldl (\<lambda>a c. 10 * a + digit_val c) k ds)" for k
  proof (induction ds arbitrary: k)
    case (Cons c ds)
    show ?case using Cons.IH [of "10 * k + digit_val c"] by simp
  qed simp
  from this [of 0] show ?thesis by (simp add: BigInt_int_def BigInt_def)
qed

lemma BigInt_int_code [code]:
  "BigInt_int ds = foldl (\<lambda>a c. 10 * a + (let n = (of_char c :: int) in if 48 \<le> n then n - 48 else 0)) 0 ds"
proof -
  have "int (digit_val c) = (let n = (of_char c :: int) in if 48 \<le> n then n - 48 else 0)" for c
    unfolding digit_val_def Let_def of_nat_of_char [where 'a = int, symmetric] by (simp add: of_nat_diff)
  then show ?thesis by (simp add: BigInt_int_def)
qed

definition intDigit :: "int \<Rightarrow> char" where
  "intDigit n =
     (if n < 5 then
        (if n < 3 then (if n < 1 then CHR ''0'' else if n < 2 then CHR ''1'' else CHR ''2'')
         else if n < 4 then CHR ''3'' else CHR ''4'')
      else if n < 7 then (if n < 6 then CHR ''5'' else CHR ''6'')
      else if n < 8 then CHR ''7'' else if n < 9 then CHR ''8'' else CHR ''9'')"

lemma intDigit_eq: "n < 10 \<Longrightarrow> digit_char (nat n) = intDigit n"
proof -
  assume "n < 10"
  then consider "n \<le> 0" | "n = 1" | "n = 2" | "n = 3" | "n = 4" | "n = 5" | "n = 6" | "n = 7" | "n = 8" | "n = 9" by linarith
  then show ?thesis by cases (simp_all add: intDigit_def digit_char_def of_char_eqI [where 'a = nat])
qed

lemma int_toString_code [code]:
  "int_toString n = (if n < 10 then [intDigit n] else int_toString (n div 10) @ [intDigit (n mod 10)])"
  by (subst int_toString.simps) (simp add: intDigit_eq)

lemma int_toString_eq: "0 \<le> n \<Longrightarrow> int_toString n = nat_toString (nat n)"
proof (induction n rule: int_toString.induct)
  case (1 n)
  then show ?case
    by (subst int_toString.simps, subst nat_toString.simps)
      (auto simp: nat_div_distrib nat_mod_distrib nat_less_iff)
qed

lemma parseScaledWith_code [code]:
  "parseScaledWith err value =
     (if \<not> DECIMAL_STRING value then Inl err
      else
        let negative = startsWith ''-'' value;
            unsigned = unsignedPart value;
            whole = takeWhile (\<lambda>c. c \<noteq> CHR ''.'') unsigned;
            rest = dropWhile (\<lambda>c. c \<noteq> CHR ''.'') unsigned;
            digits = (if rest = [] then unsigned else whole @ drop 1 rest);
            sc = (if rest = [] then 0 else length unsigned - length whole - 1);
            u = BigInt_int digits
        in Inr \<lparr>units = (if negative then - u else u), scale = sc\<rparr>)"
  by (simp add: parseScaledWith_def BigInt_int_eq)

lemma formatDecimal_code [code]:
  "formatDecimal u sc =
     (let negative = u < 0;
          digits = padStart (sc + 1) (CHR ''0'') (int_toString (if negative then - u else u));
          whole = take (length digits - sc) digits;
          fraction = (if sc = 0 then [] else CHR ''.'' # drop (length digits - sc) digits)
      in (if negative then ''-'' else []) @ whole @ fraction)"
  unfolding formatDecimal_def by (simp add: int_toString_eq)

lemma BigInt_padStart [simp]: "BigInt (padStart n (CHR ''0'') s) = BigInt s"
  by (simp add: padStart_def BigInt_append)

lemma padStart_digits: "list_all is_digit s \<Longrightarrow> list_all is_digit (padStart n (CHR ''0'') s)"
  by (auto simp: padStart_def list_all_iff)

lemma length_padStart: "length (padStart n c s) = max n (length s)"
  by (simp add: padStart_def)

section \<open>Round trip between strings and units\<close>

text \<open>
  A decimal text is a sign, a digit string and, at a positive scale, a point and the fraction.
\<close>

definition decimalText :: "bool \<Rightarrow> string \<Rightarrow> string \<Rightarrow> string" where
  "decimalText neg w f = (if neg then ''-'' else []) @ w @ (if f = [] then [] else CHR ''.'' # f)"

lemma takeWhile_digits:
  "list_all is_digit w \<Longrightarrow> takeWhile is_digit (w @ r) = w @ takeWhile is_digit r"
  "list_all is_digit w \<Longrightarrow> dropWhile is_digit (w @ r) = dropWhile is_digit r"
  by (induction w) auto

lemma takeWhile_dot:
  "list_all is_digit w \<Longrightarrow> takeWhile (\<lambda>c. c \<noteq> CHR ''.'') (w @ r) = w @ takeWhile (\<lambda>c. c \<noteq> CHR ''.'') r"
  "list_all is_digit w \<Longrightarrow> dropWhile (\<lambda>c. c \<noteq> CHR ''.'') (w @ r) = dropWhile (\<lambda>c. c \<noteq> CHR ''.'') r"
  by (induction w) (auto dest: digit_not_special)

lemma unsignedPart_decimalText:
  assumes "w \<noteq> []" and "list_all is_digit w"
  shows "unsignedPart (decimalText neg w f) = w @ (if f = [] then [] else CHR ''.'' # f)"
    and "startsWith ''-'' (decimalText neg w f) = neg"
proof -
  from assms obtain c cs where w: "w = c # cs" and "is_digit c" by (cases w) auto
  then have "c \<noteq> CHR ''-''" by (auto dest: digit_not_special)
  then show "unsignedPart (decimalText neg w f) = w @ (if f = [] then [] else CHR ''.'' # f)"
    and "startsWith ''-'' (decimalText neg w f) = neg"
    by (auto simp: unsignedPart_def startsWith_def decimalText_def w)
qed

lemma is_digit_dot [simp]: "\<not> is_digit (CHR ''.'')" and is_digit_minus [simp]: "\<not> is_digit (CHR ''-'')"
  by (simp_all add: is_digit_def)

lemma DECIMAL_STRING_decimalText:
  assumes "w \<noteq> []" and "list_all is_digit w" and "list_all is_digit f"
  shows "DECIMAL_STRING (decimalText neg w f)"
  using assms
  by (auto simp: DECIMAL_STRING_def unsignedPart_decimalText takeWhile_digits Let_def)

lemma parseScaled_decimalText:
  assumes "w \<noteq> []" and "list_all is_digit w" and "list_all is_digit f"
  shows "parseScaledWith err (decimalText neg w f) =
    Inr \<lparr>units = (if neg then - int (BigInt (w @ f)) else int (BigInt (w @ f))), scale = length f\<rparr>"
proof (cases "f = []")
  case True
  have "dropWhile (\<lambda>c. c \<noteq> CHR ''.'') w = []" and "takeWhile (\<lambda>c. c \<noteq> CHR ''.'') w = w"
    using takeWhile_dot [OF assms(2), of "[]"] by simp_all
  with True assms show ?thesis
    by (simp add: parseScaledWith_def unsignedPart_decimalText DECIMAL_STRING_decimalText Let_def)
next
  case False
  with assms show ?thesis
    by (simp add: parseScaledWith_def unsignedPart_decimalText DECIMAL_STRING_decimalText
        takeWhile_dot Let_def)
qed

lemma DECIMAL_STRING_form:
  assumes "DECIMAL_STRING v"
  obtains neg w f where "v = decimalText neg w f" "w \<noteq> []" "list_all is_digit w" "list_all is_digit f"
proof -
  define u where "u = unsignedPart v"
  define neg where "neg = startsWith ''-'' v"
  define w where "w = takeWhile is_digit u"
  define f where "f = drop 1 (dropWhile is_digit u)"
  have v: "v = (if neg then ''-'' else []) @ u"
    by (cases v) (auto simp: u_def neg_def unsignedPart_def startsWith_def)
  have w: "w \<noteq> []" "list_all is_digit w"
    using assms by (auto simp: DECIMAL_STRING_def w_def u_def Let_def list_all_iff dest: set_takeWhileD)
  have u: "u = w @ dropWhile is_digit u" by (simp add: w_def)
  have f: "list_all is_digit f \<and> dropWhile is_digit u = (if f = [] then [] else CHR ''.'' # f)"
  proof (cases "dropWhile is_digit u")
    case (Cons c r)
    with assms show ?thesis by (simp add: DECIMAL_STRING_def f_def u_def [symmetric] Let_def)
  next
    case Nil
    then have "f = []" by (simp only: f_def drop_Nil)
    with Nil show ?thesis by (simp only: list.pred_inject if_True simp_thms)
  qed
  have "v = decimalText neg w f" using v u f by (simp add: decimalText_def)
  from that [OF this w conjunct1 [OF f]] show ?thesis .
qed

lemma formatDecimal_decimalText:
  "formatDecimal u sc =
     (let d = padStart (sc + 1) (CHR ''0'') (nat_toString (nat \<bar>u\<bar>))
      in decimalText (u < 0) (take (length d - sc) d) (drop (length d - sc) d))"
  by (auto simp: formatDecimal_def decimalText_def Let_def length_padStart)

lemma parseScaled_formatDecimal [simp]:
  "parseScaledWith err (formatDecimal u sc) = Inr \<lparr>units = u, scale = sc\<rparr>"
proof -
  define d where "d = padStart (sc + 1) (CHR ''0'') (nat_toString (nat \<bar>u\<bar>))"
  have dig: "list_all is_digit d" by (simp add: d_def padStart_digits nat_toString_digits)
  have len: "sc < length d" by (simp add: d_def length_padStart)
  have w: "take (length d - sc) d \<noteq> []" "list_all is_digit (take (length d - sc) d)"
    "list_all is_digit (drop (length d - sc) d)"
    using dig len by (auto simp: list_all_iff dest: in_set_takeD in_set_dropD)
  have "parseScaledWith err (formatDecimal u sc) =
     Inr \<lparr>units = (if u < 0 then - int (BigInt d) else int (BigInt d)), scale = sc\<rparr>"
    unfolding formatDecimal_decimalText d_def [symmetric] Let_def
    using parseScaled_decimalText [OF w, of err "u < 0"] len by simp
  moreover have "BigInt d = nat \<bar>u\<bar>" by (simp add: d_def)
  ultimately show ?thesis by simp
qed

lemma DECIMAL_STRING_iff_parse: "DECIMAL_STRING v \<longleftrightarrow> (\<exists>p. parseScaledWith err v = Inr p)"
  by (simp add: parseScaledWith_def Let_def)

lemma DECIMAL_STRING_formatDecimal [simp]: "DECIMAL_STRING (formatDecimal u sc)"
  by (simp add: DECIMAL_STRING_iff_parse [of _ "()"])

lemma formatDecimal_inject: "formatDecimal u sc = formatDecimal u' sc \<longleftrightarrow> u = u'"
proof
  assume "formatDecimal u sc = formatDecimal u' sc"
  then have "parseScaledWith () (formatDecimal u sc) = parseScaledWith () (formatDecimal u' sc)"
    by simp
  then show "u = u'" by simp
qed simp

lemma toUnits_formatDecimal [money, simp]: "toUnits (formatDecimal u sc) sc = Inr u"
  by (simp add: toUnits_def parseScaled_def rescale_def rescaleWith_def)

lemma toUnits_Inr_parse:
  "toUnits v sc = Inr u \<longleftrightarrow>
     (\<exists>p. parseScaled v = Inr p \<and> scale p \<le> sc \<and> u = units p * 10 ^ (sc - scale p))"
  by (cases "parseScaled v") (auto simp: toUnits_def rescale_def rescaleWith_def)

lemma toUnits_Inr_iff:
  "(\<exists>u. toUnits v sc = Inr u) \<longleftrightarrow> DECIMAL_STRING v \<and> (\<forall>p. parseScaled v = Inr p \<longrightarrow> scale p \<le> sc)"
  by (auto simp: toUnits_Inr_parse DECIMAL_STRING_iff_parse [where err = AccountingValidationError]
      parseScaled_def)

lemma toUnits_Inl: "toUnits v sc = Inl e \<Longrightarrow> e = AccountingValidationError"
  by (auto simp: toUnits_def parseScaled_def rescale_def rescaleWith_def parseScaledWith_def Let_def
      resE split: if_splits)

section \<open>The interface between strings and units\<close>

text \<open>
  What every client of a decimal module relies on: printing units and reading them back is the
  identity. The three packages that declare such a module interpret this locale.
\<close>

locale money_codec =
  fixes to_units :: "string \<Rightarrow> 'e + int"
    and of_units :: "int \<Rightarrow> string"
  assumes to_of: "to_units (of_units u) = Inr u"
begin

lemma of_units_inject: "of_units u = of_units v \<longleftrightarrow> u = v"
  using to_of by (metis Inr_inject)

lemma mapE_to_of: "mapE to_units (map of_units us) = Inr us"
  by (induction us) (auto simp: to_of)

lemma canonical: "to_units s = Inr u \<Longrightarrow> to_units (of_units u) = to_units s"
  by (simp add: to_of)

end

interpretation acc_money: money_codec moneyUnits money_text
  by unfold_locales simp

section \<open>Arithmetic on money strings\<close>

lemma ZERO_money_text: "ZERO = money_text 0"
  by code_simp

lemma moneyUnits_ZERO [money, simp]: "moneyUnits ZERO = Inr 0"
  by (simp add: ZERO_money_text)

lemma toMoneyString_iff [money]:
  "toMoneyString v = Inr s \<longleftrightarrow> (\<exists>u. moneyUnits v = Inr u \<and> s = money_text u)"
  by (auto simp: toMoneyString_def)

lemma sumDecimals_iff [money]:
  "sumDecimals vs = Inr s \<longleftrightarrow> (\<exists>us. mapE moneyUnits vs = Inr us \<and> s = money_text (sum_list us))"
  by (auto simp: sumDecimals_def)

lemmas mapE_moneyUnits_text [money, simp] = acc_money.mapE_to_of

lemma sumDecimals_text [money, simp]:
  "sumDecimals (map money_text us) = Inr (money_text (sum_list us))"
  by (simp add: sumDecimals_def)

lemma toMoneyString_text [money, simp]: "toMoneyString (money_text u) = Inr (money_text u)"
  by (simp add: toMoneyString_def)

lemma negateDecimal_text [money, simp]: "negateDecimal (money_text u) = Inr (money_text (- u))"
  by (simp add: negateDecimal_def)

lemma absDecimal_text [money, simp]: "absDecimal (money_text u) = Inr (money_text \<bar>u\<bar>)"
  by (simp add: absDecimal_def abs_if)

lemma subtractDecimals_text [money, simp]:
  "subtractDecimals (money_text a) (money_text b) = Inr (money_text (a - b))"
  by (simp add: subtractDecimals_def)

lemma compareDecimals_text [money, simp]:
  "compareDecimals (money_text a) (money_text b) = Inr (sgn (a - b))"
  by (simp add: compareDecimals_def sgn_if)

lemma isZeroDecimal_text [money, simp]: "isZeroDecimal (money_text u) = Inr (u = 0)"
  by (simp add: isZeroDecimal_def)

lemma isNegative_text [money, simp]: "isNegative (money_text u) = Inr (u < 0)"
  by (simp add: isNegative_def)

section \<open>Rounding\<close>

text \<open>Rounding \<open>n / d\<close> to the nearest integer, halves away from zero, as PostgreSQL rounds.\<close>

definition round_half_away :: "int \<Rightarrow> int \<Rightarrow> int" where
  "round_half_away n d =
     (let m = \<bar>n\<bar>; k = (if m mod d * 2 \<ge> d then m div d + 1 else m div d)
      in if n < 0 then - k else k)"

lemma round_half_away_error:
  assumes "0 < d"
  shows "\<bar>round_half_away n d * d - n\<bar> =
    (if \<bar>n\<bar> mod d * 2 \<ge> d then d - \<bar>n\<bar> mod d else \<bar>n\<bar> mod d)"
proof -
  define m where "m = \<bar>n\<bar>"
  define k where "k = (if m mod d * 2 \<ge> d then m div d + 1 else m div d)"
  define t where "t = m div d * d"
  have t: "m = t + m mod d" "0 \<le> m mod d" "m mod d < d"
    using assms by (simp_all add: t_def)
  have kd: "k * d = (if m mod d * 2 \<ge> d then t + d else t)"
    by (simp add: k_def t_def distrib_right)
  have "\<bar>k * d - m\<bar> = (if m mod d * 2 \<ge> d then d - m mod d else m mod d)"
    using t kd by (simp add: abs_if)
  moreover have "\<bar>round_half_away n d * d - n\<bar> = \<bar>k * d - m\<bar>"
  proof (cases "n < 0")
    case True
    then have "round_half_away n d = - k" and "n = - m"
      by (simp_all add: round_half_away_def Let_def m_def k_def)
    then have "round_half_away n d * d - n = - (k * d - m)" by simp
    then show ?thesis by (simp only: abs_minus_cancel)
  next
    case False
    then show ?thesis by (simp add: round_half_away_def Let_def m_def k_def)
  qed
  ultimately show ?thesis by (simp add: m_def)
qed

lemma round_half_away_nearest:
  assumes "0 < d"
  shows "2 * \<bar>round_half_away n d * d - n\<bar> \<le> d"
  using assms by (simp add: round_half_away_error)

lemma round_half_away_exact:
  assumes "0 < d"
  shows "round_half_away (q * d) d = q"
proof -
  have "\<bar>round_half_away (q * d) d * d - q * d\<bar> = 0"
    using assms by (simp add: round_half_away_error abs_mult)
  then have "(round_half_away (q * d) d - q) * d = 0" by (simp add: left_diff_distrib)
  then show ?thesis using assms by simp
qed

lemma round_half_away_neg: "0 < d \<Longrightarrow> round_half_away (- n) d = - round_half_away n d"
  by (cases "n = 0") (auto simp: round_half_away_def Let_def)

lemma round_half_away_nonneg: "0 < d \<Longrightarrow> 0 \<le> n \<Longrightarrow> 0 \<le> round_half_away n d"
  by (simp add: round_half_away_def Let_def pos_imp_zdiv_nonneg_iff)

lemma multiplyDecimals_alt:
  "multiplyDecimals v m = bindE (moneyUnits v) (\<lambda>a. bindE (moneyUnits m) (\<lambda>b.
     Inr (money_text (round_half_away (a * b) (10 ^ MONEY_SCALE)))))"
  unfolding multiplyDecimals_def round_half_away_def Let_def abs_if
  by (intro bindE_cong refl)

lemma multiplyDecimals_iff [money]:
  "multiplyDecimals v m = Inr s \<longleftrightarrow>
     (\<exists>a b. moneyUnits v = Inr a \<and> moneyUnits m = Inr b \<and>
        s = money_text (round_half_away (a * b) (10 ^ MONEY_SCALE)))"
  unfolding multiplyDecimals_alt by auto

lemma multiplyDecimals_text [money, simp]:
  "multiplyDecimals (money_text a) (money_text b) =
     Inr (money_text (round_half_away (a * b) (10 ^ MONEY_SCALE)))"
  by (simp add: multiplyDecimals_alt)

text \<open>The units a pro-rata share is worth.\<close>

definition shareUnits :: "int \<Rightarrow> int \<Rightarrow> int \<Rightarrow> int" where
  "shareUnits u p w =
     (if w \<le> 0 \<or> p \<le> 0 then 0 else if p \<ge> w then u else round_half_away (u * p) w)"

lemma proRataShare_text [money, simp]:
  "proRataShare (money_text u) (money_text p) (money_text w) = Inr (money_text (shareUnits u p w))"
proof (cases "w \<le> 0 \<or> p \<le> 0 \<or> p \<ge> w")
  case True
  then show ?thesis by (auto simp: proRataShare_def shareUnits_def ZERO_money_text)
next
  case False
  then have "(u * p < 0) = (u < 0)" and "\<bar>u * p\<bar> = \<bar>u\<bar> * p"
    by (auto simp: mult_less_0_iff abs_mult)
  with False show ?thesis
    by (auto simp: proRataShare_def shareUnits_def round_half_away_def Let_def abs_if
        simp del: mult_minus_left)
qed

section \<open>Properties\<close>

text \<open>C25. Money strings are canonical. Whatever \<open>toMoneyString\<close> accepts it turns into a string
  that denotes the same number of micro-units and that it maps to itself, and two accepted
  spellings are rendered alike exactly when they denote the same amount: \<^verbatim>\<open>5\<close>, \<^verbatim>\<open>5.0\<close> and
  \<^verbatim>\<open>05.000\<close> are one amount, and no two amounts share a rendering.\<close>

theorem toMoneyString_canonical:
  assumes "toMoneyString v = Inr w" and "toMoneyString v' = Inr w'"
  shows "toUnits w MONEY_SCALE = toUnits v MONEY_SCALE \<and> toMoneyString w = Inr w \<and>
    (w = w' \<longleftrightarrow> toUnits v MONEY_SCALE = toUnits v' MONEY_SCALE)"
  using assms by (auto simp: toMoneyString_iff formatDecimal_inject)

theorem toMoneyString_canonical_witness:
  "toMoneyString ''5'' = Inr ''5.000000'' \<and> toMoneyString ''05.00'' = Inr ''5.000000'' \<and>
   toUnits ''5'' MONEY_SCALE = toUnits ''05.00'' MONEY_SCALE"
proof -
  have a: "toMoneyString ''5'' = Inr ''5.000000''" and b: "toMoneyString ''05.00'' = Inr ''5.000000''"
    by code_simp+
  show ?thesis using toMoneyString_canonical [OF a b] a b by simp
qed

text \<open>C26. \<open>multiplyDecimals\<close> is total on money strings and rounds to the nearest micro-unit:
  the result is within half a micro-unit of the exact product, is the exact product whenever
  that is a whole number of micro-units, and multiplying by minus one negates exactly.\<close>

theorem multiplyDecimals_nearest:
  assumes "toUnits v MONEY_SCALE = Inr a" and "toUnits m MONEY_SCALE = Inr b"
  shows "\<exists>r. multiplyDecimals v m = Inr (fromUnits r MONEY_SCALE) \<and>
           2 * \<bar>r * 10 ^ MONEY_SCALE - a * b\<bar> \<le> 10 ^ MONEY_SCALE \<and>
           (10 ^ MONEY_SCALE dvd a * b \<longrightarrow> r * 10 ^ MONEY_SCALE = a * b) \<and>
           (b = - (10 ^ MONEY_SCALE) \<longrightarrow> r = - a)"
proof -
  let ?d = "10 ^ MONEY_SCALE :: int"
  let ?r = "round_half_away (a * b) ?d"
  have d: "0 < ?d" by simp
  have "?d dvd a * b \<Longrightarrow> ?r * ?d = a * b"
    using round_half_away_exact [OF d] by (metis dvd_div_mult_self)
  moreover have "b = - ?d \<Longrightarrow> ?r = - a"
    using round_half_away_exact [OF d, of "- a"] by simp
  moreover have "multiplyDecimals v m = Inr (fromUnits ?r MONEY_SCALE)"
    using assms by (simp add: multiplyDecimals_alt fromUnits_def)
  ultimately show ?thesis using round_half_away_nearest [OF d, of "a * b"] by blast
qed

theorem multiplyDecimals_nearest_witness:
  "\<exists>r. multiplyDecimals ''0.000003'' ''0.5'' = Inr (fromUnits r MONEY_SCALE) \<and>
     2 * \<bar>r * 10 ^ MONEY_SCALE - 3 * 500000\<bar> \<le> 10 ^ MONEY_SCALE"
proof -
  have a: "toUnits ''0.000003'' MONEY_SCALE = Inr 3" and b: "toUnits ''0.5'' MONEY_SCALE = Inr 500000"
    by code_simp+
  show ?thesis using multiplyDecimals_nearest [OF a b] by blast
qed

end
