(* ===== verification/Calendar.thy ===== *)
theory Calendar
  imports Decimal
begin

text \<open>
  Calendar dates. The source carries them as \<^verbatim>\<open>YYYY-MM-DD\<close> strings (years 1900 to 9999)
  and as PostgreSQL \<^verbatim>\<open>date\<close>; string comparison, SQL comparison and the lexicographic order
  of year, month and day agree on them, and \<open>date\<close> is that triple with that order.
  \<open>addMonths\<close> is SQL's \<^verbatim>\<open>d + n * interval '1 month'\<close> (the day is clamped into the
  target month), \<open>prevDay\<close> is \<^verbatim>\<open>d - 1\<close>.
\<close>

datatype date = Date (year: int) (month: int) (day: int)

instantiation date :: linorder
begin

definition less_date :: "date \<Rightarrow> date \<Rightarrow> bool" where
  "less_date a b \<longleftrightarrow>
     year a < year b \<or>
     (year a = year b \<and> (month a < month b \<or> (month a = month b \<and> day a < day b)))"

definition less_eq_date :: "date \<Rightarrow> date \<Rightarrow> bool" where
  "less_eq_date a b \<longleftrightarrow> a = b \<or> a < b"

instance
proof
  fix x y :: date
  show "x \<le> y \<or> y \<le> x"
    by (cases x; cases y) (auto simp: less_eq_date_def less_date_def)
qed (auto simp: less_eq_date_def less_date_def)

end

definition leapYear :: "int \<Rightarrow> bool" where
  "leapYear y \<longleftrightarrow> (y mod 4 = 0 \<and> y mod 100 \<noteq> 0) \<or> y mod 400 = 0"

definition daysInMonth :: "int \<Rightarrow> int \<Rightarrow> int" where
  "daysInMonth y m =
     (if m = 2 then (if leapYear y then 29 else 28)
      else if m = 4 \<or> m = 6 \<or> m = 9 \<or> m = 11 then 30 else 31)"

definition validDate :: "date \<Rightarrow> bool" where
  "validDate d \<longleftrightarrow> 1 \<le> month d \<and> month d \<le> 12 \<and> 1 \<le> day d \<and> day d \<le> daysInMonth (year d) (month d)"

definition monthIndex :: "date \<Rightarrow> int" where
  "monthIndex d = 12 * year d + (month d - 1)"

definition addMonths :: "date \<Rightarrow> int \<Rightarrow> date" where
  "addMonths d n =
     (let t = monthIndex d + n; y = t div 12; m = t mod 12 + 1
      in Date y m (min (day d) (daysInMonth y m)))"

definition prevDay :: "date \<Rightarrow> date" where
  "prevDay d =
     (if day d > 1 then Date (year d) (month d) (day d - 1)
      else if month d > 1 then Date (year d) (month d - 1) (daysInMonth (year d) (month d - 1))
      else Date (year d - 1) 12 31)"

lemma daysInMonth_bounds: "28 \<le> daysInMonth y m" "daysInMonth y m \<le> 31"
  by (simp_all add: daysInMonth_def)

lemma less_date_monthIndex:
  assumes "validDate a" and "validDate b"
  shows "a < b \<longleftrightarrow> monthIndex a < monthIndex b \<or> (monthIndex a = monthIndex b \<and> day a < day b)"
  using assms by (auto simp: less_date_def monthIndex_def validDate_def)

lemma monthIndex_addMonths: "monthIndex (addMonths d n) = monthIndex d + n"
  by (simp add: addMonths_def monthIndex_def Let_def)

lemma validDate_addMonths: "validDate d \<Longrightarrow> validDate (addMonths d n)"
  using daysInMonth_bounds(1) [of "(monthIndex d + n) div 12" "(monthIndex d + n) mod 12 + 1"]
  by (auto simp: addMonths_def validDate_def Let_def)

lemma addMonths_0: "validDate d \<Longrightarrow> addMonths d 0 = d"
  by (cases d) (auto simp: addMonths_def monthIndex_def validDate_def Let_def)

lemma addMonths_strict_mono:
  assumes "validDate d" and "i < j"
  shows "addMonths d i < addMonths d j"
  using assms by (simp add: less_date_monthIndex validDate_addMonths monthIndex_addMonths)

lemma addMonths_mono: "validDate d \<Longrightarrow> i \<le> j \<Longrightarrow> addMonths d i \<le> addMonths d j"
  using addMonths_strict_mono [of d i j] by (cases "i = j") auto

lemma validDate_prevDay: "validDate d \<Longrightarrow> validDate (prevDay d)"
  using daysInMonth_bounds(1) [of "year d" "month d - 1"]
  by (auto simp: prevDay_def validDate_def daysInMonth_def)

text \<open>\<open>prevDay d\<close> is the last valid date before \<open>d\<close>.\<close>

lemma prevDay_less: "prevDay d < d"
  by (auto simp: prevDay_def less_date_def)

lemma le_prevDay_iff:
  assumes "validDate x" and "validDate d"
  shows "x \<le> prevDay d \<longleftrightarrow> x < d"
proof
  assume "x \<le> prevDay d"
  then show "x < d" using prevDay_less [of d] by (rule le_less_trans)
next
  assume less: "x < d"
  have v: "1 \<le> month x" "month x \<le> 12" "1 \<le> day x" "day x \<le> daysInMonth (year x) (month x)"
      "1 \<le> month d" "month d \<le> 12"
    using assms by (simp_all add: validDate_def)
  have dec: "daysInMonth (year x) 12 = 31" by (simp add: daysInMonth_def)
  have less': "year x < year d \<or> (year x = year d \<and> (month x < month d \<or> (month x = month d \<and> day x < day d)))"
    using less by (simp add: less_date_def)
  have "\<not> prevDay d < x"
  proof (cases "day d > 1")
    case True
    then show ?thesis using less' by (simp add: prevDay_def less_date_def) linarith
  next
    case first: False
    show ?thesis
    proof (cases "month d > 1")
      case True
      show ?thesis
      proof (cases "year x = year d \<and> month x = month d - 1")
        case True
        with first \<open>month d > 1\<close> v show ?thesis by (simp add: prevDay_def less_date_def)
      next
        case False
        with first \<open>month d > 1\<close> less' v show ?thesis
          by (simp add: prevDay_def less_date_def) linarith
      qed
    next
      case False
      then have "month d = 1" using v by simp
      show ?thesis
      proof (cases "month x = 12")
        case True
        with first \<open>month d = 1\<close> less' v dec show ?thesis
          by (simp add: prevDay_def less_date_def)
      next
        case False
        with first \<open>month d = 1\<close> less' v show ?thesis
          by (simp add: prevDay_def less_date_def)
      qed
    qed
  qed
  then show "x \<le> prevDay d" by simp
qed

lemma addMonths_year: "addMonths (Date y m d) 12 = Date (y + 1) (m) (min d (daysInMonth (y + 1) m))"
  if "1 \<le> m" "m \<le> 12"
proof -
  have "(12 * y + (m - 1) + 12) div 12 = y + 1" "(12 * y + (m - 1) + 12) mod 12 = m - 1"
    using that by presburger+
  then show ?thesis by (simp add: addMonths_def monthIndex_def Let_def)
qed

lemma daysInMonth_year: "m \<noteq> 2 \<Longrightarrow> daysInMonth y m = daysInMonth z m"
  by (simp add: daysInMonth_def)

lemma leapYear_Suc: "leapYear (y + 1) \<Longrightarrow> \<not> leapYear y"
  unfolding leapYear_def by presburger

end
