(* ===== verification/Audit_Log.thy ===== *)
theory Audit_Log
  imports Errors
begin

text \<open>
  The audit pipeline of \<^verbatim>\<open>packages/domain/src/redact.ts\<close> and \<^verbatim>\<open>packages/domain/src/audit.ts\<close>:
  the recursive redaction of secrets, the append every state-changing operation ends with,
  and the paged reader.

  A JSON value is \<open>json\<close>; an object is its \<^verbatim>\<open>Object.entries\<close> in order. An audit event's id
  and its time are drawn by the database and the clock, so they are arguments.
\<close>

datatype json =
    JNull
  | JBool bool
  | JNum int
  | JStr string
  | JArr "json list"
  | JObj "(string \<times> json) list"

section \<open>Redaction\<close>

definition REDACTED :: string where
  "REDACTED = ''[REDACTED]''"

definition EXACT_SENSITIVE_KEYS :: "string list" where
  "EXACT_SENSITIVE_KEYS =
     [''password'', ''secret'', ''token'', ''accesstoken'', ''refreshtoken'', ''clientsecret'',
      ''ciphertext'', ''nonce'', ''authtag'', ''secretaccesskey'', ''accesskeyid'', ''apikey'',
      ''privatekey'', ''passphrase'', ''credentials'', ''authorization'', ''cookie'',
      ''sessiontoken'']"

definition lowerChar :: "char \<Rightarrow> char" where
  "lowerChar c = (let n = (of_char c :: nat) in if 65 \<le> n \<and> n \<le> 90 then char_of (n + 32) else c)"

definition isLowerAlnum :: "char \<Rightarrow> bool" where
  "isLowerAlnum c \<longleftrightarrow>
     (let n = (of_char c :: nat) in (97 \<le> n \<and> n \<le> 122) \<or> (48 \<le> n \<and> n \<le> 57))"

definition normalizeKey :: "string \<Rightarrow> string" where
  "normalizeKey key = filter isLowerAlnum (map lowerChar key)"

definition endsWith :: "string \<Rightarrow> string \<Rightarrow> bool" where
  "endsWith p s \<longleftrightarrow> startsWith (rev p) (rev s)"

fun includesStr :: "string \<Rightarrow> string \<Rightarrow> bool" where
  "includesStr p [] \<longleftrightarrow> p = []"
| "includesStr p (c # s) \<longleftrightarrow> startsWith p (c # s) \<or> includesStr p s"

definition isSensitiveKey :: "string \<Rightarrow> bool \<Rightarrow> bool" where
  "isSensitiveKey key redactPayloadKey \<longleftrightarrow>
     (let normalized = normalizeKey key in
      List.member EXACT_SENSITIVE_KEYS normalized \<or>
      (redactPayloadKey \<and> normalized = ''payload'') \<or>
      includesStr ''password'' normalized \<or>
      includesStr ''passphrase'' normalized \<or>
      endsWith ''secret'' normalized \<or>
      endsWith ''token'' normalized \<or>
      endsWith ''apikey'' normalized \<or>
      endsWith ''privatekey'' normalized)"

fun redactJson :: "bool \<Rightarrow> json \<Rightarrow> json" where
  "redactJson rp (JArr xs) = JArr (map (redactJson rp) xs)"
| "redactJson rp (JObj kvs) =
     JObj (map (\<lambda>(k, v). (k, if isSensitiveKey k rp then JStr REDACTED else redactJson rp v)) kvs)"
| "redactJson rp JNull = JNull"
| "redactJson rp (JBool b) = JBool b"
| "redactJson rp (JNum n) = JNum n"
| "redactJson rp (JStr s) = JStr s"

section \<open>Appending\<close>

definition SECRET_RESOURCE_TYPES :: "string list" where
  "SECRET_RESOURCE_TYPES = [''application_secret'', ''connection_credential'']"

record audit_event =
  ae_id :: uuid
  ae_occurredAt :: int
  ae_actorUserId :: "string option"
  ae_action :: string
  ae_resourceType :: string
  ae_resourceId :: "string option"
  ae_before :: json
  ae_after :: json
  ae_requestId :: "string option"
  ae_metadata :: json

record audit_input =
  ai_actorUserId :: "string option"
  ai_action :: string
  ai_resourceType :: string
  ai_resourceId :: "string option"
  ai_before :: "json option"
  ai_after :: "json option"
  ai_requestId :: "string option"
  ai_metadata :: "json option"

definition auditRow :: "uuid \<Rightarrow> int \<Rightarrow> audit_input \<Rightarrow> audit_event" where
  "auditRow eid now i =
     (let redactPayloadKey = List.member SECRET_RESOURCE_TYPES (ai_resourceType i);
          redact = (\<lambda>v. case v of None \<Rightarrow> JNull | Some j \<Rightarrow> redactJson redactPayloadKey j)
      in \<lparr>ae_id = eid, ae_occurredAt = now, ae_actorUserId = ai_actorUserId i,
          ae_action = ai_action i, ae_resourceType = ai_resourceType i,
          ae_resourceId = ai_resourceId i,
          ae_before = redact (ai_before i), ae_after = redact (ai_after i),
          ae_requestId = ai_requestId i,
          ae_metadata = redactJson redactPayloadKey
            (case ai_metadata i of None \<Rightarrow> JObj [] | Some j \<Rightarrow> j)\<rparr>)"

definition auditAppend ::
  "uuid \<Rightarrow> int \<Rightarrow> audit_input \<Rightarrow> audit_event list \<Rightarrow> pg_error + audit_event list" where
  "auditAppend eid now i log =
     (if List.member (map ae_id log) eid then Inl UniqueViolation
      else Inr (log @ [auditRow eid now i]))"

section \<open>Reading\<close>

text \<open>
  SQL's \<^verbatim>\<open>LIKE\<close>: \<^verbatim>\<open>%\<close> is any run of characters, \<^verbatim>\<open>_\<close> any one, a backslash quotes
  the next character. \<^verbatim>\<open>ILIKE\<close> folds case on both sides.
\<close>

fun likeMatch :: "string \<Rightarrow> string \<Rightarrow> bool" where
  "likeMatch [] s \<longleftrightarrow> s = []"
| "likeMatch (p # ps) [] \<longleftrightarrow> p = CHR ''%'' \<and> likeMatch ps []"
| "likeMatch (p # ps) (c # s) \<longleftrightarrow>
     (if p = CHR ''%'' then likeMatch ps (c # s) \<or> likeMatch (p # ps) s
      else if p = CHR ''_'' then likeMatch ps s
      else if p = CHR 0x5C then
        (case ps of [] \<Rightarrow> False | q # qs \<Rightarrow> q = c \<and> likeMatch qs s)
      else p = c \<and> likeMatch ps s)"

definition ilike :: "string \<Rightarrow> string \<Rightarrow> bool" where
  "ilike value pattern \<longleftrightarrow> likeMatch (map lowerChar pattern) (map lowerChar value)"

record audit_list_options =
  al_actorUserId :: "string option"
  al_resourceType :: "string option"
  al_resourceId :: "string option"
  al_action :: "string option"
  al_from :: "int option"
  al_to :: "int option"
  al_page :: "int option"
  al_pageSize :: "int option"

definition DEFAULT_AUDIT_PAGE_SIZE :: int where
  "DEFAULT_AUDIT_PAGE_SIZE = 25"

definition MAX_AUDIT_PAGE_SIZE :: int where
  "MAX_AUDIT_PAGE_SIZE = 200"

definition auditMatches :: "audit_list_options \<Rightarrow> audit_event \<Rightarrow> bool" where
  "auditMatches opt e \<longleftrightarrow>
     (case al_actorUserId opt of None \<Rightarrow> True | Some a \<Rightarrow> ae_actorUserId e = Some a) \<and>
     (case al_resourceType opt of None \<Rightarrow> True | Some r \<Rightarrow> ilike (ae_resourceType e) (''%'' @ r @ ''%'')) \<and>
     (case al_resourceId opt of None \<Rightarrow> True | Some r \<Rightarrow> ae_resourceId e = Some r) \<and>
     (case al_action opt of None \<Rightarrow> True | Some a \<Rightarrow> ilike (ae_action e) (''%'' @ a @ ''%'')) \<and>
     (case al_from opt of None \<Rightarrow> True | Some d \<Rightarrow> d \<le> ae_occurredAt e) \<and>
     (case al_to opt of None \<Rightarrow> True | Some d \<Rightarrow> ae_occurredAt e \<le> d)"

definition auditPage :: "audit_list_options \<Rightarrow> nat" where
  "auditPage opt = nat (max 0 (case al_page opt of None \<Rightarrow> 0 | Some p \<Rightarrow> p))"

definition auditPageSize :: "audit_list_options \<Rightarrow> nat" where
  "auditPageSize opt =
     nat (min MAX_AUDIT_PAGE_SIZE
       (max 1 (case al_pageSize opt of None \<Rightarrow> DEFAULT_AUDIT_PAGE_SIZE | Some p \<Rightarrow> p)))"

definition auditList :: "audit_event list \<Rightarrow> audit_list_options \<Rightarrow> audit_event list \<times> nat" where
  "auditList log opt =
     (let size = auditPageSize opt; total = length (filter (auditMatches opt) log) in
      if total = 0 then ([], total)
      else (take size (drop (auditPage opt * size)
             (sort_key (\<lambda>e. - ae_occurredAt e) (filter (auditMatches opt) log))), total))"

section \<open>Lemmas\<close>

text \<open>No sensitive key anywhere in the value carries anything but the marker.\<close>

fun jsonClean :: "bool \<Rightarrow> json \<Rightarrow> bool" where
  "jsonClean rp (JArr xs) = list_all (jsonClean rp) xs"
| "jsonClean rp (JObj kvs) =
     list_all (\<lambda>(k, v). if isSensitiveKey k rp then v = JStr REDACTED else jsonClean rp v) kvs"
| "jsonClean rp j = True"

text \<open>The value found by following object keys and array positions.\<close>

datatype step = Key string | Pos nat

fun jsonAt :: "step list \<Rightarrow> json \<Rightarrow> json option" where
  "jsonAt [] j = Some j"
| "jsonAt (Key k # p) (JObj kvs) =
     (case map_of kvs k of None \<Rightarrow> None | Some v \<Rightarrow> jsonAt p v)"
| "jsonAt (Pos i # p) (JArr xs) = (if i < length xs then jsonAt p (xs ! i) else None)"
| "jsonAt (s # p) j = None"

fun sensitivePath :: "bool \<Rightarrow> step list \<Rightarrow> bool" where
  "sensitivePath rp [] = False"
| "sensitivePath rp (Key k # p) \<longleftrightarrow> isSensitiveKey k rp \<or> sensitivePath rp p"
| "sensitivePath rp (Pos i # p) = sensitivePath rp p"

lemma redactJson_clean: "jsonClean rp (redactJson rp j)"
  by (induction rp j rule: redactJson.induct) (auto simp: list_all_iff)

lemma redactJson_of_clean: "jsonClean rp j \<Longrightarrow> redactJson rp j = j"
proof (induction rp j rule: redactJson.induct)
  case (2 rp kvs)
  then show ?case by (fastforce simp: list_all_iff intro!: map_idI split: if_splits)
qed (auto simp: list_all_iff intro: map_idI)

lemma map_of_redact:
  "map_of (map (\<lambda>(k, v). (k, if isSensitiveKey k rp then c else f v)) kvs) k =
     map_option (\<lambda>v. if isSensitiveKey k rp then c else f v) (map_of kvs k)"
  by (induction kvs) auto

lemma jsonAt_redactJson:
  "\<not> sensitivePath rp p \<Longrightarrow> jsonAt p (redactJson rp j) = map_option (redactJson rp) (jsonAt p j)"
proof (induction p j rule: jsonAt.induct)
  case (2 k p kvs)
  then show ?case by (auto simp: map_of_redact split: option.splits)
qed auto

lemma auditRow_clean:
  assumes "\<not> List.member SECRET_RESOURCE_TYPES (ai_resourceType i)"
  shows "jsonClean False (ae_before (auditRow eid now i))"
    and "jsonClean False (ae_after (auditRow eid now i))"
    and "jsonClean False (ae_metadata (auditRow eid now i))"
  using assms by (auto simp: auditRow_def Let_def redactJson_clean split: option.splits)

definition eventClean :: "audit_event \<Rightarrow> bool" where
  "eventClean e \<longleftrightarrow>
     (let rp = List.member SECRET_RESOURCE_TYPES (ae_resourceType e) in
      jsonClean rp (ae_before e) \<and> jsonClean rp (ae_after e) \<and> jsonClean rp (ae_metadata e))"

lemma eventClean_auditRow: "eventClean (auditRow eid now i)"
  by (auto simp: eventClean_def auditRow_def Let_def redactJson_clean split: option.splits)

lemma auditAppend_Inr_iff [resE, simp]:
  "auditAppend eid now i log = Inr log' \<longleftrightarrow>
     eid \<notin> ae_id ` set log \<and> log' = log @ [auditRow eid now i]"
  by (auto simp: auditAppend_def List.member_iff)

text \<open>Consecutive pages are consecutive slices of one sequence.\<close>

lemma pages_concat:
  "concat (map (\<lambda>i. take n (drop (i * n) xs)) [0..<k]) = take (k * n) xs"
proof (induction k)
  case (Suc k)
  have "take (Suc k * n) xs = take (k * n) xs @ take n (drop (k * n) xs)"
    using take_add [of "k * n" n xs] by (simp add: add.commute)
  with Suc show ?case by simp
qed simp

section \<open>Properties\<close>

text \<open>C27. Redaction is complete, idempotent and touches nothing else: after \<open>redactJson\<close> no
  sensitive key at any depth carries anything but the marker, redacting again changes
  nothing, and a value reached along keys none of which is sensitive is still there, itself
  redacted and in its place.\<close>

theorem redactJson_correct:
  "jsonClean rp (redactJson rp j) \<and> redactJson rp (redactJson rp j) = redactJson rp j \<and>
   (\<not> sensitivePath rp p \<longrightarrow>
      jsonAt p (redactJson rp j) = map_option (redactJson rp) (jsonAt p j))"
  by (simp add: redactJson_clean redactJson_of_clean jsonAt_redactJson)

theorem redactJson_correct_witness:
  "jsonAt [Key ''a'', Pos 1] (redactJson False
     (JObj [(''api_Key'', JStr ''k''), (''a'', JArr [JNull, JNum 5])])) = Some (JNum 5) \<and>
   redactJson False (JObj [(''api_Key'', JStr ''k'')]) = JObj [(''api_Key'', JStr REDACTED)]"
proof -
  have n: "\<not> sensitivePath False [Key ''a'', Pos 1]" by code_simp
  have s: "redactJson False (JObj [(''api_Key'', JStr ''k'')]) = JObj [(''api_Key'', JStr REDACTED)]"
    by code_simp
  show ?thesis
    using redactJson_correct [of False
        "JObj [(''api_Key'', JStr ''k''), (''a'', JArr [JNull, JNum 5])]" "[Key ''a'', Pos 1]"] n s
    by simp
qed



end
