(* ===== verification/Currency.thy ===== *)
theory Currency
  imports Errors
begin

text \<open>
  \<^verbatim>\<open>packages/accounting/src/currency.ts\<close>: the one supported functional currency and the
  checks at the service boundary.
\<close>

definition SUPPORTED_FUNCTIONAL_CURRENCIES :: "string list" where
  "SUPPORTED_FUNCTIONAL_CURRENCIES = [''USD'']"

definition DEFAULT_FUNCTIONAL_CURRENCY :: string where
  "DEFAULT_FUNCTIONAL_CURRENCY = ''USD''"

definition isUpper :: "char \<Rightarrow> bool" where
  "isUpper c \<longleftrightarrow> (let n = (of_char c :: nat) in 65 \<le> n \<and> n \<le> 90)"

lemma isUpper_code [code]: "isUpper c \<longleftrightarrow> (let n = (of_char c :: int) in 65 \<le> n \<and> n \<le> 90)"
  by (simp add: isUpper_def charCode_less Let_def)

definition normalizeCurrency :: "string \<Rightarrow> string acc" where
  "normalizeCurrency value =
     (let trimmed = toUpperCase (js_trim value) in
      if length trimmed = 3 \<and> list_all isUpper trimmed then Inr trimmed
      else Inl UnsupportedCurrencyError)"

definition isSupportedCurrency :: "string \<Rightarrow> bool" where
  "isSupportedCurrency value \<longleftrightarrow>
     List.member SUPPORTED_FUNCTIONAL_CURRENCIES (toUpperCase (js_trim value))"

definition assertSupportedCurrency :: "string \<Rightarrow> string acc" where
  "assertSupportedCurrency value =
     bindE (normalizeCurrency value) (\<lambda>currency.
       if isSupportedCurrency currency then Inr currency else Inl UnsupportedCurrencyError)"

lemma upperChar_fixed: "isUpper c \<Longrightarrow> upperChar c = c"
  by (simp add: upperChar_def isUpper_def Let_def)

lemma isUpper_not_space: "isUpper c \<Longrightarrow> \<not> isSpace c"
  by (auto simp: isUpper_def isSpace_def Let_def)

lemma js_trim_upper: "list_all isUpper s \<Longrightarrow> js_trim s = s"
proof -
  assume s: "list_all isUpper s"
  have d: "list_all isUpper t \<Longrightarrow> dropWhile isSpace t = t" for t
    by (cases t) (auto simp: isUpper_not_space)
  show ?thesis using d [OF s] d [of "rev s"] s by (simp add: js_trim_def list_all_iff)
qed

lemma normalizeCurrency_fixed:
  "normalizeCurrency v = Inr c \<Longrightarrow> length c = 3 \<and> toUpperCase (js_trim c) = c"
  by (auto simp: normalizeCurrency_def Let_def js_trim_upper toUpperCase_def list_all_iff
      upperChar_fixed map_idI split: if_splits)

lemma assertSupportedCurrency_iff [resE]:
  "assertSupportedCurrency v = Inr c \<longleftrightarrow> toUpperCase (js_trim v) = ''USD'' \<and> c = ''USD''"
proof -
  have u: "list_all isUpper ''USD''" by code_simp
  have f: "toUpperCase (js_trim ''USD'') = ''USD''" by code_simp
  show ?thesis
  proof
    assume a: "assertSupportedCurrency v = Inr c"
    then have n: "normalizeCurrency v = Inr c" and i: "isSupportedCurrency c"
      by (auto simp: assertSupportedCurrency_def split: if_splits)
    have "toUpperCase (js_trim v) = c"
      using n by (simp add: normalizeCurrency_def Let_def split: if_splits)
    moreover have "c = ''USD''"
      using i normalizeCurrency_fixed [OF n]
      by (simp add: isSupportedCurrency_def SUPPORTED_FUNCTIONAL_CURRENCIES_def List.member_iff)
    ultimately show "toUpperCase (js_trim v) = ''USD'' \<and> c = ''USD''" by simp
  next
    assume "toUpperCase (js_trim v) = ''USD'' \<and> c = ''USD''"
    then have "normalizeCurrency v = Inr ''USD''" and "c = ''USD''"
      using u by (simp_all add: normalizeCurrency_def Let_def)
    then show "assertSupportedCurrency v = Inr c"
      using f by (simp add: assertSupportedCurrency_def isSupportedCurrency_def
          SUPPORTED_FUNCTIONAL_CURRENCIES_def List.member_iff)
  qed
qed

end
