(* ===== verification/Ledger_Schema.thy ===== *)
theory Ledger_Schema
  imports Calendar Audit_Log
begin

text \<open>
  The tables of the accounting schema (\<^verbatim>\<open>packages/db/src/schema/accounting.ts\<close>, migrations
  0009 and 0010) as row records and the database state \<open>ledger\<close> as one list of rows per table,
  in insertion order.

  \<^item> A closed text column (one with an \<^verbatim>\<open>in (...)\<close> check) is a datatype, \<^verbatim>\<open>uuid\<close> is a
    string, \<^verbatim>\<open>date\<close> is \<open>date\<close>, \<^verbatim>\<open>numeric(20,6)\<close> is the integer number of
    micro-units, read back as text by \<open>money_text\<close>. The columns \<^verbatim>\<open>created_at\<close> and
    \<^verbatim>\<open>updated_at\<close> are left out (ordering by creation is insertion order), and so are
    the three \<^verbatim>\<open>fx_rate\<close> columns, which the code always leaves at their \<^verbatim>\<open>unity\<close>
    defaults: the check that ties \<^verbatim>\<open>unity\<close> to equal currencies is kept.
  \<^item> A write returns the new state or the driver's error. Its checks are those of the
    migrations, in PostgreSQL's order: before-triggers, checks, unique keys, foreign keys.
    Foreign keys to tables outside the model (\<^verbatim>\<open>user\<close>) are not checked.
  \<^item> The deferred balance trigger is \<open>commitEntries\<close>, run at the end of a transaction on the
    entries it touched.
  \<^item> Identifiers (\<^verbatim>\<open>gen_random_uuid()\<close>) and the clock come from the environment \<open>env\<close>:
    \<open>uuidAt n\<close> is the \<open>n\<close>-th identifier drawn by the call. Nothing is assumed of them; a draw
    that repeats an existing key violates the key as it would in the database.
\<close>

section \<open>Rows\<close>

datatype accounting_basis = Cash | Accrual

datatype active_status = Active | Archived

datatype period_status = Open | SoftClosed | Closed | Locked

datatype account_type = Asset | Liability | Equity | Revenue | Expense

datatype link_role = PostingPrimary | ReportingOnly

datatype entry_status = Draft | Posted | Reversed | Void

datatype entry_source = PostingRule | Manual | Import | OpeningBalance

datatype source_role = Primary | Settled | Allocated | ReversedFrom | Evidence

datatype rule_status = RuleDraft | RuleActive | RuleDisabled

datatype version_status = VersionDraft | VersionActive | VersionSuperseded

datatype amount_source =
    Total | Subtotal | Shipping | Discount | Tax | Fee | Refund | Net | CostBasis
  | QuantityTimesBasis | Remainder

record economic_entity =
  ee_id :: uuid
  ee_name :: string
  ee_parentEntityId :: "uuid option"

record accounting_book =
  bk_id :: uuid
  bk_code :: string
  bk_name :: string
  bk_functionalCurrency :: string
  bk_accountingBasis :: accounting_basis
  bk_fiscalYearStartMonth :: int
  bk_fiscalYearStartDay :: int
  bk_requiresEntityDimension :: bool
  bk_nextEntryNumber :: int
  bk_status :: active_status
  bk_openedOn :: date
  bk_notes :: "string option"
  bk_createdByUserId :: "string option"

record book_entity_link =
  bl_id :: uuid
  bl_accountingBookId :: uuid
  bl_economicEntityId :: uuid
  bl_linkRole :: link_role
  bl_effectiveFrom :: date
  bl_effectiveTo :: "date option"
  bl_dimensionLabel :: "string option"
  bl_note :: "string option"
  bl_createdByUserId :: "string option"

record ledger_account =
  la_id :: uuid
  la_accountingBookId :: uuid
  la_code :: string
  la_name :: string
  la_accountType :: account_type
  la_accountSubtype :: "string option"
  la_parentAccountId :: "uuid option"
  la_isPostable :: bool
  la_isContra :: bool
  la_systemKey :: "string option"
  la_currency :: "string option"
  la_description :: "string option"
  la_status :: active_status

record accounting_dimension =
  ad_id :: uuid
  ad_accountingBookId :: uuid
  ad_code :: string
  ad_isRequired :: bool
  ad_active :: bool

record accounting_dimension_value =
  dv_id :: uuid
  dv_dimensionId :: uuid
  dv_code :: string

record fiscal_period =
  fp_id :: uuid
  fp_accountingBookId :: uuid
  fp_periodCode :: string
  fp_fiscalYear :: int
  fp_sequence :: int
  fp_startsOn :: date
  fp_endsOn :: date
  fp_status :: period_status
  fp_closedAt :: "int option"
  fp_closedByUserId :: "string option"
  fp_note :: "string option"

record journal_entry =
  je_id :: uuid
  je_accountingBookId :: uuid
  je_entryNumber :: "int option"
  je_fiscalPeriodId :: "uuid option"
  je_entryDate :: date
  je_status :: entry_status
  je_entrySource :: entry_source
  je_postingKey :: "string option"
  je_postingRuleVersionId :: "uuid option"
  je_sourceFactType :: "string option"
  je_sourceFactId :: "uuid option"
  je_sourceFactFingerprint :: "string option"
  je_reversesEntryId :: "uuid option"
  je_isBackdated :: bool
  je_description :: string
  je_memo :: "string option"
  je_postedAt :: "int option"
  je_postedByUserId :: "string option"
  je_createdByUserId :: "string option"

record journal_line =
  jl_id :: uuid
  jl_journalEntryId :: uuid
  jl_accountingBookId :: uuid
  jl_ledgerAccountId :: uuid
  jl_economicEntityId :: "uuid option"
  jl_lineNumber :: int
  jl_description :: "string option"
  jl_currency :: string
  jl_amount :: int
  jl_functionalCurrency :: string
  jl_functionalAmount :: int

record journal_line_dimension =
  jd_journalLineId :: uuid
  jd_dimensionId :: uuid
  jd_dimensionValueId :: uuid

record journal_entry_source_link =
  sl_journalEntryId :: uuid
  sl_sourceFactType :: string
  sl_sourceFactId :: uuid
  sl_role :: source_role
  sl_amountContributed :: "int option"
  sl_currency :: "string option"

record posting_rule =
  pr_id :: uuid
  pr_code :: string
  pr_name :: string
  pr_sourceFactType :: string
  pr_accountingBookId :: "uuid option"
  pr_priority :: int
  pr_status :: rule_status
  pr_currentVersionId :: "uuid option"
  pr_description :: "string option"
  pr_createdByUserId :: "string option"

record posting_rule_version =
  rv_id :: uuid
  rv_postingRuleId :: uuid
  rv_version :: int
  rv_status :: version_status
  rv_effectiveFrom :: "date option"
  rv_effectiveTo :: "date option"
  rv_matchProvider :: "string option"
  rv_matchChannel :: "string option"
  rv_matchEconomicEntityId :: "uuid option"
  rv_matchFeeType :: "string option"
  rv_matchFeeDirection :: "string option"
  rv_matchMovementKind :: "string option"
  rv_matchSourceKind :: "string option"
  rv_matchExpenseCategory :: "string option"
  rv_matchCapitalize :: "bool option"
  rv_matchCurrency :: "string option"
  rv_matchMinAmount :: "int option"
  rv_matchMaxAmount :: "int option"
  rv_note :: "string option"
  rv_createdByUserId :: "string option"

record posting_rule_line =
  rl_id :: uuid
  rl_postingRuleVersionId :: uuid
  rl_lineNumber :: int
  rl_accountSystemKey :: "string option"
  rl_ledgerAccountId :: "uuid option"
  rl_amountSource :: amount_source
  rl_amountMultiplier :: int
  rl_inheritEntity :: bool
  rl_dimensionValueId :: "uuid option"
  rl_descriptionTemplate :: "string option"

record ledger =
  economic_entities :: "economic_entity list"
  accounting_books :: "accounting_book list"
  book_entity_links :: "book_entity_link list"
  ledger_accounts :: "ledger_account list"
  accounting_dimensions :: "accounting_dimension list"
  accounting_dimension_values :: "accounting_dimension_value list"
  fiscal_periods :: "fiscal_period list"
  posting_rules :: "posting_rule list"
  posting_rule_versions :: "posting_rule_version list"
  posting_rule_lines :: "posting_rule_line list"
  journal_entries :: "journal_entry list"
  journal_lines :: "journal_line list"
  journal_line_dimensions :: "journal_line_dimension list"
  journal_entry_source_links :: "journal_entry_source_link list"
  audit_events :: "audit_event list"

record env =
  now :: int
  uuidAt :: "nat \<Rightarrow> uuid"

section \<open>Rendering for audit payloads\<close>

fun jopt :: "('a \<Rightarrow> json) \<Rightarrow> 'a option \<Rightarrow> json" where
  "jopt f None = JNull"
| "jopt f (Some x) = f x"

abbreviation jstro :: "string option \<Rightarrow> json" where
  "jstro \<equiv> jopt JStr"

definition isoDate :: "date \<Rightarrow> string" where
  "isoDate d =
     padStart 4 (CHR ''0'') (int_toString (year d)) @ ''-'' @
     padStart 2 (CHR ''0'') (int_toString (month d)) @ ''-'' @
     padStart 2 (CHR ''0'') (int_toString (day d))"

abbreviation jdate :: "date \<Rightarrow> json" where
  "jdate d \<equiv> JStr (isoDate d)"

fun entryStatusText :: "entry_status \<Rightarrow> string" where
  "entryStatusText Draft = ''draft''"
| "entryStatusText Posted = ''posted''"
| "entryStatusText Reversed = ''reversed''"
| "entryStatusText Void = ''void''"

fun periodStatusText :: "period_status \<Rightarrow> string" where
  "periodStatusText Open = ''open''"
| "periodStatusText SoftClosed = ''soft_closed''"
| "periodStatusText Closed = ''closed''"
| "periodStatusText Locked = ''locked''"

fun activeStatusText :: "active_status \<Rightarrow> string" where
  "activeStatusText Active = ''active''"
| "activeStatusText Archived = ''archived''"

fun accountTypeText :: "account_type \<Rightarrow> string" where
  "accountTypeText Asset = ''asset''"
| "accountTypeText Liability = ''liability''"
| "accountTypeText Equity = ''equity''"
| "accountTypeText Revenue = ''revenue''"
| "accountTypeText Expense = ''expense''"

fun basisText :: "accounting_basis \<Rightarrow> string" where
  "basisText Cash = ''cash''"
| "basisText Accrual = ''accrual''"

fun linkRoleText :: "link_role \<Rightarrow> string" where
  "linkRoleText PostingPrimary = ''posting_primary''"
| "linkRoleText ReportingOnly = ''reporting_only''"

section \<open>Writes\<close>

definition appendAudit :: "env \<Rightarrow> nat \<Rightarrow> audit_input \<Rightarrow> ledger \<Rightarrow> ledger acc" where
  "appendAudit e n i L =
     (case auditAppend (uuidAt e n) (now e) i (audit_events L) of
        Inl p \<Rightarrow> Inl (DatabaseError p)
      | Inr log \<Rightarrow> Inr (L\<lparr>audit_events := log\<rparr>))"

text \<open>A \<^verbatim>\<open>numeric(20,6)\<close> column refuses a magnitude of twenty digits or more.\<close>

definition numericColumn :: "string \<Rightarrow> int acc" where
  "numericColumn s = bindE (moneyUnits s) (\<lambda>u.
     bindE (assertE (\<bar>u\<bar> < 10 ^ 20) (DatabaseError NumericOutOfRange)) (\<lambda>_. Inr u))"

definition bookExists :: "ledger \<Rightarrow> uuid \<Rightarrow> bool" where
  "bookExists L b \<longleftrightarrow> list_ex (\<lambda>r. bk_id r = b) (accounting_books L)"

definition posted_status :: "entry_status \<Rightarrow> bool" where
  "posted_status s \<longleftrightarrow> s = Posted \<or> s = Reversed"

text \<open>The checks every row of \<^verbatim>\<open>journal_entries\<close> satisfies on its own.\<close>

definition entryChecks :: "journal_entry \<Rightarrow> bool" where
  "entryChecks r \<longleftrightarrow>
     (posted_status (je_status r) \<longrightarrow>
        je_entryNumber r \<noteq> None \<and> je_fiscalPeriodId r \<noteq> None \<and> je_postedAt r \<noteq> None) \<and>
     je_reversesEntryId r \<noteq> Some (je_id r) \<and>
     (je_sourceFactType r = None) = (je_sourceFactId r = None) \<and>
     (je_entrySource r = PostingRule) = (je_postingRuleVersionId r \<noteq> None)"

text \<open>The unique keys of \<^verbatim>\<open>journal_entries\<close> between two different rows.\<close>

definition entryClash :: "journal_entry \<Rightarrow> journal_entry \<Rightarrow> bool" where
  "entryClash r x \<longleftrightarrow>
     je_id x = je_id r \<or>
     (je_postingKey r \<noteq> None \<and> je_postingKey x = je_postingKey r) \<or>
     (je_entryNumber r \<noteq> None \<and> je_accountingBookId x = je_accountingBookId r \<and>
        je_entryNumber x = je_entryNumber r)"

definition entryForeignKeys :: "ledger \<Rightarrow> journal_entry \<Rightarrow> bool" where
  "entryForeignKeys L r \<longleftrightarrow>
     bookExists L (je_accountingBookId r) \<and>
     (case je_fiscalPeriodId r of None \<Rightarrow> True
      | Some p \<Rightarrow> list_ex (\<lambda>x. fp_id x = p \<and> fp_accountingBookId x = je_accountingBookId r) (fiscal_periods L)) \<and>
     (case je_reversesEntryId r of None \<Rightarrow> True
      | Some o' \<Rightarrow> list_ex (\<lambda>x. je_id x = o') (journal_entries L)) \<and>
     (case je_postingRuleVersionId r of None \<Rightarrow> True
      | Some v \<Rightarrow> list_ex (\<lambda>x. rv_id x = v) (posting_rule_versions L))"

text \<open>Trigger \<^verbatim>\<open>loxep_journal_entries_period_guard\<close> on a row that is being posted.\<close>

definition periodGuard :: "ledger \<Rightarrow> journal_entry \<Rightarrow> bool" where
  "periodGuard L r \<longleftrightarrow>
     (case je_fiscalPeriodId r of None \<Rightarrow> False
      | Some p \<Rightarrow>
          (case find (\<lambda>x. fp_id x = p) (fiscal_periods L) of None \<Rightarrow> False
           | Some period \<Rightarrow>
               fp_startsOn period \<le> je_entryDate r \<and> je_entryDate r \<le> fp_endsOn period \<and>
               fp_status period \<noteq> Closed \<and> fp_status period \<noteq> Locked \<and>
               (fp_status period = SoftClosed \<longrightarrow> je_isBackdated r)))"

definition insertEntry :: "journal_entry \<Rightarrow> ledger \<Rightarrow> ledger acc" where
  "insertEntry r L =
     bindE (assertE (validDate (je_entryDate r)) (DatabaseError DatetimeFieldOverflow)) (\<lambda>_.
     bindE (assertE (posted_status (je_status r) \<longrightarrow> periodGuard L r) (DatabaseError RaiseException)) (\<lambda>_.
     bindE (assertE (entryChecks r) (DatabaseError CheckViolation)) (\<lambda>_.
     bindE (assertE (\<not> list_ex (entryClash r) (journal_entries L)) (DatabaseError UniqueViolation)) (\<lambda>_.
     bindE (assertE (entryForeignKeys L r) (DatabaseError ForeignKeyViolation)) (\<lambda>_.
       Inr (L\<lparr>journal_entries := journal_entries L @ [r]\<rparr>))))))"

text \<open>Trigger \<^verbatim>\<open>loxep_journal_entries_immutable\<close>: a draft may change, a posted entry may only
  become \<^verbatim>\<open>reversed\<close> with every other column equal.\<close>

definition entryUpdateAllowed :: "journal_entry \<Rightarrow> journal_entry \<Rightarrow> bool" where
  "entryUpdateAllowed old new \<longleftrightarrow>
     je_status old = Draft \<or>
     (je_status old = Posted \<and> je_status new = Reversed \<and> new\<lparr>je_status := Posted\<rparr> = old)"

text \<open>\<^verbatim>\<open>update journal_entries set ... where id = ...\<close>, which changes no row when there is none.\<close>

definition updateEntry :: "uuid \<Rightarrow> (journal_entry \<Rightarrow> journal_entry) \<Rightarrow> ledger \<Rightarrow> ledger acc" where
  "updateEntry i f L =
     (case find (\<lambda>r. je_id r = i) (journal_entries L) of
        None \<Rightarrow> Inr L
      | Some old \<Rightarrow>
          let new = f old in
          bindE (assertE (entryUpdateAllowed old new) (DatabaseError RaiseException)) (\<lambda>_.
          bindE (assertE (posted_status (je_status new) \<longrightarrow>
              (posted_status (je_status old) \<and> je_entryDate old = je_entryDate new \<and>
                 je_fiscalPeriodId old = je_fiscalPeriodId new) \<or> periodGuard L new)
            (DatabaseError RaiseException)) (\<lambda>_.
          bindE (assertE (entryChecks new) (DatabaseError CheckViolation)) (\<lambda>_.
          bindE (assertE (\<not> list_ex (\<lambda>x. je_id x \<noteq> i \<and> entryClash new x) (journal_entries L))
            (DatabaseError UniqueViolation)) (\<lambda>_.
          bindE (assertE (entryForeignKeys L new) (DatabaseError ForeignKeyViolation)) (\<lambda>_.
            Inr (L\<lparr>journal_entries := updateWhere (\<lambda>r. je_id r = i) f (journal_entries L)\<rparr>)))))))"

definition insertLine :: "journal_line \<Rightarrow> ledger \<Rightarrow> ledger acc" where
  "insertLine r L =
     bindE (assertE (list_all (\<lambda>e. je_id e = jl_journalEntryId r \<longrightarrow> je_status e = Draft) (journal_entries L))
       (DatabaseError RaiseException)) (\<lambda>_.
     bindE (assertE (jl_amount r \<noteq> 0 \<and> 0 < jl_lineNumber r \<and> jl_currency r = jl_functionalCurrency r)
       (DatabaseError CheckViolation)) (\<lambda>_.
     bindE (assertE (\<not> list_ex (\<lambda>x. jl_id x = jl_id r \<or>
         (jl_journalEntryId x = jl_journalEntryId r \<and> jl_lineNumber x = jl_lineNumber r)) (journal_lines L))
       (DatabaseError UniqueViolation)) (\<lambda>_.
     bindE (assertE (
         list_ex (\<lambda>e. je_id e = jl_journalEntryId r \<and> je_accountingBookId e = jl_accountingBookId r) (journal_entries L) \<and>
         list_ex (\<lambda>a. la_id a = jl_ledgerAccountId r \<and> la_accountingBookId a = jl_accountingBookId r) (ledger_accounts L) \<and>
         (case jl_economicEntityId r of None \<Rightarrow> True
          | Some i \<Rightarrow> list_ex (\<lambda>e. ee_id e = i) (economic_entities L)))
       (DatabaseError ForeignKeyViolation)) (\<lambda>_.
       Inr (L\<lparr>journal_lines := journal_lines L @ [r]\<rparr>)))))"

fun insertLineRows :: "journal_line list \<Rightarrow> ledger \<Rightarrow> ledger acc" where
  "insertLineRows [] L = Inr L"
| "insertLineRows (r # rs) L = bindE (insertLine r L) (insertLineRows rs)"

definition insertLineDimension :: "journal_line_dimension \<Rightarrow> ledger \<Rightarrow> ledger acc" where
  "insertLineDimension r L =
     bindE (assertE (\<not> list_ex (\<lambda>x. jd_journalLineId x = jd_journalLineId r \<and> jd_dimensionId x = jd_dimensionId r)
         (journal_line_dimensions L)) (DatabaseError UniqueViolation)) (\<lambda>_.
     bindE (assertE (
         list_ex (\<lambda>l. jl_id l = jd_journalLineId r) (journal_lines L) \<and>
         list_ex (\<lambda>d. ad_id d = jd_dimensionId r) (accounting_dimensions L) \<and>
         list_ex (\<lambda>v. dv_id v = jd_dimensionValueId r) (accounting_dimension_values L))
       (DatabaseError ForeignKeyViolation)) (\<lambda>_.
       Inr (L\<lparr>journal_line_dimensions := journal_line_dimensions L @ [r]\<rparr>)))"

fun insertLineDimensionRows :: "journal_line_dimension list \<Rightarrow> ledger \<Rightarrow> ledger acc" where
  "insertLineDimensionRows [] L = Inr L"
| "insertLineDimensionRows (r # rs) L = bindE (insertLineDimension r L) (insertLineDimensionRows rs)"

text \<open>\<^verbatim>\<open>insert ... on conflict do nothing\<close> on the natural key.\<close>

definition insertSourceLinkRow :: "journal_entry_source_link \<Rightarrow> ledger \<Rightarrow> ledger acc" where
  "insertSourceLinkRow r L =
     (if list_ex (\<lambda>x. sl_journalEntryId x = sl_journalEntryId r \<and> sl_sourceFactType x = sl_sourceFactType r \<and>
           sl_sourceFactId x = sl_sourceFactId r \<and> sl_role x = sl_role r) (journal_entry_source_links L)
      then Inr L
      else bindE (assertE (list_ex (\<lambda>e. je_id e = sl_journalEntryId r) (journal_entries L))
          (DatabaseError ForeignKeyViolation)) (\<lambda>_.
        Inr (L\<lparr>journal_entry_source_links := journal_entry_source_links L @ [r]\<rparr>)))"

fun insertSourceLinkRows :: "journal_entry_source_link list \<Rightarrow> ledger \<Rightarrow> ledger acc" where
  "insertSourceLinkRows [] L = Inr L"
| "insertSourceLinkRows (r # rs) L = bindE (insertSourceLinkRow r L) (insertSourceLinkRows rs)"

section \<open>Balance\<close>

abbreviation linesOf :: "ledger \<Rightarrow> uuid \<Rightarrow> journal_line list" where
  "linesOf L i \<equiv> filter (\<lambda>l. jl_journalEntryId l = i) (journal_lines L)"

text \<open>\<^verbatim>\<open>group by currency having sum(amount) <> 0\<close> finds no group.\<close>

definition groupsBalance :: "('r \<Rightarrow> string) \<Rightarrow> ('r \<Rightarrow> int) \<Rightarrow> 'r list \<Rightarrow> bool" where
  "groupsBalance cur amt rs \<longleftrightarrow>
     list_all (\<lambda>c. sum_list (map amt (filter (\<lambda>r. cur r = c) rs)) = 0) (map cur rs)"

definition linesBalance :: "journal_line list \<Rightarrow> bool" where
  "linesBalance ls \<longleftrightarrow> ls \<noteq> [] \<and> groupsBalance jl_currency jl_amount ls \<and>
     groupsBalance jl_functionalCurrency jl_functionalAmount ls"

text \<open>Trigger \<^verbatim>\<open>loxep_journal_entry_balanced\<close>, deferred to the commit.\<close>

definition entryBalanced :: "ledger \<Rightarrow> uuid \<Rightarrow> bool" where
  "entryBalanced L i \<longleftrightarrow>
     (case find (\<lambda>r. je_id r = i) (journal_entries L) of
        None \<Rightarrow> True
      | Some r \<Rightarrow> posted_status (je_status r) \<longrightarrow> linesBalance (linesOf L i))"

definition commitEntries :: "uuid list \<Rightarrow> ledger \<Rightarrow> ledger acc" where
  "commitEntries touched L =
     bindE (assertE (list_all (entryBalanced L) touched) (DatabaseError RaiseException)) (\<lambda>_. Inr L)"

lemma appendAudit_Inr [resE, simp]:
  "appendAudit e n i L = Inr L' \<longleftrightarrow>
     uuidAt e n \<notin> ae_id ` set (audit_events L) \<and>
     L' = L\<lparr>audit_events := audit_events L @ [auditRow (uuidAt e n) (now e) i]\<rparr>"
  by (auto simp: appendAudit_def auditAppend_def List.member_iff)

section \<open>Sample values\<close>

text \<open>From here on an evaluation leaves the redaction of an audit payload as it stands: it is a
  pure function of the payload that no operation reads back.\<close>

declare redactJson.simps [code del]

text \<open>Concrete values the witnesses evaluate the operations on.\<close>

definition emptyLedger :: ledger where
  "emptyLedger =
     \<lparr>economic_entities = [], accounting_books = [], book_entity_links = [], ledger_accounts = [],
      accounting_dimensions = [], accounting_dimension_values = [], fiscal_periods = [],
      posting_rules = [], posting_rule_versions = [], posting_rule_lines = [],
      journal_entries = [], journal_lines = [], journal_line_dimensions = [],
      journal_entry_source_links = [], audit_events = []\<rparr>"

definition sampleBook :: accounting_book where
  "sampleBook =
     \<lparr>bk_id = ''b'', bk_code = ''B'', bk_name = ''Book'', bk_functionalCurrency = ''USD'',
      bk_accountingBasis = Accrual, bk_fiscalYearStartMonth = 1, bk_fiscalYearStartDay = 31,
      bk_requiresEntityDimension = False, bk_nextEntryNumber = 1, bk_status = Active,
      bk_openedOn = Date 2026 1 31, bk_notes = None, bk_createdByUserId = None\<rparr>"

definition sampleEnv :: "string \<Rightarrow> env" where
  "sampleEnv p = \<lparr>now = 0, uuidAt = (\<lambda>n. p @ replicate n (CHR ''i''))\<rparr>"

end
