(* ===== verification/Periods.thy ===== *)
theory Periods
  imports Ledger_Schema
begin

text \<open>
  \<^verbatim>\<open>packages/accounting/src/periods.ts\<close>: generating a fiscal year of monthly periods, finding
  the period of a date, and the four-state close. \<open>insertPeriods\<close> is the \<^verbatim>\<open>insert ... select
  from generate_series ... on conflict do nothing\<close> with the table's keys and its no-overlap
  exclusion constraint. A call draws \<open>uuidAt 0\<close> for its audit event and \<open>uuidAt (i + 1)\<close> for
  the \<open>i\<close>-th period.
\<close>

section \<open>Pure functions\<close>

definition HARD_CLOSED :: "period_status list" where
  "HARD_CLOSED = [Closed, Locked]"

definition pad :: "int \<Rightarrow> string" where
  "pad value = padStart 2 (CHR ''0'') (int_toString value)"

definition fiscalYearStartDate :: "int \<Rightarrow> int \<Rightarrow> int \<Rightarrow> date" where
  "fiscalYearStartDate fiscalYear m d = Date fiscalYear m (min d (daysInMonth fiscalYear m))"

definition fiscalYearFor :: "date \<Rightarrow> int \<Rightarrow> int \<Rightarrow> int" where
  "fiscalYearFor d startMonth startDay =
     (if fiscalYearStartDate (year d) startMonth startDay \<le> d then year d else year d - 1)"

definition periodCodeFor :: "int \<Rightarrow> int \<Rightarrow> string" where
  "periodCodeFor fiscalYear sequence = ''FY'' @ int_toString fiscalYear @ ''-P'' @ pad sequence"

definition assertPeriodAcceptsPosting :: "fiscal_period \<Rightarrow> bool \<Rightarrow> bool acc" where
  "assertPeriodAcceptsPosting period allowBackdated =
     (if List.member HARD_CLOSED (fp_status period) then Inl FiscalPeriodClosedError
      else if fp_status period = SoftClosed then
        (if \<not> allowBackdated then Inl FiscalPeriodClosedError else Inr True)
      else Inr False)"

text \<open>\<^verbatim>\<open>z.string().min(1).nullish()\<close>, and the text literal that refuses NUL bytes.\<close>

definition minOne :: "string option \<Rightarrow> bool" where
  "minOne s \<longleftrightarrow> s \<noteq> Some []"

definition textLiteral :: "string \<Rightarrow> string acc" where
  "textLiteral value =
     (if List.member value (CHR 0x00) then Inl AccountingValidationError else Inr value)"

fun textLiteralOpt :: "string option \<Rightarrow> string option acc" where
  "textLiteralOpt None = Inr None"
| "textLiteralOpt (Some s) = bindE (textLiteral s) (\<lambda>t. Inr (Some t))"

section \<open>Reads\<close>

definition loadPeriod :: "ledger \<Rightarrow> uuid \<Rightarrow> fiscal_period acc" where
  "loadPeriod L i =
     fromOption AccountingNotFoundError (find (\<lambda>p. fp_id p = i) (fiscal_periods L))"

definition periodCovers :: "uuid \<Rightarrow> date \<Rightarrow> fiscal_period \<Rightarrow> bool" where
  "periodCovers b d p \<longleftrightarrow> fp_accountingBookId p = b \<and> fp_startsOn p \<le> d \<and> d \<le> fp_endsOn p"

definition resolvePeriod :: "ledger \<Rightarrow> uuid \<Rightarrow> date \<Rightarrow> fiscal_period option acc" where
  "resolvePeriod L b d =
     (case find (periodCovers b d) (fiscal_periods L) of
        None \<Rightarrow> Inr None
      | Some p \<Rightarrow> bindE (loadPeriod L (fp_id p)) (\<lambda>row. Inr (Some row)))"

definition requirePeriod :: "ledger \<Rightarrow> uuid \<Rightarrow> date \<Rightarrow> fiscal_period acc" where
  "requirePeriod L b d =
     bindE (resolvePeriod L b d) (\<lambda>p. fromOption FiscalPeriodClosedError p)"

definition listPeriods :: "ledger \<Rightarrow> uuid \<Rightarrow> int option \<Rightarrow> fiscal_period list" where
  "listPeriods L b fiscalYear =
     sort_key fp_startsOn (filter (\<lambda>p. fp_accountingBookId p = b \<and>
       (case fiscalYear of None \<Rightarrow> True | Some y \<Rightarrow> fp_fiscalYear p = y)) (fiscal_periods L))"

section \<open>Generation\<close>

definition periodsOverlap :: "fiscal_period \<Rightarrow> fiscal_period \<Rightarrow> bool" where
  "periodsOverlap p q \<longleftrightarrow>
     fp_accountingBookId p = fp_accountingBookId q \<and>
     fp_startsOn p \<le> fp_endsOn q \<and> fp_startsOn q \<le> fp_endsOn p"

definition sameSlot :: "fiscal_period \<Rightarrow> fiscal_period \<Rightarrow> bool" where
  "sameSlot p q \<longleftrightarrow>
     fp_accountingBookId p = fp_accountingBookId q \<and> fp_fiscalYear p = fp_fiscalYear q \<and>
     fp_sequence p = fp_sequence q"

definition insertPeriod :: "fiscal_period \<Rightarrow> ledger \<Rightarrow> (ledger \<times> uuid list) acc" where
  "insertPeriod p L =
     bindE (assertE (fp_startsOn p \<le> fp_endsOn p) (DatabaseError CheckViolation)) (\<lambda>_.
     if list_ex (sameSlot p) (fiscal_periods L) then Inr (L, [])
     else
       bindE (assertE (\<not> list_ex (\<lambda>q. fp_id q = fp_id p \<or>
           (fp_accountingBookId q = fp_accountingBookId p \<and> fp_periodCode q = fp_periodCode p)) (fiscal_periods L))
         (DatabaseError UniqueViolation)) (\<lambda>_.
       bindE (assertE (\<not> list_ex (periodsOverlap p) (fiscal_periods L)) (DatabaseError ExclusionViolation)) (\<lambda>_.
       bindE (assertE (bookExists L (fp_accountingBookId p)) (DatabaseError ForeignKeyViolation)) (\<lambda>_.
         Inr (L\<lparr>fiscal_periods := fiscal_periods L @ [p]\<rparr>, [fp_id p])))))"

fun insertPeriods :: "fiscal_period list \<Rightarrow> ledger \<Rightarrow> (ledger \<times> uuid list) acc" where
  "insertPeriods [] L = Inr (L, [])"
| "insertPeriods (p # ps) L =
     bindE (insertPeriod p L) (\<lambda>(L1, c1).
     bindE (insertPeriods ps L1) (\<lambda>(L2, c2). Inr (L2, c1 @ c2)))"

definition generatedPeriod :: "env \<Rightarrow> uuid \<Rightarrow> int \<Rightarrow> date \<Rightarrow> nat \<Rightarrow> fiscal_period" where
  "generatedPeriod e b fiscalYear start i =
     \<lparr>fp_id = uuidAt e (Suc i), fp_accountingBookId = b,
      fp_periodCode = periodCodeFor fiscalYear (int i + 1),
      fp_fiscalYear = fiscalYear, fp_sequence = int i + 1,
      fp_startsOn = addMonths start (int i), fp_endsOn = prevDay (addMonths start (int i + 1)),
      fp_status = Open, fp_closedAt = None, fp_closedByUserId = None, fp_note = None\<rparr>"

record generate_input =
  gi_accountingBookId :: uuid
  gi_fiscalYear :: int
  gi_periodCount :: int
  gi_actorUserId :: "string option"
  gi_requestId :: "string option"

definition generateInputOk :: "generate_input \<Rightarrow> bool" where
  "generateInputOk i \<longleftrightarrow>
     1900 \<le> gi_fiscalYear i \<and> gi_fiscalYear i \<le> 9999 \<and>
     1 \<le> gi_periodCount i \<and> gi_periodCount i \<le> 12 \<and>
     minOne (gi_actorUserId i) \<and> minOne (gi_requestId i)"

definition periodsOfYear :: "ledger \<Rightarrow> uuid \<Rightarrow> int \<Rightarrow> fiscal_period list" where
  "periodsOfYear L b fiscalYear =
     sort_key fp_sequence
       (filter (\<lambda>p. fp_accountingBookId p = b \<and> fp_fiscalYear p = fiscalYear) (fiscal_periods L))"

definition auditInput ::
  "string option \<Rightarrow> string \<Rightarrow> string \<Rightarrow> string \<Rightarrow> json option \<Rightarrow> json option \<Rightarrow>
   string option \<Rightarrow> json option \<Rightarrow> audit_input" where
  "auditInput actor action resourceType resourceId before after requestId metadata =
     \<lparr>ai_actorUserId = actor, ai_action = action, ai_resourceType = resourceType,
      ai_resourceId = Some resourceId, ai_before = before, ai_after = after,
      ai_requestId = requestId, ai_metadata = metadata\<rparr>"

definition generateFiscalYear ::
  "env \<Rightarrow> generate_input \<Rightarrow> ledger \<Rightarrow> ((nat \<times> fiscal_period list) \<times> ledger) acc" where
  "generateFiscalYear e i L =
     bindE (assertE (generateInputOk i) AccountingValidationError) (\<lambda>_.
     bindE (fromOption AccountingNotFoundError
         (find (\<lambda>b. bk_id b = gi_accountingBookId i) (accounting_books L))) (\<lambda>book.
     let start = fiscalYearStartDate (gi_fiscalYear i) (bk_fiscalYearStartMonth book) (bk_fiscalYearStartDay book);
         rows = map (generatedPeriod e (gi_accountingBookId i) (gi_fiscalYear i) start) [0..<nat (gi_periodCount i)]
     in case insertPeriods rows L of
          Inl err \<Rightarrow> Inl (if isExclusionViolation err then AccountingConflictError else err)
        | Inr (L1, created) \<Rightarrow>
            let periods = periodsOfYear L1 (gi_accountingBookId i) (gi_fiscalYear i) in
            if created = [] then Inr ((0, periods), L1)
            else
              bindE (appendAudit e 0
                (auditInput (gi_actorUserId i) ''accounting.period.generated'' ''accounting_book''
                   (gi_accountingBookId i) None
                   (Some (JObj [(''fiscalYear'', JNum (gi_fiscalYear i)),
                      (''created'', JNum (int (length created))),
                      (''startsOn'', case periods of [] \<Rightarrow> JNull | p # _ \<Rightarrow> jdate (fp_startsOn p)),
                      (''endsOn'', case periods of [] \<Rightarrow> JNull | _ \<Rightarrow> jdate (fp_endsOn (last periods)))]))
                   (gi_requestId i) None) L1) (\<lambda>L2.
              Inr ((length created, periods), L2))))"

section \<open>Closing and reopening\<close>

record set_status_input =
  ss_fiscalPeriodId :: uuid
  ss_status :: period_status
  ss_note :: "string nullish"
  ss_actorUserId :: "string option"
  ss_requestId :: "string option"

text \<open>\<^verbatim>\<open>z.string().trim().min(1).nullish()\<close>\<close>

fun trimNote :: "string nullish \<Rightarrow> string nullish acc" where
  "trimNote Undefined = Inr Undefined"
| "trimNote Null = Inr Null"
| "trimNote (Val s) =
     (if js_trim s = [] then Inl AccountingValidationError else Inr (Val (js_trim s)))"

fun noteLiteral :: "string nullish \<Rightarrow> string nullish acc" where
  "noteLiteral Undefined = Inr Undefined"
| "noteLiteral Null = Inr Null"
| "noteLiteral (Val s) = bindE (textLiteral s) (\<lambda>t. Inr (Val t))"

definition applyStatus ::
  "env \<Rightarrow> period_status \<Rightarrow> string option \<Rightarrow> string nullish \<Rightarrow> fiscal_period \<Rightarrow> fiscal_period" where
  "applyStatus e status closedBy note p =
     p\<lparr>fp_status := status, fp_closedAt := (if status \<noteq> Open then Some (now e) else None),
       fp_closedByUserId := closedBy, fp_note := nullishOr (fp_note p) note\<rparr>"

definition setStatus ::
  "env \<Rightarrow> set_status_input \<Rightarrow> ledger \<Rightarrow> (fiscal_period \<times> ledger) acc" where
  "setStatus e i L =
     bindE (trimNote (ss_note i)) (\<lambda>note.
     bindE (assertE (minOne (ss_actorUserId i) \<and> minOne (ss_requestId i)) AccountingValidationError) (\<lambda>_.
     bindE (loadPeriod L (ss_fiscalPeriodId i)) (\<lambda>before.
     if fp_status before = ss_status i then Inr (before, L)
     else if fp_status before = Locked then Inl LedgerImmutableError
     else
       let closing = ss_status i \<noteq> Open in
       bindE (if closing then textLiteralOpt (ss_actorUserId i) else Inr None) (\<lambda>closedBy.
       bindE (noteLiteral note) (\<lambda>note'.
       let L1 = L\<lparr>fiscal_periods := updateWhere (\<lambda>p. fp_id p = fp_id before)
              (applyStatus e (ss_status i) closedBy note') (fiscal_periods L)\<rparr>
       in bindE (loadPeriod L1 (fp_id before)) (\<lambda>after.
          bindE (appendAudit e 0
            (auditInput (ss_actorUserId i)
               (if ss_status i = Open then ''accounting.period.reopened'' else ''accounting.period.closed'')
               ''fiscal_period'' (fp_id before)
               (Some (JObj [(''status'', JStr (periodStatusText (fp_status before)))]))
               (Some (JObj [(''status'', JStr (periodStatusText (fp_status after)))]))
               (ss_requestId i)
               (Some (JObj [(''accountingBookId'', JStr (fp_accountingBookId before)),
                  (''periodCode'', JStr (fp_periodCode before)),
                  (''note'', jstro (nullishOr None note))]))) L1) (\<lambda>L2.
          Inr (after, L2))))))))"

definition nullOf :: "'a option \<Rightarrow> 'a nullish" where
  "nullOf x = (case x of None \<Rightarrow> Null | Some y \<Rightarrow> Val y)"

definition closePeriod ::
  "env \<Rightarrow> uuid \<Rightarrow> period_status option \<Rightarrow> string option \<Rightarrow> string option \<Rightarrow> string option \<Rightarrow>
   ledger \<Rightarrow> (fiscal_period \<times> ledger) acc" where
  "closePeriod e periodId status note actor requestId L =
     setStatus e \<lparr>ss_fiscalPeriodId = periodId,
       ss_status = (case status of None \<Rightarrow> SoftClosed | Some s \<Rightarrow> s),
       ss_note = nullOf note, ss_actorUserId = actor, ss_requestId = requestId\<rparr> L"

definition reopenPeriod ::
  "env \<Rightarrow> uuid \<Rightarrow> string option \<Rightarrow> string option \<Rightarrow> string option \<Rightarrow>
   ledger \<Rightarrow> (fiscal_period \<times> ledger) acc" where
  "reopenPeriod e periodId note actor requestId L =
     setStatus e \<lparr>ss_fiscalPeriodId = periodId, ss_status = Open, ss_note = nullOf note,
       ss_actorUserId = actor, ss_requestId = requestId\<rparr> L"

section \<open>Invariant\<close>

text \<open>Periods have distinct ids and slots, are not empty, and those of one book never overlap.\<close>

definition periods_ok :: "fiscal_period list \<Rightarrow> bool" where
  "periods_ok ps \<longleftrightarrow>
     distinct (map fp_id ps) \<and> list_all (\<lambda>p. fp_startsOn p \<le> fp_endsOn p) ps \<and>
     distinct (map (\<lambda>p. (fp_accountingBookId p, fp_fiscalYear p, fp_sequence p)) ps) \<and>
     (\<forall>p \<in> set ps. \<forall>q \<in> set ps. periodsOverlap p q \<longrightarrow> p = q)"

lemma periodsOverlap_sym: "periodsOverlap p q \<longleftrightarrow> periodsOverlap q p"
  by (auto simp: periodsOverlap_def)

lemma periods_ok_Nil [simp]: "periods_ok []"
  by (simp add: periods_ok_def)

lemma insertPeriod_Inr:
  "insertPeriod p L = Inr (L', c) \<longleftrightarrow>
     fp_startsOn p \<le> fp_endsOn p \<and>
     (if list_ex (sameSlot p) (fiscal_periods L) then L' = L \<and> c = []
      else (\<forall>q \<in> set (fiscal_periods L). fp_id q \<noteq> fp_id p \<and>
              \<not> (fp_accountingBookId q = fp_accountingBookId p \<and> fp_periodCode q = fp_periodCode p) \<and>
              \<not> periodsOverlap p q) \<and>
           bookExists L (fp_accountingBookId p) \<and>
           L' = L\<lparr>fiscal_periods := fiscal_periods L @ [p]\<rparr> \<and> c = [fp_id p])"
  unfolding insertPeriod_def by (auto simp: list_ex_iff)

lemma insertPeriod_ok:
  assumes "periods_ok (fiscal_periods L)" and "insertPeriod p L = Inr (L', c)"
  shows "periods_ok (fiscal_periods L')"
proof (cases "list_ex (sameSlot p) (fiscal_periods L)")
  case True
  with assms show ?thesis by (simp add: insertPeriod_Inr)
next
  case False
  then have new: "\<forall>q \<in> set (fiscal_periods L). fp_id q \<noteq> fp_id p \<and> \<not> periodsOverlap p q \<and> \<not> sameSlot p q"
    and r: "fp_startsOn p \<le> fp_endsOn p" and L': "fiscal_periods L' = fiscal_periods L @ [p]"
    using assms(2) by (auto simp: insertPeriod_Inr list_ex_iff)
  show ?thesis
    using assms(1) new r unfolding L' periods_ok_def
    by (auto simp: sameSlot_def periodsOverlap_sym)
qed

lemma insertPeriods_ok:
  "insertPeriods ps L = Inr (L', c) \<Longrightarrow> periods_ok (fiscal_periods L) \<Longrightarrow>
     periods_ok (fiscal_periods L')"
  by (induction ps arbitrary: L c) (auto dest: insertPeriod_ok)

text \<open>A later write only adds periods, and nothing else changes.\<close>

lemma insertPeriods_frame:
  "insertPeriods ps L = Inr (L', c) \<Longrightarrow>
     (\<exists>qs. set qs \<subseteq> set ps \<and> L' = L\<lparr>fiscal_periods := fiscal_periods L @ qs\<rparr> \<and> c = map fp_id qs)"
proof (induction ps arbitrary: L c)
  case Nil
  then show ?case by (intro exI [of _ "[]"]) simp
next
  case (Cons p ps)
  then obtain L1 c1 c2 where 1: "insertPeriod p L = Inr (L1, c1)"
    and 2: "insertPeriods ps L1 = Inr (L', c2)" and c: "c = c1 @ c2" by auto
  from Cons.IH [OF 2] obtain qs where
    qs: "set qs \<subseteq> set ps" "L' = L1\<lparr>fiscal_periods := fiscal_periods L1 @ qs\<rparr>" "c2 = map fp_id qs" by blast
  show ?case
  proof (cases "list_ex (sameSlot p) (fiscal_periods L)")
    case True
    then have "L1 = L" "c1 = []" using 1 by (simp_all add: insertPeriod_Inr)
    with qs c show ?thesis by (intro exI [of _ qs]) auto
  next
    case False
    then have "L1 = L\<lparr>fiscal_periods := fiscal_periods L @ [p]\<rparr>" "c1 = [fp_id p]"
      using 1 by (simp_all add: insertPeriod_Inr)
    with qs c show ?thesis by (intro exI [of _ "p # qs"]) auto
  qed
qed

lemma find_covers_unique:
  assumes "periods_ok ps" and "p \<in> set ps" and "periodCovers b d p"
  shows "find (periodCovers b d) ps = Some p"
proof -
  obtain q where q: "find (periodCovers b d) ps = Some q"
    using assms find_NoneD [of "periodCovers b d" ps p] by (cases "find (periodCovers b d) ps") auto
  then have "q \<in> set ps" "periodCovers b d q" by (auto dest: find_SomeD)
  then have "periodsOverlap p q"
    using assms(3) by (auto simp: periodsOverlap_def periodCovers_def)
  then show ?thesis using assms \<open>q \<in> set ps\<close> q by (auto simp: periods_ok_def)
qed

lemma loadPeriod_member:
  "periods_ok (fiscal_periods L) \<Longrightarrow> p \<in> set (fiscal_periods L) \<Longrightarrow> loadPeriod L (fp_id p) = Inr p"
  by (simp add: loadPeriod_def periods_ok_def find_key_unique)

lemma resolvePeriod_Some:
  assumes "periods_ok (fiscal_periods L)"
  shows "resolvePeriod L b d = Inr (Some p) \<longleftrightarrow> p \<in> set (fiscal_periods L) \<and> periodCovers b d p"
proof
  assume "resolvePeriod L b d = Inr (Some p)"
  then obtain q where "find (periodCovers b d) (fiscal_periods L) = Some q" "loadPeriod L (fp_id q) = Inr p"
    by (auto simp: resolvePeriod_def split: option.splits)
  then show "p \<in> set (fiscal_periods L) \<and> periodCovers b d p"
    using assms loadPeriod_member [OF assms, of q] by (auto dest!: find_SomeD)
next
  assume "p \<in> set (fiscal_periods L) \<and> periodCovers b d p"
  then show "resolvePeriod L b d = Inr (Some p)"
    using assms find_covers_unique [OF assms] by (auto simp: resolvePeriod_def loadPeriod_member)
qed

section \<open>Generation lemmas\<close>

definition periodClash :: "fiscal_period \<Rightarrow> fiscal_period \<Rightarrow> bool" where
  "periodClash p q \<longleftrightarrow>
     sameSlot p q \<or> fp_id p = fp_id q \<or> periodsOverlap p q \<or>
     (fp_accountingBookId p = fp_accountingBookId q \<and> fp_periodCode p = fp_periodCode q)"

lemma periodClash_sym: "periodClash p q \<longleftrightarrow> periodClash q p"
  by (auto simp: periodClash_def sameSlot_def periodsOverlap_sym)

lemma insertPeriods_all_new:
  assumes "sorted_wrt (\<lambda>p q. \<not> periodClash p q) ps"
    and "\<forall>p \<in> set ps. fp_startsOn p \<le> fp_endsOn p \<and> bookExists L (fp_accountingBookId p)"
    and "\<forall>p \<in> set ps. \<forall>q \<in> set (fiscal_periods L). \<not> periodClash p q"
  shows "insertPeriods ps L = Inr (L\<lparr>fiscal_periods := fiscal_periods L @ ps\<rparr>, map fp_id ps)"
  using assms
proof (induction ps arbitrary: L)
  case (Cons p ps)
  let ?L1 = "L\<lparr>fiscal_periods := fiscal_periods L @ [p]\<rparr>"
  have "insertPeriod p L = Inr (?L1, [fp_id p])"
    using Cons.prems by (auto simp: insertPeriod_Inr list_ex_iff periodClash_def)
  moreover have "insertPeriods ps ?L1 = Inr (?L1\<lparr>fiscal_periods := fiscal_periods ?L1 @ ps\<rparr>, map fp_id ps)"
    by (rule Cons.IH) (use Cons.prems in \<open>auto simp: bookExists_def periodClash_sym\<close>)
  ultimately show ?case by simp
qed simp

lemma insertPeriods_slots:
  "insertPeriods ps L = Inr (L', c) \<Longrightarrow> p \<in> set ps \<Longrightarrow> list_ex (sameSlot p) (fiscal_periods L')"
proof (induction ps arbitrary: L c)
  case (Cons q ps)
  then obtain L1 c1 c2 where 1: "insertPeriod q L = Inr (L1, c1)"
    and 2: "insertPeriods ps L1 = Inr (L', c2)" by auto
  have q: "list_ex (sameSlot q) (fiscal_periods L1)"
    using 1 by (auto simp: insertPeriod_Inr list_ex_iff sameSlot_def split: if_splits)
  obtain qs where "fiscal_periods L' = fiscal_periods L1 @ qs"
    using insertPeriods_frame [OF 2] by auto
  with q Cons.IH [OF 2] Cons.prems show ?case by auto
qed simp

lemma insertPeriods_present:
  "\<forall>p \<in> set ps. fp_startsOn p \<le> fp_endsOn p \<and> list_ex (sameSlot p) (fiscal_periods L) \<Longrightarrow>
     insertPeriods ps L = Inr (L, [])"
proof (induction ps)
  case (Cons p ps)
  then have "insertPeriod p L = Inr (L, [])" by (simp add: insertPeriod_Inr)
  with Cons show ?case by simp
qed simp

lemma insertPeriods_range:
  "insertPeriods ps L = Inr (L', c) \<Longrightarrow> p \<in> set ps \<Longrightarrow> fp_startsOn p \<le> fp_endsOn p"
  by (induction ps arbitrary: L c) (auto simp: insertPeriod_Inr)

lemma BigInt_pad: "0 \<le> n \<Longrightarrow> BigInt (pad n) = nat n"
  by (simp add: pad_def int_toString_eq)

lemma periodCodeFor_inject:
  "0 \<le> s \<Longrightarrow> 0 \<le> t \<Longrightarrow> periodCodeFor y s = periodCodeFor y t \<Longrightarrow> s = t"
  using BigInt_pad [of s] BigInt_pad [of t] by (auto simp: periodCodeFor_def)

lemma validDate_fiscalYearStartDate:
  "1 \<le> m \<Longrightarrow> m \<le> 12 \<Longrightarrow> 1 \<le> d \<Longrightarrow> validDate (fiscalYearStartDate y m d)"
  using daysInMonth_bounds(1) [of y m] by (auto simp: fiscalYearStartDate_def validDate_def)

lemma generatedPeriod_simps [simp]:
  "fp_id (generatedPeriod e b y s i) = uuidAt e (Suc i)"
  "fp_accountingBookId (generatedPeriod e b y s i) = b"
  "fp_periodCode (generatedPeriod e b y s i) = periodCodeFor y (int i + 1)"
  "fp_fiscalYear (generatedPeriod e b y s i) = y"
  "fp_sequence (generatedPeriod e b y s i) = int i + 1"
  "fp_startsOn (generatedPeriod e b y s i) = addMonths s (int i)"
  "fp_endsOn (generatedPeriod e b y s i) = prevDay (addMonths s (int i + 1))"
  "fp_status (generatedPeriod e b y s i) = Open"
  by (simp_all add: generatedPeriod_def)

lemma generatedPeriod_nonempty:
  "validDate s \<Longrightarrow> fp_startsOn (generatedPeriod e b y s i) \<le> fp_endsOn (generatedPeriod e b y s i)"
  by (simp add: le_prevDay_iff validDate_addMonths addMonths_strict_mono)

lemma generatedPeriod_apart:
  assumes "validDate s" and "i < j"
  shows "\<not> periodsOverlap (generatedPeriod e b y s i) (generatedPeriod e b y s j)"
proof -
  have "addMonths s (int i + 1) \<le> addMonths s (int j)"
    using assms by (intro addMonths_mono) auto
  then have "prevDay (addMonths s (int i + 1)) < addMonths s (int j)"
    using prevDay_less less_le_trans by blast
  then show ?thesis by (auto simp: periodsOverlap_def not_le)
qed

lemma generated_sorted:
  assumes "validDate s" and "inj_on (uuidAt e) {1..n}"
  shows "sorted_wrt (\<lambda>p q. \<not> periodClash p q) (map (generatedPeriod e b y s) [0..<n])"
proof -
  have "\<not> periodClash (generatedPeriod e b y s i) (generatedPeriod e b y s j)" if "i < j" "j < n" for i j
  proof -
    have "uuidAt e (Suc i) \<noteq> uuidAt e (Suc j)"
      using inj_onD [OF assms(2), of "Suc i" "Suc j"] that by auto
    moreover have "periodCodeFor y (int i + 1) \<noteq> periodCodeFor y (int j + 1)"
      using periodCodeFor_inject [of "int i + 1" "int j + 1" y] that by auto
    ultimately show ?thesis
      using generatedPeriod_apart [OF assms(1) that(1)] that
      by (auto simp: periodClash_def sameSlot_def)
  qed
  then show ?thesis by (auto simp: sorted_wrt_iff_nth_less)
qed

text \<open>The generated months tile the span from the start to the end of the last of them.\<close>

lemma generated_cover:
  assumes "validDate s" and "validDate d" and "s \<le> d" and "d < addMonths s (int n)"
  shows "\<exists>i < n. periodCovers b d (generatedPeriod e b y s i)"
  using assms(4)
proof (induction n)
  case 0
  then show ?case using assms(1,3) by (simp add: addMonths_0)
next
  case (Suc n)
  show ?case
  proof (cases "d < addMonths s (int n)")
    case True
    with Suc.IH show ?thesis by (auto intro: less_SucI)
  next
    case False
    then have "periodCovers b d (generatedPeriod e b y s n)"
      using Suc.prems assms by (simp add: periodCovers_def le_prevDay_iff validDate_addMonths add.commute)
    then show ?thesis by blast
  qed
qed

definition bookDatesOk :: "accounting_book \<Rightarrow> bool" where
  "bookDatesOk b \<longleftrightarrow>
     1 \<le> bk_fiscalYearStartMonth b \<and> bk_fiscalYearStartMonth b \<le> 12 \<and>
     1 \<le> bk_fiscalYearStartDay b \<and> bk_fiscalYearStartDay b \<le> 31"

abbreviation startOf :: "accounting_book \<Rightarrow> int \<Rightarrow> date" where
  "startOf book y \<equiv> fiscalYearStartDate y (bk_fiscalYearStartMonth book) (bk_fiscalYearStartDay book)"

lemma startOf_valid: "bookDatesOk book \<Longrightarrow> validDate (startOf book y)"
  by (simp add: bookDatesOk_def validDate_fiscalYearStartDate)

text \<open>What a call that returns has done: the missing months were inserted, then one audit event.\<close>

lemma generateFiscalYear_Inr:
  assumes "generateFiscalYear e i L = Inr ((n, ps), L')"
  obtains book L1 created where
    "generateInputOk i" "find (\<lambda>b. bk_id b = gi_accountingBookId i) (accounting_books L) = Some book"
    "insertPeriods (map (generatedPeriod e (gi_accountingBookId i) (gi_fiscalYear i) (startOf book (gi_fiscalYear i)))
        [0..<nat (gi_periodCount i)]) L = Inr (L1, created)"
    "ps = periodsOfYear L1 (gi_accountingBookId i) (gi_fiscalYear i)" "n = length created"
    "fiscal_periods L' = fiscal_periods L1"
    "L' = L1\<lparr>audit_events := audit_events L'\<rparr>"
proof (cases "find (\<lambda>b. bk_id b = gi_accountingBookId i) (accounting_books L)")
  case None
  with assms show ?thesis by (auto simp: generateFiscalYear_def)
next
  case (Some book)
  let ?rows = "map (generatedPeriod e (gi_accountingBookId i) (gi_fiscalYear i)
    (startOf book (gi_fiscalYear i))) [0..<nat (gi_periodCount i)]"
  show ?thesis
  proof (cases "insertPeriods ?rows L")
    case (Inl err)
    with assms Some show ?thesis by (auto simp: generateFiscalYear_def Let_def)
  next
    case (Inr x)
    then obtain L1 created where x: "insertPeriods ?rows L = Inr (L1, created)" by (cases x) auto
    show ?thesis
      by (rule that [OF _ Some x])
        (use assms Some x in \<open>auto simp: generateFiscalYear_def Let_def split: if_splits\<close>)
  qed
qed

lemma generateFiscalYear_frame:
  assumes "generateFiscalYear e i L = Inr (r, L')"
  shows "\<exists>qs. L' = L\<lparr>fiscal_periods := fiscal_periods L @ qs, audit_events := audit_events L'\<rparr> \<and>
     (\<forall>q \<in> set qs. fp_status q = Open)"
proof -
  obtain n ps where r: "r = (n, ps)" by fastforce
  from assms [unfolded r] show ?thesis
  proof (rule generateFiscalYear_Inr)
    fix book L1 created
    assume ins: "insertPeriods (map (generatedPeriod e (gi_accountingBookId i) (gi_fiscalYear i)
        (startOf book (gi_fiscalYear i))) [0..<nat (gi_periodCount i)]) L = Inr (L1, created)"
      and log: "L' = L1\<lparr>audit_events := audit_events L'\<rparr>"
    obtain qs where qs: "set qs \<subseteq> set (map (generatedPeriod e (gi_accountingBookId i) (gi_fiscalYear i)
        (startOf book (gi_fiscalYear i))) [0..<nat (gi_periodCount i)])"
      "L1 = L\<lparr>fiscal_periods := fiscal_periods L @ qs\<rparr>"
      using insertPeriods_frame [OF ins] by blast
    then have "\<forall>q \<in> set qs. fp_status q = Open" by auto
    with log qs(2) show ?thesis by (intro exI [of _ qs]) simp
  qed
qed

lemma generateFiscalYear_ok:
  assumes "generateFiscalYear e i L = Inr (r, L')" and "periods_ok (fiscal_periods L)"
  shows "periods_ok (fiscal_periods L')"
proof -
  obtain n ps where r: "r = (n, ps)" by fastforce
  from assms(1) [unfolded r] show ?thesis
    by (rule generateFiscalYear_Inr) (use assms(2) insertPeriods_ok in simp)
qed

section \<open>Status lemmas\<close>

lemma applyStatus_simps [simp]:
  "fp_id (applyStatus e st c n p) = fp_id p"
  "fp_accountingBookId (applyStatus e st c n p) = fp_accountingBookId p"
  "fp_periodCode (applyStatus e st c n p) = fp_periodCode p"
  "fp_fiscalYear (applyStatus e st c n p) = fp_fiscalYear p"
  "fp_sequence (applyStatus e st c n p) = fp_sequence p"
  "fp_startsOn (applyStatus e st c n p) = fp_startsOn p"
  "fp_endsOn (applyStatus e st c n p) = fp_endsOn p"
  "fp_status (applyStatus e st c n p) = st"
  by (simp_all add: applyStatus_def)

lemma setStatus_Inr:
  assumes "setStatus e i L = Inr (p', L')"
  obtains (same) p where "find (\<lambda>p. fp_id p = ss_fiscalPeriodId i) (fiscal_periods L) = Some p"
      "fp_status p = ss_status i" "p' = p" "L' = L"
  | (changed) p c n where "find (\<lambda>p. fp_id p = ss_fiscalPeriodId i) (fiscal_periods L) = Some p"
      "fp_status p \<noteq> ss_status i" "fp_status p \<noteq> Locked" "p' = applyStatus e (ss_status i) c n p"
      "L' = L\<lparr>fiscal_periods := updateWhere (\<lambda>q. fp_id q = ss_fiscalPeriodId i)
                (applyStatus e (ss_status i) c n) (fiscal_periods L),
              audit_events := audit_events L'\<rparr>"
proof (cases "find (\<lambda>p. fp_id p = ss_fiscalPeriodId i) (fiscal_periods L)")
  case None
  with assms show ?thesis by (auto simp: setStatus_def loadPeriod_def)
next
  case (Some p)
  have pid: "fp_id p = ss_fiscalPeriodId i" using find_SomeD [OF Some] by simp
  show ?thesis
  proof (cases "fp_status p = ss_status i")
    case True
    with Some assms show ?thesis
      by (intro same [of p]) (auto simp: setStatus_def loadPeriod_def)
  next
    case False
    then obtain c n where
      "fp_status p \<noteq> Locked" "p' = applyStatus e (ss_status i) c n p"
      "L' = L\<lparr>fiscal_periods := updateWhere (\<lambda>q. fp_id q = ss_fiscalPeriodId i)
                (applyStatus e (ss_status i) c n) (fiscal_periods L),
              audit_events := audit_events L'\<rparr>"
      using assms Some
      by (auto simp: setStatus_def loadPeriod_def Let_def pid find_updateWhere_key split: if_splits)
    then show ?thesis using Some False by (rule_tac changed [of p c n]) auto
  qed
qed

lemma periods_ok_map:
  assumes "periods_ok ps"
    and g: "\<And>q. fp_id (g q) = fp_id q" "\<And>q. fp_accountingBookId (g q) = fp_accountingBookId q"
      "\<And>q. fp_fiscalYear (g q) = fp_fiscalYear q" "\<And>q. fp_sequence (g q) = fp_sequence q"
      "\<And>q. fp_startsOn (g q) = fp_startsOn q" "\<And>q. fp_endsOn (g q) = fp_endsOn q"
  shows "periods_ok (map g ps)"
proof -
  have "periodsOverlap (g p) (g q) = periodsOverlap p q" for p q by (simp add: periodsOverlap_def g)
  then show ?thesis using assms(1) by (auto simp: periods_ok_def o_def g list_all_iff)
qed

lemma updateStatus_ok:
  "periods_ok ps \<Longrightarrow> periods_ok (updateWhere (\<lambda>q. fp_id q = i) (applyStatus e st c n) ps)"
  unfolding updateWhere_def by (rule periods_ok_map) auto

lemma setStatus_ok:
  assumes "setStatus e i L = Inr (p', L')" and "periods_ok (fiscal_periods L)"
  shows "periods_ok (fiscal_periods L')"
  using assms(1)
proof (cases rule: setStatus_Inr)
  case same
  with assms(2) show ?thesis by simp
next
  case (changed p c n)
  from changed(5) have "fiscal_periods L' = updateWhere (\<lambda>q. fp_id q = ss_fiscalPeriodId i)
      (applyStatus e (ss_status i) c n) (fiscal_periods L)"
    by (rule ssubst) simp
  with assms(2) show ?thesis by (simp add: updateStatus_ok)
qed

lemma fiscal_start_next:
  assumes "bookDatesOk book"
    and "\<not> (bk_fiscalYearStartMonth book = 2 \<and> 28 < bk_fiscalYearStartDay book \<and> leapYear (y + 1))"
  shows "addMonths (startOf book y) 12 = startOf book (y + 1)"
proof -
  let ?m = "bk_fiscalYearStartMonth book" and ?d = "bk_fiscalYearStartDay book"
  have "min (min ?d (daysInMonth y ?m)) (daysInMonth (y + 1) ?m) = min ?d (daysInMonth (y + 1) ?m)"
  proof (cases "?m = 2")
    case True
    with assms(2) show ?thesis using daysInMonth_bounds(1) [of y 2] by (auto simp: daysInMonth_def)
  next
    case False
    then show ?thesis by (simp add: daysInMonth_year [of ?m y "y + 1"])
  qed
  then show ?thesis
    using assms(1) by (simp add: fiscalYearStartDate_def bookDatesOk_def addMonths_year)
qed

lemma fiscalYearFor_range:
  assumes "fiscalYearFor d m sd = y"
  shows "fiscalYearStartDate y m sd \<le> d \<and> d < fiscalYearStartDate (y + 1) m sd"
proof (cases "fiscalYearStartDate (year d) m sd \<le> d")
  case True
  then have "y = year d" using assms by (simp add: fiscalYearFor_def)
  with True show ?thesis by (simp add: fiscalYearStartDate_def less_date_def)
next
  case False
  then have "y + 1 = year d" using assms by (simp add: fiscalYearFor_def)
  moreover have "fiscalYearStartDate y m sd \<le> d"
    using calculation by (auto simp: fiscalYearStartDate_def less_eq_date_def less_date_def)
  ultimately show ?thesis using False by (simp add: not_le)
qed

text \<open>Identifiers that the database has not used for an audit event or a period.\<close>

definition freshFor :: "env \<Rightarrow> nat \<Rightarrow> ledger \<Rightarrow> bool" where
  "freshFor e n L \<longleftrightarrow>
     distinct (map (uuidAt e) [0..<n]) \<and>
     list_all (\<lambda>k. \<not> List.member (map ae_id (audit_events L)) (uuidAt e k) \<and>
       \<not> List.member (map fp_id (fiscal_periods L)) (uuidAt e k)) [0..<n]"

lemma freshForD:
  assumes "freshFor e n L" and "k < n"
  shows "uuidAt e k \<notin> ae_id ` set (audit_events L)" and "uuidAt e k \<notin> fp_id ` set (fiscal_periods L)"
  using assms by (auto simp: freshFor_def list_all_iff List.member_iff)

lemma freshFor_inj: "freshFor e n L \<Longrightarrow> inj_on (uuidAt e) {0..<n}"
  by (auto simp: freshFor_def distinct_map)

lemma sameSlot_generated: "sameSlot (generatedPeriod e b y s k) = sameSlot (generatedPeriod e' b y s k)"
  by (simp add: sameSlot_def fun_eq_iff)

definition sampleYear :: generate_input where
  "sampleYear = \<lparr>gi_accountingBookId = ''b'', gi_fiscalYear = 2026, gi_periodCount = 12,
     gi_actorUserId = None, gi_requestId = None\<rparr>"

definition samplePeriod :: "string \<Rightarrow> period_status \<Rightarrow> fiscal_period" where
  "samplePeriod i st = \<lparr>fp_id = i, fp_accountingBookId = ''b'', fp_periodCode = i, fp_fiscalYear = 2026,
     fp_sequence = (if i = ''p1'' then 1 else 2),
     fp_startsOn = (if i = ''p1'' then Date 2026 1 1 else Date 2026 2 1),
     fp_endsOn = (if i = ''p1'' then Date 2026 1 31 else Date 2026 2 28), fp_status = st,
     fp_closedAt = None, fp_closedByUserId = None, fp_note = None\<rparr>"

section \<open>Properties\<close>

text \<open>C29. Generating a fiscal year for a book that has no period yet returns (given fresh
  identifiers): it creates the requested number of months, and every date from the fiscal
  year's start up to the end of the last month lies in exactly one period of the book, which
  \<open>requirePeriod\<close> then finds. This holds for every start day, the 29th to the 31st included.\<close>

theorem generateFiscalYear_tiles:
  assumes i: "generateInputOk i"
    and book: "find (\<lambda>b. bk_id b = gi_accountingBookId i) (accounting_books L) = Some book"
    and ok: "bookDatesOk book"
    and none: "\<forall>p \<in> set (fiscal_periods L). fp_accountingBookId p \<noteq> gi_accountingBookId i"
    and fresh: "freshFor e (Suc (nat (gi_periodCount i))) L"
    and periods: "periods_ok (fiscal_periods L)"
  shows "\<exists>ps L'. generateFiscalYear e i L = Inr ((nat (gi_periodCount i), ps), L') \<and>
     (\<forall>d. validDate d \<and> startOf book (gi_fiscalYear i) \<le> d \<and>
          d < addMonths (startOf book (gi_fiscalYear i)) (gi_periodCount i) \<longrightarrow>
        (\<exists>!p. p \<in> set (fiscal_periods L') \<and> periodCovers (gi_accountingBookId i) d p) \<and>
        (\<exists>p. requirePeriod L' (gi_accountingBookId i) d = Inr p))"
proof -
  let ?b = "gi_accountingBookId i" and ?s = "startOf book (gi_fiscalYear i)" and ?n = "nat (gi_periodCount i)"
  let ?rows = "map (generatedPeriod e ?b (gi_fiscalYear i) ?s) [0..<?n]"
  let ?L1 = "L\<lparr>fiscal_periods := fiscal_periods L @ ?rows\<rparr>"
  note s = startOf_valid [OF ok, of "gi_fiscalYear i"]
  have n: "int ?n = gi_periodCount i" "?n \<noteq> 0" using i by (auto simp: generateInputOk_def)
  have inj: "inj_on (uuidAt e) {1..?n}"
    by (rule inj_on_subset [OF freshFor_inj [OF fresh]]) auto
  have freshId: "uuidAt e (Suc k) \<noteq> fp_id q" if "k < ?n" "q \<in> set (fiscal_periods L)" for k q
    using freshForD(2) [OF fresh, of "Suc k"] that by auto
  have exists: "bookExists L ?b"
    using find_SomeD [OF book] by (auto simp: bookExists_def list_ex_iff)
  have ins: "insertPeriods ?rows L = Inr (?L1, map fp_id ?rows)"
    by (rule insertPeriods_all_new [OF generated_sorted [OF s inj]])
      (use exists generatedPeriod_nonempty [OF s] none freshId in
        \<open>auto simp: periodClash_def sameSlot_def periodsOverlap_def\<close>)
  then have pok: "periods_ok (fiscal_periods ?L1)"
    using insertPeriods_ok periods by blast
  obtain ps L' where g: "generateFiscalYear e i L = Inr ((?n, ps), L')"
    and L': "fiscal_periods L' = fiscal_periods ?L1"
    using i book ins freshForD(1) [OF fresh, of 0] n(2)
    by (auto simp: generateFiscalYear_def Let_def)
  have "\<exists>!p. p \<in> set (fiscal_periods L') \<and> periodCovers ?b d p"
    and "\<exists>p. requirePeriod L' ?b d = Inr p"
    if d: "validDate d" "?s \<le> d" "d < addMonths ?s (gi_periodCount i)" for d
  proof -
    obtain k where k: "k < ?n" "periodCovers ?b d (generatedPeriod e ?b (gi_fiscalYear i) ?s k)"
      using generated_cover [OF s d(1,2), of ?n ?b e "gi_fiscalYear i"] d(3) n(1) by auto
    let ?p = "generatedPeriod e ?b (gi_fiscalYear i) ?s k"
    have p: "?p \<in> set (fiscal_periods L')" "periodCovers ?b d ?p" using k by (simp_all add: L')
    moreover have "q = ?p" if "q \<in> set (fiscal_periods L')" "periodCovers ?b d q" for q
      using find_covers_unique pok L' p that by (metis option.inject)
    ultimately show "\<exists>!p. p \<in> set (fiscal_periods L') \<and> periodCovers ?b d p" by blast
    have "resolvePeriod L' ?b d = Inr (Some ?p)"
      using resolvePeriod_Some [of L' ?b d ?p] pok L' p by simp
    then show "\<exists>p. requirePeriod L' ?b d = Inr p" by (simp add: requirePeriod_def)
  qed
  with g show ?thesis by blast
qed

theorem generateFiscalYear_tiles_witness:
  "\<exists>ps L'. generateFiscalYear (sampleEnv ''p'') sampleYear (emptyLedger\<lparr>accounting_books := [sampleBook]\<rparr>) =
      Inr ((12, ps), L') \<and>
    (\<exists>!p. p \<in> set (fiscal_periods L') \<and> periodCovers ''b'' (Date 2026 2 28) p)"
proof -
  let ?L = "emptyLedger\<lparr>accounting_books := [sampleBook]\<rparr>"
  have a: "generateInputOk sampleYear"
    "find (\<lambda>b. bk_id b = gi_accountingBookId sampleYear) (accounting_books ?L) = Some sampleBook"
    "bookDatesOk sampleBook" "\<forall>p \<in> set (fiscal_periods ?L). fp_accountingBookId p \<noteq> gi_accountingBookId sampleYear"
    "freshFor (sampleEnv ''p'') (Suc (nat (gi_periodCount sampleYear))) ?L" "periods_ok (fiscal_periods ?L)"
    by code_simp+
  have d: "validDate (Date 2026 2 28)" "startOf sampleBook (gi_fiscalYear sampleYear) \<le> Date 2026 2 28"
    "Date 2026 2 28 < addMonths (startOf sampleBook (gi_fiscalYear sampleYear)) (gi_periodCount sampleYear)"
    "nat (gi_periodCount sampleYear) = 12" "gi_accountingBookId sampleYear = ''b''"
    by code_simp+
  show ?thesis using generateFiscalYear_tiles [OF a] d by auto
qed

text \<open>C30. Generating the same fiscal year again creates nothing, returns the same periods and
  leaves the database as it is.\<close>

theorem generateFiscalYear_idempotent:
  assumes "generateFiscalYear e i L = Inr ((n, ps), L')"
  shows "generateFiscalYear e' i L' = Inr ((0, ps), L')"
  using assms
proof (rule generateFiscalYear_Inr)
  fix book L1 created
  let ?rows = "\<lambda>e. map (generatedPeriod e (gi_accountingBookId i) (gi_fiscalYear i)
    (startOf book (gi_fiscalYear i))) [0..<nat (gi_periodCount i)]"
  assume ok: "generateInputOk i"
    and book: "find (\<lambda>b. bk_id b = gi_accountingBookId i) (accounting_books L) = Some book"
    and ins: "insertPeriods (?rows e) L = Inr (L1, created)"
    and ps: "ps = periodsOfYear L1 (gi_accountingBookId i) (gi_fiscalYear i)"
    and fp: "fiscal_periods L' = fiscal_periods L1"
    and L': "L' = L1\<lparr>audit_events := audit_events L'\<rparr>"
  have "accounting_books L1 = accounting_books L" using insertPeriods_frame [OF ins] by auto
  then have books: "accounting_books L' = accounting_books L" by (subst L') simp
  have "\<forall>p \<in> set (?rows e'). fp_startsOn p \<le> fp_endsOn p \<and> list_ex (sameSlot p) (fiscal_periods L')"
  proof
    fix p assume "p \<in> set (?rows e')"
    then obtain k where "k < nat (gi_periodCount i)"
      and p: "p = generatedPeriod e' (gi_accountingBookId i) (gi_fiscalYear i) (startOf book (gi_fiscalYear i)) k" by auto
    let ?q = "generatedPeriod e (gi_accountingBookId i) (gi_fiscalYear i) (startOf book (gi_fiscalYear i)) k"
    have "?q \<in> set (?rows e)" using \<open>k < nat (gi_periodCount i)\<close> by simp
    then have "list_ex (sameSlot ?q) (fiscal_periods L1)" "fp_startsOn ?q \<le> fp_endsOn ?q"
      using insertPeriods_slots [OF ins] insertPeriods_range [OF ins] by blast+
    then show "fp_startsOn p \<le> fp_endsOn p \<and> list_ex (sameSlot p) (fiscal_periods L')"
      by (simp add: p fp sameSlot_generated [of e' _ _ _ _ e])
  qed
  then have "insertPeriods (?rows e') L' = Inr (L', [])" by (rule insertPeriods_present)
  then show ?thesis
    using ok book books ps fp by (simp add: generateFiscalYear_def periodsOfYear_def)
qed

theorem generateFiscalYear_idempotent_witness:
  "\<exists>n ps L'. generateFiscalYear (sampleEnv ''p'') (sampleYear\<lparr>gi_periodCount := 2\<rparr>) (emptyLedger\<lparr>accounting_books := [sampleBook]\<rparr>) =
      Inr ((n, ps), L') \<and> generateFiscalYear (sampleEnv ''q'') (sampleYear\<lparr>gi_periodCount := 2\<rparr>) L' = Inr ((0, ps), L')"
proof -
  let ?r = "generateFiscalYear (sampleEnv ''p'') (sampleYear\<lparr>gi_periodCount := 2\<rparr>) (emptyLedger\<lparr>accounting_books := [sampleBook]\<rparr>)"
  have "isl ?r = False" by code_simp
  then obtain n ps L' where r: "?r = Inr ((n, ps), L')" by (cases ?r) auto
  show ?thesis using generateFiscalYear_idempotent [OF r] r by blast
qed





end
