(* ===== verification/Chart.thy ===== *)
theory Chart
  imports Periods Currency
begin

text \<open>
  \<^verbatim>\<open>packages/accounting/src/chart.ts\<close>: a book's chart of accounts, seeded from a template and
  edited by the operator. \<open>insertAccount\<close> and \<open>updateAccountRow\<close> are the table's writes with its
  keys; \<open>seedLoop\<close> is the loop of \<^verbatim>\<open>seed\<close> over the ordered template with its
  \<^verbatim>\<open>byCode\<close> map kept as an association list in insertion order. A call draws \<open>uuidAt 0\<close>
  for its audit event and later identifiers for the rows it inserts. The collation order of
  the list \<^verbatim>\<open>seedDefaultChart\<close> returns is not modelled; its rows are.
\<close>

section \<open>Normal balance\<close>

datatype balance_side = DebitSide | CreditSide

definition normalBalanceOf :: "account_type \<Rightarrow> bool \<Rightarrow> balance_side" where
  "normalBalanceOf accountType isContra =
     (let natural = (if accountType = Asset \<or> accountType = Expense then DebitSide else CreditSide) in
      if \<not> isContra then natural
      else if natural = DebitSide then CreditSide else DebitSide)"

section \<open>Writes\<close>

definition accountClash :: "ledger_account \<Rightarrow> ledger_account \<Rightarrow> bool" where
  "accountClash r x \<longleftrightarrow>
     la_id x = la_id r \<or>
     (la_accountingBookId x = la_accountingBookId r \<and>
       (la_code x = la_code r \<or> (la_systemKey r \<noteq> None \<and> la_systemKey x = la_systemKey r)))"

definition accountForeignKeys :: "ledger \<Rightarrow> ledger_account \<Rightarrow> bool" where
  "accountForeignKeys L r \<longleftrightarrow>
     bookExists L (la_accountingBookId r) \<and>
     (case la_parentAccountId r of None \<Rightarrow> True
      | Some p \<Rightarrow> list_ex (\<lambda>x. la_id x = p \<and> la_accountingBookId x = la_accountingBookId r) (ledger_accounts L))"

definition insertAccount :: "ledger_account \<Rightarrow> ledger \<Rightarrow> ledger acc" where
  "insertAccount r L =
     bindE (assertE (la_parentAccountId r \<noteq> Some (la_id r)) (DatabaseError CheckViolation)) (\<lambda>_.
     bindE (assertE (\<not> list_ex (accountClash r) (ledger_accounts L)) (DatabaseError UniqueViolation)) (\<lambda>_.
     bindE (assertE (accountForeignKeys L r) (DatabaseError ForeignKeyViolation)) (\<lambda>_.
       Inr (L\<lparr>ledger_accounts := ledger_accounts L @ [r]\<rparr>))))"

definition updateAccountRow :: "uuid \<Rightarrow> (ledger_account \<Rightarrow> ledger_account) \<Rightarrow> ledger \<Rightarrow> ledger acc" where
  "updateAccountRow i f L =
     (case find (\<lambda>r. la_id r = i) (ledger_accounts L) of
        None \<Rightarrow> Inr L
      | Some old \<Rightarrow>
          bindE (assertE (la_parentAccountId (f old) \<noteq> Some (la_id (f old))) (DatabaseError CheckViolation)) (\<lambda>_.
          bindE (assertE (\<not> list_ex (\<lambda>x. la_id x \<noteq> i \<and> accountClash (f old) x) (ledger_accounts L))
            (DatabaseError UniqueViolation)) (\<lambda>_.
          bindE (assertE (accountForeignKeys L (f old)) (DatabaseError ForeignKeyViolation)) (\<lambda>_.
            Inr (L\<lparr>ledger_accounts := updateWhere (\<lambda>r. la_id r = i) f (ledger_accounts L)\<rparr>)))))"

definition loadAccount :: "ledger \<Rightarrow> uuid \<Rightarrow> ledger_account acc" where
  "loadAccount L i =
     fromOption AccountingNotFoundError (find (\<lambda>a. la_id a = i) (ledger_accounts L))"

definition assertBookExists :: "ledger \<Rightarrow> uuid \<Rightarrow> unit acc" where
  "assertBookExists L b = assertE (bookExists L b) AccountingNotFoundError"

section \<open>Seeding\<close>

record chart_template_account =
  ct_code :: string
  ct_name :: string
  ct_accountType :: account_type
  ct_accountSubtype :: "string option"
  ct_systemKey :: "string option"
  ct_parentCode :: "string option"
  ct_isPostable :: "bool option"
  ct_isContra :: "bool option"
  ct_description :: "string option"

definition boolOr :: "bool \<Rightarrow> bool option \<Rightarrow> bool" where
  "boolOr d b = (case b of None \<Rightarrow> d | Some x \<Rightarrow> x)"

definition templateRow :: "uuid \<Rightarrow> uuid \<Rightarrow> uuid option \<Rightarrow> chart_template_account \<Rightarrow> ledger_account" where
  "templateRow newId b parent a =
     \<lparr>la_id = newId, la_accountingBookId = b, la_code = ct_code a, la_name = ct_name a,
      la_accountType = ct_accountType a, la_accountSubtype = ct_accountSubtype a,
      la_parentAccountId = parent, la_isPostable = boolOr True (ct_isPostable a),
      la_isContra = boolOr False (ct_isContra a), la_systemKey = ct_systemKey a,
      la_currency = None, la_description = ct_description a, la_status = Active\<rparr>"

fun seedLoop ::
  "env \<Rightarrow> uuid \<Rightarrow> nat \<Rightarrow> chart_template_account list \<Rightarrow> (string \<times> ledger_account) list \<Rightarrow> ledger \<Rightarrow>
   ((string \<times> ledger_account) list \<times> ledger) acc" where
  "seedLoop e b k [] byCode L = Inr (byCode, L)"
| "seedLoop e b k (a # as) byCode L =
     (if map_of byCode (ct_code a) \<noteq> None then seedLoop e b (Suc k) as byCode L
      else
        let parent = (case ct_parentCode a of None \<Rightarrow> None | Some c \<Rightarrow> map_of byCode c) in
        if ct_parentCode a \<noteq> None \<and> parent = None then Inl AccountingValidationError
        else
          let row = templateRow (uuidAt e k) b (map_option la_id parent) a in
          bindE (insertAccount row L) (\<lambda>L1. seedLoop e b (Suc k) as (byCode @ [(la_code row, row)]) L1))"

definition orderedTemplate :: "chart_template_account list \<Rightarrow> chart_template_account list" where
  "orderedTemplate t =
     filter (\<lambda>a. ct_parentCode a = None) t @ filter (\<lambda>a. ct_parentCode a \<noteq> None) t"

definition bookAccounts :: "ledger \<Rightarrow> uuid \<Rightarrow> ledger_account list" where
  "bookAccounts L b = filter (\<lambda>a. la_accountingBookId a = b) (ledger_accounts L)"

definition seed :: "env \<Rightarrow> uuid \<Rightarrow> chart_template_account list \<Rightarrow> ledger \<Rightarrow> (ledger_account list \<times> ledger) acc" where
  "seed e b t L =
     bindE (seedLoop e b 1 (orderedTemplate t) (map (\<lambda>r. (la_code r, r)) (bookAccounts L b)) L) (\<lambda>(byCode, L1).
       Inr (map snd byCode, L1))"

definition seedDefaultChart ::
  "env \<Rightarrow> uuid \<Rightarrow> chart_template_account list \<Rightarrow> string option \<Rightarrow> string option \<Rightarrow> ledger \<Rightarrow>
   (ledger_account list \<times> ledger) acc" where
  "seedDefaultChart e b t actor requestId L =
     bindE (assertBookExists L b) (\<lambda>_.
     let before = bookAccounts L b in
     bindE (seed e b t L) (\<lambda>(rows, L1).
       if length before < length rows then
         bindE (appendAudit e 0
           (auditInput actor ''accounting.chart.seeded'' ''accounting_book'' b None
              (Some (JObj [(''accountCount'', JNum (int (length rows)))])) requestId
              (Some (JObj [(''created'', JNum (int (length rows) - int (length before)))]))) L1) (\<lambda>L2.
         Inr (rows, L2))
       else Inr (rows, L1)))"

section \<open>Operator edits\<close>

definition LEDGER_SYSTEM_KEYS :: "string list" where
  "LEDGER_SYSTEM_KEYS =
     [''marketplace_clearing'', ''undeposited_funds'', ''inventory'', ''sales_tax_payable'',
      ''facilitator_tax_clearing'', ''sales_revenue'', ''sales_returns'', ''shipping_income'',
      ''buyer_fee_income'', ''cogs'', ''marketplace_fees'', ''payment_processing_fees'',
      ''shipping_expense'', ''fx_gain_loss'', ''opening_balance_equity'', ''suspense'']"

text \<open>\<^verbatim>\<open>z.string().trim().min(1)\<close>, plain and nullish.\<close>

definition trimMin :: "string \<Rightarrow> string acc" where
  "trimMin s = (if js_trim s = [] then Inl AccountingValidationError else Inr (js_trim s))"

fun trimMinOpt :: "string option \<Rightarrow> string option acc" where
  "trimMinOpt None = Inr None"
| "trimMinOpt (Some s) = bindE (trimMin s) (\<lambda>t. Inr (Some t))"

definition isAlpha3 :: "string \<Rightarrow> bool" where
  "isAlpha3 s \<longleftrightarrow> length s = 3 \<and> list_all (\<lambda>c. isUpper (upperChar c)) s"

record create_account_input =
  ca_accountingBookId :: uuid
  ca_code :: string
  ca_name :: string
  ca_accountType :: account_type
  ca_accountSubtype :: "string option"
  ca_systemKey :: "string option"
  ca_parentAccountId :: "uuid option"
  ca_isPostable :: bool
  ca_isContra :: bool
  ca_currency :: "string option"
  ca_description :: "string option"
  ca_actorUserId :: "string option"
  ca_requestId :: "string option"

definition parseCreateAccount :: "create_account_input \<Rightarrow> create_account_input acc" where
  "parseCreateAccount i =
     bindE (trimMin (ca_code i)) (\<lambda>code.
     bindE (trimMin (ca_name i)) (\<lambda>name.
     bindE (trimMinOpt (ca_accountSubtype i)) (\<lambda>subtype.
     bindE (assertE (case ca_systemKey i of None \<Rightarrow> True | Some k \<Rightarrow> List.member LEDGER_SYSTEM_KEYS k)
       AccountingValidationError) (\<lambda>_.
     bindE (assertE (case ca_currency i of None \<Rightarrow> True | Some c \<Rightarrow> isAlpha3 c) AccountingValidationError) (\<lambda>_.
     bindE (trimMinOpt (ca_description i)) (\<lambda>description.
     bindE (assertE (minOne (ca_actorUserId i) \<and> minOne (ca_requestId i)) AccountingValidationError) (\<lambda>_.
       Inr (i\<lparr>ca_code := code, ca_name := name, ca_accountSubtype := subtype, ca_description := description\<rparr>))))))))"

definition createAccount :: "env \<Rightarrow> create_account_input \<Rightarrow> ledger \<Rightarrow> (ledger_account \<times> ledger) acc" where
  "createAccount e input L =
     bindE (parseCreateAccount input) (\<lambda>v.
     bindE (assertBookExists L (ca_accountingBookId v)) (\<lambda>_.
     bindE (case ca_parentAccountId v of None \<Rightarrow> Inr ()
            | Some p \<Rightarrow> bindE (loadAccount L p) (\<lambda>parent.
                assertE (la_accountingBookId parent = ca_accountingBookId v) AccountingValidationError)) (\<lambda>_.
     let row = \<lparr>la_id = uuidAt e 1, la_accountingBookId = ca_accountingBookId v, la_code = ca_code v,
           la_name = ca_name v, la_accountType = ca_accountType v, la_accountSubtype = ca_accountSubtype v,
           la_parentAccountId = ca_parentAccountId v, la_isPostable = ca_isPostable v,
           la_isContra = ca_isContra v, la_systemKey = ca_systemKey v,
           la_currency = map_option toUpperCase (ca_currency v), la_description = ca_description v,
           la_status = Active\<rparr>
     in bindE (insertAccount row L) (\<lambda>L1.
        bindE (appendAudit e 0
          (auditInput (ca_actorUserId v) ''accounting.account.created'' ''ledger_account'' (la_id row) None
             (Some (JObj [(''accountingBookId'', JStr (la_accountingBookId row)), (''code'', JStr (la_code row)),
                (''name'', JStr (la_name row)), (''accountType'', JStr (accountTypeText (la_accountType row))),
                (''systemKey'', jstro (la_systemKey row))]))
             (ca_requestId v) None) L1) (\<lambda>L2.
        Inr (row, L2))))))"

record update_account_input =
  ua_ledgerAccountId :: uuid
  ua_code :: "string option"
  ua_name :: "string option"
  ua_accountSubtype :: "string nullish"
  ua_parentAccountId :: "uuid nullish"
  ua_isPostable :: "bool option"
  ua_description :: "string nullish"
  ua_actorUserId :: "string option"
  ua_requestId :: "string option"

definition parseUpdateAccount :: "update_account_input \<Rightarrow> update_account_input acc" where
  "parseUpdateAccount i =
     bindE (trimMinOpt (ua_code i)) (\<lambda>code.
     bindE (trimMinOpt (ua_name i)) (\<lambda>name.
     bindE (trimNote (ua_accountSubtype i)) (\<lambda>subtype.
     bindE (trimNote (ua_description i)) (\<lambda>description.
     bindE (assertE (minOne (ua_actorUserId i) \<and> minOne (ua_requestId i)) AccountingValidationError) (\<lambda>_.
       Inr (i\<lparr>ua_code := code, ua_name := name, ua_accountSubtype := subtype, ua_description := description\<rparr>))))))"

definition accountUpdate :: "update_account_input \<Rightarrow> ledger_account \<Rightarrow> ledger_account" where
  "accountUpdate v a =
     a\<lparr>la_code := (case ua_code v of None \<Rightarrow> la_code a | Some c \<Rightarrow> c),
       la_name := (case ua_name v of None \<Rightarrow> la_name a | Some n \<Rightarrow> n),
       la_accountSubtype := nullishOr (la_accountSubtype a) (ua_accountSubtype v),
       la_description := nullishOr (la_description a) (ua_description v),
       la_parentAccountId := nullishOr (la_parentAccountId a) (ua_parentAccountId v),
       la_isPostable := boolOr (la_isPostable a) (ua_isPostable v)\<rparr>"

definition accountJson :: "ledger_account \<Rightarrow> json" where
  "accountJson a = JObj [(''code'', JStr (la_code a)), (''name'', JStr (la_name a)),
     (''parentAccountId'', jstro (la_parentAccountId a)), (''isPostable'', JBool (la_isPostable a))]"

definition updateAccount :: "env \<Rightarrow> update_account_input \<Rightarrow> ledger \<Rightarrow> (ledger_account \<times> ledger) acc" where
  "updateAccount e input L =
     bindE (parseUpdateAccount input) (\<lambda>v.
     bindE (loadAccount L (ua_ledgerAccountId v)) (\<lambda>before.
     bindE (textLiteralOpt (ua_code v)) (\<lambda>_.
     bindE (textLiteralOpt (ua_name v)) (\<lambda>_.
     bindE (noteLiteral (ua_accountSubtype v)) (\<lambda>_.
     bindE (noteLiteral (ua_description v)) (\<lambda>_.
     bindE (case ua_parentAccountId v of
              Val p \<Rightarrow> bindE (loadAccount L p) (\<lambda>parent.
                assertE (la_accountingBookId parent = la_accountingBookId before) AccountingValidationError)
            | _ \<Rightarrow> Inr ()) (\<lambda>_.
     bindE (assertE (ua_isPostable v = Some False \<longrightarrow>
         \<not> list_ex (\<lambda>l. jl_ledgerAccountId l = la_id before) (journal_lines L)) AccountingValidationError) (\<lambda>_.
     bindE (updateAccountRow (la_id before) (accountUpdate v) L) (\<lambda>L1.
     bindE (loadAccount L1 (la_id before)) (\<lambda>after.
     bindE (appendAudit e 0
       (auditInput (ua_actorUserId v) ''accounting.account.updated'' ''ledger_account'' (la_id before)
          (Some (accountJson before)) (Some (accountJson after)) (ua_requestId v)
          (Some (JObj [(''immutable'', JStr ''account_type, system_key''),
             (''systemKey'', jstro (la_systemKey before))]))) L1) (\<lambda>L2.
     Inr (after, L2))))))))))))"

definition changeAccountStatus ::
  "env \<Rightarrow> active_status \<Rightarrow> string \<Rightarrow> json \<Rightarrow> ledger_account \<Rightarrow> string option \<Rightarrow> string option \<Rightarrow> ledger \<Rightarrow>
   (ledger_account \<times> ledger) acc" where
  "changeAccountStatus e st action metadata before actor requestId L =
     (if la_status before = st then Inr (before, L)
      else
        bindE (updateAccountRow (la_id before) (la_status_update (\<lambda>_. st)) L) (\<lambda>L1.
        bindE (loadAccount L1 (la_id before)) (\<lambda>after.
        bindE (appendAudit e 0
          (auditInput actor action ''ledger_account'' (la_id before)
             (Some (JObj [(''status'', JStr (activeStatusText (la_status before)))]))
             (Some (JObj [(''status'', JStr (activeStatusText (la_status after)))]))
             requestId (Some metadata)) L1) (\<lambda>L2.
        Inr (after, L2)))))"

definition archiveAccount ::
  "env \<Rightarrow> uuid \<Rightarrow> string option \<Rightarrow> string option \<Rightarrow> ledger \<Rightarrow> (ledger_account \<times> ledger) acc" where
  "archiveAccount e i actor requestId L =
     bindE (loadAccount L i) (\<lambda>before.
       if la_systemKey before \<noteq> None then Inl LedgerImmutableError
       else changeAccountStatus e Archived ''accounting.account.archived''
         (JObj [(''code'', JStr (la_code before)), (''name'', JStr (la_name before))]) before actor requestId L)"

definition reactivateAccount ::
  "env \<Rightarrow> uuid \<Rightarrow> string option \<Rightarrow> string option \<Rightarrow> ledger \<Rightarrow> (ledger_account \<times> ledger) acc" where
  "reactivateAccount e i actor requestId L =
     bindE (loadAccount L i) (\<lambda>before.
       changeAccountStatus e Active ''accounting.account.reactivated''
         (JObj [(''code'', JStr (la_code before))]) before actor requestId L)"

section \<open>Reads\<close>

definition findByCode :: "ledger \<Rightarrow> uuid \<Rightarrow> string \<Rightarrow> ledger_account option" where
  "findByCode L b code = find (\<lambda>a. la_accountingBookId a = b \<and> la_code a = code) (ledger_accounts L)"

definition findBySystemKey :: "ledger \<Rightarrow> uuid \<Rightarrow> string \<Rightarrow> ledger_account option" where
  "findBySystemKey L b k = find (\<lambda>a. la_accountingBookId a = b \<and> la_systemKey a = Some k) (ledger_accounts L)"

definition requireSystemAccount :: "ledger \<Rightarrow> uuid \<Rightarrow> string \<Rightarrow> ledger_account acc" where
  "requireSystemAccount L b k = fromOption AccountingNotFoundError (findBySystemKey L b k)"

section \<open>Invariant\<close>

text \<open>The keys of the table, and that no account's parent is in another book.\<close>

definition accounts_ok :: "ledger_account list \<Rightarrow> bool" where
  "accounts_ok as \<longleftrightarrow>
     distinct (map la_id as) \<and>
     (\<forall>a \<in> set as. \<forall>b \<in> set as. accountClash a b \<longrightarrow> a = b) \<and>
     (\<forall>a \<in> set as. \<forall>p. la_parentAccountId a = Some p \<longrightarrow>
        (\<exists>b \<in> set as. la_id b = p \<and> la_accountingBookId b = la_accountingBookId a)) \<and>
     (\<forall>a \<in> set as. la_systemKey a \<noteq> None \<longrightarrow> la_status a = Active)"

lemma accountClash_sym: "accountClash a b \<longleftrightarrow> accountClash b a"
  by (auto simp: accountClash_def)

lemma insertAccount_Inr [resE]:
  "insertAccount r L = Inr L' \<longleftrightarrow>
     la_parentAccountId r \<noteq> Some (la_id r) \<and> (\<forall>x \<in> set (ledger_accounts L). \<not> accountClash r x) \<and>
     accountForeignKeys L r \<and> L' = L\<lparr>ledger_accounts := ledger_accounts L @ [r]\<rparr>"
  by (auto simp: insertAccount_def list_ex_iff)

lemma insertAccount_ok:
  assumes "insertAccount r L = Inr L'" and "accounts_ok (ledger_accounts L)" and "la_status r = Active"
  shows "accounts_ok (ledger_accounts L')"
proof -
  have new: "\<forall>x \<in> set (ledger_accounts L). \<not> accountClash r x" and fk: "accountForeignKeys L r"
    and L': "ledger_accounts L' = ledger_accounts L @ [r]"
    using assms(1) by (auto simp: insertAccount_Inr)
  have "la_id r \<notin> la_id ` set (ledger_accounts L)" using new by (auto simp: accountClash_def)
  then show ?thesis
    using assms(2,3) new fk unfolding L' accounts_ok_def
    by (auto simp: accountClash_sym accountForeignKeys_def list_ex_iff split: option.splits)
qed

text \<open>
  What every chart operation promises: only accounts and the audit log change, no account
  disappears, an account never changes its book, type, contra flag or system key, and a
  postable account that carries lines stays postable.
\<close>

definition carriesLines :: "ledger \<Rightarrow> uuid \<Rightarrow> bool" where
  "carriesLines L i \<longleftrightarrow> (\<exists>l \<in> set (journal_lines L). jl_ledgerAccountId l = i)"

definition accountsExtend :: "(uuid \<Rightarrow> bool) \<Rightarrow> ledger_account list \<Rightarrow> ledger_account list \<Rightarrow> bool" where
  "accountsExtend used as as' \<longleftrightarrow>
     (\<forall>a \<in> set as. \<exists>a' \<in> set as'. la_id a' = la_id a \<and> la_accountingBookId a' = la_accountingBookId a \<and>
        la_accountType a' = la_accountType a \<and> la_isContra a' = la_isContra a \<and>
        la_systemKey a' = la_systemKey a \<and> (la_isPostable a \<and> used (la_id a) \<longrightarrow> la_isPostable a'))"

definition chartStep :: "ledger \<Rightarrow> ledger \<Rightarrow> bool" where
  "chartStep L L' \<longleftrightarrow>
     L' = L\<lparr>ledger_accounts := ledger_accounts L', audit_events := audit_events L'\<rparr> \<and>
     accountsExtend (carriesLines L) (ledger_accounts L) (ledger_accounts L') \<and>
     (accounts_ok (ledger_accounts L) \<longrightarrow> accounts_ok (ledger_accounts L'))"

lemma accountsExtend_refl: "accountsExtend u as as"
  by (auto simp: accountsExtend_def)

lemma accountsExtend_trans: "accountsExtend u as bs \<Longrightarrow> accountsExtend u bs cs \<Longrightarrow> accountsExtend u as cs"
  unfolding accountsExtend_def by metis

lemma chartStep_refl: "chartStep L L"
  by (simp add: chartStep_def accountsExtend_refl)

lemma chartStep_trans:
  assumes "chartStep L L1" and "chartStep L1 L2"
  shows "chartStep L L2"
proof -
  have L1: "L1 = L\<lparr>ledger_accounts := ledger_accounts L1, audit_events := audit_events L1\<rparr>"
    and L2: "L2 = L1\<lparr>ledger_accounts := ledger_accounts L2, audit_events := audit_events L2\<rparr>"
    using assms by (simp_all add: chartStep_def)
  have "L2 = L\<lparr>ledger_accounts := ledger_accounts L2, audit_events := audit_events L2\<rparr>"
    by (subst L2, subst L1) simp
  moreover have c: "carriesLines L1 = carriesLines L"
    by (rule ext, subst L1) (simp add: carriesLines_def)
  moreover have "accountsExtend (carriesLines L) (ledger_accounts L) (ledger_accounts L2)"
  proof (rule accountsExtend_trans)
    show "accountsExtend (carriesLines L) (ledger_accounts L) (ledger_accounts L1)"
      using assms(1) unfolding chartStep_def by blast
    show "accountsExtend (carriesLines L) (ledger_accounts L1) (ledger_accounts L2)"
      using assms(2) unfolding chartStep_def c by blast
  qed
  ultimately show ?thesis using assms unfolding chartStep_def by blast
qed

lemma chartStep_audit: "appendAudit e n i L = Inr L' \<Longrightarrow> chartStep L L'"
  by (auto simp: chartStep_def accountsExtend_refl)

lemma chartStep_insert:
  assumes "insertAccount r L = Inr L'" and "la_status r = Active"
  shows "chartStep L L'"
proof -
  have "L' = L\<lparr>ledger_accounts := ledger_accounts L @ [r]\<rparr>" using assms(1) by (simp add: insertAccount_Inr)
  then show ?thesis
    using insertAccount_ok [OF assms(1) _ assms(2)]
    by (auto simp: chartStep_def accountsExtend_def)
qed

lemma updateAccountRow_ok:
  assumes "accounts_ok as" and old: "old \<in> set as" "la_id old = i"
    and clash: "\<forall>x \<in> set as. la_id x \<noteq> i \<longrightarrow> \<not> accountClash (f old) x"
    and keep: "\<And>x. la_id (f x) = la_id x" "\<And>x. la_accountingBookId (f x) = la_accountingBookId x"
      "\<And>x. la_systemKey (f x) = la_systemKey x"
    and status: "la_systemKey old \<noteq> None \<longrightarrow> la_status (f old) = Active"
    and parent: "\<And>p. la_parentAccountId (f old) = Some p \<Longrightarrow>
      \<exists>b \<in> set as. la_id b = p \<and> la_accountingBookId b = la_accountingBookId old"
  shows "accounts_ok (updateWhere (\<lambda>r. la_id r = i) f as)"
proof -
  let ?g = "\<lambda>r. if la_id r = i then f r else r"
  have uniq: "x = old" if "x \<in> set as" "la_id x = i" for x
    using assms(1) old that by (auto simp: accounts_ok_def intro: distinct_key_eq)
  have set: "set (updateWhere (\<lambda>r. la_id r = i) f as) = ?g ` set as"
    by (simp add: updateWhere_def)
  have "distinct (map la_id (updateWhere (\<lambda>r. la_id r = i) f as))"
    using assms(1) by (simp add: map_updateWhere keep accounts_ok_def)
  moreover have "?g x = ?g y" if "x \<in> set as" "y \<in> set as" "accountClash (?g x) (?g y)" for x y
  proof (cases "la_id x = i \<or> la_id y = i")
    case True
    have clash': "\<not> accountClash z (f old)" if "z \<in> set as" "la_id z \<noteq> i" for z
      using clash that accountClash_sym [of z "f old"] by simp
    from True that show ?thesis
      using uniq [of x] uniq [of y] clash clash' [of x] by (cases "la_id x = i"; cases "la_id y = i") simp_all
  next
    case False
    with that assms(1) show ?thesis by (auto simp: accounts_ok_def)
  qed
  moreover have "\<exists>b \<in> set as. la_id (?g b) = p \<and> la_accountingBookId (?g b) = la_accountingBookId (?g x)"
    if "x \<in> set as" "la_parentAccountId (?g x) = Some p" for x p
  proof (cases "la_id x = i")
    case True
    then show ?thesis using parent [of p] that uniq [of x] by (fastforce simp: keep)
  next
    case False
    then show ?thesis using that assms(1) by (fastforce simp: keep accounts_ok_def)
  qed
  moreover have "la_status (?g x) = Active" if "x \<in> set as" "la_systemKey (?g x) \<noteq> None" for x
    using that status uniq [of x] assms(1) by (auto simp: keep accounts_ok_def)
  ultimately show ?thesis unfolding accounts_ok_def set by blast
qed

lemma chartStep_update:
  assumes "updateAccountRow i f L = Inr L'"
    and keep: "\<And>x. la_id (f x) = la_id x" "\<And>x. la_accountingBookId (f x) = la_accountingBookId x"
      "\<And>x. la_systemKey (f x) = la_systemKey x" "\<And>x. la_accountType (f x) = la_accountType x"
      "\<And>x. la_isContra (f x) = la_isContra x"
    and status: "\<And>x. x \<in> set (ledger_accounts L) \<Longrightarrow> la_id x = i \<Longrightarrow> la_systemKey x \<noteq> None \<Longrightarrow>
      la_status x = Active \<Longrightarrow> la_status (f x) = Active"
    and postable: "\<And>x. carriesLines L i \<Longrightarrow> la_isPostable x \<Longrightarrow> la_isPostable (f x)"
  shows "chartStep L L'"
proof (cases "find (\<lambda>r. la_id r = i) (ledger_accounts L)")
  case None
  with assms(1) show ?thesis by (simp add: updateAccountRow_def chartStep_refl)
next
  case (Some old)
  note old = find_SomeD [OF Some]
  have L': "L' = L\<lparr>ledger_accounts := updateWhere (\<lambda>r. la_id r = i) f (ledger_accounts L)\<rparr>"
    and clash: "\<forall>x \<in> set (ledger_accounts L). la_id x \<noteq> i \<longrightarrow> \<not> accountClash (f old) x"
    and fk: "accountForeignKeys L (f old)"
    using assms(1) Some by (auto simp: updateAccountRow_def list_ex_iff)
  have "accountsExtend (carriesLines L) (ledger_accounts L) (ledger_accounts L')"
    unfolding L' accountsExtend_def updateWhere_def
  proof (intro ballI)
    fix a assume "a \<in> set (ledger_accounts L)"
    then show "\<exists>a' \<in> set (ledger_accounts (L\<lparr>ledger_accounts := map (\<lambda>r. if la_id r = i then f r else r)
        (ledger_accounts L)\<rparr>)). la_id a' = la_id a \<and> la_accountingBookId a' = la_accountingBookId a \<and>
        la_accountType a' = la_accountType a \<and> la_isContra a' = la_isContra a \<and> la_systemKey a' = la_systemKey a \<and>
        (la_isPostable a \<and> carriesLines L (la_id a) \<longrightarrow> la_isPostable a')"
      by (intro bexI [of _ "if la_id a = i then f a else a"]) (use postable [of a] in \<open>simp_all add: keep\<close>)
  qed
  moreover have "accounts_ok (ledger_accounts L')" if "accounts_ok (ledger_accounts L)"
  proof -
    have "la_systemKey old \<noteq> None \<longrightarrow> la_status (f old) = Active"
      using that old status [of old] by (auto simp: accounts_ok_def)
    moreover have "\<exists>b \<in> set (ledger_accounts L). la_id b = p \<and> la_accountingBookId b = la_accountingBookId old"
      if "la_parentAccountId (f old) = Some p" for p
      using fk that by (auto simp: accountForeignKeys_def list_ex_iff keep)
    ultimately show ?thesis
      unfolding L' using updateAccountRow_ok [OF that, of old i f] old clash keep by simp
  qed
  ultimately show ?thesis unfolding chartStep_def by (simp add: L')
qed

lemma seedLoop_chartStep: "seedLoop e b k as byCode L = Inr (m, L') \<Longrightarrow> chartStep L L'"
proof (induction as arbitrary: k byCode L)
  case Nil
  then show ?case by (simp add: chartStep_refl)
next
  case (Cons a as)
  show ?case
  proof (cases "map_of byCode (ct_code a) = None")
    case False
    with Cons show ?thesis by auto
  next
    case True
    then obtain parent L1 byCode' where
      "insertAccount (templateRow (uuidAt e k) b parent a) L = Inr L1"
      "seedLoop e b (Suc k) as byCode' L1 = Inr (m, L')"
      using Cons.prems by (auto simp: Let_def split: if_splits)
    then show ?thesis
      using Cons.IH chartStep_insert chartStep_trans by (fastforce simp: templateRow_def)
  qed
qed

lemma seedDefaultChart_chartStep:
  assumes "seedDefaultChart e b t actor req L = Inr (rows, L')"
  shows "chartStep L L'"
proof -
  obtain L1 where "seed e b t L = Inr (rows, L1)" and L1: "L' = L1 \<or> (\<exists>i. appendAudit e 0 i L1 = Inr L')"
    using assms unfolding seedDefaultChart_def Let_def
    by (auto split: if_splits prod.splits simp del: appendAudit_Inr)
  then have "chartStep L L1" by (auto simp: seed_def dest: seedLoop_chartStep)
  with L1 show ?thesis using chartStep_audit chartStep_trans by blast
qed

lemma createAccount_chartStep:
  assumes "createAccount e i L = Inr (row, L')"
  shows "chartStep L L'"
proof -
  obtain r L1 j where "insertAccount r L = Inr L1" "la_status r = Active" "appendAudit e 0 j L1 = Inr L'"
    using assms unfolding createAccount_def Let_def by (auto simp del: appendAudit_Inr)
  then show ?thesis using chartStep_insert chartStep_audit chartStep_trans by blast
qed

lemma updateAccount_chartStep:
  assumes "updateAccount e i L = Inr (row, L')"
  shows "chartStep L L'"
proof -
  obtain a v L1 j where u: "updateAccountRow a (accountUpdate v) L = Inr L1" and "appendAudit e 0 j L1 = Inr L'"
    and unused: "ua_isPostable v = Some False \<longrightarrow> \<not> carriesLines L a"
    using assms unfolding updateAccount_def by (auto simp: list_ex_iff carriesLines_def simp del: appendAudit_Inr)
  moreover have "chartStep L L1"
    by (rule chartStep_update [OF u]) (use unused in \<open>auto simp: accountUpdate_def boolOr_def split: option.splits\<close>)
  ultimately show ?thesis using chartStep_audit chartStep_trans by blast
qed

lemma changeAccountStatus_chartStep:
  assumes "changeAccountStatus e st action md before actor req L = Inr (row, L')"
    and "st = Active \<or> (\<forall>x \<in> set (ledger_accounts L). la_id x = la_id before \<longrightarrow> la_systemKey x = None)"
  shows "chartStep L L'"
proof (cases "la_status before = st")
  case True
  with assms show ?thesis by (simp add: changeAccountStatus_def chartStep_refl)
next
  case False
  then obtain L1 j where u: "updateAccountRow (la_id before) (la_status_update (\<lambda>_. st)) L = Inr L1"
    and "appendAudit e 0 j L1 = Inr L'"
    using assms(1) unfolding changeAccountStatus_def by (auto simp del: appendAudit_Inr)
  moreover have "chartStep L L1" by (rule chartStep_update [OF u]) (use assms(2) in auto)
  ultimately show ?thesis using chartStep_audit chartStep_trans by blast
qed

lemma reactivateAccount_chartStep: "reactivateAccount e i actor req L = Inr (row, L') \<Longrightarrow> chartStep L L'"
  by (auto simp: reactivateAccount_def dest: changeAccountStatus_chartStep)

lemma archiveAccount_chartStep:
  assumes "archiveAccount e i actor req L = Inr (row, L')" and "accounts_ok (ledger_accounts L)"
  shows "chartStep L L'"
proof -
  obtain before action md where b: "before \<in> set (ledger_accounts L)" "la_systemKey before = None"
    and c: "changeAccountStatus e Archived action md before actor req L = Inr (row, L')"
    using assms(1) by (auto simp: archiveAccount_def loadAccount_def dest: find_SomeD split: if_splits)
  have "la_systemKey x = None" if "x \<in> set (ledger_accounts L)" "la_id x = la_id before" for x
    using that b assms(2) by (metis accounts_ok_def distinct_key_eq)
  then show ?thesis using changeAccountStatus_chartStep [OF c] by blast
qed

end
