(* ===== verification/Books.thy ===== *)
theory Books
  imports Chart
begin

text \<open>
  \<^verbatim>\<open>packages/accounting/src/books.ts\<close>: books, the links that say which book an economic
  entity posts to, and the routing walk up the entity hierarchy.

  \<open>entityChain\<close> is the recursive query of \<^verbatim>\<open>routeThroughEntity\<close>, whose depth bound of 32 is
  its fuel. The recursive query of \<^verbatim>\<open>conflictingDescendantLink\<close> has no bound: it is
  \<open>descendants\<close> with one level of fuel per entity and one more, and \<open>None\<close> stands for a query
  that never ends; \<open>descendants_None_cycle\<close> shows that this is so only when the hierarchy has a
  cycle. \<open>createBook\<close> runs three transactions, so it returns its outcome together with the
  state it leaves behind.
\<close>

section \<open>Books\<close>

definition loadBook :: "ledger \<Rightarrow> uuid \<Rightarrow> accounting_book acc" where
  "loadBook L i =
     fromOption AccountingNotFoundError (find (\<lambda>b. bk_id b = i) (accounting_books L))"

definition insertBook :: "accounting_book \<Rightarrow> ledger \<Rightarrow> ledger acc" where
  "insertBook r L =
     bindE (assertE (bookDatesOk r \<and> 0 < bk_nextEntryNumber r) (DatabaseError CheckViolation)) (\<lambda>_.
     bindE (assertE (\<not> list_ex (\<lambda>x. bk_id x = bk_id r \<or> bk_code x = bk_code r) (accounting_books L))
       (DatabaseError UniqueViolation)) (\<lambda>_.
       Inr (L\<lparr>accounting_books := accounting_books L @ [r]\<rparr>)))"

record create_book_input =
  cb_code :: string
  cb_name :: string
  cb_functionalCurrency :: "string option"
  cb_accountingBasis :: accounting_basis
  cb_fiscalYearStartMonth :: int
  cb_fiscalYearStartDay :: int
  cb_requiresEntityDimension :: bool
  cb_openedOn :: date
  cb_notes :: "string option"
  cb_seedChart :: bool
  cb_generatePeriods :: bool
  cb_createdByUserId :: "string option"
  cb_requestId :: "string option"

definition parseCreateBook :: "create_book_input \<Rightarrow> create_book_input acc" where
  "parseCreateBook i =
     bindE (trimMin (cb_code i)) (\<lambda>code.
     bindE (trimMin (cb_name i)) (\<lambda>name.
     bindE (case cb_functionalCurrency i of None \<Rightarrow> Inr None
            | Some c \<Rightarrow> bindE (assertE (length (js_trim c) = 3) AccountingValidationError) (\<lambda>_. Inr (Some (js_trim c)))) (\<lambda>currency.
     bindE (assertE (1 \<le> cb_fiscalYearStartMonth i \<and> cb_fiscalYearStartMonth i \<le> 12 \<and>
         1 \<le> cb_fiscalYearStartDay i \<and> cb_fiscalYearStartDay i \<le> 31) AccountingValidationError) (\<lambda>_.
     bindE (trimMinOpt (cb_notes i)) (\<lambda>notes.
     bindE (assertE (minOne (cb_createdByUserId i) \<and> minOne (cb_requestId i)) AccountingValidationError) (\<lambda>_.
       Inr (i\<lparr>cb_code := code, cb_name := name, cb_functionalCurrency := currency, cb_notes := notes\<rparr>)))))))"

definition bookRow :: "uuid \<Rightarrow> string \<Rightarrow> create_book_input \<Rightarrow> accounting_book" where
  "bookRow newId currency v =
     \<lparr>bk_id = newId, bk_code = cb_code v, bk_name = cb_name v, bk_functionalCurrency = currency,
      bk_accountingBasis = cb_accountingBasis v, bk_fiscalYearStartMonth = cb_fiscalYearStartMonth v,
      bk_fiscalYearStartDay = cb_fiscalYearStartDay v,
      bk_requiresEntityDimension = cb_requiresEntityDimension v, bk_nextEntryNumber = 1,
      bk_status = Active, bk_openedOn = cb_openedOn v, bk_notes = cb_notes v,
      bk_createdByUserId = cb_createdByUserId v\<rparr>"

definition createBookRow :: "env \<Rightarrow> create_book_input \<Rightarrow> string \<Rightarrow> ledger \<Rightarrow> (accounting_book \<times> ledger) acc" where
  "createBookRow e v currency L =
     (let row = bookRow (uuidAt e 0) currency v in
      bindE (insertBook row L) (\<lambda>L1.
      bindE (appendAudit e 1
        (auditInput (cb_createdByUserId v) ''accounting.book.created'' ''accounting_book'' (bk_id row) None
           (Some (JObj [(''code'', JStr (bk_code row)), (''name'', JStr (bk_name row)),
              (''functionalCurrency'', JStr (bk_functionalCurrency row)),
              (''accountingBasis'', JStr (basisText (bk_accountingBasis row))),
              (''fiscalYearStartMonth'', JNum (bk_fiscalYearStartMonth row)),
              (''fiscalYearStartDay'', JNum (bk_fiscalYearStartDay row)),
              (''requiresEntityDimension'', JBool (bk_requiresEntityDimension row)),
              (''openedOn'', jdate (bk_openedOn row))]))
           (cb_requestId v) None) L1) (\<lambda>L2.
      Inr (row, L2))))"

definition envShift :: "nat \<Rightarrow> env \<Rightarrow> env" where
  "envShift k e = e\<lparr>uuidAt := (\<lambda>n. uuidAt e (k + n))\<rparr>"

text \<open>Run a further transaction of a call: on success its state is kept, on a throw the
  earlier state is.\<close>

definition nextTx :: "ledger \<Rightarrow> ('a \<times> ledger) acc \<Rightarrow> ('a \<Rightarrow> ledger \<Rightarrow> 'b acc \<times> ledger) \<Rightarrow> 'b acc \<times> ledger" where
  "nextTx L r k = (case r of Inl err \<Rightarrow> (Inl err, L) | Inr (x, L') \<Rightarrow> k x L')"

definition createBook ::
  "env \<Rightarrow> chart_template_account list \<Rightarrow> create_book_input \<Rightarrow> ledger \<Rightarrow>
   (accounting_book \<times> nat \<times> nat) acc \<times> ledger" where
  "createBook e t input L =
     nextTx L (bindE (parseCreateBook input) (\<lambda>v.
       bindE (assertSupportedCurrency
           (case cb_functionalCurrency v of None \<Rightarrow> DEFAULT_FUNCTIONAL_CURRENCY | Some c \<Rightarrow> c)) (\<lambda>currency.
       bindE (createBookRow e v currency L) (\<lambda>(book, L1). Inr ((v, book), L1))))) (\<lambda>(v, book) L1.
     nextTx L1
       (if cb_seedChart v then
          bindE (seedDefaultChart (envShift 2 e) (bk_id book) t (cb_createdByUserId v) (cb_requestId v) L1)
            (\<lambda>(accounts, L2). Inr (length accounts, L2))
        else Inr (0, L1)) (\<lambda>accountCount L2.
     nextTx L2
       (if cb_generatePeriods v then
          bindE (generateFiscalYear (envShift (3 + length t) e)
              \<lparr>gi_accountingBookId = bk_id book,
               gi_fiscalYear = fiscalYearFor (bk_openedOn book) (bk_fiscalYearStartMonth book) (bk_fiscalYearStartDay book),
               gi_periodCount = 12, gi_actorUserId = cb_createdByUserId v, gi_requestId = cb_requestId v\<rparr> L2)
            (\<lambda>((_, periods), L3). Inr (length periods, L3))
        else Inr (0, L2)) (\<lambda>periodCount L3.
     (Inr (book, accountCount, periodCount), L3))))"

definition findBookByCode :: "ledger \<Rightarrow> string \<Rightarrow> accounting_book option" where
  "findBookByCode L code = find (\<lambda>b. bk_code b = code) (accounting_books L)"

definition archiveBook ::
  "env \<Rightarrow> uuid \<Rightarrow> string option \<Rightarrow> string option \<Rightarrow> ledger \<Rightarrow> (accounting_book \<times> ledger) acc" where
  "archiveBook e i actor requestId L =
     bindE (loadBook L i) (\<lambda>before.
       if bk_status before = Archived then Inr (before, L)
       else
         let L1 = L\<lparr>accounting_books := updateWhere (\<lambda>b. bk_id b = bk_id before)
               (bk_status_update (\<lambda>_. Archived)) (accounting_books L)\<rparr>
         in bindE (loadBook L1 (bk_id before)) (\<lambda>after.
            bindE (appendAudit e 0
              (auditInput actor ''accounting.book.archived'' ''accounting_book'' (bk_id before)
                 (Some (JObj [(''status'', JStr (activeStatusText (bk_status before)))]))
                 (Some (JObj [(''status'', JStr (activeStatusText (bk_status after)))]))
                 requestId (Some (JObj [(''code'', JStr (bk_code before))]))) L1) (\<lambda>L2.
            Inr (after, L2))))"

section \<open>Routing\<close>

definition linkCovers :: "date \<Rightarrow> book_entity_link \<Rightarrow> bool" where
  "linkCovers d l \<longleftrightarrow>
     bl_effectiveFrom l \<le> d \<and> (case bl_effectiveTo l of None \<Rightarrow> True | Some t \<Rightarrow> d \<le> t)"

definition primaryLinkOn :: "ledger \<Rightarrow> uuid \<Rightarrow> date \<Rightarrow> book_entity_link option" where
  "primaryLinkOn L i d =
     find (\<lambda>l. bl_economicEntityId l = i \<and> bl_linkRole l = PostingPrimary \<and> linkCovers d l) (book_entity_links L)"

fun entityChain :: "nat \<Rightarrow> economic_entity list \<Rightarrow> uuid \<Rightarrow> uuid list" where
  "entityChain fuel es i =
     (case find (\<lambda>e. ee_id e = i) es of
        None \<Rightarrow> []
      | Some ent \<Rightarrow>
          ee_id ent # (case (fuel, ee_parentEntityId ent) of
            (Suc n, Some p) \<Rightarrow> entityChain n es p
          | _ \<Rightarrow> []))"

declare entityChain.simps [simp del]

record route =
  rt_accountingBookId :: uuid
  rt_depth :: nat
  rt_entityId :: uuid

fun routeAlong :: "ledger \<Rightarrow> date \<Rightarrow> nat \<Rightarrow> uuid list \<Rightarrow> route option" where
  "routeAlong L d k [] = None"
| "routeAlong L d k (i # is) =
     (case primaryLinkOn L i d of
        Some l \<Rightarrow> Some \<lparr>rt_accountingBookId = bl_accountingBookId l, rt_depth = k, rt_entityId = i\<rparr>
      | None \<Rightarrow> routeAlong L d (Suc k) is)"

definition routeThroughEntity :: "ledger \<Rightarrow> uuid \<Rightarrow> date \<Rightarrow> route option" where
  "routeThroughEntity L i d = routeAlong L d 0 (entityChain 32 (economic_entities L) i)"

datatype posting_book_source = EntityLink | ParentEntityLink | InstallationDefault

record book_routing =
  br_accountingBookId :: uuid
  br_source :: posting_book_source
  br_viaEconomicEntityId :: "uuid option"

definition resolveBookForEntity :: "ledger \<Rightarrow> uuid option \<Rightarrow> date \<Rightarrow> uuid option \<Rightarrow> book_routing option" where
  "resolveBookForEntity L entity onDate installationDefault =
     (case (case entity of None \<Rightarrow> None | Some i \<Rightarrow> routeThroughEntity L i onDate) of
        Some r \<Rightarrow> Some \<lparr>br_accountingBookId = rt_accountingBookId r,
            br_source = (if rt_depth r = 0 then EntityLink else ParentEntityLink),
            br_viaEconomicEntityId = (if rt_depth r = 0 then None else Some (rt_entityId r))\<rparr>
      | None \<Rightarrow>
          map_option (\<lambda>b. \<lparr>br_accountingBookId = b, br_source = InstallationDefault,
            br_viaEconomicEntityId = None\<rparr>) installationDefault)"

definition requireBookForEntity :: "ledger \<Rightarrow> uuid option \<Rightarrow> date \<Rightarrow> uuid option \<Rightarrow> book_routing acc" where
  "requireBookForEntity L entity onDate installationDefault =
     fromOption BookRoutingError (resolveBookForEntity L entity onDate installationDefault)"

section \<open>Linking\<close>

definition childrenOf :: "economic_entity list \<Rightarrow> uuid list \<Rightarrow> uuid list" where
  "childrenOf es ids =
     map ee_id (filter (\<lambda>e. case ee_parentEntityId e of None \<Rightarrow> False | Some p \<Rightarrow> List.member ids p) es)"

fun descendants :: "nat \<Rightarrow> economic_entity list \<Rightarrow> uuid list \<Rightarrow> uuid list option" where
  "descendants fuel es [] = Some []"
| "descendants 0 es (i # is) = None"
| "descendants (Suc n) es (i # is) =
     map_option (\<lambda>ds. (i # is) @ ds) (descendants n es (childrenOf es (i # is)))"

definition descendantsOf :: "economic_entity list \<Rightarrow> uuid \<Rightarrow> uuid list option" where
  "descendantsOf es i = descendants (Suc (length es)) es (childrenOf es [i])"

text \<open>\<^verbatim>\<open>daterange(a, coalesce(b, infinity), '[]') && daterange(c, coalesce(d, infinity), '[]')\<close>\<close>

definition notAfter :: "date \<Rightarrow> date option \<Rightarrow> bool" where
  "notAfter d t = (case t of None \<Rightarrow> True | Some x \<Rightarrow> d \<le> x)"

definition rangesOverlap :: "date \<Rightarrow> date option \<Rightarrow> date \<Rightarrow> date option \<Rightarrow> bool" where
  "rangesOverlap f1 t1 f2 t2 \<longleftrightarrow> notAfter f1 t2 \<and> notAfter f2 t1"

definition conflictingDescendantLink ::
  "ledger \<Rightarrow> uuid \<Rightarrow> uuid \<Rightarrow> date \<Rightarrow> date option \<Rightarrow> book_entity_link option option" where
  "conflictingDescendantLink L i b effectiveFrom effectiveTo =
     map_option (\<lambda>ds. find (\<lambda>l. List.member ds (bl_economicEntityId l) \<and> bl_linkRole l = PostingPrimary \<and>
         bl_accountingBookId l \<noteq> b \<and>
         rangesOverlap (bl_effectiveFrom l) (bl_effectiveTo l) effectiveFrom effectiveTo) (book_entity_links L))
       (descendantsOf (economic_entities L) i)"

text \<open>The exclusion constraint \<^verbatim>\<open>book_entity_links_primary_no_overlap\<close>.\<close>

definition linksExclude :: "book_entity_link \<Rightarrow> book_entity_link \<Rightarrow> bool" where
  "linksExclude l m \<longleftrightarrow>
     bl_linkRole l = PostingPrimary \<and> bl_linkRole m = PostingPrimary \<and>
     bl_economicEntityId l = bl_economicEntityId m \<and>
     rangesOverlap (bl_effectiveFrom l) (bl_effectiveTo l) (bl_effectiveFrom m) (bl_effectiveTo m)"

definition insertLink :: "book_entity_link \<Rightarrow> ledger \<Rightarrow> ledger acc" where
  "insertLink r L =
     bindE (assertE (notAfter (bl_effectiveFrom r) (bl_effectiveTo r)) (DatabaseError CheckViolation)) (\<lambda>_.
     bindE (assertE (\<not> list_ex (\<lambda>x. bl_id x = bl_id r) (book_entity_links L)) (DatabaseError UniqueViolation)) (\<lambda>_.
     bindE (assertE (\<not> list_ex (linksExclude r) (book_entity_links L)) (DatabaseError ExclusionViolation)) (\<lambda>_.
     bindE (assertE (bookExists L (bl_accountingBookId r) \<and>
         list_ex (\<lambda>x. ee_id x = bl_economicEntityId r) (economic_entities L)) (DatabaseError ForeignKeyViolation)) (\<lambda>_.
       Inr (L\<lparr>book_entity_links := book_entity_links L @ [r]\<rparr>)))))"

record link_entity_input =
  li_accountingBookId :: uuid
  li_economicEntityId :: uuid
  li_linkRole :: link_role
  li_effectiveFrom :: date
  li_effectiveTo :: "date option"
  li_dimensionLabel :: "string option"
  li_note :: "string option"
  li_createdByUserId :: "string option"
  li_requestId :: "string option"

definition parseLinkEntity :: "link_entity_input \<Rightarrow> link_entity_input acc" where
  "parseLinkEntity i =
     bindE (trimMinOpt (li_dimensionLabel i)) (\<lambda>label.
     bindE (trimMinOpt (li_note i)) (\<lambda>note.
     bindE (assertE (minOne (li_createdByUserId i) \<and> minOne (li_requestId i)) AccountingValidationError) (\<lambda>_.
     bindE (assertE (notAfter (li_effectiveFrom i) (li_effectiveTo i)) AccountingValidationError) (\<lambda>_.
       Inr (i\<lparr>li_dimensionLabel := label, li_note := note\<rparr>)))))"

definition upwardAllowed :: "ledger \<Rightarrow> economic_entity \<Rightarrow> link_entity_input \<Rightarrow> unit acc" where
  "upwardAllowed L ent v =
     (case ee_parentEntityId ent of
        None \<Rightarrow> Inr ()
      | Some p \<Rightarrow>
          (case routeThroughEntity L p (li_effectiveFrom v) of
             None \<Rightarrow> Inr ()
           | Some r \<Rightarrow>
               if rt_accountingBookId r = li_accountingBookId v then Inr ()
               else bindE (loadBook L (rt_accountingBookId r)) (\<lambda>_. Inl AccountingValidationError)))"

definition linkPrecheck ::
  "ledger \<Rightarrow> link_entity_input \<Rightarrow> (link_entity_input \<times> accounting_book \<times> economic_entity) acc" where
  "linkPrecheck L input =
     bindE (parseLinkEntity input) (\<lambda>v.
     bindE (loadBook L (li_accountingBookId v)) (\<lambda>book.
     bindE (assertE (bk_status book = Active) AccountingValidationError) (\<lambda>_.
     bindE (fromOption AccountingNotFoundError
         (find (\<lambda>x. ee_id x = li_economicEntityId v) (economic_entities L))) (\<lambda>ent.
     bindE (if li_linkRole v = PostingPrimary then upwardAllowed L ent v else Inr ()) (\<lambda>_.
     Inr (v, book, ent))))))"

definition linkRow :: "env \<Rightarrow> link_entity_input \<Rightarrow> book_entity_link" where
  "linkRow e v =
     \<lparr>bl_id = uuidAt e 1, bl_accountingBookId = li_accountingBookId v,
      bl_economicEntityId = li_economicEntityId v, bl_linkRole = li_linkRole v,
      bl_effectiveFrom = li_effectiveFrom v, bl_effectiveTo = li_effectiveTo v,
      bl_dimensionLabel = li_dimensionLabel v, bl_note = li_note v,
      bl_createdByUserId = li_createdByUserId v\<rparr>"

definition insertLinkAudited ::
  "env \<Rightarrow> link_entity_input \<Rightarrow> accounting_book \<Rightarrow> economic_entity \<Rightarrow> ledger \<Rightarrow>
   (book_entity_link \<times> ledger) acc" where
  "insertLinkAudited e v book ent L =
     (let row = linkRow e v in
      case insertLink row L of
        Inl err \<Rightarrow> Inl (if isExclusionViolation err then AccountingConflictError else err)
      | Inr L1 \<Rightarrow>
          bindE (appendAudit e 0
            (auditInput (li_createdByUserId v) ''accounting.book.entity_linked'' ''accounting_book''
               (li_accountingBookId v) None
               (Some (JObj [(''bookEntityLinkId'', JStr (bl_id row)),
                  (''economicEntityId'', JStr (bl_economicEntityId row)),
                  (''linkRole'', JStr (linkRoleText (bl_linkRole row))),
                  (''effectiveFrom'', jdate (bl_effectiveFrom row)),
                  (''effectiveTo'', jopt jdate (bl_effectiveTo row))]))
               (li_requestId v)
               (Some (JObj [(''bookCode'', JStr (bk_code book)), (''entityName'', JStr (ee_name ent))]))) L1)
            (\<lambda>L2. Inr (row, L2)))"

text \<open>The outcome \<open>None\<close> is a descendant query that does not end.\<close>

definition linkEntity :: "env \<Rightarrow> link_entity_input \<Rightarrow> ledger \<Rightarrow> (book_entity_link \<times> ledger) acc option" where
  "linkEntity e input L =
     (case linkPrecheck L input of
        Inl err \<Rightarrow> Some (Inl err)
      | Inr (v, book, ent) \<Rightarrow>
          (case (if li_linkRole v = PostingPrimary
                 then conflictingDescendantLink L (li_economicEntityId v) (li_accountingBookId v)
                   (li_effectiveFrom v) (li_effectiveTo v)
                 else Some None) of
             None \<Rightarrow> None
           | Some (Some _) \<Rightarrow> Some (Inl AccountingValidationError)
           | Some None \<Rightarrow> Some (insertLinkAudited e v book ent L)))"

definition loadLink :: "ledger \<Rightarrow> uuid \<Rightarrow> book_entity_link acc" where
  "loadLink L i =
     fromOption AccountingNotFoundError (find (\<lambda>l. bl_id l = i) (book_entity_links L))"

definition updateLinkEnd :: "uuid \<Rightarrow> date \<Rightarrow> ledger \<Rightarrow> ledger acc" where
  "updateLinkEnd i t L =
     (case find (\<lambda>l. bl_id l = i) (book_entity_links L) of
        None \<Rightarrow> Inr L
      | Some old \<Rightarrow>
          let new = old\<lparr>bl_effectiveTo := Some t\<rparr> in
          bindE (assertE (bl_effectiveFrom new \<le> t) (DatabaseError CheckViolation)) (\<lambda>_.
          bindE (assertE (\<not> list_ex (\<lambda>x. bl_id x \<noteq> i \<and> linksExclude new x) (book_entity_links L))
            (DatabaseError ExclusionViolation)) (\<lambda>_.
            Inr (L\<lparr>book_entity_links := updateWhere (\<lambda>l. bl_id l = i)
              (bl_effectiveTo_update (\<lambda>_. Some t)) (book_entity_links L)\<rparr>))))"

definition endLink ::
  "env \<Rightarrow> uuid \<Rightarrow> date \<Rightarrow> string option \<Rightarrow> string option \<Rightarrow> ledger \<Rightarrow> (book_entity_link \<times> ledger) acc" where
  "endLink e i t actor requestId L =
     bindE (loadLink L i) (\<lambda>before.
     bindE (assertE (bl_effectiveFrom before \<le> t) AccountingValidationError) (\<lambda>_.
     bindE (updateLinkEnd (bl_id before) t L) (\<lambda>L1.
     bindE (loadLink L1 (bl_id before)) (\<lambda>after.
     bindE (appendAudit e 0
       (auditInput actor ''accounting.book.entity_link_ended'' ''accounting_book'' (bl_accountingBookId before)
          (Some (JObj [(''effectiveTo'', jopt jdate (bl_effectiveTo before))]))
          (Some (JObj [(''effectiveTo'', jopt jdate (bl_effectiveTo after))]))
          requestId
          (Some (JObj [(''bookEntityLinkId'', JStr (bl_id before)),
             (''economicEntityId'', JStr (bl_economicEntityId before)),
             (''linkRole'', JStr (linkRoleText (bl_linkRole before)))]))) L1) (\<lambda>L2.
     Inr (after, L2))))))"

definition listLinks :: "ledger \<Rightarrow> uuid option \<Rightarrow> uuid option \<Rightarrow> date option \<Rightarrow> book_entity_link list" where
  "listLinks L b i onDate =
     sort_key bl_effectiveFrom (sort_key (\<lambda>l. if bl_linkRole l = PostingPrimary then 0 else 1 :: nat) (filter (\<lambda>l.
       (case b of None \<Rightarrow> True | Some x \<Rightarrow> bl_accountingBookId l = x) \<and>
       (case i of None \<Rightarrow> True | Some x \<Rightarrow> bl_economicEntityId l = x) \<and>
       (case onDate of None \<Rightarrow> True | Some d \<Rightarrow> linkCovers d l)) (book_entity_links L)))"

section \<open>Hierarchy lemmas\<close>

definition childRel :: "economic_entity list \<Rightarrow> (uuid \<times> uuid) set" where
  "childRel es = {(p, c). \<exists>x \<in> set es. ee_id x = c \<and> ee_parentEntityId x = Some p}"

lemma childrenOf_iff: "c \<in> set (childrenOf es ids) \<longleftrightarrow> (\<exists>p \<in> set ids. (p, c) \<in> childRel es)"
proof -
  have "(case ee_parentEntityId x of None \<Rightarrow> False | Some p \<Rightarrow> List.member ids p) \<longleftrightarrow>
      (\<exists>p \<in> set ids. ee_parentEntityId x = Some p)" for x
    by (auto simp: List.member_iff split: option.splits)
  then have "c \<in> set (childrenOf es ids) \<longleftrightarrow>
      (\<exists>x \<in> set es. c = ee_id x \<and> (\<exists>p \<in> set ids. ee_parentEntityId x = Some p))"
    by (simp add: childrenOf_def image_iff) blast
  then show ?thesis unfolding childRel_def by blast
qed

lemma descendants_None_path:
  "descendants n es fr = None \<Longrightarrow>
     \<exists>xs. length xs = Suc n \<and> hd xs \<in> set fr \<and> (\<forall>k < n. (xs ! k, xs ! Suc k) \<in> childRel es)"
proof (induction n es fr rule: descendants.induct)
  case (2 es i "is")
  then show ?case by (intro exI [of _ "[i]"]) simp
next
  case (3 n es i "is")
  then have "descendants n es (childrenOf es (i # is)) = None" by simp
  with 3 obtain xs where xs: "length xs = Suc n" "hd xs \<in> set (childrenOf es (i # is))"
    "\<forall>k < n. (xs ! k, xs ! Suc k) \<in> childRel es" by auto
  then have "xs ! 0 \<in> set (childrenOf es (i # is))" by (metis hd_conv_nth length_0_conv nat.distinct(1))
  then obtain p where p: "p \<in> set (i # is)" "(p, xs ! 0) \<in> childRel es"
    by (auto simp: childrenOf_iff)
  have "((p # xs) ! k, (p # xs) ! Suc k) \<in> childRel es" if "k < Suc n" for k
    using that p(2) xs(3) by (cases k) auto
  with xs(1) p(1) show ?case by (intro exI [of _ "p # xs"]) simp
qed simp

lemma path_trancl:
  assumes "\<forall>k < n. (xs ! k, xs ! Suc k) \<in> R" and "a < b" and "b \<le> n"
  shows "(xs ! a, xs ! b) \<in> R\<^sup>+"
  using assms(2,3)
proof (induction b)
  case (Suc b)
  have "(xs ! b, xs ! Suc b) \<in> R" using assms(1) Suc.prems by simp
  with Suc show ?case by (cases "a = b") (auto intro: trancl_into_trancl)
qed simp

text \<open>The unbounded descendant query ends on every hierarchy without a cycle.\<close>

lemma descendants_None_cycle:
  assumes "descendantsOf es i = None"
  shows "\<exists>x. (x, x) \<in> (childRel es)\<^sup>+"
proof -
  let ?n = "Suc (length es)"
  obtain xs where xs: "length xs = Suc ?n" "hd xs \<in> set (childrenOf es [i])"
    and step: "\<forall>k < ?n. (xs ! k, xs ! Suc k) \<in> childRel es"
    using descendants_None_path assms unfolding descendantsOf_def by blast
  have "xs ! k \<in> ee_id ` set es" if "k < length xs" for k
  proof (cases k)
    case 0
    have "xs ! 0 = hd xs" using xs(1) by (metis hd_conv_nth length_0_conv nat.distinct(1))
    then show ?thesis using 0 xs(2) by (auto simp: childrenOf_def)
  next
    case (Suc j)
    then have "(xs ! j, xs ! Suc j) \<in> childRel es" using step that xs(1) by simp
    then show ?thesis using Suc unfolding childRel_def by force
  qed
  then have "set xs \<subseteq> ee_id ` set es" by (auto simp: in_set_conv_nth)
  then have "card (set xs) \<le> length es"
    by (meson card_length card_mono card_image_le finite_imageI finite_set order_trans)
  then have "\<not> distinct xs" using xs(1) distinct_card [of xs] by auto
  then obtain a b where "a < b" "b < length xs" "xs ! a = xs ! b"
    by (metis distinct_conv_nth nat_neq_iff)
  then show ?thesis using path_trancl [OF step, of a b] xs(1) by auto
qed

section \<open>Link lemmas\<close>

text \<open>No entity has two posting books on one day.\<close>

definition links_ok :: "book_entity_link list \<Rightarrow> bool" where
  "links_ok ls \<longleftrightarrow>
     distinct (map bl_id ls) \<and> (\<forall>l \<in> set ls. notAfter (bl_effectiveFrom l) (bl_effectiveTo l)) \<and>
     (\<forall>l \<in> set ls. \<forall>m \<in> set ls. linksExclude l m \<longrightarrow> l = m)"

lemma linksExclude_sym: "linksExclude l m \<longleftrightarrow> linksExclude m l"
  by (auto simp: linksExclude_def rangesOverlap_def)

lemma linkCovers_overlap:
  "linkCovers d l \<Longrightarrow> linkCovers d m \<Longrightarrow>
     rangesOverlap (bl_effectiveFrom l) (bl_effectiveTo l) (bl_effectiveFrom m) (bl_effectiveTo m)"
  by (auto simp: linkCovers_def rangesOverlap_def notAfter_def split: option.splits)

lemma primaryLinkOn_Some:
  assumes "links_ok (book_entity_links L)"
  shows "primaryLinkOn L i d = Some l \<longleftrightarrow>
    l \<in> set (book_entity_links L) \<and> bl_economicEntityId l = i \<and> bl_linkRole l = PostingPrimary \<and> linkCovers d l"
    (is "?a \<longleftrightarrow> ?b")
proof
  assume ?a
  then show ?b by (auto simp: primaryLinkOn_def dest: find_SomeD)
next
  assume b: ?b
  then obtain m where m: "primaryLinkOn L i d = Some m"
    using find_NoneD [of _ "book_entity_links L" l] by (cases "primaryLinkOn L i d") (auto simp: primaryLinkOn_def)
  then have "linksExclude l m"
    using b linkCovers_overlap by (auto simp: primaryLinkOn_def linksExclude_def dest!: find_SomeD)
  then have "l = m"
    using assms b m by (auto simp: links_ok_def primaryLinkOn_def dest!: find_SomeD)
  with m show ?a by simp
qed

lemma insertLink_Inr [resE]:
  "insertLink r L = Inr L' \<longleftrightarrow>
     notAfter (bl_effectiveFrom r) (bl_effectiveTo r) \<and>
     (\<forall>x \<in> set (book_entity_links L). bl_id x \<noteq> bl_id r \<and> \<not> linksExclude r x) \<and>
     bookExists L (bl_accountingBookId r) \<and> (\<exists>x \<in> set (economic_entities L). ee_id x = bl_economicEntityId r) \<and>
     L' = L\<lparr>book_entity_links := book_entity_links L @ [r]\<rparr>"
  by (auto simp: insertLink_def list_ex_iff)

lemma insertLink_ok:
  assumes "insertLink r L = Inr L'" and "links_ok (book_entity_links L)"
  shows "links_ok (book_entity_links L')"
proof -
  have new: "\<forall>x \<in> set (book_entity_links L). bl_id x \<noteq> bl_id r \<and> \<not> linksExclude r x"
    and r: "notAfter (bl_effectiveFrom r) (bl_effectiveTo r)"
    and L': "book_entity_links L' = book_entity_links L @ [r]"
    using assms(1) by (auto simp: insertLink_Inr)
  have new': "\<forall>x \<in> set (book_entity_links L). \<not> linksExclude x r"
    using new linksExclude_sym by blast
  show ?thesis
    using assms(2) new new' r unfolding L' links_ok_def by auto
qed

lemma linkPrecheck_Inr:
  "linkPrecheck L i = Inr (v, book, ent) \<longleftrightarrow>
     parseLinkEntity i = Inr v \<and> loadBook L (li_accountingBookId v) = Inr book \<and> bk_status book = Active \<and>
     find (\<lambda>x. ee_id x = li_economicEntityId v) (economic_entities L) = Some ent \<and>
     (li_linkRole v = PostingPrimary \<longrightarrow> upwardAllowed L ent v = Inr ())"
  by (auto simp: linkPrecheck_def)

lemma insertLinkAudited_Inr:
  "insertLinkAudited e v book ent L = Inr (row, L') \<Longrightarrow>
     row = linkRow e v \<and> (\<exists>L1 j. insertLink row L = Inr L1 \<and> appendAudit e 0 j L1 = Inr L')"
  unfolding insertLinkAudited_def Let_def by (auto split: sum.splits simp del: appendAudit_Inr)

lemma linkEntity_Some:
  assumes "linkEntity e i L = Some (Inr (row, L'))"
  obtains v book ent L1 j where
    "linkPrecheck L i = Inr (v, book, ent)"
    "li_linkRole v = PostingPrimary \<longrightarrow> conflictingDescendantLink L (li_economicEntityId v)
       (li_accountingBookId v) (li_effectiveFrom v) (li_effectiveTo v) = Some None"
    "row = linkRow e v" "insertLink row L = Inr L1" "appendAudit e 0 j L1 = Inr L'"
proof (cases "linkPrecheck L i")
  case (Inl err)
  with assms show ?thesis by (simp add: linkEntity_def)
next
  case (Inr x)
  obtain v book ent where x: "x = (v, book, ent)" by (cases x) auto
  then have "insertLinkAudited e v book ent L = Inr (row, L')"
    and "li_linkRole v = PostingPrimary \<longrightarrow> conflictingDescendantLink L (li_economicEntityId v)
       (li_accountingBookId v) (li_effectiveFrom v) (li_effectiveTo v) = Some None"
    using assms Inr by (auto simp: linkEntity_def split: option.splits if_splits)
  then show ?thesis using insertLinkAudited_Inr that Inr x by blast
qed

lemma linkRow_simps [simp]:
  "bl_accountingBookId (linkRow e v) = li_accountingBookId v"
  "bl_economicEntityId (linkRow e v) = li_economicEntityId v"
  "bl_linkRole (linkRow e v) = li_linkRole v"
  "bl_effectiveFrom (linkRow e v) = li_effectiveFrom v"
  "bl_effectiveTo (linkRow e v) = li_effectiveTo v"
  by (simp_all add: linkRow_def)

lemma updateLinkEnd_ok:
  assumes "updateLinkEnd i t L = Inr L'" and "links_ok (book_entity_links L)"
  shows "links_ok (book_entity_links L')"
proof (cases "find (\<lambda>l. bl_id l = i) (book_entity_links L)")
  case None
  with assms show ?thesis by (simp add: updateLinkEnd_def)
next
  case (Some old)
  let ?f = "bl_effectiveTo_update (\<lambda>_. Some t)"
  let ?g = "\<lambda>r. if bl_id r = i then ?f r else r"
  note old = find_SomeD [OF Some]
  have ft: "bl_effectiveFrom old \<le> t"
    and ex: "\<forall>x \<in> set (book_entity_links L). bl_id x \<noteq> i \<longrightarrow> \<not> linksExclude (?f old) x"
    and L': "book_entity_links L' = updateWhere (\<lambda>l. bl_id l = i) ?f (book_entity_links L)"
    using assms(1) Some by (auto simp: updateLinkEnd_def Let_def list_ex_iff)
  have uniq: "x = old" if "x \<in> set (book_entity_links L)" "bl_id x = i" for x
    using assms(2) old that by (auto simp: links_ok_def intro: distinct_key_eq)
  have set: "set (book_entity_links L') = ?g ` set (book_entity_links L)"
    by (simp add: L' updateWhere_def)
  have ex': "\<not> linksExclude x (?f old)" if "x \<in> set (book_entity_links L)" "bl_id x \<noteq> i" for x
    using ex that linksExclude_sym [of x "?f old"] by simp
  have "distinct (map bl_id (book_entity_links L'))"
    using assms(2) by (simp add: L' map_updateWhere links_ok_def)
  moreover have "notAfter (bl_effectiveFrom (?g x)) (bl_effectiveTo (?g x))"
    if "x \<in> set (book_entity_links L)" for x
    using assms(2) that uniq [of x] ft by (auto simp: links_ok_def notAfter_def)
  moreover have "?g x = ?g y"
    if xy: "x \<in> set (book_entity_links L)" "y \<in> set (book_entity_links L)" "linksExclude (?g x) (?g y)" for x y
  proof (cases "bl_id x = i \<or> bl_id y = i")
    case True
    then show ?thesis
      using xy uniq [of x] uniq [of y] ex ex' [of x] by (cases "bl_id x = i"; cases "bl_id y = i") simp_all
  next
    case False
    with xy assms(2) show ?thesis by (auto simp: links_ok_def)
  qed
  ultimately show ?thesis unfolding links_ok_def set by blast
qed

lemma routeAlong_Some:
  "routeAlong L d k c = Some r \<longleftrightarrow>
     (\<exists>j < length c. rt_depth r = k + j \<and> rt_entityId r = c ! j \<and>
        (\<exists>l. primaryLinkOn L (c ! j) d = Some l \<and> rt_accountingBookId r = bl_accountingBookId l) \<and>
        (\<forall>m < j. primaryLinkOn L (c ! m) d = None))"
proof (induction c arbitrary: k)
  case (Cons i c)
  have ex: "(\<exists>j < length (i # c). P j) \<longleftrightarrow> P 0 \<or> (\<exists>j < length c. P (Suc j))" for P
    using Ex_less_Suc2 [of "length c" P] by simp
  have all: "(\<forall>m < Suc j. P m) \<longleftrightarrow> P 0 \<and> (\<forall>m < j. P (Suc m))" for P and j :: nat
    by (rule All_less_Suc2)
  show ?case
  proof (cases "primaryLinkOn L i d")
    case None
    then show ?thesis unfolding ex all using Cons.IH [of "Suc k"] by simp
  next
    case (Some l)
    then show ?thesis unfolding ex all by (cases r) auto
  qed
qed simp

lemma parseLinkEntity_keeps:
  "parseLinkEntity i = Inr v \<Longrightarrow> li_accountingBookId v = li_accountingBookId i \<and>
     li_economicEntityId v = li_economicEntityId i \<and> li_linkRole v = li_linkRole i \<and>
     li_effectiveFrom v = li_effectiveFrom i \<and> li_effectiveTo v = li_effectiveTo i"
  by (auto simp: parseLinkEntity_def)

lemma route_own_link:
  assumes "links_ok (book_entity_links L)" and "find (\<lambda>x. ee_id x = i) (economic_entities L) = Some ent"
    and "l \<in> set (book_entity_links L)" "bl_economicEntityId l = i" "bl_linkRole l = PostingPrimary" "linkCovers d l"
  shows "routeThroughEntity L i d = Some \<lparr>rt_accountingBookId = bl_accountingBookId l, rt_depth = 0, rt_entityId = i\<rparr>"
proof -
  have "primaryLinkOn L i d = Some l" using assms by (simp add: primaryLinkOn_Some)
  moreover have "\<exists>c. entityChain 32 (economic_entities L) i = i # c"
    using assms(2) find_SomeD [OF assms(2)] by (subst entityChain.simps) auto
  ultimately show ?thesis by (auto simp: routeThroughEntity_def)
qed

section \<open>Properties\<close>

text \<open>C23. Routing is deterministic and picks the nearest: \<open>routeThroughEntity\<close> answers exactly
  when some entity of the chain (the entity, then its ancestors, at most 32 levels up) has a
  posting link that covers the date; it names the first such entity and that link's book, and
  no entity nearer has a covering link.\<close>

theorem routeThroughEntity_nearest:
  assumes "links_ok (book_entity_links L)"
  shows "routeThroughEntity L i d = Some r \<longleftrightarrow>
    (let c = entityChain 32 (economic_entities L) i in
     rt_depth r < length c \<and> rt_entityId r = c ! rt_depth r \<and>
     (\<exists>l \<in> set (book_entity_links L). bl_economicEntityId l = rt_entityId r \<and>
        bl_linkRole l = PostingPrimary \<and> linkCovers d l \<and> bl_accountingBookId l = rt_accountingBookId r) \<and>
     (\<forall>m < rt_depth r. \<forall>l \<in> set (book_entity_links L).
        \<not> (bl_economicEntityId l = c ! m \<and> bl_linkRole l = PostingPrimary \<and> linkCovers d l)))"
proof -
  have none: "primaryLinkOn L x d = None \<longleftrightarrow> (\<forall>l \<in> set (book_entity_links L).
      \<not> (bl_economicEntityId l = x \<and> bl_linkRole l = PostingPrimary \<and> linkCovers d l))" for x
    by (auto simp: primaryLinkOn_def find_None_iff)
  show ?thesis
    unfolding routeThroughEntity_def routeAlong_Some Let_def none primaryLinkOn_Some [OF assms]
    by auto
qed

definition entityOf :: "string \<Rightarrow> string option \<Rightarrow> economic_entity" where
  "entityOf i p = \<lparr>ee_id = i, ee_name = i, ee_parentEntityId = p\<rparr>"

definition primaryLink :: "string \<Rightarrow> string \<Rightarrow> string \<Rightarrow> date \<Rightarrow> book_entity_link" where
  "primaryLink i b ent from = \<lparr>bl_id = i, bl_accountingBookId = b, bl_economicEntityId = ent,
     bl_linkRole = PostingPrimary, bl_effectiveFrom = from, bl_effectiveTo = None,
     bl_dimensionLabel = None, bl_note = None, bl_createdByUserId = None\<rparr>"

definition sampleGroup :: ledger where
  "sampleGroup = emptyLedger\<lparr>
     economic_entities := [entityOf ''parent'' None, entityOf ''child'' (Some ''parent'')],
     accounting_books := [sampleBook, sampleBook\<lparr>bk_id := ''b2'', bk_code := ''B2''\<rparr>],
     book_entity_links := [primaryLink ''l'' ''b'' ''parent'' (Date 2026 6 1)]\<rparr>"

definition sampleLink :: link_entity_input where
  "sampleLink = \<lparr>li_accountingBookId = ''b2'', li_economicEntityId = ''child'', li_linkRole = PostingPrimary,
     li_effectiveFrom = Date 2026 1 1, li_effectiveTo = None, li_dimensionLabel = None, li_note = None,
     li_createdByUserId = None, li_requestId = None\<rparr>"

theorem routeThroughEntity_nearest_witness:
  "\<exists>r. routeThroughEntity sampleGroup ''child'' (Date 2026 7 1) = Some r \<and>
     rt_depth r < length (entityChain 32 (economic_entities sampleGroup) ''child'')"
proof -
  have ok: "links_ok (book_entity_links sampleGroup)" by code_simp
  have "routeThroughEntity sampleGroup ''child'' (Date 2026 7 1) =
      Some \<lparr>rt_accountingBookId = ''b'', rt_depth = 1, rt_entityId = ''parent''\<rparr>" by code_simp
  then show ?thesis using routeThroughEntity_nearest [OF ok] by (metis (no_types, lifting))
qed




end
