(* ===== verification/Journal.thy ===== *)
theory Journal
  imports Books
begin

text \<open>
  \<^verbatim>\<open>packages/accounting/src/journal.ts\<close>: drafting, posting, voiding and reversing journal
  entries. Each operation is one transaction: \<open>Inr\<close> is the committed result and state, \<open>Inl\<close> a
  throw, after which the database is as it was. An operation draws \<open>uuidAt 0\<close> for the entry's
  header, \<open>uuidAt 1\<close> for its audit event and \<open>uuidAt (2 + i)\<close> for its \<open>i\<close>-th line.

  \<open>postEntryOn\<close> separates the state its transaction saw from the state it re-reads after a
  unique violation, which another caller may have changed in between.
\<close>

section \<open>Input\<close>

type_synonym tag = "uuid \<times> uuid"

record line_input =
  ln_ledgerAccountId :: "uuid option"
  ln_accountSystemKey :: "string option"
  ln_economicEntityId :: "uuid option"
  ln_lineNumber :: "int option"
  ln_description :: "string option"
  ln_currency :: "string option"
  ln_amount :: string
  ln_dimensions :: "tag list"

record source_link_input =
  si_sourceFactType :: string
  si_sourceFactId :: uuid
  si_role :: source_role
  si_amountContributed :: "string option"
  si_currency :: "string option"

record entry_input =
  en_accountingBookId :: "uuid option"
  en_economicEntityId :: "uuid option"
  en_installationDefaultBookId :: "uuid option"
  en_entryDate :: date
  en_description :: string
  en_memo :: "string option"
  en_entrySource :: entry_source
  en_postingRuleVersionId :: "uuid option"
  en_postingKey :: "string option"
  en_sourceFactType :: "string option"
  en_sourceFactId :: "uuid option"
  en_sourceFactFingerprint :: "string option"
  en_lines :: "line_input list"
  en_sourceLinks :: "source_link_input list"
  en_createdByUserId :: "string option"
  en_requestId :: "string option"
  en_allowBackdated :: bool
  en_postedByUserId :: "string option"

definition parseLineInput :: "line_input \<Rightarrow> line_input acc" where
  "parseLineInput l =
     bindE (trimMinOpt (ln_accountSystemKey l)) (\<lambda>key.
     bindE (trimMinOpt (ln_description l)) (\<lambda>description.
     bindE (assertE (case ln_lineNumber l of None \<Rightarrow> True | Some n \<Rightarrow> 0 < n) AccountingValidationError) (\<lambda>_.
     bindE (assertE (case ln_currency l of None \<Rightarrow> True | Some c \<Rightarrow> isAlpha3 c) AccountingValidationError) (\<lambda>_.
     bindE (assertE (DECIMAL_STRING (ln_amount l)) AccountingValidationError) (\<lambda>_.
     bindE (assertE ((ln_ledgerAccountId l = None) \<noteq> (ln_accountSystemKey l = None)) AccountingValidationError) (\<lambda>_.
       Inr (l\<lparr>ln_accountSystemKey := key, ln_description := description\<rparr>)))))))"

definition parseSourceLink :: "source_link_input \<Rightarrow> source_link_input acc" where
  "parseSourceLink s =
     bindE (trimMin (si_sourceFactType s)) (\<lambda>factType.
     bindE (assertE (case si_amountContributed s of None \<Rightarrow> True | Some a \<Rightarrow> DECIMAL_STRING a) AccountingValidationError) (\<lambda>_.
     bindE (assertE (case si_currency s of None \<Rightarrow> True | Some c \<Rightarrow> isAlpha3 c) AccountingValidationError) (\<lambda>_.
       Inr (s\<lparr>si_sourceFactType := factType\<rparr>))))"

definition parseEntryInput :: "entry_input \<Rightarrow> entry_input acc" where
  "parseEntryInput i =
     bindE (trimMin (en_description i)) (\<lambda>description.
     bindE (trimMinOpt (en_memo i)) (\<lambda>memo.
     bindE (trimMinOpt (en_postingKey i)) (\<lambda>postingKey.
     bindE (trimMinOpt (en_sourceFactType i)) (\<lambda>factType.
     bindE (trimMinOpt (en_sourceFactFingerprint i)) (\<lambda>fingerprint.
     bindE (mapE parseLineInput (en_lines i)) (\<lambda>ls.
     bindE (assertE (ls \<noteq> []) AccountingValidationError) (\<lambda>_.
     bindE (mapE parseSourceLink (en_sourceLinks i)) (\<lambda>links.
     bindE (assertE (minOne (en_createdByUserId i) \<and> minOne (en_requestId i) \<and> minOne (en_postedByUserId i))
       AccountingValidationError) (\<lambda>_.
       Inr (i\<lparr>en_description := description, en_memo := memo, en_postingKey := postingKey,
         en_sourceFactType := factType, en_sourceFactFingerprint := fingerprint,
         en_lines := ls, en_sourceLinks := links\<rparr>))))))))))"

section \<open>Balance\<close>

record resolved_line =
  rs_ledgerAccountId :: uuid
  rs_economicEntityId :: "uuid option"
  rs_lineNumber :: int
  rs_description :: "string option"
  rs_currency :: string
  rs_amount :: string
  rs_functionalCurrency :: string
  rs_functionalAmount :: string
  rs_dimensions :: "tag list"

text \<open>\<^verbatim>\<open>map.set(k, [...(map.get(k) ?? []), v])\<close> on a map kept in insertion order.\<close>

fun mapAppend :: "'k \<Rightarrow> 'v \<Rightarrow> ('k \<times> 'v list) list \<Rightarrow> ('k \<times> 'v list) list" where
  "mapAppend k v [] = [(k, [v])]"
| "mapAppend k v ((k', vs) # m) = (if k = k' then (k', vs @ [v]) # m else (k', vs) # mapAppend k v m)"

definition groupInto :: "('k \<times> 'v) list \<Rightarrow> ('k \<times> 'v list) list" where
  "groupInto kvs = foldl (\<lambda>m (k, v). mapAppend k v m) [] kvs"

definition assertGroupsZero :: "(string \<times> string list) list \<Rightarrow> unit acc" where
  "assertGroupsZero gs =
     bindE (mapE (\<lambda>(_, amounts).
       bindE (sumDecimals amounts) (\<lambda>total.
       bindE (isZeroDecimal total) (\<lambda>z. assertE z UnbalancedEntryError))) gs) (\<lambda>_. Inr ())"

text \<open>A line as the check sees it: currency, amount, functional currency, functional amount.\<close>

type_synonym balance_line = "string \<times> string \<times> string \<times> string"

definition assertBalanced :: "balance_line list \<Rightarrow> unit acc" where
  "assertBalanced ls =
     bindE (assertE (2 \<le> length ls) UnbalancedEntryError) (\<lambda>_.
     bindE (assertGroupsZero (groupInto (map (\<lambda>(c, a, _, _). (c, a)) ls))) (\<lambda>_.
     assertGroupsZero (groupInto (map (\<lambda>(_, _, fc, fa). (fc, fa)) ls))))"

definition balanceOfResolved :: "resolved_line \<Rightarrow> balance_line" where
  "balanceOfResolved l = (rs_currency l, rs_amount l, rs_functionalCurrency l, rs_functionalAmount l)"

definition balanceOfRow :: "journal_line \<Rightarrow> balance_line" where
  "balanceOfRow l =
     (jl_currency l, money_text (jl_amount l), jl_functionalCurrency l, money_text (jl_functionalAmount l))"

section \<open>Helpers\<close>

definition loadEntry :: "ledger \<Rightarrow> uuid \<Rightarrow> journal_entry acc" where
  "loadEntry L i =
     fromOption AccountingNotFoundError (find (\<lambda>r. je_id r = i) (journal_entries L))"

definition loadLines :: "ledger \<Rightarrow> uuid \<Rightarrow> journal_line list" where
  "loadLines L i = sort_key jl_lineNumber (linesOf L i)"

definition loadPostingBook :: "ledger \<Rightarrow> uuid \<Rightarrow> accounting_book acc" where
  "loadPostingBook L i =
     bindE (loadBook L i) (\<lambda>row.
     bindE (assertE (bk_status row = Active) AccountingValidationError) (\<lambda>_.
     bindE (assertSupportedCurrency (bk_functionalCurrency row)) (\<lambda>_. Inr row)))"

definition resolvePeriodRow :: "ledger \<Rightarrow> uuid \<Rightarrow> date \<Rightarrow> fiscal_period acc" where
  "resolvePeriodRow L b d =
     (case find (periodCovers b d) (fiscal_periods L) of
        None \<Rightarrow> Inl FiscalPeriodClosedError
      | Some p \<Rightarrow> fromOption FiscalPeriodClosedError (find (\<lambda>q. fp_id q = fp_id p) (fiscal_periods L)))"

definition lineAccount :: "ledger \<Rightarrow> accounting_book \<Rightarrow> line_input \<Rightarrow> ledger_account option" where
  "lineAccount L book l =
     (case ln_ledgerAccountId l of
        Some i \<Rightarrow> find (\<lambda>a. la_id a = i) (ledger_accounts L)
      | None \<Rightarrow> find (\<lambda>a. la_accountingBookId a = bk_id book \<and>
          la_systemKey a = Some (case ln_accountSystemKey l of None \<Rightarrow> [] | Some k \<Rightarrow> k)) (ledger_accounts L))"

definition resolveLine :: "ledger \<Rightarrow> accounting_book \<Rightarrow> nat \<Rightarrow> line_input \<Rightarrow> resolved_line acc" where
  "resolveLine L book index l =
     bindE (fromOption AccountingNotFoundError (lineAccount L book l)) (\<lambda>account.
     bindE (assertE (la_accountingBookId account = bk_id book) AccountingValidationError) (\<lambda>_.
     bindE (assertE (la_isPostable account) AccountingValidationError) (\<lambda>_.
     bindE (assertE (la_status account = Active) AccountingValidationError) (\<lambda>_.
     bindE (assertSupportedCurrency (case ln_currency l of None \<Rightarrow> bk_functionalCurrency book | Some c \<Rightarrow> c)) (\<lambda>currency.
     bindE (assertE (currency = bk_functionalCurrency book) UnsupportedCurrencyError) (\<lambda>_.
     bindE (toMoneyString (ln_amount l)) (\<lambda>amount.
     bindE (isZeroDecimal amount) (\<lambda>zero.
     bindE (assertE (\<not> zero) AccountingValidationError) (\<lambda>_.
       Inr \<lparr>rs_ledgerAccountId = la_id account, rs_economicEntityId = ln_economicEntityId l,
         rs_lineNumber = (case ln_lineNumber l of None \<Rightarrow> int index + 1 | Some n \<Rightarrow> n),
         rs_description = ln_description l, rs_currency = currency, rs_amount = amount,
         rs_functionalCurrency = bk_functionalCurrency book, rs_functionalAmount = amount,
         rs_dimensions = ln_dimensions l\<rparr>)))))))))"

definition resolveLines :: "ledger \<Rightarrow> accounting_book \<Rightarrow> line_input list \<Rightarrow> resolved_line list acc" where
  "resolveLines L book ls = mapE (\<lambda>(index, l). resolveLine L book index l) (enumerate 0 ls)"

definition assertRequiredDimensions ::
  "ledger \<Rightarrow> accounting_book \<Rightarrow> (int \<times> uuid list) list \<Rightarrow> unit acc" where
  "assertRequiredDimensions L book ls =
     (let required = filter (\<lambda>d. ad_accountingBookId d = bk_id book \<and> ad_isRequired d \<and> ad_active d)
           (accounting_dimensions L)
      in assertE (list_all (\<lambda>(_, ids). list_all (\<lambda>d. List.member ids (ad_id d)) required) ls)
           AccountingValidationError)"

definition MAX_SAFE_INTEGER :: int where
  "MAX_SAFE_INTEGER = 9007199254740991"

definition nextEntryNumber :: "uuid \<Rightarrow> ledger \<Rightarrow> (int \<times> ledger) acc" where
  "nextEntryNumber b L =
     (let next = (case find (\<lambda>r. bk_id r = b) (accounting_books L) of None \<Rightarrow> 0 | Some r \<Rightarrow> bk_nextEntryNumber r) in
      bindE (assertE (1 \<le> next \<and> next \<le> MAX_SAFE_INTEGER) AccountingConflictError) (\<lambda>_.
      Inr (next, L\<lparr>accounting_books := updateWhere (\<lambda>r. bk_id r = b)
        (bk_nextEntryNumber_update (\<lambda>n. n + 1)) (accounting_books L)\<rparr>)))"

definition lineRow :: "env \<Rightarrow> uuid \<Rightarrow> uuid \<Rightarrow> nat \<Rightarrow> resolved_line \<Rightarrow> journal_line acc" where
  "lineRow e b entryId index l =
     bindE (numericColumn (rs_amount l)) (\<lambda>amount.
     bindE (numericColumn (rs_functionalAmount l)) (\<lambda>functionalAmount.
       Inr \<lparr>jl_id = uuidAt e (2 + index), jl_journalEntryId = entryId, jl_accountingBookId = b,
         jl_ledgerAccountId = rs_ledgerAccountId l, jl_economicEntityId = rs_economicEntityId l,
         jl_lineNumber = rs_lineNumber l, jl_description = rs_description l,
         jl_currency = rs_currency l, jl_amount = amount,
         jl_functionalCurrency = rs_functionalCurrency l, jl_functionalAmount = functionalAmount\<rparr>))"

definition insertLines ::
  "env \<Rightarrow> uuid \<Rightarrow> uuid \<Rightarrow> resolved_line list \<Rightarrow> ledger \<Rightarrow> (journal_line list \<times> ledger) acc" where
  "insertLines e b entryId ls L =
     bindE (mapE (\<lambda>(index, l). lineRow e b entryId index l) (enumerate 0 ls)) (\<lambda>rows.
     bindE (insertLineRows rows L) (\<lambda>L1.
     let tags = concat (map (\<lambda>(row, l). map (\<lambda>(d, v).
           \<lparr>jd_journalLineId = jl_id row, jd_dimensionId = d, jd_dimensionValueId = v\<rparr>) (rs_dimensions l)) (zip rows ls))
     in bindE (insertLineDimensionRows tags L1) (\<lambda>L2.
        Inr (sort_key jl_lineNumber rows, L2))))"

fun moneyColumnOpt :: "string option \<Rightarrow> int option acc" where
  "moneyColumnOpt None = Inr None"
| "moneyColumnOpt (Some a) = bindE (toMoneyString a) (\<lambda>m. bindE (numericColumn m) (\<lambda>u. Inr (Some u)))"

definition sourceLinkRow :: "uuid \<Rightarrow> source_link_input \<Rightarrow> journal_entry_source_link acc" where
  "sourceLinkRow entryId s =
     bindE (moneyColumnOpt (si_amountContributed s)) (\<lambda>amount.
       Inr \<lparr>sl_journalEntryId = entryId, sl_sourceFactType = si_sourceFactType s,
         sl_sourceFactId = si_sourceFactId s, sl_role = si_role s,
         sl_amountContributed = amount, sl_currency = si_currency s\<rparr>)"

definition insertSourceLinks :: "uuid \<Rightarrow> source_link_input list \<Rightarrow> ledger \<Rightarrow> ledger acc" where
  "insertSourceLinks entryId links L =
     bindE (mapE (sourceLinkRow entryId) links) (\<lambda>rows. insertSourceLinkRows rows L)"

definition postedStamp ::
  "env \<Rightarrow> int \<Rightarrow> uuid \<Rightarrow> bool \<Rightarrow> string option \<Rightarrow> journal_entry \<Rightarrow> journal_entry" where
  "postedStamp e entryNumber periodId isBackdated postedBy r =
     r\<lparr>je_status := Posted, je_entryNumber := Some entryNumber, je_fiscalPeriodId := Some periodId,
       je_isBackdated := isBackdated, je_postedAt := Some (now e), je_postedByUserId := postedBy\<rparr>"

definition markPosted ::
  "env \<Rightarrow> uuid \<Rightarrow> int \<Rightarrow> uuid \<Rightarrow> bool \<Rightarrow> string option \<Rightarrow> ledger \<Rightarrow> (journal_entry \<times> ledger) acc" where
  "markPosted e i entryNumber periodId isBackdated postedBy L =
     bindE (textLiteralOpt postedBy) (\<lambda>by.
     bindE (updateEntry i (postedStamp e entryNumber periodId isBackdated by) L) (\<lambda>L1.
     bindE (loadEntry L1 i) (\<lambda>r. Inr (r, L1))))"

record posted_entry =
  pe_entry :: journal_entry
  pe_lines :: "journal_line list"
  pe_reused :: bool
  pe_routing :: "book_routing option"

definition existingByPostingKey :: "ledger \<Rightarrow> string \<Rightarrow> posted_entry option" where
  "existingByPostingKey L key =
     map_option (\<lambda>found. \<lparr>pe_entry = found, pe_lines = loadLines L (je_id found), pe_reused = True,
         pe_routing = None\<rparr>)
       (find (\<lambda>r. je_postingKey r = Some key) (journal_entries L))"

record header =
  hd_entryDate :: date
  hd_description :: string
  hd_memo :: "string option"
  hd_entrySource :: entry_source
  hd_postingRuleVersionId :: "uuid option"
  hd_postingKey :: "string option"
  hd_sourceFactType :: "string option"
  hd_sourceFactId :: "uuid option"
  hd_sourceFactFingerprint :: "string option"
  hd_createdByUserId :: "string option"
  hd_reversesEntryId :: "uuid option"

definition headerRow :: "env \<Rightarrow> uuid \<Rightarrow> header \<Rightarrow> journal_entry" where
  "headerRow e b h =
     \<lparr>je_id = uuidAt e 0, je_accountingBookId = b, je_entryNumber = None, je_fiscalPeriodId = None,
      je_entryDate = hd_entryDate h, je_status = Draft, je_entrySource = hd_entrySource h,
      je_postingKey = hd_postingKey h, je_postingRuleVersionId = hd_postingRuleVersionId h,
      je_sourceFactType = hd_sourceFactType h, je_sourceFactId = hd_sourceFactId h,
      je_sourceFactFingerprint = hd_sourceFactFingerprint h, je_reversesEntryId = hd_reversesEntryId h,
      je_isBackdated = False, je_description = hd_description h, je_memo = hd_memo h,
      je_postedAt = None, je_postedByUserId = None, je_createdByUserId = hd_createdByUserId h\<rparr>"

definition insertHeader :: "env \<Rightarrow> uuid \<Rightarrow> header \<Rightarrow> ledger \<Rightarrow> (journal_entry \<times> ledger) acc" where
  "insertHeader e b h L =
     bindE (assertE ((hd_sourceFactType h = None) = (hd_sourceFactId h = None)) AccountingValidationError) (\<lambda>_.
     bindE (assertE ((hd_entrySource h = PostingRule) = (hd_postingRuleVersionId h \<noteq> None)) AccountingValidationError) (\<lambda>_.
     bindE (insertEntry (headerRow e b h) L) (\<lambda>L1. Inr (headerRow e b h, L1))))"

definition headerOf :: "entry_input \<Rightarrow> header" where
  "headerOf v =
     \<lparr>hd_entryDate = en_entryDate v, hd_description = en_description v, hd_memo = en_memo v,
      hd_entrySource = en_entrySource v, hd_postingRuleVersionId = en_postingRuleVersionId v,
      hd_postingKey = en_postingKey v, hd_sourceFactType = en_sourceFactType v,
      hd_sourceFactId = en_sourceFactId v, hd_sourceFactFingerprint = en_sourceFactFingerprint v,
      hd_createdByUserId = en_createdByUserId v, hd_reversesEntryId = None\<rparr>"

definition routeBook :: "ledger \<Rightarrow> entry_input \<Rightarrow> (accounting_book \<times> book_routing option) acc" where
  "routeBook L v =
     (case en_accountingBookId v of
        Some b \<Rightarrow> bindE (loadPostingBook L b) (\<lambda>book. Inr (book, None))
      | None \<Rightarrow>
          bindE (requireBookForEntity L (en_economicEntityId v) (en_entryDate v) (en_installationDefaultBookId v)) (\<lambda>routing.
          bindE (loadPostingBook L (br_accountingBookId routing)) (\<lambda>book. Inr (book, Some routing))))"

section \<open>Posting\<close>

fun insertSourceLinkGroups :: "uuid \<Rightarrow> source_link_input list list \<Rightarrow> ledger \<Rightarrow> ledger acc" where
  "insertSourceLinkGroups i [] L = Inr L"
| "insertSourceLinkGroups i (g # gs) L = bindE (insertSourceLinks i g L) (insertSourceLinkGroups i gs)"

text \<open>The writes \<^verbatim>\<open>postEntry\<close> and \<^verbatim>\<open>reverseEntry\<close> share, in their order: take the number,
  insert the draft header, its lines and its provenance, stamp it posted.\<close>

definition writePosted ::
  "env \<Rightarrow> uuid \<Rightarrow> header \<Rightarrow> resolved_line list \<Rightarrow> source_link_input list list \<Rightarrow> uuid \<Rightarrow> bool \<Rightarrow>
   string option \<Rightarrow> ledger \<Rightarrow> ((journal_entry \<times> journal_line list) \<times> ledger) acc" where
  "writePosted e b h ls links periodId isBackdated postedBy L =
     bindE (nextEntryNumber b L) (\<lambda>(entryNumber, L1).
     bindE (insertHeader e b h L1) (\<lambda>(draft, L2).
     bindE (insertLines e b (je_id draft) ls L2) (\<lambda>(rows, L3).
     bindE (insertSourceLinkGroups (je_id draft) links L3) (\<lambda>L4.
     bindE (markPosted e (je_id draft) entryNumber periodId isBackdated postedBy L4) (\<lambda>(entry, L5).
     Inr ((entry, rows), L5))))))"

fun routingText :: "book_routing option \<Rightarrow> string" where
  "routingText None = ''explicit''"
| "routingText (Some r) =
     (case br_source r of EntityLink \<Rightarrow> ''entity_link'' | ParentEntityLink \<Rightarrow> ''parent_entity_link''
      | InstallationDefault \<Rightarrow> ''installation_default'')"

definition orElse :: "'a option \<Rightarrow> 'a option \<Rightarrow> 'a option" where
  "orElse a b = (case a of None \<Rightarrow> b | Some x \<Rightarrow> Some x)"

definition attemptPost :: "env \<Rightarrow> entry_input \<Rightarrow> ledger \<Rightarrow> (posted_entry \<times> ledger) acc" where
  "attemptPost e v L =
     (case (case en_postingKey v of None \<Rightarrow> None | Some k \<Rightarrow> existingByPostingKey L k) of
        Some existing \<Rightarrow> Inr (existing, L)
      | None \<Rightarrow>
          bindE (routeBook L v) (\<lambda>(book, routing).
          bindE (resolveLines L book (en_lines v)) (\<lambda>ls.
          bindE (assertBalanced (map balanceOfResolved ls)) (\<lambda>_.
          bindE (assertRequiredDimensions L book (map (\<lambda>l. (rs_lineNumber l, map fst (rs_dimensions l))) ls)) (\<lambda>_.
          bindE (resolvePeriodRow L (bk_id book) (en_entryDate v)) (\<lambda>period.
          bindE (assertPeriodAcceptsPosting period (en_allowBackdated v)) (\<lambda>isBackdated.
          let actor = orElse (en_postedByUserId v) (en_createdByUserId v) in
          bindE (writePosted e (bk_id book) (headerOf v) ls [en_sourceLinks v] (fp_id period) isBackdated actor L)
            (\<lambda>((entry, rows), L1).
          bindE (appendAudit e 1
            (auditInput actor ''accounting.journal.posted'' ''journal_entry'' (je_id entry) None
               (Some (JObj [(''accountingBookId'', JStr (je_accountingBookId entry)),
                  (''entryNumber'', jopt JNum (je_entryNumber entry)),
                  (''entryDate'', jdate (je_entryDate entry)),
                  (''fiscalPeriodId'', jstro (je_fiscalPeriodId entry)),
                  (''isBackdated'', JBool (je_isBackdated entry)),
                  (''lineCount'', JNum (int (length rows))),
                  (''postingKey'', jstro (je_postingKey entry)),
                  (''sourceFactType'', jstro (je_sourceFactType entry)),
                  (''sourceFactId'', jstro (je_sourceFactId entry))]))
               (en_requestId v)
               (Some (JObj [(''bookCode'', JStr (bk_code book)), (''periodCode'', JStr (fp_periodCode period)),
                  (''routing'', JStr (routingText routing))]))) L1) (\<lambda>L2.
          bindE (commitEntries [je_id entry] L2) (\<lambda>L3.
          Inr (\<lparr>pe_entry = entry, pe_lines = rows, pe_reused = False, pe_routing = routing\<rparr>, L3)))))))))))"

definition postEntryOn ::
  "env \<Rightarrow> entry_input \<Rightarrow> ledger \<Rightarrow> ledger \<Rightarrow> (posted_entry \<times> ledger) acc" where
  "postEntryOn e input L reread =
     bindE (parseEntryInput input) (\<lambda>v.
       case attemptPost e v L of
         Inr r \<Rightarrow> Inr r
       | Inl err \<Rightarrow>
           (if isUniqueViolation err then
              (case en_postingKey v of
                 None \<Rightarrow> Inl err
               | Some k \<Rightarrow>
                   (case existingByPostingKey reread k of
                      None \<Rightarrow> Inl err
                    | Some existing \<Rightarrow> Inr (existing, reread)))
            else Inl err))"

definition postEntry :: "env \<Rightarrow> entry_input \<Rightarrow> ledger \<Rightarrow> (posted_entry \<times> ledger) acc" where
  "postEntry e input L = postEntryOn e input L L"

section \<open>Drafts\<close>

definition createDraft :: "env \<Rightarrow> entry_input \<Rightarrow> ledger \<Rightarrow> (posted_entry \<times> ledger) acc" where
  "createDraft e input L =
     bindE (parseEntryInput input) (\<lambda>v.
     bindE (routeBook L v) (\<lambda>(book, routing).
     bindE (resolveLines L book (en_lines v)) (\<lambda>ls.
     bindE (insertHeader e (bk_id book) (headerOf v) L) (\<lambda>(draft, L1).
     bindE (insertLines e (bk_id book) (je_id draft) ls L1) (\<lambda>(rows, L2).
     bindE (insertSourceLinks (je_id draft) (en_sourceLinks v) L2) (\<lambda>L3.
     bindE (appendAudit e 1
       (auditInput (en_createdByUserId v) ''accounting.journal.drafted'' ''journal_entry'' (je_id draft) None
          (Some (JObj [(''accountingBookId'', JStr (je_accountingBookId draft)),
             (''entryDate'', jdate (je_entryDate draft)), (''lineCount'', JNum (int (length rows)))]))
          (en_requestId v) (Some (JObj [(''bookCode'', JStr (bk_code book))]))) L3) (\<lambda>L4.
     bindE (commitEntries [je_id draft] L4) (\<lambda>L5.
     Inr (\<lparr>pe_entry = draft, pe_lines = rows, pe_reused = False, pe_routing = routing\<rparr>, L5)))))))))"

definition lineDimensionIds :: "ledger \<Rightarrow> journal_line \<Rightarrow> uuid list" where
  "lineDimensionIds L l =
     map jd_dimensionId (filter (\<lambda>d. jd_journalLineId d = jl_id l) (journal_line_dimensions L))"

definition postDraft ::
  "env \<Rightarrow> uuid \<Rightarrow> bool \<Rightarrow> string option \<Rightarrow> string option \<Rightarrow> ledger \<Rightarrow> (posted_entry \<times> ledger) acc" where
  "postDraft e i allowBackdated postedBy requestId L =
     bindE (loadEntry L i) (\<lambda>draft.
     bindE (assertE (je_status draft = Draft) LedgerImmutableError) (\<lambda>_.
     bindE (loadPostingBook L (je_accountingBookId draft)) (\<lambda>book.
     let rows = loadLines L (je_id draft) in
     bindE (assertBalanced (map balanceOfRow rows)) (\<lambda>_.
     bindE (assertRequiredDimensions L book (map (\<lambda>l. (jl_lineNumber l, lineDimensionIds L l)) rows)) (\<lambda>_.
     bindE (resolvePeriodRow L (bk_id book) (je_entryDate draft)) (\<lambda>period.
     bindE (assertPeriodAcceptsPosting period allowBackdated) (\<lambda>isBackdated.
     bindE (nextEntryNumber (bk_id book) L) (\<lambda>(entryNumber, L1).
     bindE (markPosted e (je_id draft) entryNumber (fp_id period) isBackdated postedBy L1) (\<lambda>(entry, L2).
     bindE (appendAudit e 1
       (auditInput postedBy ''accounting.journal.posted'' ''journal_entry'' (je_id entry)
          (Some (JObj [(''status'', JStr (entryStatusText (je_status draft)))]))
          (Some (JObj [(''status'', JStr (entryStatusText (je_status entry))),
             (''entryNumber'', jopt JNum (je_entryNumber entry)),
             (''fiscalPeriodId'', jstro (je_fiscalPeriodId entry)),
             (''isBackdated'', JBool (je_isBackdated entry)),
             (''lineCount'', JNum (int (length rows)))]))
          requestId
          (Some (JObj [(''bookCode'', JStr (bk_code book)), (''periodCode'', JStr (fp_periodCode period))]))) L2) (\<lambda>L3.
     bindE (commitEntries [je_id entry] L3) (\<lambda>L4.
     Inr (\<lparr>pe_entry = entry, pe_lines = rows, pe_reused = False, pe_routing = None\<rparr>, L4))))))))))))"

definition voidDraft ::
  "env \<Rightarrow> uuid \<Rightarrow> string \<Rightarrow> string option \<Rightarrow> string option \<Rightarrow> ledger \<Rightarrow> (journal_entry \<times> ledger) acc" where
  "voidDraft e i reason actor requestId L =
     bindE (assertE (js_trim reason \<noteq> []) AccountingValidationError) (\<lambda>_.
     bindE (loadEntry L i) (\<lambda>before.
     if je_status before = Void then Inr (before, L)
     else
       bindE (assertE (je_status before = Draft) LedgerImmutableError) (\<lambda>_.
       bindE (updateEntry (je_id before) (je_status_update (\<lambda>_. Void)) L) (\<lambda>L1.
       bindE (loadEntry L1 (je_id before)) (\<lambda>after.
       bindE (appendAudit e 1
         (auditInput actor ''accounting.journal.voided'' ''journal_entry'' (je_id before)
            (Some (JObj [(''status'', JStr (entryStatusText (je_status before)))]))
            (Some (JObj [(''status'', JStr (entryStatusText (je_status after)))]))
            requestId
            (Some (JObj [(''reason'', JStr (js_trim reason)),
               (''accountingBookId'', JStr (je_accountingBookId before))]))) L1) (\<lambda>L2.
       bindE (commitEntries [je_id before] L2) (\<lambda>L3.
       Inr (after, L3))))))))"

section \<open>Reversal\<close>

record reverse_input =
  ri_journalEntryId :: uuid
  ri_entryDate :: "date option"
  ri_reason :: string
  ri_allowBackdated :: bool
  ri_actorUserId :: "string option"
  ri_requestId :: "string option"

definition lineTags :: "ledger \<Rightarrow> journal_line \<Rightarrow> tag list" where
  "lineTags L l =
     map (\<lambda>d. (jd_dimensionId d, jd_dimensionValueId d))
       (filter (\<lambda>d. jd_journalLineId d = jl_id l) (journal_line_dimensions L))"

definition reversedLine :: "ledger \<Rightarrow> journal_line \<Rightarrow> resolved_line acc" where
  "reversedLine L l =
     bindE (negateDecimal (money_text (jl_amount l))) (\<lambda>amount.
     bindE (negateDecimal (money_text (jl_functionalAmount l))) (\<lambda>functionalAmount.
       Inr \<lparr>rs_ledgerAccountId = jl_ledgerAccountId l, rs_economicEntityId = jl_economicEntityId l,
         rs_lineNumber = jl_lineNumber l, rs_description = jl_description l,
         rs_currency = jl_currency l, rs_amount = amount,
         rs_functionalCurrency = jl_functionalCurrency l, rs_functionalAmount = functionalAmount,
         rs_dimensions = lineTags L l\<rparr>))"

definition reversalHeader :: "journal_entry \<Rightarrow> date \<Rightarrow> string \<Rightarrow> string option \<Rightarrow> header" where
  "reversalHeader original entryDate reason actor =
     \<lparr>hd_entryDate = entryDate, hd_description = ''Reversal of '' @ je_description original,
      hd_memo = Some reason, hd_entrySource = je_entrySource original,
      hd_postingRuleVersionId = je_postingRuleVersionId original,
      hd_postingKey = map_option (\<lambda>k. ''rev:'' @ k) (je_postingKey original),
      hd_sourceFactType = je_sourceFactType original, hd_sourceFactId = je_sourceFactId original,
      hd_sourceFactFingerprint = je_sourceFactFingerprint original,
      hd_createdByUserId = actor, hd_reversesEntryId = Some (je_id original)\<rparr>"

definition copiedLinks :: "ledger \<Rightarrow> uuid \<Rightarrow> source_link_input list" where
  "copiedLinks L i =
     map (\<lambda>k. \<lparr>si_sourceFactType = sl_sourceFactType k, si_sourceFactId = sl_sourceFactId k, si_role = sl_role k,
         si_amountContributed = map_option money_text (sl_amountContributed k), si_currency = sl_currency k\<rparr>)
       (filter (\<lambda>k. sl_journalEntryId k = i) (journal_entry_source_links L))"

definition reversedFromLink :: "journal_entry \<Rightarrow> source_link_input list" where
  "reversedFromLink r =
     (case (je_sourceFactType r, je_sourceFactId r) of
        (Some t, Some i) \<Rightarrow> [\<lparr>si_sourceFactType = t, si_sourceFactId = i, si_role = ReversedFrom,
          si_amountContributed = None, si_currency = None\<rparr>]
      | _ \<Rightarrow> [])"

definition reverseEntry :: "env \<Rightarrow> reverse_input \<Rightarrow> ledger \<Rightarrow> (posted_entry \<times> ledger) acc" where
  "reverseEntry e i L =
     (let reason = js_trim (ri_reason i) in
      bindE (assertE (reason \<noteq> []) AccountingValidationError) (\<lambda>_.
      bindE (loadEntry L (ri_journalEntryId i)) (\<lambda>original.
      bindE (assertE (je_status original \<noteq> Draft \<and> je_status original \<noteq> Void) LedgerImmutableError) (\<lambda>_.
      bindE (assertE (je_reversesEntryId original = None) LedgerImmutableError) (\<lambda>_.
      case find (\<lambda>r. je_reversesEntryId r = Some (je_id original)) (journal_entries L) of
        Some already \<Rightarrow>
          Inr (\<lparr>pe_entry = already, pe_lines = loadLines L (je_id already), pe_reused = True, pe_routing = None\<rparr>, L)
      | None \<Rightarrow>
          bindE (loadPostingBook L (je_accountingBookId original)) (\<lambda>book.
          let originalLines = loadLines L (je_id original) in
          bindE (assertE (originalLines \<noteq> []) AccountingValidationError) (\<lambda>_.
          let entryDate = (case ri_entryDate i of None \<Rightarrow> je_entryDate original | Some d \<Rightarrow> d) in
          bindE (resolvePeriodRow L (bk_id book) entryDate) (\<lambda>period.
          bindE (assertPeriodAcceptsPosting period (ri_allowBackdated i)) (\<lambda>isBackdated.
          bindE (mapE (reversedLine L) originalLines) (\<lambda>ls.
          bindE (writePosted e (bk_id book) (reversalHeader original entryDate reason (ri_actorUserId i)) ls
              [copiedLinks L (je_id original), reversedFromLink original] (fp_id period) isBackdated (ri_actorUserId i) L)
            (\<lambda>((posted, rows), L1).
          bindE (updateEntry (je_id original) (je_status_update (\<lambda>_. Reversed)) L1) (\<lambda>L2.
          bindE (appendAudit e 1
            (auditInput (ri_actorUserId i) ''accounting.journal.reversed'' ''journal_entry'' (je_id original)
               (Some (JObj [(''status'', JStr (entryStatusText (je_status original)))]))
               (Some (JObj [(''status'', JStr ''reversed''), (''reversalEntryId'', JStr (je_id posted)),
                  (''reversalEntryNumber'', jopt JNum (je_entryNumber posted)),
                  (''reversalEntryDate'', jdate (je_entryDate posted))]))
               (ri_requestId i)
               (Some (JObj [(''reason'', JStr reason), (''bookCode'', JStr (bk_code book)),
                  (''periodCode'', JStr (fp_periodCode period)),
                  (''linesReversed'', JNum (int (length rows)))]))) L2) (\<lambda>L3.
          bindE (commitEntries [je_id posted, je_id original] L3) (\<lambda>L4.
          Inr (\<lparr>pe_entry = posted, pe_lines = rows, pe_reused = False, pe_routing = None\<rparr>, L4)))))))))))))))"

section \<open>Reads\<close>

definition findByPostingKey :: "ledger \<Rightarrow> string \<Rightarrow> journal_entry option" where
  "findByPostingKey L key = find (\<lambda>r. je_postingKey r = Some key) (journal_entries L)"

definition findBySourceFact :: "ledger \<Rightarrow> string \<Rightarrow> uuid \<Rightarrow> journal_entry list" where
  "findBySourceFact L t i =
     filter (\<lambda>r. je_sourceFactType r = Some t \<and> je_sourceFactId r = Some i) (journal_entries L)"

record entry_filter =
  ef_accountingBookId :: "uuid option"
  ef_economicEntityId :: "uuid option"
  ef_statuses :: "entry_status list option"
  ef_from :: "date option"
  ef_to :: "date option"
  ef_limit :: "int option"

definition listEntries :: "ledger \<Rightarrow> entry_filter \<Rightarrow> journal_entry list" where
  "listEntries L f =
     (let matched = filter (\<lambda>r.
           (case ef_accountingBookId f of None \<Rightarrow> True | Some b \<Rightarrow> je_accountingBookId r = b) \<and>
           (case ef_statuses f of None \<Rightarrow> True | Some ss \<Rightarrow> ss \<noteq> [] \<longrightarrow> List.member ss (je_status r)) \<and>
           (case ef_from f of None \<Rightarrow> True | Some d \<Rightarrow> d \<le> je_entryDate r) \<and>
           (case ef_to f of None \<Rightarrow> True | Some d \<Rightarrow> je_entryDate r \<le> d)) (journal_entries L);
          byNumber = sort_key (\<lambda>r. case je_entryNumber r of None \<Rightarrow> 0 | Some n \<Rightarrow> n) matched;
          nullsLast = filter (\<lambda>r. je_entryNumber r \<noteq> None) byNumber @ filter (\<lambda>r. je_entryNumber r = None) byNumber;
          ordered = sort_key je_entryDate nullsLast
      in case ef_limit f of None \<Rightarrow> ordered | Some n \<Rightarrow> take (nat (max 1 n)) ordered)"

end
