(* ===== verification/Journal_Writes.thy ===== *)
theory Journal_Writes
  imports Journal "HOL-Library.Multiset"
begin

text \<open>
  What the journal's writes do to the tables: one characterisation per table write, and one
  per operation, so that the invariants are proved over appended and updated rows and never
  over the pipelines.
\<close>

section \<open>Table writes\<close>

definition lineAdmissible :: "ledger \<Rightarrow> journal_line \<Rightarrow> bool" where
  "lineAdmissible L r \<longleftrightarrow>
     jl_amount r \<noteq> 0 \<and> 0 < jl_lineNumber r \<and> jl_currency r = jl_functionalCurrency r \<and>
     (\<exists>e \<in> set (journal_entries L). je_id e = jl_journalEntryId r \<and> je_accountingBookId e = jl_accountingBookId r) \<and>
     (\<exists>a \<in> set (ledger_accounts L). la_id a = jl_ledgerAccountId r \<and> la_accountingBookId a = jl_accountingBookId r)"

text \<open>Two lines that may not both be in the table.\<close>

definition lineClash :: "journal_line \<Rightarrow> journal_line \<Rightarrow> bool" where
  "lineClash x r \<longleftrightarrow>
     jl_id x = jl_id r \<or> (jl_journalEntryId x = jl_journalEntryId r \<and> jl_lineNumber x = jl_lineNumber r)"

lemma lineClash_sym: "lineClash x r \<longleftrightarrow> lineClash r x"
  by (auto simp: lineClash_def)

lemma insertEntry_Inr [resE]:
  "insertEntry r L = Inr L' \<longleftrightarrow>
     validDate (je_entryDate r) \<and> (posted_status (je_status r) \<longrightarrow> periodGuard L r) \<and> entryChecks r \<and>
     (\<forall>x \<in> set (journal_entries L). \<not> entryClash r x) \<and> entryForeignKeys L r \<and>
     L' = L\<lparr>journal_entries := journal_entries L @ [r]\<rparr>"
  by (auto simp: insertEntry_def list_ex_iff)

lemma updateEntry_Inr [resE]:
  assumes "find (\<lambda>r. je_id r = i) (journal_entries L) = Some old"
  shows "updateEntry i f L = Inr L' \<longleftrightarrow>
     entryUpdateAllowed old (f old) \<and>
     (posted_status (je_status (f old)) \<longrightarrow>
        (posted_status (je_status old) \<and> je_entryDate old = je_entryDate (f old) \<and>
           je_fiscalPeriodId old = je_fiscalPeriodId (f old)) \<or> periodGuard L (f old)) \<and>
     entryChecks (f old) \<and> (\<forall>x \<in> set (journal_entries L). je_id x \<noteq> i \<longrightarrow> \<not> entryClash (f old) x) \<and>
     entryForeignKeys L (f old) \<and>
     L' = L\<lparr>journal_entries := updateWhere (\<lambda>r. je_id r = i) f (journal_entries L)\<rparr>"
  using assms by (auto simp: updateEntry_def Let_def list_ex_iff)

lemma insertLine_Inr [resE]:
  "insertLine r L = Inr L' \<Longrightarrow>
     lineAdmissible L r \<and> (\<forall>x \<in> set (journal_lines L). \<not> lineClash x r) \<and>
     (\<forall>e \<in> set (journal_entries L). je_id e = jl_journalEntryId r \<longrightarrow> je_status e = Draft) \<and>
     L' = L\<lparr>journal_lines := journal_lines L @ [r]\<rparr>"
  by (auto simp: insertLine_def list_ex_iff list_all_iff lineAdmissible_def lineClash_def)

lemma lineAdmissible_lines [simp]: "lineAdmissible (L\<lparr>journal_lines := x\<rparr>) r = lineAdmissible L r"
  by (simp add: lineAdmissible_def)

lemma insertLineRows_Inr:
  "insertLineRows rs L = Inr L' \<Longrightarrow>
     (\<forall>r \<in> set rs. lineAdmissible L r \<and> (\<forall>x \<in> set (journal_lines L). \<not> lineClash x r)) \<and>
     sorted_wrt (\<lambda>x r. \<not> lineClash x r) rs \<and>
     L' = L\<lparr>journal_lines := journal_lines L @ rs\<rparr>"
proof (induction rs arbitrary: L)
  case (Cons r rs)
  then obtain L1 where 1: "insertLine r L = Inr L1" and 2: "insertLineRows rs L1 = Inr L'" by auto
  note a = insertLine_Inr [OF 1] and b = Cons.IH [OF 2]
  have L1: "L1 = L\<lparr>journal_lines := journal_lines L @ [r]\<rparr>" using a by blast
  have "\<forall>x \<in> set rs. lineAdmissible L x \<and> \<not> lineClash r x \<and> (\<forall>y \<in> set (journal_lines L). \<not> lineClash y x)"
    using b unfolding L1 by simp
  with a b show ?case unfolding L1 by simp
qed simp

lemma insertLineDimensionRows_Inr:
  "insertLineDimensionRows rs L = Inr L' \<Longrightarrow>
     L' = L\<lparr>journal_line_dimensions := journal_line_dimensions L @ rs\<rparr>"
proof (induction rs arbitrary: L)
  case (Cons r rs)
  then obtain L1 where "insertLineDimension r L = Inr L1" and 2: "insertLineDimensionRows rs L1 = Inr L'" by auto
  then have "L1 = L\<lparr>journal_line_dimensions := journal_line_dimensions L @ [r]\<rparr>"
    by (simp add: insertLineDimension_def)
  with Cons.IH [OF 2] show ?case by simp
qed simp

text \<open>Only the provenance table may differ.\<close>

definition sameButLinks :: "ledger \<Rightarrow> ledger \<Rightarrow> bool" where
  "sameButLinks L L' \<longleftrightarrow> L' = L\<lparr>journal_entry_source_links := journal_entry_source_links L'\<rparr>"

lemma sameButLinks_refl [simp]: "sameButLinks L L"
  by (simp add: sameButLinks_def)

lemma sameButLinks_trans: "sameButLinks L L1 \<Longrightarrow> sameButLinks L1 L2 \<Longrightarrow> sameButLinks L L2"
proof -
  assume "sameButLinks L L1" and "sameButLinks L1 L2"
  then have 1: "L1 = L\<lparr>journal_entry_source_links := journal_entry_source_links L1\<rparr>"
    and 2: "L2 = L1\<lparr>journal_entry_source_links := journal_entry_source_links L2\<rparr>"
    by (simp_all add: sameButLinks_def)
  show "sameButLinks L L2" unfolding sameButLinks_def by (subst 2, subst 1) simp
qed

lemma sameButLinks_tables:
  assumes "sameButLinks L L'"
  shows "accounting_books L' = accounting_books L" "journal_entries L' = journal_entries L"
    "journal_lines L' = journal_lines L" "fiscal_periods L' = fiscal_periods L"
    "ledger_accounts L' = ledger_accounts L" "audit_events L' = audit_events L"
    "book_entity_links L' = book_entity_links L" "economic_entities L' = economic_entities L"
    "posting_rule_versions L' = posting_rule_versions L" "posting_rules L' = posting_rules L"
    "posting_rule_lines L' = posting_rule_lines L"
    "journal_line_dimensions L' = journal_line_dimensions L"
    "accounting_dimensions L' = accounting_dimensions L"
    "accounting_dimension_values L' = accounting_dimension_values L"
proof -
  have e: "L' = L\<lparr>journal_entry_source_links := journal_entry_source_links L'\<rparr>"
    using assms by (simp add: sameButLinks_def)
  show "accounting_books L' = accounting_books L" "journal_entries L' = journal_entries L"
    "journal_lines L' = journal_lines L" "fiscal_periods L' = fiscal_periods L"
    "ledger_accounts L' = ledger_accounts L" "audit_events L' = audit_events L"
    "book_entity_links L' = book_entity_links L" "economic_entities L' = economic_entities L"
    "posting_rule_versions L' = posting_rule_versions L" "posting_rules L' = posting_rules L"
    "posting_rule_lines L' = posting_rule_lines L"
    "journal_line_dimensions L' = journal_line_dimensions L"
    "accounting_dimensions L' = accounting_dimensions L"
    "accounting_dimension_values L' = accounting_dimension_values L"
    by (subst e, simp)+
qed

lemma insertSourceLinkRow_same: "insertSourceLinkRow r L = Inr L' \<Longrightarrow> sameButLinks L L'"
  by (auto simp: insertSourceLinkRow_def sameButLinks_def split: if_splits)

lemma insertSourceLinkRows_same: "insertSourceLinkRows rs L = Inr L' \<Longrightarrow> sameButLinks L L'"
  by (induction rs arbitrary: L) (auto dest: insertSourceLinkRow_same intro: sameButLinks_trans)

lemma insertSourceLinks_same: "insertSourceLinks i ls L = Inr L' \<Longrightarrow> sameButLinks L L'"
  by (auto simp: insertSourceLinks_def dest: insertSourceLinkRows_same)

lemma insertSourceLinkGroups_same: "insertSourceLinkGroups i gs L = Inr L' \<Longrightarrow> sameButLinks L L'"
  by (induction gs arbitrary: L) (auto dest: insertSourceLinks_same intro: sameButLinks_trans)

section \<open>Lines of a new entry\<close>

lemma lineRow_Inr:
  "lineRow e b i k l = Inr r \<Longrightarrow>
     jl_id r = uuidAt e (2 + k) \<and> jl_journalEntryId r = i \<and> jl_accountingBookId r = b \<and>
     jl_ledgerAccountId r = rs_ledgerAccountId l \<and> jl_economicEntityId r = rs_economicEntityId l \<and>
     jl_lineNumber r = rs_lineNumber l \<and> jl_currency r = rs_currency l \<and>
     jl_functionalCurrency r = rs_functionalCurrency l \<and> jl_description r = rs_description l \<and>
     moneyUnits (rs_amount l) = Inr (jl_amount r) \<and>
     moneyUnits (rs_functionalAmount l) = Inr (jl_functionalAmount r)"
  by (auto simp: lineRow_def numericColumn_def)

text \<open>A row carries what its resolved line says.\<close>

definition rowOf :: "uuid \<Rightarrow> uuid \<Rightarrow> resolved_line \<Rightarrow> journal_line \<Rightarrow> bool" where
  "rowOf b i l r \<longleftrightarrow>
     jl_journalEntryId r = i \<and> jl_accountingBookId r = b \<and>
     jl_ledgerAccountId r = rs_ledgerAccountId l \<and> jl_economicEntityId r = rs_economicEntityId l \<and>
     jl_lineNumber r = rs_lineNumber l \<and> jl_currency r = rs_currency l \<and>
     jl_functionalCurrency r = rs_functionalCurrency l \<and>
     moneyUnits (rs_amount l) = Inr (jl_amount r) \<and>
     moneyUnits (rs_functionalAmount l) = Inr (jl_functionalAmount r)"

lemma mapE_lineRow:
  "mapE (\<lambda>(k, l). lineRow e b i k l) (enumerate n ls) = Inr rows \<Longrightarrow> list_all2 (rowOf b i) ls rows"
proof (induction ls arbitrary: n rows)
  case (Cons l ls)
  then show ?case by (auto simp: rowOf_def dest!: lineRow_Inr)
qed simp

lemma insertLines_Inr:
  assumes "insertLines e b i ls L = Inr (srt, L')"
  obtains rows where
    "list_all2 (rowOf b i) ls rows" "srt = sort_key jl_lineNumber rows"
    "\<forall>r \<in> set rows. lineAdmissible L r \<and> (\<forall>x \<in> set (journal_lines L). \<not> lineClash x r)"
    "sorted_wrt (\<lambda>x r. \<not> lineClash x r) rows"
    "L' = L\<lparr>journal_lines := journal_lines L @ rows,
            journal_line_dimensions := journal_line_dimensions L'\<rparr>"
proof -
  from assms obtain rows L1 tags where
    rows: "mapE (\<lambda>(k, l). lineRow e b i k l) (enumerate 0 ls) = Inr rows"
    and 1: "insertLineRows rows L = Inr L1" and 2: "insertLineDimensionRows tags L1 = Inr L'"
    and s: "srt = sort_key jl_lineNumber rows"
    unfolding insertLines_def Let_def by auto
  have "L' = L\<lparr>journal_lines := journal_lines L @ rows, journal_line_dimensions := journal_line_dimensions L'\<rparr>"
    using insertLineRows_Inr [OF 1] insertLineDimensionRows_Inr [OF 2] by simp
  then show ?thesis
    using that [OF mapE_lineRow [OF rows] s] insertLineRows_Inr [OF 1] by blast
qed

section \<open>Counter\<close>

definition bumpBook :: "uuid \<Rightarrow> accounting_book list \<Rightarrow> accounting_book list" where
  "bumpBook b = updateWhere (\<lambda>r. bk_id r = b) (bk_nextEntryNumber_update (\<lambda>n. n + 1))"

lemma nextEntryNumber_Inr [resE]:
  "nextEntryNumber b L = Inr (n, L') \<longleftrightarrow>
     (\<exists>r. find (\<lambda>r. bk_id r = b) (accounting_books L) = Some r \<and> n = bk_nextEntryNumber r) \<and>
     1 \<le> n \<and> n \<le> MAX_SAFE_INTEGER \<and> L' = L\<lparr>accounting_books := bumpBook b (accounting_books L)\<rparr>"
  by (auto simp: nextEntryNumber_def Let_def bumpBook_def split: option.splits)

lemma map_bk_id_bump [simp]: "map bk_id (bumpBook b bs) = map bk_id bs"
  by (simp add: bumpBook_def map_updateWhere)

lemma bookExists_iff: "bookExists L i \<longleftrightarrow> i \<in> set (map bk_id (accounting_books L))"
  by (auto simp: bookExists_def list_ex_iff)

lemma bookExists_bump [simp]:
  "bookExists (L\<lparr>accounting_books := bumpBook b bs\<rparr>) i = bookExists (L\<lparr>accounting_books := bs\<rparr>) i"
  unfolding bookExists_iff by (simp del: set_map)

section \<open>Stamping\<close>

lemma postedStamp_simps [simp]:
  "je_id (postedStamp e n p bd u r) = je_id r"
  "je_accountingBookId (postedStamp e n p bd u r) = je_accountingBookId r"
  "je_entryNumber (postedStamp e n p bd u r) = Some n"
  "je_fiscalPeriodId (postedStamp e n p bd u r) = Some p"
  "je_entryDate (postedStamp e n p bd u r) = je_entryDate r"
  "je_status (postedStamp e n p bd u r) = Posted"
  "je_entrySource (postedStamp e n p bd u r) = je_entrySource r"
  "je_postingKey (postedStamp e n p bd u r) = je_postingKey r"
  "je_postingRuleVersionId (postedStamp e n p bd u r) = je_postingRuleVersionId r"
  "je_sourceFactType (postedStamp e n p bd u r) = je_sourceFactType r"
  "je_sourceFactId (postedStamp e n p bd u r) = je_sourceFactId r"
  "je_sourceFactFingerprint (postedStamp e n p bd u r) = je_sourceFactFingerprint r"
  "je_reversesEntryId (postedStamp e n p bd u r) = je_reversesEntryId r"
  "je_isBackdated (postedStamp e n p bd u r) = bd"
  "je_description (postedStamp e n p bd u r) = je_description r"
  "je_postedAt (postedStamp e n p bd u r) = Some (now e)"
  by (simp_all add: postedStamp_def)

lemma headerRow_simps [simp]:
  "je_id (headerRow e b h) = uuidAt e 0" "je_accountingBookId (headerRow e b h) = b"
  "je_entryNumber (headerRow e b h) = None" "je_fiscalPeriodId (headerRow e b h) = None"
  "je_entryDate (headerRow e b h) = hd_entryDate h" "je_status (headerRow e b h) = Draft"
  "je_entrySource (headerRow e b h) = hd_entrySource h"
  "je_postingKey (headerRow e b h) = hd_postingKey h"
  "je_postingRuleVersionId (headerRow e b h) = hd_postingRuleVersionId h"
  "je_sourceFactType (headerRow e b h) = hd_sourceFactType h"
  "je_sourceFactId (headerRow e b h) = hd_sourceFactId h"
  "je_sourceFactFingerprint (headerRow e b h) = hd_sourceFactFingerprint h"
  "je_reversesEntryId (headerRow e b h) = hd_reversesEntryId h"
  "je_description (headerRow e b h) = hd_description h"
  by (simp_all add: headerRow_def)

lemma posted_status_simps [simp]:
  "posted_status Posted" "posted_status Reversed" "\<not> posted_status Draft" "\<not> posted_status Void"
  by (simp_all add: posted_status_def)

lemma periodGuard_cong:
  "fiscal_periods L' = fiscal_periods L \<Longrightarrow> periodGuard L' r = periodGuard L r"
  unfolding periodGuard_def by (erule ssubst) (rule refl)

lemma markPosted_Inr:
  assumes "markPosted e i n p bd u L = Inr (r, L')"
    and "find (\<lambda>r. je_id r = i) (journal_entries L) = Some old"
  obtains u' where "r = postedStamp e n p bd u' old" "periodGuard L r" "entryChecks r"
    "\<forall>x \<in> set (journal_entries L). je_id x \<noteq> i \<longrightarrow> \<not> entryClash r x"
    "je_status old = Draft"
    "L' = L\<lparr>journal_entries := updateWhere (\<lambda>r. je_id r = i) (postedStamp e n p bd u') (journal_entries L)\<rparr>"
proof -
  from assms(1) obtain u' where u: "updateEntry i (postedStamp e n p bd u') L = Inr L'"
    and r: "loadEntry L' i = Inr r"
    by (auto simp: markPosted_def)
  note w = updateEntry_Inr [OF assms(2), THEN iffD1, OF u]
  have L': "L' = L\<lparr>journal_entries := updateWhere (\<lambda>r. je_id r = i) (postedStamp e n p bd u') (journal_entries L)\<rparr>"
    using w by blast
  have r': "r = postedStamp e n p bd u' old"
    using r assms(2) find_updateWhere_key [of je_id "postedStamp e n p bd u'" i "journal_entries L"]
    by (simp add: L' loadEntry_def)
  have d: "je_status old = Draft" using w by (simp add: entryUpdateAllowed_def)
  then show ?thesis using that [OF r' _ _ _ d L'] w r' by simp
qed

lemma insertHeader_Inr [resE]:
  "insertHeader e b h L = Inr (r, L') \<longleftrightarrow>
     (hd_sourceFactType h = None) = (hd_sourceFactId h = None) \<and>
     (hd_entrySource h = PostingRule) = (hd_postingRuleVersionId h \<noteq> None) \<and>
     r = headerRow e b h \<and> insertEntry r L = Inr L'"
  by (auto simp: insertHeader_def)

lemma find_fresh_id:
  assumes "\<forall>x \<in> set xs. je_id x \<noteq> je_id r"
  shows "find (\<lambda>x. je_id x = je_id r) (xs @ [r]) = Some r"
  using assms by (induction xs) auto

lemma updateWhere_last:
  assumes "\<forall>x \<in> set xs. je_id x \<noteq> je_id r"
  shows "updateWhere (\<lambda>x. je_id x = je_id r) f (xs @ [r]) = xs @ [f r]"
  using assms by (simp add: updateWhere_id)

section \<open>Posting a new entry\<close>

lemma entryForeignKeys_bump [simp]:
  "entryForeignKeys (L\<lparr>accounting_books := bumpBook b (accounting_books L)\<rparr>) r = entryForeignKeys L r"
proof -
  have "bookExists (L\<lparr>accounting_books := bumpBook b (accounting_books L)\<rparr>) i = bookExists L i" for i
    by simp
  then show ?thesis by (simp add: entryForeignKeys_def cong: option.case_cong)
qed

lemma rowOf_set:
  "list_all2 (rowOf b i) ls rows \<Longrightarrow> r \<in> set rows \<Longrightarrow> \<exists>l \<in> set ls. rowOf b i l r"
  by (induction rule: list_all2_induct) auto

lemma writePosted_Inr:
  assumes "writePosted e b h ls links p bd u L = Inr ((entry, srt), L')"
  obtains n rows u' bk where
    "find (\<lambda>r. bk_id r = b) (accounting_books L) = Some bk" "n = bk_nextEntryNumber bk" "1 \<le> n"
    "entry = postedStamp e n p bd u' (headerRow e b h)"
    "\<forall>x \<in> set (journal_entries L). \<not> entryClash entry x"
    "periodGuard L entry" "entryChecks entry" "entryForeignKeys L (headerRow e b h)" "validDate (hd_entryDate h)"
    "list_all2 (rowOf b (uuidAt e 0)) ls rows" "srt = sort_key jl_lineNumber rows"
    "\<forall>r \<in> set rows. (\<forall>x \<in> set (journal_lines L). \<not> lineClash x r)"
    "\<forall>r \<in> set rows. jl_amount r \<noteq> 0 \<and> jl_currency r = jl_functionalCurrency r \<and>
       (\<exists>a \<in> set (ledger_accounts L). la_id a = jl_ledgerAccountId r \<and> la_accountingBookId a = b)"
    "sorted_wrt (\<lambda>x r. \<not> lineClash x r) rows"
    "L' = L\<lparr>accounting_books := bumpBook b (accounting_books L),
       journal_entries := journal_entries L @ [entry], journal_lines := journal_lines L @ rows,
       journal_line_dimensions := journal_line_dimensions L',
       journal_entry_source_links := journal_entry_source_links L'\<rparr>"
proof -
  from assms obtain n L1 L2 L3 L4 where
    1: "nextEntryNumber b L = Inr (n, L1)" and 2: "insertHeader e b h L1 = Inr (headerRow e b h, L2)" and
    3: "insertLines e b (uuidAt e 0) ls L2 = Inr (srt, L3)" and
    4: "insertSourceLinkGroups (uuidAt e 0) links L3 = Inr L4" and
    5: "markPosted e (uuidAt e 0) n p bd u L4 = Inr (entry, L')"
    unfolding writePosted_def by (auto simp: insertHeader_Inr)
  let ?d = "headerRow e b h"
  have L1: "L1 = L\<lparr>accounting_books := bumpBook b (accounting_books L)\<rparr>"
    using 1 by (simp add: nextEntryNumber_Inr)
  have L2: "L2 = L1\<lparr>journal_entries := journal_entries L @ [?d]\<rparr>"
    and fk: "entryForeignKeys L1 ?d" and date: "validDate (hd_entryDate h)" and fresh: "\<forall>x \<in> set (journal_entries L). \<not> entryClash ?d x"
    using 2 by (auto simp: insertHeader_Inr insertEntry_Inr L1)
  from 3 obtain rows where
    rows: "list_all2 (rowOf b (uuidAt e 0)) ls rows" "srt = sort_key jl_lineNumber rows"
      "\<forall>r \<in> set rows. lineAdmissible L2 r \<and> (\<forall>x \<in> set (journal_lines L2). \<not> lineClash x r)"
      "sorted_wrt (\<lambda>x r. \<not> lineClash x r) rows"
    and L3: "L3 = L2\<lparr>journal_lines := journal_lines L2 @ rows, journal_line_dimensions := journal_line_dimensions L3\<rparr>"
    by (rule insertLines_Inr)
  have L4: "L4 = L3\<lparr>journal_entry_source_links := journal_entry_source_links L4\<rparr>"
    using insertSourceLinkGroups_same [OF 4] by (simp add: sameButLinks_def)
  have entries4: "journal_entries L4 = journal_entries L @ [?d]"
    by (subst L4, subst L3, subst L2) simp
  have ids: "\<forall>x \<in> set (journal_entries L). je_id x \<noteq> je_id ?d"
    using fresh by (auto simp: entryClash_def)
  have find4: "find (\<lambda>r. je_id r = uuidAt e 0) (journal_entries L4) = Some ?d"
    unfolding entries4 using find_fresh_id [OF ids] by simp
  from markPosted_Inr [OF 5 find4] obtain u' where
    entry: "entry = postedStamp e n p bd u' ?d" and guard: "periodGuard L4 entry" "entryChecks entry"
    and clash: "\<forall>x \<in> set (journal_entries L4). je_id x \<noteq> uuidAt e 0 \<longrightarrow> \<not> entryClash entry x"
    and L': "L' = L4\<lparr>journal_entries := updateWhere (\<lambda>r. je_id r = uuidAt e 0) (postedStamp e n p bd u') (journal_entries L4)\<rparr>"
    by blast
  have upd: "updateWhere (\<lambda>r. je_id r = uuidAt e 0) (postedStamp e n p bd u') (journal_entries L4) =
      journal_entries L @ [entry]"
    unfolding entries4 entry using updateWhere_last [OF ids] by simp
  have final: "L' = L\<lparr>accounting_books := bumpBook b (accounting_books L),
       journal_entries := journal_entries L @ [entry], journal_lines := journal_lines L @ rows,
       journal_line_dimensions := journal_line_dimensions L',
       journal_entry_source_links := journal_entry_source_links L'\<rparr>"
    unfolding L' upd by (subst L4, subst L3, unfold L2 L1)
      (simp add: sameButLinks_tables(12) [OF insertSourceLinkGroups_same [OF 4]])
  obtain bk where bk: "find (\<lambda>r. bk_id r = b) (accounting_books L) = Some bk"
      "n = bk_nextEntryNumber bk" "1 \<le> n"
    using 1 by (auto simp: nextEntryNumber_Inr)
  have p4: "fiscal_periods L4 = fiscal_periods L" by (subst L4, subst L3, unfold L2 L1) simp
  have clash': "\<forall>x \<in> set (journal_entries L). \<not> entryClash entry x"
    using clash ids by (auto simp: entries4)
  have new: "\<forall>r \<in> set rows. (\<forall>x \<in> set (journal_lines L). \<not> lineClash x r)"
    using rows(3) by (simp add: L2 L1)
  have row: "\<forall>r \<in> set rows. jl_amount r \<noteq> 0 \<and> jl_currency r = jl_functionalCurrency r \<and>
       (\<exists>a \<in> set (ledger_accounts L). la_id a = jl_ledgerAccountId r \<and> la_accountingBookId a = b)"
    using rows(3) rowOf_set [OF rows(1)] by (auto simp: L2 L1 lineAdmissible_def rowOf_def)
  have guardL: "periodGuard L entry" using guard(1) periodGuard_cong [OF p4] by simp
  have fkL: "entryForeignKeys L ?d" using fk by (simp add: L1)
  show ?thesis
    by (rule that [OF bk entry clash' guardL guard(2) fkL date rows(1,2) new row rows(4) final])
qed

section \<open>Balance\<close>

lemma mapAppend_keys: "fst ` set (mapAppend k v m) = insert k (fst ` set m)"
  by (induction k v m rule: mapAppend.induct) auto

lemma mapAppend_distinct: "distinct (map fst m) \<Longrightarrow> distinct (map fst (mapAppend k v m))"
  by (induction k v m rule: mapAppend.induct) (auto simp: mapAppend_keys)

lemma mapAppend_lookup:
  "map_of (mapAppend k v m) j =
     (if j = k then Some (case map_of m k of None \<Rightarrow> [v] | Some vs \<Rightarrow> vs @ [v]) else map_of m j)"
  by (induction k v m rule: mapAppend.induct) auto

definition valuesAt :: "'k \<Rightarrow> ('k \<times> 'v) list \<Rightarrow> 'v list" where
  "valuesAt k kvs = map snd (filter (\<lambda>x. fst x = k) kvs)"

lemma groupInto_snoc: "groupInto (kvs @ [(k, v)]) = mapAppend k v (groupInto kvs)"
  by (simp add: groupInto_def)

lemma groupInto_spec:
  "distinct (map fst (groupInto kvs)) \<and>
   map_of (groupInto kvs) k = (if k \<in> fst ` set kvs then Some (valuesAt k kvs) else None)"
proof (induction kvs arbitrary: k rule: rev_induct)
  case Nil
  then show ?case by (simp add: groupInto_def)
next
  case (snoc x kvs)
  obtain k' v where x: "x = (k', v)" by (cases x)
  have "valuesAt k' kvs = []" if "k' \<notin> fst ` set kvs"
    using that by (auto simp: valuesAt_def filter_empty_conv)
  then show ?case
    using snoc.IH [of k] snoc.IH [of k'] mapAppend_distinct [of "groupInto kvs"]
    by (auto simp: x groupInto_snoc mapAppend_lookup valuesAt_def)
qed

lemma groupInto_mem: "(k, vs) \<in> set (groupInto kvs) \<longleftrightarrow> k \<in> fst ` set kvs \<and> vs = valuesAt k kvs"
proof -
  have "(k, vs) \<in> set (groupInto kvs) \<longleftrightarrow> map_of (groupInto kvs) k = Some vs"
    by (rule map_of_eq_Some_iff [symmetric]) (use groupInto_spec [of kvs] in blast)
  then show ?thesis using groupInto_spec [of kvs k] by (auto split: if_splits)
qed

lemma mapE_unit: "(\<exists>ys. mapE f xs = Inr ys) \<longleftrightarrow> (\<forall>x \<in> set xs. \<exists>y. f x = Inr y)"
  by (induction xs) auto

lemma assertGroupsZero_iff:
  "assertGroupsZero gs = Inr () \<longleftrightarrow>
     (\<forall>(k, vs) \<in> set gs. \<exists>us. mapE moneyUnits vs = Inr us \<and> sum_list us = 0)"
proof -
  have "(\<exists>y. bindE (sumDecimals vs) (\<lambda>total. bindE (isZeroDecimal total) (\<lambda>z. assertE z UnbalancedEntryError)) = Inr y) \<longleftrightarrow>
      (\<exists>us. mapE moneyUnits vs = Inr us \<and> sum_list us = 0)" for vs
    by (auto simp: sumDecimals_iff)
  then show ?thesis
    unfolding assertGroupsZero_def bindE_Inr_iff by (auto simp: mapE_unit)
qed

text \<open>A textual amount and its micro-units, under one currency.\<close>

definition sameMoney :: "string \<times> string \<Rightarrow> string \<times> int \<Rightarrow> bool" where
  "sameMoney x y \<longleftrightarrow> fst x = fst y \<and> moneyUnits (snd x) = Inr (snd y)"

lemma sameMoney_values:
  "list_all2 sameMoney kvs cus \<Longrightarrow>
     mapE moneyUnits (valuesAt k kvs) = Inr (map snd (filter (\<lambda>c. fst c = k) cus)) \<and>
     fst ` set kvs = fst ` set cus"
  by (induction rule: list_all2_induct) (auto simp: sameMoney_def valuesAt_def)

lemma assertGroupsZero_groupInto:
  assumes "list_all2 sameMoney kvs cus"
  shows "assertGroupsZero (groupInto kvs) = Inr () \<longleftrightarrow> groupsBalance fst snd cus"
proof -
  have "assertGroupsZero (groupInto kvs) = Inr () \<longleftrightarrow>
      (\<forall>k \<in> fst ` set kvs. \<exists>us. mapE moneyUnits (valuesAt k kvs) = Inr us \<and> sum_list us = 0)"
  proof -
    have "(\<forall>(k, vs) \<in> set g. P vs) \<longleftrightarrow> (\<forall>k vs. (k, vs) \<in> set g \<longrightarrow> P vs)"
      for g :: "(string \<times> string list) list" and P by auto
    then show ?thesis unfolding assertGroupsZero_iff by (simp add: groupInto_mem) blast
  qed
  also have "\<dots> \<longleftrightarrow> (\<forall>k \<in> fst ` set cus. sum_list (map snd (filter (\<lambda>c. fst c = k) cus)) = 0)"
  proof -
    have "mapE moneyUnits (valuesAt k kvs) = Inr (map snd (filter (\<lambda>c. fst c = k) cus))" for k
      using sameMoney_values [OF assms] by blast
    moreover have "fst ` set kvs = fst ` set cus" using sameMoney_values [OF assms] by blast
    ultimately show ?thesis by simp
  qed
  finally show ?thesis by (simp add: groupsBalance_def list_all_iff)
qed

lemma groupsBalance_map: "groupsBalance c a rs = groupsBalance fst snd (map (\<lambda>r. (c r, a r)) rs)"
proof -
  have "map snd (filter (\<lambda>x. fst x = k) (map (\<lambda>r. (c r, a r)) rs)) = map a (filter (\<lambda>r. c r = k) rs)" for k
    by (induction rs) auto
  then show ?thesis by (simp add: groupsBalance_def o_def)
qed

text \<open>The service's balance check on resolved lines is the trigger's check on their rows.\<close>

lemma assertBalanced_resolved:
  assumes "list_all2 (rowOf b i) ls rows"
  shows "assertBalanced (map balanceOfResolved ls) = Inr () \<longleftrightarrow> 2 \<le> length rows \<and> linesBalance rows"
proof -
  have l: "length rows = length ls" using list_all2_lengthD [OF assms] by simp
  have a: "list_all2 sameMoney (map (\<lambda>(c, a, _, _). (c, a)) (map balanceOfResolved ls))
      (map (\<lambda>r. (jl_currency r, jl_amount r)) rows)"
    and f: "list_all2 sameMoney (map (\<lambda>(_, _, fc, fa). (fc, fa)) (map balanceOfResolved ls))
      (map (\<lambda>r. (jl_functionalCurrency r, jl_functionalAmount r)) rows)"
    using assms by (auto simp: list_all2_conv_all_nth sameMoney_def rowOf_def balanceOfResolved_def)
  show ?thesis
    unfolding assertBalanced_def linesBalance_def groupsBalance_map [of jl_currency] groupsBalance_map [of jl_functionalCurrency]
      assertGroupsZero_groupInto [OF a, symmetric] assertGroupsZero_groupInto [OF f, symmetric]
    using l by auto
qed

lemma assertBalanced_rows:
  "assertBalanced (map balanceOfRow rows) = Inr () \<longleftrightarrow> 2 \<le> length rows \<and> linesBalance rows"
proof -
  have a: "list_all2 sameMoney (map (\<lambda>(c, a, _, _). (c, a)) (map balanceOfRow rows))
      (map (\<lambda>r. (jl_currency r, jl_amount r)) rows)"
    and f: "list_all2 sameMoney (map (\<lambda>(_, _, fc, fa). (fc, fa)) (map balanceOfRow rows))
      (map (\<lambda>r. (jl_functionalCurrency r, jl_functionalAmount r)) rows)"
    by (auto simp: list_all2_conv_all_nth sameMoney_def balanceOfRow_def)
  show ?thesis
    unfolding assertBalanced_def linesBalance_def groupsBalance_map [of jl_currency] groupsBalance_map [of jl_functionalCurrency]
      assertGroupsZero_groupInto [OF a, symmetric] assertGroupsZero_groupInto [OF f, symmetric]
    by auto
qed

lemma groupsBalance_cong_mset:
  assumes "mset xs = mset ys"
  shows "groupsBalance c a xs = groupsBalance c a ys"
proof -
  have "sum_list (map a (filter p xs)) = sum_list (map a (filter p ys))" for p
    by (metis assms mset_filter mset_map sum_mset_sum_list)
  moreover have "set xs = set ys" using assms by (rule mset_eq_setD)
  ultimately show ?thesis by (simp add: groupsBalance_def list_all_iff)
qed

lemma linesBalance_sort [simp]: "linesBalance (sort_key k ls) = linesBalance ls"
proof -
  have m: "mset (sort_key k ls) = mset ls" by simp
  have "(sort_key k ls = []) = (ls = [])" by (metis m mset_zero_iff_right mset.simps(1))
  then show ?thesis unfolding linesBalance_def using groupsBalance_cong_mset [OF m] by simp
qed

section \<open>Operations\<close>

lemma resolvePeriodRow_Inr:
  assumes "resolvePeriodRow L b d = Inr p"
  shows "p \<in> set (fiscal_periods L)"
  using assms by (auto simp: resolvePeriodRow_def split: option.splits dest: find_SomeD)

lemma commitEntries_Inr [resE]:
  "commitEntries is L = Inr L' \<longleftrightarrow> (\<forall>i \<in> set is. entryBalanced L i) \<and> L' = L"
  by (auto simp: commitEntries_def list_all_iff)

lemma attemptPost_Inr:
  assumes "attemptPost e v L = Inr (r, L')"
  obtains (reused) k where "en_postingKey v = Some k" "existingByPostingKey L k = Some r" "L' = L" "pe_reused r"
  | (posted) book routing ls period bd u L1 log where
    "\<And>k. en_postingKey v = Some k \<Longrightarrow> existingByPostingKey L k = None"
    "routeBook L v = Inr (book, routing)" "resolveLines L book (en_lines v) = Inr ls"
    "assertBalanced (map balanceOfResolved ls) = Inr ()"
    "resolvePeriodRow L (bk_id book) (en_entryDate v) = Inr period"
    "assertPeriodAcceptsPosting period (en_allowBackdated v) = Inr bd"
    "writePosted e (bk_id book) (headerOf v) ls [en_sourceLinks v] (fp_id period) bd u L =
       Inr ((pe_entry r, pe_lines r), L1)"
    "L' = L1\<lparr>audit_events := audit_events L1 @ log\<rparr>" "entryBalanced L' (je_id (pe_entry r))" "\<not> pe_reused r"
proof (cases "case en_postingKey v of None \<Rightarrow> None | Some k \<Rightarrow> existingByPostingKey L k")
  case (Some x)
  with assms show ?thesis
    using reused by (fastforce simp: attemptPost_def existingByPostingKey_def split: option.splits)
next
  case None
  then have k: "\<And>k. en_postingKey v = Some k \<Longrightarrow> existingByPostingKey L k = None" by simp
  from assms None show ?thesis
    unfolding attemptPost_def Let_def
    by (auto simp: commitEntries_Inr intro: posted [OF k])
qed

end
