(* ===== verification/Journal_Shapes.thy ===== *)
theory Journal_Shapes
  imports Journal_Writes
begin

text \<open>
  One characterisation per journal operation: what a call that returned has checked and
  which rows it appended or changed. The invariants of \<^verbatim>\<open>Journal_Invariant\<close> are proved
  over these and never over the pipelines themselves.
\<close>

section \<open>Drafting, posting, voiding\<close>

lemma loadEntry_Inr [resE]: "loadEntry L i = Inr r \<longleftrightarrow> find (\<lambda>x. je_id x = i) (journal_entries L) = Some r"
  by (simp add: loadEntry_def)

lemma loadPostingBook_id: "loadPostingBook L i = Inr book \<Longrightarrow> bk_id book = i \<and> book \<in> set (accounting_books L)"
  by (auto simp: loadPostingBook_def loadBook_def dest: find_SomeD)

lemma routeBook_mem: "routeBook L v = Inr (book, routing) \<Longrightarrow> book \<in> set (accounting_books L)"
  by (auto simp: routeBook_def dest!: loadPostingBook_id split: option.splits)

lemma postEntryOn_Inr:
  assumes "postEntryOn e i L R = Inr (r, L')"
  obtains (attempt) v where "parseEntryInput i = Inr v" "attemptPost e v L = Inr (r, L')"
  | (raced) v k where "parseEntryInput i = Inr v" "en_postingKey v = Some k"
      "attemptPost e v L = Inl (DatabaseError UniqueViolation)" "existingByPostingKey R k = Some r" "L' = R"
proof -
  from assms obtain v where v: "parseEntryInput i = Inr v" by (auto simp: postEntryOn_def)
  show ?thesis
  proof (cases "attemptPost e v L")
    case (Inr x)
    with assms v attempt show ?thesis by (simp add: postEntryOn_def)
  next
    case (Inl err)
    then have err: "err = DatabaseError UniqueViolation"
      using assms v by (auto simp: postEntryOn_def isUniqueViolation_def split: if_splits)
    then obtain k where k: "en_postingKey v = Some k"
      using assms v Inl by (cases "en_postingKey v") (auto simp: postEntryOn_def isUniqueViolation_def)
    then obtain x where x: "existingByPostingKey R k = Some x"
      using assms v Inl err by (cases "existingByPostingKey R k") (auto simp: postEntryOn_def isUniqueViolation_def)
    then have "x = r" "L' = R"
      using assms v Inl err k by (auto simp: postEntryOn_def isUniqueViolation_def)
    with raced [OF v k] Inl err x show ?thesis by simp
  qed
qed

lemma existing_unique_violation:
  "existingByPostingKey L k = Some r \<Longrightarrow> en_postingKey v = Some k \<Longrightarrow> attemptPost e v L = Inr (r, L)"
  by (simp add: attemptPost_def)

text \<open>Without a concurrent writer the retry branch is never taken.\<close>

lemma postEntry_attempt:
  assumes "postEntry e i L = Inr (r, L')"
  obtains v where "parseEntryInput i = Inr v" "attemptPost e v L = Inr (r, L')"
  using assms unfolding postEntry_def
  by (rule postEntryOn_Inr) (use existing_unique_violation in fastforce)+

lemma createDraft_Inr:
  assumes "createDraft e i L = Inr (r, L')"
  obtains v book routing ls d rows log where
    "parseEntryInput i = Inr v" "routeBook L v = Inr (book, routing)"
    "resolveLines L book (en_lines v) = Inr ls"
    "d = headerRow e (bk_id book) (headerOf v)" "pe_entry r = d"
    "\<forall>x \<in> set (journal_entries L). \<not> entryClash d x" "entryChecks d" "entryForeignKeys L d" "validDate (je_entryDate d)"
    "list_all2 (rowOf (bk_id book) (uuidAt e 0)) ls rows"
    "\<forall>r \<in> set rows. (\<forall>x \<in> set (journal_lines L). \<not> lineClash x r)"
    "\<forall>r \<in> set rows. jl_amount r \<noteq> 0 \<and> jl_currency r = jl_functionalCurrency r \<and>
       (\<exists>a \<in> set (ledger_accounts L). la_id a = jl_ledgerAccountId r \<and> la_accountingBookId a = bk_id book)"
    "sorted_wrt (\<lambda>x r. \<not> lineClash x r) rows"
    "L' = L\<lparr>journal_entries := journal_entries L @ [d], journal_lines := journal_lines L @ rows,
       journal_line_dimensions := journal_line_dimensions L',
       journal_entry_source_links := journal_entry_source_links L',
       audit_events := audit_events L @ log\<rparr>"
proof -
  from assms obtain v book routing ls L1 L2 L3 log srt where
    v: "parseEntryInput i = Inr v" "routeBook L v = Inr (book, routing)"
      "resolveLines L book (en_lines v) = Inr ls" and
    1: "insertHeader e (bk_id book) (headerOf v) L = Inr (pe_entry r, L1)" and
    2: "insertLines e (bk_id book) (je_id (pe_entry r)) ls L1 = Inr (srt, L2)" and
    3: "insertSourceLinks (je_id (pe_entry r)) (en_sourceLinks v) L2 = Inr L3" and
    4: "L' = L3\<lparr>audit_events := audit_events L3 @ log\<rparr>"
    unfolding createDraft_def by (auto simp: commitEntries_Inr)
  let ?d = "headerRow e (bk_id book) (headerOf v)"
  have d: "pe_entry r = ?d" and L1: "L1 = L\<lparr>journal_entries := journal_entries L @ [?d]\<rparr>"
    and ck: "entryChecks ?d" "entryForeignKeys L ?d" "validDate (je_entryDate ?d)" "\<forall>x \<in> set (journal_entries L). \<not> entryClash ?d x"
    using 1 by (auto simp: insertHeader_Inr insertEntry_Inr)
  from 2 obtain rows where
    rows: "list_all2 (rowOf (bk_id book) (je_id (pe_entry r))) ls rows"
      "\<forall>r \<in> set rows. lineAdmissible L1 r \<and> (\<forall>x \<in> set (journal_lines L1). \<not> lineClash x r)"
      "sorted_wrt (\<lambda>x r. \<not> lineClash x r) rows"
    and L2: "L2 = L1\<lparr>journal_lines := journal_lines L1 @ rows, journal_line_dimensions := journal_line_dimensions L2\<rparr>"
    by (rule insertLines_Inr)
  note same = insertSourceLinks_same [OF 3]
  have L3: "L3 = L2\<lparr>journal_entry_source_links := journal_entry_source_links L3\<rparr>"
    using same by (simp add: sameButLinks_def)
  have aud: "audit_events L3 = audit_events L" by (subst L3, subst L2, unfold L1) simp
  have final: "L' = L\<lparr>journal_entries := journal_entries L @ [?d], journal_lines := journal_lines L @ rows,
       journal_line_dimensions := journal_line_dimensions L',
       journal_entry_source_links := journal_entry_source_links L',
       audit_events := audit_events L @ log\<rparr>"
    unfolding 4 aud by (subst L3, subst L2, unfold L1) (simp add: sameButLinks_tables(12) [OF same])
  have row: "\<forall>r \<in> set rows. jl_amount r \<noteq> 0 \<and> jl_currency r = jl_functionalCurrency r \<and>
       (\<exists>a \<in> set (ledger_accounts L). la_id a = jl_ledgerAccountId r \<and> la_accountingBookId a = bk_id book)"
    using rows(2) rowOf_set [OF rows(1)] by (auto simp: L1 lineAdmissible_def rowOf_def)
  show ?thesis
    by (rule that [OF v refl d ck(4,1-3) _ _ row rows(3) final]) (use rows d in \<open>auto simp: L1\<close>)
qed

lemma postDraft_Inr:
  assumes "postDraft e i bd u req L = Inr (r, L')"
  obtains old book period bd' u' n log where
    "find (\<lambda>x. je_id x = i) (journal_entries L) = Some old" "je_status old = Draft"
    "book \<in> set (accounting_books L)" "bk_id book = je_accountingBookId old"
    "find (\<lambda>r. bk_id r = bk_id book) (accounting_books L) = Some book"
    "linesBalance (linesOf L i)"
    "resolvePeriodRow L (bk_id book) (je_entryDate old) = Inr period"
    "assertPeriodAcceptsPosting period bd = Inr bd'"
    "n = bk_nextEntryNumber book" "1 \<le> n"
    "pe_entry r = postedStamp e n (fp_id period) bd' u' old"
    "periodGuard L (pe_entry r)" "entryChecks (pe_entry r)"
    "\<forall>x \<in> set (journal_entries L). je_id x \<noteq> i \<longrightarrow> \<not> entryClash (pe_entry r) x"
    "L' = L\<lparr>accounting_books := bumpBook (bk_id book) (accounting_books L),
       journal_entries := updateWhere (\<lambda>r. je_id r = i) (postedStamp e n (fp_id period) bd' u') (journal_entries L),
       audit_events := audit_events L @ log\<rparr>"
proof -
  from assms obtain old book period bd' n L1 L2 log where
    old: "find (\<lambda>x. je_id x = i) (journal_entries L) = Some old" and d: "je_status old = Draft" and
    book: "loadPostingBook L (je_accountingBookId old) = Inr book" and
    bal: "assertBalanced (map balanceOfRow (loadLines L (je_id old))) = Inr ()" and
    per: "resolvePeriodRow L (bk_id book) (je_entryDate old) = Inr period"
      "assertPeriodAcceptsPosting period bd = Inr bd'" and
    1: "nextEntryNumber (bk_id book) L = Inr (n, L1)" and
    2: "markPosted e (je_id old) n (fp_id period) bd' u L1 = Inr (pe_entry r, L2)" and
    3: "L' = L2\<lparr>audit_events := audit_events L2 @ log\<rparr>"
    unfolding postDraft_def Let_def by (auto simp: commitEntries_Inr loadEntry_Inr)
  have oid: "je_id old = i" using find_SomeD [OF old] by simp
  have L1: "L1 = L\<lparr>accounting_books := bumpBook (bk_id book) (accounting_books L)\<rparr>"
    using 1 by (simp add: nextEntryNumber_Inr)
  have find1: "find (\<lambda>r. je_id r = i) (journal_entries L1) = Some old" using old by (simp add: L1)
  from markPosted_Inr [OF 2 [unfolded oid] find1] obtain u' where
    m: "pe_entry r = postedStamp e n (fp_id period) bd' u' old" "periodGuard L1 (pe_entry r)"
      "entryChecks (pe_entry r)" "\<forall>x \<in> set (journal_entries L1). je_id x \<noteq> i \<longrightarrow> \<not> entryClash (pe_entry r) x"
    and L2: "L2 = L1\<lparr>journal_entries := updateWhere (\<lambda>r. je_id r = i) (postedStamp e n (fp_id period) bd' u') (journal_entries L1)\<rparr>"
    by blast
  have b: "book \<in> set (accounting_books L)" "bk_id book = je_accountingBookId old"
    using loadPostingBook_id [OF book] by auto
  have fb: "find (\<lambda>r. bk_id r = bk_id book) (accounting_books L) = Some book"
    using book b by (auto simp: loadPostingBook_def loadBook_def)
  have n: "n = bk_nextEntryNumber book" "1 \<le> n" using 1 fb by (auto simp: nextEntryNumber_Inr)
  have guard: "periodGuard L (pe_entry r)"
    using m(2) periodGuard_cong [of L1 L] by (simp add: L1)
  have clash: "\<forall>x \<in> set (journal_entries L). je_id x \<noteq> i \<longrightarrow> \<not> entryClash (pe_entry r) x"
    using m(4) by (simp add: L1)
  have balance: "linesBalance (linesOf L i)"
    using bal by (simp add: assertBalanced_rows loadLines_def oid)
  have final: "L' = L\<lparr>accounting_books := bumpBook (bk_id book) (accounting_books L),
       journal_entries := updateWhere (\<lambda>r. je_id r = i) (postedStamp e n (fp_id period) bd' u') (journal_entries L),
       audit_events := audit_events L @ log\<rparr>"
    unfolding 3 L2 L1 by simp
  show ?thesis
    by (rule that [OF old d b fb balance per n m(1) guard m(3) clash final])
qed

lemma voidDraft_Inr:
  assumes "voidDraft e i reason actor req L = Inr (r, L')"
  obtains (same) "find (\<lambda>x. je_id x = i) (journal_entries L) = Some r" "je_status r = Void" "L' = L"
  | (voided) old log where
    "find (\<lambda>x. je_id x = i) (journal_entries L) = Some old" "je_status old = Draft"
    "r = old\<lparr>je_status := Void\<rparr>"
    "L' = L\<lparr>journal_entries := updateWhere (\<lambda>r. je_id r = i) (je_status_update (\<lambda>_. Void)) (journal_entries L),
       audit_events := audit_events L @ log\<rparr>"
proof -
  from assms obtain old where old: "find (\<lambda>x. je_id x = i) (journal_entries L) = Some old"
    by (auto simp: voidDraft_def loadEntry_Inr)
  have oid: "je_id old = i" using find_SomeD [OF old] by simp
  show ?thesis
  proof (cases "je_status old = Void")
    case True
    with assms old show ?thesis by (intro same) (auto simp: voidDraft_def loadEntry_def)
  next
    case False
    have "\<exists>L1 log. je_status old = Draft \<and> updateEntry i (je_status_update (\<lambda>_. Void)) L = Inr L1 \<and>
        loadEntry L1 i = Inr r \<and> L1\<lparr>audit_events := audit_events L1 @ log\<rparr> = L'"
      using assms
      apply (simp add: voidDraft_def loadEntry_def [of L] old oid False commitEntries_Inr)
      apply (elim exE conjE)
      apply (intro exI conjI)
      apply assumption+
      done
    then obtain L1 log where d: "je_status old = Draft" and
      u: "updateEntry i (je_status_update (\<lambda>_. Void)) L = Inr L1" and r: "loadEntry L1 i = Inr r" and
      L': "L1\<lparr>audit_events := audit_events L1 @ log\<rparr> = L'" by blast
    have L1: "L1 = L\<lparr>journal_entries := updateWhere (\<lambda>r. je_id r = i) (je_status_update (\<lambda>_. Void)) (journal_entries L)\<rparr>"
      using updateEntry_Inr [OF old, THEN iffD1, OF u] by blast
    have "r = old\<lparr>je_status := Void\<rparr>"
      using r old find_updateWhere_key [of je_id "je_status_update (\<lambda>_. Void)" i "journal_entries L"]
      by (simp add: L1 loadEntry_def)
    then show ?thesis using voided [OF old d] L' L1 by (simp add: eq_commute)
  qed
qed

section \<open>Reversal\<close>

lemma reversedLine_Inr:
  "reversedLine L l = Inr \<lparr>rs_ledgerAccountId = jl_ledgerAccountId l, rs_economicEntityId = jl_economicEntityId l,
     rs_lineNumber = jl_lineNumber l, rs_description = jl_description l, rs_currency = jl_currency l,
     rs_amount = money_text (- jl_amount l), rs_functionalCurrency = jl_functionalCurrency l,
     rs_functionalAmount = money_text (- jl_functionalAmount l), rs_dimensions = lineTags L l\<rparr>"
  by (simp add: reversedLine_def)

text \<open>The row a reversal writes for a line of the original.\<close>

definition negatedLine :: "uuid \<Rightarrow> journal_line \<Rightarrow> journal_line \<Rightarrow> bool" where
  "negatedLine i l r \<longleftrightarrow>
     jl_journalEntryId r = i \<and> jl_ledgerAccountId r = jl_ledgerAccountId l \<and>
     jl_economicEntityId r = jl_economicEntityId l \<and> jl_lineNumber r = jl_lineNumber l \<and>
     jl_currency r = jl_currency l \<and> jl_functionalCurrency r = jl_functionalCurrency l \<and>
     jl_amount r = - jl_amount l \<and> jl_functionalAmount r = - jl_functionalAmount l"

lemma reversedLines_rows:
  "mapE (reversedLine L) os = Inr ls \<Longrightarrow> list_all2 (rowOf b i) ls rows \<Longrightarrow> list_all2 (negatedLine i) os rows"
proof -
  assume a: "mapE (reversedLine L) os = Inr ls" and r: "list_all2 (rowOf b i) ls rows"
  have "reversedLine L l = Inr s \<Longrightarrow> rowOf b i s x \<Longrightarrow> negatedLine i l x" for l s x
    by (auto simp: reversedLine_Inr rowOf_def negatedLine_def)
  then show "list_all2 (negatedLine i) os rows"
    by (rule list_all2_trans) (use a r in \<open>auto simp: mapE_list_all2\<close>)
qed

definition reversalPre ::
  "reverse_input \<Rightarrow> ledger \<Rightarrow> journal_entry \<Rightarrow> accounting_book \<Rightarrow> fiscal_period \<Rightarrow> bool \<Rightarrow> resolved_line list \<Rightarrow> bool" where
  "reversalPre i L original book period bd ls \<longleftrightarrow>
     js_trim (ri_reason i) \<noteq> [] \<and>
     find (\<lambda>x. je_id x = ri_journalEntryId i) (journal_entries L) = Some original \<and>
     je_status original \<noteq> Draft \<and> je_status original \<noteq> Void \<and> je_reversesEntryId original = None \<and>
     find (\<lambda>r. je_reversesEntryId r = Some (je_id original)) (journal_entries L) = None \<and>
     loadPostingBook L (je_accountingBookId original) = Inr book \<and> loadLines L (je_id original) \<noteq> [] \<and>
     resolvePeriodRow L (bk_id book) (case ri_entryDate i of None \<Rightarrow> je_entryDate original | Some d \<Rightarrow> d) = Inr period \<and>
     assertPeriodAcceptsPosting period (ri_allowBackdated i) = Inr bd \<and>
     mapE (reversedLine L) (loadLines L (je_id original)) = Inr ls"

lemma reverseEntry_Inr:
  assumes "reverseEntry e i L = Inr (r, L')"
  obtains (reused) original where
      "find (\<lambda>x. je_id x = ri_journalEntryId i) (journal_entries L) = Some original"
      "pe_entry r \<in> set (journal_entries L)" "je_reversesEntryId (pe_entry r) = Some (je_id original)"
      "pe_reused r" "L' = L"
  | (reversed) original book period bd ls L1 L2 log where
      "reversalPre i L original book period bd ls"
      "writePosted e (bk_id book)
        (reversalHeader original (case ri_entryDate i of None \<Rightarrow> je_entryDate original | Some d \<Rightarrow> d)
          (js_trim (ri_reason i)) (ri_actorUserId i)) ls
        [copiedLinks L (je_id original), reversedFromLink original] (fp_id period) bd (ri_actorUserId i) L =
        Inr ((pe_entry r, pe_lines r), L1)"
      "updateEntry (je_id original) (je_status_update (\<lambda>_. Reversed)) L1 = Inr L2"
      "L2\<lparr>audit_events := audit_events L2 @ log\<rparr> = L'" "\<not> pe_reused r"
      "entryBalanced L' (je_id (pe_entry r))" "entryBalanced L' (je_id original)"
proof -
  from assms obtain original where o: "find (\<lambda>x. je_id x = ri_journalEntryId i) (journal_entries L) = Some original"
    by (auto simp: reverseEntry_def Let_def loadEntry_Inr)
  from assms o have g: "je_status original \<noteq> Draft" "je_status original \<noteq> Void" "je_reversesEntryId original = None"
    "js_trim (ri_reason i) \<noteq> []"
    by (simp_all add: reverseEntry_def Let_def loadEntry_def)
  show ?thesis
  proof (cases "find (\<lambda>r. je_reversesEntryId r = Some (je_id original)) (journal_entries L)")
    case (Some already)
    have "r = \<lparr>pe_entry = already, pe_lines = loadLines L (je_id already), pe_reused = True, pe_routing = None\<rparr>" "L' = L"
      using assms o g Some by (auto simp: reverseEntry_def Let_def loadEntry_def)
    then show ?thesis using reused [OF o] find_SomeD [OF Some] by simp
  next
    case None
    have "\<exists>book period bd ls L1 L2 log. reversalPre i L original book period bd ls \<and>
      writePosted e (bk_id book)
        (reversalHeader original (case ri_entryDate i of None \<Rightarrow> je_entryDate original | Some d \<Rightarrow> d)
          (js_trim (ri_reason i)) (ri_actorUserId i)) ls
        [copiedLinks L (je_id original), reversedFromLink original] (fp_id period) bd (ri_actorUserId i) L =
        Inr ((pe_entry r, pe_lines r), L1) \<and>
      updateEntry (je_id original) (je_status_update (\<lambda>_. Reversed)) L1 = Inr L2 \<and>
      L2\<lparr>audit_events := audit_events L2 @ log\<rparr> = L' \<and> \<not> pe_reused r \<and>
      entryBalanced L' (je_id (pe_entry r)) \<and> entryBalanced L' (je_id original)"
      using assms
      apply (simp add: reverseEntry_def Let_def loadEntry_def o g None commitEntries_Inr reversalPre_def
          del: appendAudit_Inr)
      apply (elim exE conjE)
      apply (simp only: appendAudit_Inr)
      apply clarify
      apply (intro exI conjI)
      apply (assumption | simp)+
      done
    then show ?thesis using reversed by blast
  qed
qed

end
