(* ===== verification/Journal_Invariant.thy ===== *)
theory Journal_Invariant
  imports Journal_Shapes
begin

text \<open>
  The ledger's invariant and its preservation by every journal operation. \<open>core_ok\<close> is what
  the tables promise on their own: keys, gapless numbering, entries inside their period,
  balance, lines on postable accounts of their own book.
\<close>

section \<open>The invariant\<close>

definition numbersOf :: "journal_entry list \<Rightarrow> uuid \<Rightarrow> int list" where
  "numbersOf es b = map (\<lambda>r. the (je_entryNumber r))
     (filter (\<lambda>r. je_accountingBookId r = b \<and> je_entryNumber r \<noteq> None) es)"

definition books_ok :: "accounting_book list \<Rightarrow> bool" where
  "books_ok bs \<longleftrightarrow> distinct (map bk_id bs) \<and> (\<forall>b \<in> set bs. 1 \<le> bk_nextEntryNumber b \<and> bookDatesOk b)"

definition entries_ok :: "journal_entry list \<Rightarrow> bool" where
  "entries_ok es \<longleftrightarrow> distinct (map je_id es) \<and> clashFree entryClash es \<and>
     (\<forall>r \<in> set es. (posted_status (je_status r) \<longleftrightarrow> je_entryNumber r \<noteq> None) \<and> validDate (je_entryDate r))"

definition gapless :: "accounting_book list \<Rightarrow> journal_entry list \<Rightarrow> bool" where
  "gapless bs es \<longleftrightarrow> (\<forall>b \<in> set bs. set (numbersOf es (bk_id b)) = {1..<bk_nextEntryNumber b})"

definition inPeriod :: "fiscal_period list \<Rightarrow> journal_entry \<Rightarrow> bool" where
  "inPeriod ps r \<longleftrightarrow> (\<exists>p \<in> set ps. je_fiscalPeriodId r = Some (fp_id p) \<and>
     periodCovers (je_accountingBookId r) (je_entryDate r) p)"

definition lineFits :: "ledger \<Rightarrow> journal_line \<Rightarrow> bool" where
  "lineFits L l \<longleftrightarrow> jl_amount l \<noteq> 0 \<and> jl_currency l = jl_functionalCurrency l \<and>
     (\<exists>r \<in> set (journal_entries L). je_id r = jl_journalEntryId l \<and> je_accountingBookId r = jl_accountingBookId l) \<and>
     (\<exists>a \<in> set (ledger_accounts L). la_id a = jl_ledgerAccountId l \<and>
        la_accountingBookId a = jl_accountingBookId l \<and> la_isPostable a)"

definition core_ok :: "ledger \<Rightarrow> bool" where
  "core_ok L \<longleftrightarrow>
     books_ok (accounting_books L) \<and> periods_ok (fiscal_periods L) \<and> accounts_ok (ledger_accounts L) \<and>
     entries_ok (journal_entries L) \<and>
     gapless (accounting_books L) (journal_entries L) \<and>
     (\<forall>r \<in> set (journal_entries L). bookExists L (je_accountingBookId r)) \<and>
     (\<forall>r \<in> set (journal_entries L). posted_status (je_status r) \<longrightarrow>
        inPeriod (fiscal_periods L) r \<and> linesBalance (linesOf L (je_id r))) \<and>
     clashFree lineClash (journal_lines L) \<and> (\<forall>l \<in> set (journal_lines L). lineFits L l)"

section \<open>Numbering\<close>

lemma entryClash_sym: "entryClash x y \<Longrightarrow> entryClash y x"
  by (auto simp: entryClash_def)

lemma numbersOf_append [simp]: "numbersOf (es @ fs) b = numbersOf es b @ numbersOf fs b"
  by (simp add: numbersOf_def)

lemma numbersOf_Nil [simp]: "numbersOf [] b = []"
  by (simp add: numbersOf_def)

lemma numbersOf_single:
  "numbersOf [r] b = (case je_entryNumber r of None \<Rightarrow> [] | Some n \<Rightarrow> if je_accountingBookId r = b then [n] else [])"
  by (auto simp: numbersOf_def split: option.splits)

lemma set_numbersOf:
  "set (numbersOf es b) = {n. \<exists>r \<in> set es. je_accountingBookId r = b \<and> je_entryNumber r = Some n}"
  by (force simp: numbersOf_def)

lemma bumpBook_mem:
  assumes "books_ok bs" and "find (\<lambda>r. bk_id r = b) bs = Some bk" and "x \<in> set (bumpBook b bs)"
  shows "\<exists>y \<in> set bs. bk_id x = bk_id y \<and>
    bk_nextEntryNumber x = (if bk_id y = b then bk_nextEntryNumber bk + 1 else bk_nextEntryNumber y)"
proof -
  obtain y where y: "y \<in> set bs" "x = (if bk_id y = b then y\<lparr>bk_nextEntryNumber := bk_nextEntryNumber y + 1\<rparr> else y)"
    using assms(3) by (auto simp: bumpBook_def updateWhere_def)
  have "y = bk" if "bk_id y = b"
    using assms(1) find_SomeD [OF assms(2)] y(1) that by (auto simp: books_ok_def intro: distinct_key_eq)
  with y show ?thesis by (intro bexI [of _ y]) auto
qed

lemma books_ok_bump: "books_ok bs \<Longrightarrow> books_ok (bumpBook b bs)"
  by (auto simp: books_ok_def bumpBook_def map_updateWhere set_updateWhere bookDatesOk_def)

lemma gapless_post:
  assumes bs: "books_ok bs" and g: "gapless bs es" and bk: "find (\<lambda>r. bk_id r = b) bs = Some bk"
    and old: "\<And>n. n \<noteq> bk_nextEntryNumber bk \<Longrightarrow> n \<in> set (numbersOf fs b) \<longleftrightarrow> n \<in> set (numbersOf es b)"
    and new: "bk_nextEntryNumber bk \<in> set (numbersOf fs b)"
    and other: "\<And>c. c \<noteq> b \<Longrightarrow> set (numbersOf fs c) = set (numbersOf es c)"
  shows "gapless (bumpBook b bs) fs"
  unfolding gapless_def
proof
  fix x assume "x \<in> set (bumpBook b bs)"
  then obtain y where y: "y \<in> set bs" "bk_id x = bk_id y"
    "bk_nextEntryNumber x = (if bk_id y = b then bk_nextEntryNumber bk + 1 else bk_nextEntryNumber y)"
    using bumpBook_mem [OF bs bk] by blast
  have b: "bk \<in> set bs" "bk_id bk = b" using find_SomeD [OF bk] by auto
  show "set (numbersOf fs (bk_id x)) = {1..<bk_nextEntryNumber x}"
  proof (cases "bk_id y = b")
    case False
    then show ?thesis using y g other by (simp add: gapless_def)
  next
    case True
    have "set (numbersOf es b) = {1..<bk_nextEntryNumber bk}" "1 \<le> bk_nextEntryNumber bk"
      using g b bs by (auto simp: gapless_def books_ok_def)
    then have "n \<in> set (numbersOf fs b) \<longleftrightarrow> n \<in> {1..<bk_nextEntryNumber bk + 1}" for n
      by (cases "n = bk_nextEntryNumber bk") (use old [of n] new in simp_all, linarith)
    then have "set (numbersOf fs b) = {1..<bk_nextEntryNumber bk + 1}" by blast
    then show ?thesis using y True by simp
  qed
qed

section \<open>Appending an entry\<close>

definition rowsFor :: "ledger \<Rightarrow> journal_entry \<Rightarrow> journal_line list \<Rightarrow> bool" where
  "rowsFor L r ls \<longleftrightarrow>
     (\<forall>l \<in> set ls. jl_journalEntryId l = je_id r \<and> jl_accountingBookId l = je_accountingBookId r \<and>
        jl_amount l \<noteq> 0 \<and> jl_currency l = jl_functionalCurrency l \<and>
        (\<exists>a \<in> set (ledger_accounts L). la_id a = jl_ledgerAccountId l \<and>
           la_accountingBookId a = jl_accountingBookId l \<and> la_isPostable a) \<and>
        (\<forall>x \<in> set (journal_lines L). \<not> lineClash x l)) \<and>
     sorted_wrt (\<lambda>x l. \<not> lineClash x l) ls"

lemma linesOf_append_old:
  assumes "rowsFor L r ls" and "journal_lines L' = journal_lines L @ ls" and "i \<noteq> je_id r"
  shows "linesOf L' i = linesOf L i"
  using assms by (auto simp: rowsFor_def filter_empty_conv)

lemma linesOf_append_new:
  assumes "rowsFor L r ls" and "journal_lines L' = journal_lines L @ ls"
    and "\<forall>l \<in> set (journal_lines L). lineFits L l" and "\<forall>x \<in> set (journal_entries L). \<not> entryClash r x"
  shows "linesOf L' (je_id r) = ls"
proof -
  have "jl_journalEntryId l \<noteq> je_id r" if "l \<in> set (journal_lines L)" for l
    using that assms(3,4) by (auto simp: lineFits_def entryClash_def)
  then have "linesOf L (je_id r) = []" by (simp add: filter_empty_conv)
  moreover have "filter (\<lambda>l. jl_journalEntryId l = je_id r) ls = ls"
    using assms(1) by (auto simp: rowsFor_def filter_id_conv)
  ultimately show ?thesis by (simp add: assms(2))
qed

lemma core_append:
  assumes ok: "core_ok L"
    and L': "journal_entries L' = journal_entries L @ [r]" "journal_lines L' = journal_lines L @ ls"
      "fiscal_periods L' = fiscal_periods L" "ledger_accounts L' = ledger_accounts L"
    and r: "\<forall>x \<in> set (journal_entries L). \<not> entryClash r x" "bookExists L (je_accountingBookId r)"
      "validDate (je_entryDate r)"
    and rows: "rowsFor L r ls"
    and how: "(\<not> posted_status (je_status r) \<and> je_entryNumber r = None \<and> accounting_books L' = accounting_books L) \<or>
      (posted_status (je_status r) \<and> inPeriod (fiscal_periods L) r \<and> linesBalance ls \<and>
       (\<exists>bk. find (\<lambda>x. bk_id x = je_accountingBookId r) (accounting_books L) = Some bk \<and>
          je_entryNumber r = Some (bk_nextEntryNumber bk)) \<and>
       accounting_books L' = bumpBook (je_accountingBookId r) (accounting_books L))"
  shows "core_ok L'"
proof -
  have bids: "map bk_id (accounting_books L') = map bk_id (accounting_books L)"
    using how by auto
  then have be: "bookExists L' i = bookExists L i" for i by (simp only: bookExists_iff)
  have bs: "books_ok (accounting_books L')"
    using how ok books_ok_bump by (auto simp: core_ok_def)
  have new: "linesOf L' (je_id r) = ls"
    using linesOf_append_new [OF rows L'(2) _ r(1)] ok by (auto simp: core_ok_def)
  have es: "entries_ok (journal_entries L')"
  proof -
    have "clashFree entryClash (journal_entries L @ [r])"
      by (rule clashFree_append) (use ok r(1) entryClash_sym in \<open>auto simp: core_ok_def entries_ok_def\<close>)
    moreover have "je_id r \<notin> je_id ` set (journal_entries L)" using r(1) by (auto simp: entryClash_def)
    ultimately show ?thesis using ok how r(3) by (auto simp: L' core_ok_def entries_ok_def)
  qed
  have gap: "gapless (accounting_books L') (journal_entries L')"
  proof (cases "posted_status (je_status r)")
    case False
    then show ?thesis using how ok by (auto simp: L' core_ok_def gapless_def numbersOf_single)
  next
    case True
    with how obtain bk where bk: "find (\<lambda>x. bk_id x = je_accountingBookId r) (accounting_books L) = Some bk"
      "je_entryNumber r = Some (bk_nextEntryNumber bk)"
      "accounting_books L' = bumpBook (je_accountingBookId r) (accounting_books L)" by auto
    show ?thesis
      unfolding bk(3) L'(1)
      by (rule gapless_post [OF _ _ bk(1)]) (use ok bk(2) in \<open>auto simp: core_ok_def numbersOf_single\<close>)
  qed
  have lines: "clashFree lineClash (journal_lines L')"
    unfolding L'(2) by (rule clashFree_append)
      (use ok rows lineClash_sym in \<open>auto simp: core_ok_def rowsFor_def\<close>)
  have fits: "\<forall>l \<in> set (journal_lines L'). lineFits L' l"
    using ok rows by (fastforce simp: L' core_ok_def lineFits_def rowsFor_def)
  have posted: "\<forall>x \<in> set (journal_entries L'). posted_status (je_status x) \<longrightarrow>
      inPeriod (fiscal_periods L') x \<and> linesBalance (linesOf L' (je_id x))"
  proof (intro ballI impI)
    fix x assume x: "x \<in> set (journal_entries L')" "posted_status (je_status x)"
    show "inPeriod (fiscal_periods L') x \<and> linesBalance (linesOf L' (je_id x))"
    proof (cases "x = r")
      case True
      then show ?thesis using x how new by (auto simp: L'(3))
    next
      case False
      then have "x \<in> set (journal_entries L)" using x by (simp add: L')
      then have "je_id x \<noteq> je_id r" using r(1) by (auto simp: entryClash_def)
      then show ?thesis
        using linesOf_append_old [OF rows L'(2)] ok x(2) \<open>x \<in> set (journal_entries L)\<close>
        by (simp add: L'(3) core_ok_def)
    qed
  qed
  show ?thesis
    unfolding core_ok_def
    using bs es gap lines fits posted ok r(2) be by (auto simp: L' core_ok_def)
qed

section \<open>Changing an entry\<close>

lemma numbersOf_update:
  assumes "distinct (map je_id es)" and "old \<in> set es" and "je_id old = i"
    and "je_accountingBookId (f old) = je_accountingBookId old"
  shows "set (numbersOf (updateWhere (\<lambda>r. je_id r = i) f es) b) =
    {n. \<exists>r \<in> set es. je_id r \<noteq> i \<and> je_accountingBookId r = b \<and> je_entryNumber r = Some n} \<union>
    {n. je_accountingBookId old = b \<and> je_entryNumber (f old) = Some n}"
proof -
  have "r = old" if "r \<in> set es" "je_id r = i" for r
    using distinct_key_eq [OF assms(1) that(1) assms(2)] that(2) assms(3) by simp
  then show ?thesis using assms(2,3,4) by (fastforce simp: set_numbersOf set_updateWhere)
qed

lemma core_update:
  assumes ok: "core_ok L"
    and L': "journal_entries L' = updateWhere (\<lambda>r. je_id r = i) f (journal_entries L)"
      "journal_lines L' = journal_lines L" "fiscal_periods L' = fiscal_periods L" "ledger_accounts L' = ledger_accounts L"
    and old: "find (\<lambda>r. je_id r = i) (journal_entries L) = Some old"
    and f: "\<And>r. je_id (f r) = je_id r" "\<And>r. je_accountingBookId (f r) = je_accountingBookId r"
      "je_entryDate (f old) = je_entryDate old"
    and new: "\<forall>x \<in> set (journal_entries L). je_id x \<noteq> i \<longrightarrow> \<not> entryClash (f old) x"
    and how: "(accounting_books L' = accounting_books L \<and> je_entryNumber (f old) = je_entryNumber old \<and>
        posted_status (je_status (f old)) = posted_status (je_status old) \<and>
        je_fiscalPeriodId (f old) = je_fiscalPeriodId old \<and> je_entryDate (f old) = je_entryDate old) \<or>
      (je_entryNumber old = None \<and> posted_status (je_status (f old)) \<and> inPeriod (fiscal_periods L) (f old) \<and>
       linesBalance (linesOf L i) \<and>
       (\<exists>bk. find (\<lambda>x. bk_id x = je_accountingBookId old) (accounting_books L) = Some bk \<and>
          je_entryNumber (f old) = Some (bk_nextEntryNumber bk)) \<and>
       accounting_books L' = bumpBook (je_accountingBookId old) (accounting_books L))"
  shows "core_ok L'"
proof -
  have mem: "old \<in> set (journal_entries L)" "je_id old = i" using find_SomeD [OF old] by auto
  have keys: "distinct (map je_id (journal_entries L))" using ok by (simp add: core_ok_def entries_ok_def)
  have uniq: "je_id r = i \<longleftrightarrow> r = old" if "r \<in> set (journal_entries L)" for r
    using distinct_key_eq [OF keys that mem(1)] mem(2) by auto
  have bids: "map bk_id (accounting_books L') = map bk_id (accounting_books L)" using how by auto
  then have be: "bookExists L' j = bookExists L j" for j by (simp only: bookExists_iff)
  have bs: "books_ok (accounting_books L')" using how ok books_ok_bump by (auto simp: core_ok_def)
  have "{r \<in> set (journal_entries L). je_id r = i} = {old}" using mem uniq by blast
  then have rows': "set (journal_entries L') = insert (f old) {r \<in> set (journal_entries L). je_id r \<noteq> i}"
    by (simp add: L'(1) set_updateWhere)
  have stat: "posted_status (je_status r) \<longleftrightarrow> je_entryNumber r \<noteq> None" if "r \<in> set (journal_entries L)" for r
    using ok that by (simp add: core_ok_def entries_ok_def)
  have es: "entries_ok (journal_entries L')"
  proof -
    have "clashFree entryClash (journal_entries L')"
      unfolding L'(1)
      by (rule clashFree_update [where C = entryClash and k = je_id and f = f, OF _ _ keys mem new]) (use ok entryClash_sym in \<open>auto simp: core_ok_def entries_ok_def\<close>)
    moreover have "distinct (map je_id (journal_entries L'))"
      using keys by (simp add: L'(1) map_updateWhere f)
    moreover have "posted_status (je_status (f old)) \<longleftrightarrow> je_entryNumber (f old) \<noteq> None"
      using how stat [OF mem(1)] by auto
    moreover have "\<forall>r \<in> set (journal_entries L). validDate (je_entryDate r)"
      using ok by (simp add: core_ok_def entries_ok_def)
    ultimately show ?thesis using stat mem f(3) by (auto simp: entries_ok_def rows')
  qed
  note nums = numbersOf_update [where f = f, OF keys mem f(2)]
  have gap: "gapless (accounting_books L') (journal_entries L')"
  proof (cases "accounting_books L' = accounting_books L \<and> je_entryNumber (f old) = je_entryNumber old")
    case True
    have "set (numbersOf (journal_entries L') b) = set (numbersOf (journal_entries L) b)" for b
      unfolding L'(1) nums unfolding set_numbersOf using True mem by (auto simp: uniq)
    then show ?thesis using ok True by (simp add: core_ok_def gapless_def)
  next
    case False
    with how obtain bk where bk: "find (\<lambda>x. bk_id x = je_accountingBookId old) (accounting_books L) = Some bk"
      "je_entryNumber (f old) = Some (bk_nextEntryNumber bk)"
      "accounting_books L' = bumpBook (je_accountingBookId old) (accounting_books L)" "je_entryNumber old = None" by auto
    have n: "set (numbersOf (journal_entries L') b) = set (numbersOf (journal_entries L) b) \<union>
        {n. je_accountingBookId old = b \<and> n = bk_nextEntryNumber bk}" for b
      unfolding L'(1) nums unfolding set_numbersOf using bk(2,4) by (fastforce simp: uniq)
    show ?thesis
      unfolding bk(3) by (rule gapless_post [OF _ _ bk(1)]) (use ok n in \<open>auto simp: core_ok_def\<close>)
  qed
  have fits: "\<forall>l \<in> set (journal_lines L'). lineFits L' l"
  proof
    fix l assume "l \<in> set (journal_lines L')"
    then have l: "lineFits L l" using ok by (simp add: L' core_ok_def)
    then obtain r where r: "r \<in> set (journal_entries L)" "je_id r = jl_journalEntryId l"
      "je_accountingBookId r = jl_accountingBookId l" by (auto simp: lineFits_def)
    have "\<exists>x \<in> set (journal_entries L'). je_id x = jl_journalEntryId l \<and> je_accountingBookId x = jl_accountingBookId l"
    proof (cases "je_id r = i")
      case True
      with r uniq have "r = old" by blast
      then show ?thesis using r by (auto simp: rows' f)
    qed (use r in \<open>auto simp: rows'\<close>)
    then show "lineFits L' l" using l by (simp add: lineFits_def L'(4))
  qed
  have posted: "\<forall>x \<in> set (journal_entries L'). posted_status (je_status x) \<longrightarrow>
      inPeriod (fiscal_periods L') x \<and> linesBalance (linesOf L' (je_id x))"
  proof (intro ballI impI)
    fix x assume x: "x \<in> set (journal_entries L')" "posted_status (je_status x)"
    show "inPeriod (fiscal_periods L') x \<and> linesBalance (linesOf L' (je_id x))"
    proof (cases "x = f old")
      case False
      with x show ?thesis using ok by (simp add: rows' core_ok_def L'(2,3))
    next
      case True
      have "inPeriod (fiscal_periods L) old \<and> linesBalance (linesOf L i)" if "posted_status (je_status old)"
        using ok that mem by (auto simp: core_ok_def)
      then show ?thesis using how x True by (auto simp: L'(2,3) f mem inPeriod_def)
    qed
  qed
  have "\<forall>r \<in> set (journal_entries L'). bookExists L' (je_accountingBookId r)"
    using ok mem by (auto simp: rows' f be core_ok_def)
  then show ?thesis
    unfolding core_ok_def using bs es gap fits posted ok by (simp add: core_ok_def L'(2-4))
qed

end
