(* ===== verification/Journal_Safety.thy ===== *)
theory Journal_Safety
  imports Journal_Invariant
begin

text \<open>
  Every operation of the journal keeps the ledger sound and only adds to its history.
  \<open>reversals_ok\<close> says what a reversal is worth: a reversed entry has exactly one reversal, in
  the same book, whose lines cancel its own account by account. \<open>journalGrows\<close> says that an entry
  in the books keeps its row and its lines, and at most becomes reversed.
\<close>

section \<open>Posting a new entry\<close>

lemma resolvePeriodRow_covers:
  assumes "resolvePeriodRow L b d = Inr p" and "periods_ok (fiscal_periods L)"
  shows "p \<in> set (fiscal_periods L) \<and> periodCovers b d p"
proof -
  obtain q where q: "find (periodCovers b d) (fiscal_periods L) = Some q"
    "find (\<lambda>x. fp_id x = fp_id q) (fiscal_periods L) = Some p"
    using assms(1) by (auto simp: resolvePeriodRow_def fromOption_def split: option.splits)
  have "p = q"
    using assms(2) find_SomeD [OF q(1)] find_SomeD [OF q(2)]
    by (auto simp: periods_ok_def intro: distinct_key_eq)
  then show ?thesis using find_SomeD [OF q(1)] by blast
qed

lemma core_cong:
  assumes "journal_entries L' = journal_entries L" "journal_lines L' = journal_lines L"
    "fiscal_periods L' = fiscal_periods L" "ledger_accounts L' = ledger_accounts L"
    "accounting_books L' = accounting_books L"
  shows "core_ok L' = core_ok L"
  using assms by (simp add: core_ok_def lineFits_def bookExists_def)

lemma entryBalanced_cong:
  "journal_entries L' = journal_entries L \<Longrightarrow> journal_lines L' = journal_lines L \<Longrightarrow>
     entryBalanced L' i = entryBalanced L i"
  by (simp add: entryBalanced_def split: option.split)

lemma entryBalanced_new:
  assumes "entryBalanced L' (je_id r)" and "journal_entries L' = journal_entries L @ [r]"
    and "posted_status (je_status r)" and "\<forall>x \<in> set (journal_entries L). \<not> entryClash r x"
  shows "linesBalance (linesOf L' (je_id r))"
proof -
  have "find (\<lambda>x. je_id x = je_id r) (journal_entries L) = None"
    using assms(4) by (auto simp: find_None_iff entryClash_def)
  then show ?thesis using assms(1-3) by (simp add: entryBalanced_def find_append)
qed

text \<open>What posting a new entry writes.\<close>

definition entryPosted :: "ledger \<Rightarrow> journal_entry \<Rightarrow> journal_line list \<Rightarrow> ledger \<Rightarrow> bool" where
  "entryPosted L r ls L' \<longleftrightarrow>
     journal_entries L' = journal_entries L @ [r] \<and> journal_lines L' = journal_lines L @ ls \<and>
     fiscal_periods L' = fiscal_periods L \<and> ledger_accounts L' = ledger_accounts L \<and>
     accounting_books L' = bumpBook (je_accountingBookId r) (accounting_books L) \<and>
     je_status r = Posted \<and> validDate (je_entryDate r) \<and> (\<forall>x \<in> set (journal_entries L). \<not> entryClash r x) \<and> rowsFor L r ls \<and>
     linesOf L' (je_id r) = ls \<and> linesBalance ls \<and>
     (\<exists>bk. find (\<lambda>x. bk_id x = je_accountingBookId r) (accounting_books L) = Some bk \<and>
        je_entryNumber r = Some (bk_nextEntryNumber bk)) \<and> periodGuard L r"

definition postableLines :: "ledger \<Rightarrow> resolved_line list \<Rightarrow> bool" where
  "postableLines L ls \<longleftrightarrow>
     (\<forall>l \<in> set ls. \<exists>a \<in> set (ledger_accounts L). la_id a = rs_ledgerAccountId l \<and> la_isPostable a)"

lemma resolveLines_postable:
  assumes "resolveLines L book ls = Inr rs"
  shows "postableLines L rs"
  unfolding postableLines_def
proof
  fix r assume "r \<in> set rs"
  then obtain z where "(case z of (k, l) \<Rightarrow> resolveLine L book k l) = Inr r"
    using mapE_mem [OF assms [unfolded resolveLines_def]] by blast
  then obtain k l where "resolveLine L book k l = Inr r" by (cases z) auto
  then obtain a where "lineAccount L book l = Some a" "la_isPostable a" "rs_ledgerAccountId r = la_id a"
    by (auto simp: resolveLine_def)
  then show "\<exists>a \<in> set (ledger_accounts L). la_id a = rs_ledgerAccountId r \<and> la_isPostable a"
    by (auto simp: lineAccount_def split: option.splits dest!: find_SomeD)
qed

lemma reversedLines_postable:
  assumes "core_ok L" and "mapE (reversedLine L) (loadLines L i) = Inr ls"
  shows "postableLines L ls"
  unfolding postableLines_def
proof
  fix s assume "s \<in> set ls"
  then obtain l where "l \<in> set (loadLines L i)" "reversedLine L l = Inr s"
    using mapE_mem [OF assms(2)] by blast
  moreover have "lineFits L l" using calculation(1) assms(1) by (simp add: loadLines_def core_ok_def)
  ultimately show "\<exists>a \<in> set (ledger_accounts L). la_id a = rs_ledgerAccountId s \<and> la_isPostable a"
    unfolding lineFits_def reversedLine_Inr by auto
qed

lemma postable_rows:
  assumes "accounts_ok (ledger_accounts L)" and "postableLines L ls" and "list_all2 (rowOf b i) ls rows"
    and "r \<in> set rows" and "\<exists>a \<in> set (ledger_accounts L). la_id a = jl_ledgerAccountId r \<and> la_accountingBookId a = b"
  shows "\<exists>a \<in> set (ledger_accounts L). la_id a = jl_ledgerAccountId r \<and> la_accountingBookId a = b \<and> la_isPostable a"
proof -
  obtain a where a: "a \<in> set (ledger_accounts L)" "la_id a = jl_ledgerAccountId r" "la_accountingBookId a = b"
    using assms(5) by blast
  obtain l where "l \<in> set ls" "rowOf b i l r" using rowOf_set [OF assms(3)] assms(4) by blast
  then obtain c where c: "c \<in> set (ledger_accounts L)" "la_id c = jl_ledgerAccountId r" "la_isPostable c"
    using assms(2) by (auto simp: postableLines_def rowOf_def)
  have "c = a" by (rule distinct_key_eq [of la_id "ledger_accounts L"]) (use assms(1) a c in \<open>simp_all add: accounts_ok_def\<close>)
  with a c show ?thesis by blast
qed

lemma writePosted_entryPosted:
  assumes ok: "core_ok L" and post: "postableLines L ls" and w: "writePosted e b h ls links p bd u L = Inr ((r, srt), L1)"
    and bal: "entryBalanced L1 (je_id r)"
  obtains rows n u' where "entryPosted L r rows L1" "list_all2 (rowOf b (je_id r)) ls rows"
    "r = postedStamp e n p bd u' (headerRow e b h)"
proof -
  from w obtain n rows u' bk where
    bk: "find (\<lambda>r. bk_id r = b) (accounting_books L) = Some bk" "n = bk_nextEntryNumber bk" "1 \<le> n" and
    r: "r = postedStamp e n p bd u' (headerRow e b h)" "\<forall>x \<in> set (journal_entries L). \<not> entryClash r x"
      "periodGuard L r" and date: "validDate (hd_entryDate h)" and
    rows: "list_all2 (rowOf b (uuidAt e 0)) ls rows"
      "\<forall>r \<in> set rows. (\<forall>x \<in> set (journal_lines L). \<not> lineClash x r)"
      "\<forall>r \<in> set rows. jl_amount r \<noteq> 0 \<and> jl_currency r = jl_functionalCurrency r \<and>
         (\<exists>a \<in> set (ledger_accounts L). la_id a = jl_ledgerAccountId r \<and> la_accountingBookId a = b)"
      "sorted_wrt (\<lambda>x r. \<not> lineClash x r) rows" and
    L1: "L1 = L\<lparr>accounting_books := bumpBook b (accounting_books L),
       journal_entries := journal_entries L @ [r], journal_lines := journal_lines L @ rows,
       journal_line_dimensions := journal_line_dimensions L1,
       journal_entry_source_links := journal_entry_source_links L1\<rparr>"
    by (rule writePosted_Inr)
  have id: "je_id r = uuidAt e 0" "je_accountingBookId r = b" by (simp_all add: r(1))
  have tables: "journal_entries L1 = journal_entries L @ [r]" "journal_lines L1 = journal_lines L @ rows"
    "fiscal_periods L1 = fiscal_periods L" "ledger_accounts L1 = ledger_accounts L"
    "accounting_books L1 = bumpBook b (accounting_books L)"
    by (subst L1, simp)+
  have acc: "accounts_ok (ledger_accounts L)" using ok by (simp add: core_ok_def)
  have fits: "rowsFor L r rows"
    using rows rowOf_set [OF rows(1)] postable_rows [OF acc post rows(1)] by (auto simp: rowsFor_def id rowOf_def)
  have own: "linesOf L1 (je_id r) = rows"
    using linesOf_append_new [OF fits tables(2) _ r(2)] ok by (simp add: core_ok_def)
  have "linesBalance rows"
    using entryBalanced_new [OF bal tables(1) _ r(2)] own by (simp add: r(1))
  then have "entryPosted L r rows L1"
    using tables r(2,3) date fits own bk by (simp add: entryPosted_def id r(1))
  then show ?thesis using that rows(1) r(1) id by simp
qed

lemma entryPosted_core:
  assumes ok: "core_ok L" and p: "entryPosted L r ls L'" and q: "inPeriod (fiscal_periods L) r"
  shows "core_ok L'"
proof (rule core_append [OF ok])
  show "bookExists L (je_accountingBookId r)"
  proof -
    obtain bk where "find (\<lambda>x. bk_id x = je_accountingBookId r) (accounting_books L) = Some bk"
      using p unfolding entryPosted_def by blast
    then show ?thesis using find_SomeD by (fastforce simp: bookExists_def list_ex_iff)
  qed
qed (use p q in \<open>auto simp: entryPosted_def\<close>)


section \<open>Reversals\<close>

definition lineKey :: "journal_line \<Rightarrow> uuid \<times> uuid option \<times> int \<times> string \<times> string" where
  "lineKey l = (jl_ledgerAccountId l, jl_economicEntityId l, jl_lineNumber l, jl_currency l, jl_functionalCurrency l)"

definition cancels :: "journal_line list \<Rightarrow> journal_line list \<Rightarrow> bool" where
  "cancels ls ms \<longleftrightarrow>
     mset (map (\<lambda>l. (lineKey l, jl_amount l, jl_functionalAmount l)) ls) =
     mset (map (\<lambda>l. (lineKey l, - jl_amount l, - jl_functionalAmount l)) ms)"

definition reversalOf :: "(uuid \<Rightarrow> journal_line list) \<Rightarrow> journal_entry \<Rightarrow> journal_entry \<Rightarrow> bool" where
  "reversalOf F s x \<longleftrightarrow>
     je_reversesEntryId s = Some (je_id x) \<and> je_status s = Posted \<and> je_status x = Reversed \<and>
     je_reversesEntryId x = None \<and> je_accountingBookId s = je_accountingBookId x \<and>
     cancels (F (je_id s)) (F (je_id x))"

definition reversals_ok :: "journal_entry list \<Rightarrow> (uuid \<Rightarrow> journal_line list) \<Rightarrow> bool" where
  "reversals_ok es F \<longleftrightarrow>
     (\<forall>s \<in> set es. je_reversesEntryId s \<noteq> None \<longrightarrow> (\<exists>x \<in> set es. reversalOf F s x)) \<and>
     (\<forall>x \<in> set es. je_status x = Reversed \<longrightarrow> (\<exists>s \<in> set es. je_reversesEntryId s = Some (je_id x))) \<and>
     (\<forall>s \<in> set es. \<forall>t \<in> set es. je_reversesEntryId s \<noteq> None \<and> je_reversesEntryId s = je_reversesEntryId t \<longrightarrow> s = t)"

lemma negated_cancels:
  assumes "list_all2 (negatedLine i) (sort_key k os) rows"
  shows "cancels rows os"
proof -
  have "map (\<lambda>l. (lineKey l, jl_amount l, jl_functionalAmount l)) rows =
      map (\<lambda>l. (lineKey l, - jl_amount l, - jl_functionalAmount l)) (sort_key k os)"
    using assms by (auto simp: list_all2_conv_all_nth negatedLine_def lineKey_def intro: nth_equalityI)
  then show ?thesis by (simp add: cancels_def)
qed

lemma reversals_append:
  assumes ok: "reversals_ok es F" and r: "je_reversesEntryId r = None" "je_status r \<noteq> Reversed"
    and fresh: "\<forall>x \<in> set es. je_id x \<noteq> je_id r" and same: "\<And>i. i \<noteq> je_id r \<Longrightarrow> G i = F i"
  shows "reversals_ok (es @ [r]) G"
proof -
  have keep: "reversalOf F s x \<Longrightarrow> reversalOf G s x" if "s \<in> set es" "x \<in> set es" for s x
    using fresh same that by (simp add: reversalOf_def)
  show ?thesis
    unfolding reversals_ok_def
  proof (intro conjI ballI impI)
    fix s assume "s \<in> set (es @ [r])" "je_reversesEntryId s \<noteq> None"
    then have s: "s \<in> set es" "je_reversesEntryId s \<noteq> None" using r by auto
    then obtain x where "x \<in> set es" "reversalOf F s x" using ok unfolding reversals_ok_def by blast
    then show "\<exists>x \<in> set (es @ [r]). reversalOf G s x" using keep s by fastforce
  next
    fix x assume "x \<in> set (es @ [r])" "je_status x = Reversed"
    then have "x \<in> set es" "je_status x = Reversed" using r by auto
    then show "\<exists>s \<in> set (es @ [r]). je_reversesEntryId s = Some (je_id x)"
      using ok unfolding reversals_ok_def by fastforce
  next
    fix s t assume st: "s \<in> set (es @ [r])" "t \<in> set (es @ [r])"
      "je_reversesEntryId s \<noteq> None \<and> je_reversesEntryId s = je_reversesEntryId t"
    then have "s \<in> set es" "t \<in> set es" using r by auto
    then show "s = t" using ok st(3) unfolding reversals_ok_def by blast
  qed
qed

lemma reversals_update_draft:
  assumes ok: "reversals_ok es F" and keys: "distinct (map je_id es)"
    and old: "find (\<lambda>r. je_id r = i) es = Some old" "je_status old = Draft"
    and f: "\<And>r. je_id (f r) = je_id r" "je_reversesEntryId (f old) = je_reversesEntryId old" "je_status (f old) \<noteq> Reversed"
  shows "reversals_ok (updateWhere (\<lambda>r. je_id r = i) f es) F"
proof -
  have mem: "old \<in> set es" "je_id old = i" using find_SomeD [OF old(1)] by auto
  have "{r \<in> set es. je_id r = i} = {old}" using mem distinct_key_eq [OF keys] by auto
  then have rows: "set (updateWhere (\<lambda>r. je_id r = i) f es) = insert (f old) {r \<in> set es. r \<noteq> old}"
    using mem distinct_key_eq [OF keys] by (auto simp: set_updateWhere)
  have none: "je_reversesEntryId old = None"
    using ok mem old(2) by (force simp: reversals_ok_def reversalOf_def)
  have other: "x \<noteq> old \<and> s \<noteq> old" if "reversalOf F s x" for s x
    using that old(2) by (auto simp: reversalOf_def)
  show ?thesis
    unfolding reversals_ok_def rows
  proof (intro conjI ballI impI)
    fix s assume "s \<in> insert (f old) {r \<in> set es. r \<noteq> old}" "je_reversesEntryId s \<noteq> None"
    then have "s \<in> set es" "je_reversesEntryId s \<noteq> None" using none f(2) by auto
    then obtain x where "x \<in> set es" "reversalOf F s x" using ok unfolding reversals_ok_def by blast
    then show "\<exists>x \<in> insert (f old) {r \<in> set es. r \<noteq> old}. reversalOf F s x" using other by blast
  next
    fix x assume "x \<in> insert (f old) {r \<in> set es. r \<noteq> old}" "je_status x = Reversed"
    then have "x \<in> set es" "je_status x = Reversed" using f(3) by auto
    then obtain s where s: "s \<in> set es" "je_reversesEntryId s = Some (je_id x)"
      using ok unfolding reversals_ok_def by blast
    then have "s \<noteq> old" using none by auto
    then show "\<exists>s \<in> insert (f old) {r \<in> set es. r \<noteq> old}. je_reversesEntryId s = Some (je_id x)"
      using s by blast
  next
    fix s t assume st: "s \<in> insert (f old) {r \<in> set es. r \<noteq> old}" "t \<in> insert (f old) {r \<in> set es. r \<noteq> old}"
      "je_reversesEntryId s \<noteq> None \<and> je_reversesEntryId s = je_reversesEntryId t"
    then have "s \<in> set es" "t \<in> set es" using none f(2) by auto
    then show "s = t" using ok st(3) unfolding reversals_ok_def by blast
  qed
qed

lemma reversals_reverse:
  assumes ok: "reversals_ok es F" and keys: "distinct (map je_id (es @ [r]))"
    and x: "x \<in> set es" "je_status x = Posted" "je_reversesEntryId x = None"
    and r: "je_reversesEntryId r = Some (je_id x)" "je_status r = Posted" "je_accountingBookId r = je_accountingBookId x"
    and first: "\<forall>s \<in> set es. je_reversesEntryId s \<noteq> Some (je_id x)"
    and same: "\<And>i. i \<noteq> je_id r \<Longrightarrow> G i = F i" and c: "cancels (G (je_id r)) (F (je_id x))"
  shows "reversals_ok (updateWhere (\<lambda>s. je_id s = je_id x) (je_status_update (\<lambda>_. Reversed)) (es @ [r])) G"
proof -
  let ?x = "x\<lparr>je_status := Reversed\<rparr>"
  have uniq: "s = x" if "s \<in> set es" "je_id s = je_id x" for s
    using keys that x(1) by (auto intro: distinct_key_eq)
  have new: "je_id s \<noteq> je_id r" if "s \<in> set es" for s
  proof -
    have "je_id r \<notin> je_id ` set es" using keys by simp
    then show ?thesis using that by (metis image_eqI)
  qed
  have rows: "set (updateWhere (\<lambda>s. je_id s = je_id x) (je_status_update (\<lambda>_. Reversed)) (es @ [r])) =
      insert r (insert ?x {s \<in> set es. s \<noteq> x})"
  proof -
    have "{s \<in> set (es @ [r]). je_id s = je_id x} = {x}"
      using uniq new [OF x(1)] x(1) by auto
    moreover have "{s \<in> set (es @ [r]). je_id s \<noteq> je_id x} = insert r {s \<in> set es. s \<noteq> x}"
      using uniq new [OF x(1)] by auto
    ultimately show ?thesis
      by (simp only: set_updateWhere image_insert image_empty) (simp add: insert_commute)
  qed
  have main: "reversalOf G r ?x"
    using r x(3) c same new [OF x(1)] by (simp add: reversalOf_def)
  have old: "reversalOf G s y \<and> s \<noteq> x \<and> y \<noteq> x" if "reversalOf F s y" "s \<in> set es" "y \<in> set es" for s y
    using that same new x by (auto simp: reversalOf_def)
  show ?thesis
    unfolding reversals_ok_def rows
  proof (intro conjI ballI impI)
    fix s assume s: "s \<in> insert r (insert ?x {s \<in> set es. s \<noteq> x})" "je_reversesEntryId s \<noteq> None"
    show "\<exists>y \<in> insert r (insert ?x {s \<in> set es. s \<noteq> x}). reversalOf G s y"
    proof (cases "s = r")
      case False
      then have "s \<in> set es" using s x(3) by auto
      then obtain y where "y \<in> set es" "reversalOf F s y" using ok s(2) by (auto simp: reversals_ok_def)
      then show ?thesis using old \<open>s \<in> set es\<close> by blast
    qed (use main in blast)
  next
    fix y assume y: "y \<in> insert r (insert ?x {s \<in> set es. s \<noteq> x})" "je_status y = Reversed"
    show "\<exists>s \<in> insert r (insert ?x {s \<in> set es. s \<noteq> x}). je_reversesEntryId s = Some (je_id y)"
    proof (cases "y = ?x")
      case False
      then have m: "y \<in> set es" using y r(2) by auto
      then obtain s where s: "s \<in> set es" "je_reversesEntryId s = Some (je_id y)"
        using ok y(2) by (auto simp: reversals_ok_def)
      then have "s \<noteq> x" using x(3) by auto
      then show ?thesis using s by blast
    qed (use r(1) in simp)
  next
    fix s t assume st: "s \<in> insert r (insert ?x {s \<in> set es. s \<noteq> x})" "t \<in> insert r (insert ?x {s \<in> set es. s \<noteq> x})"
      "je_reversesEntryId s \<noteq> None \<and> je_reversesEntryId s = je_reversesEntryId t"
    then have s: "s = r \<or> s \<in> set es" "t = r \<or> t \<in> set es" using x(3) by auto
    show "s = t"
    proof (cases "s = r \<or> t = r")
      case True
      then show ?thesis using s st(3) first r(1) by metis
    next
      case False
      then have "s \<in> set es" "t \<in> set es" using s by auto
      then show ?thesis using st(3) ok unfolding reversals_ok_def by blast
    qed
  qed
qed


section \<open>Every operation keeps the ledger sound\<close>

definition ledger_ok :: "ledger \<Rightarrow> bool" where
  "ledger_ok L \<longleftrightarrow> core_ok L \<and> reversals_ok (journal_entries L) (linesOf L)"

text \<open>History is kept: an entry in the books stays, with its lines, and at most becomes reversed.\<close>

definition journalGrows :: "ledger \<Rightarrow> ledger \<Rightarrow> bool" where
  "journalGrows L L' \<longleftrightarrow>
     (\<forall>r \<in> set (journal_entries L). posted_status (je_status r) \<longrightarrow>
        (r \<in> set (journal_entries L') \<or>
         je_status r = Posted \<and> r\<lparr>je_status := Reversed\<rparr> \<in> set (journal_entries L')) \<and>
        linesOf L' (je_id r) = linesOf L (je_id r))"

lemma journalGrows_refl [simp]: "journalGrows L L"
  by (simp add: journalGrows_def)

lemma journalGrows_trans:
  assumes "journalGrows L M" and "journalGrows M N"
  shows "journalGrows L N"
  unfolding journalGrows_def
proof (intro ballI impI)
  fix r assume r: "r \<in> set (journal_entries L)" "posted_status (je_status r)"
  then have l: "linesOf M (je_id r) = linesOf L (je_id r)"
    and "r \<in> set (journal_entries M) \<or> je_status r = Posted \<and> r\<lparr>je_status := Reversed\<rparr> \<in> set (journal_entries M)"
    using assms(1) unfolding journalGrows_def by blast+
  then obtain m where m: "m \<in> set (journal_entries M)" "je_id m = je_id r" "posted_status (je_status m)"
    "m = r \<or> je_status r = Posted \<and> m = r\<lparr>je_status := Reversed\<rparr>"
    using r(2) by (fastforce simp: posted_status_def)
  then have n: "linesOf N (je_id m) = linesOf M (je_id m)"
    "m \<in> set (journal_entries N) \<or> je_status m = Posted \<and> m\<lparr>je_status := Reversed\<rparr> \<in> set (journal_entries N)"
    using assms(2) unfolding journalGrows_def by blast+
  show "(r \<in> set (journal_entries N) \<or> je_status r = Posted \<and> r\<lparr>je_status := Reversed\<rparr> \<in> set (journal_entries N)) \<and>
      linesOf N (je_id r) = linesOf L (je_id r)"
    using m(2,4) n l by auto
qed

lemma ledger_ok_cong:
  assumes "journal_entries L' = journal_entries L" "journal_lines L' = journal_lines L"
    "fiscal_periods L' = fiscal_periods L" "ledger_accounts L' = ledger_accounts L"
    "accounting_books L' = accounting_books L"
  shows "ledger_ok L' = ledger_ok L" and "journalGrows M L' = journalGrows M L"
  using core_cong [OF assms] assms by (simp_all add: ledger_ok_def journalGrows_def)

lemma rowsFor_fresh:
  assumes "\<forall>x \<in> set (journal_entries L). \<not> entryClash r x"
  shows "\<forall>x \<in> set (journal_entries L). je_id x \<noteq> je_id r"
  using assms by (auto simp: entryClash_def)

lemma entryPosted_ok:
  assumes ok: "ledger_ok L" and p: "entryPosted L r ls L'" and q: "inPeriod (fiscal_periods L) r"
    and plain: "je_reversesEntryId r = None"
  shows "ledger_ok L' \<and> journalGrows L L'"
proof -
  have L': "journal_entries L' = journal_entries L @ [r]" "journal_lines L' = journal_lines L @ ls"
    and r: "je_status r = Posted" "\<forall>x \<in> set (journal_entries L). \<not> entryClash r x" and rows: "rowsFor L r ls"
    using p by (auto simp: entryPosted_def)
  have fresh: "\<forall>x \<in> set (journal_entries L). je_id x \<noteq> je_id r" by (rule rowsFor_fresh [OF r(2)])
  note same = linesOf_append_old [OF rows L'(2)]
  have "core_ok L'" using ok p q entryPosted_core by (auto simp: ledger_ok_def)
  moreover have "reversals_ok (journal_entries L') (linesOf L')"
    unfolding L'(1) by (rule reversals_append [where F = "linesOf L"]) (use ok plain r(1) fresh same in \<open>simp_all add: ledger_ok_def\<close>)
  moreover have "journalGrows L L'"
    unfolding journalGrows_def using fresh same by (simp add: L'(1))
  ultimately show ?thesis by (simp add: ledger_ok_def)
qed

lemma attemptPost_entryPosted:
  assumes ok: "ledger_ok L" and a: "attemptPost e v L = Inr (r, L')" and new: "\<not> pe_reused r"
  obtains rows L1 where "entryPosted L (pe_entry r) rows L1" "inPeriod (fiscal_periods L) (pe_entry r)"
    "je_reversesEntryId (pe_entry r) = None" "L' = L1\<lparr>audit_events := audit_events L'\<rparr>"
    "je_entryDate (pe_entry r) = en_entryDate v" "je_postingKey (pe_entry r) = en_postingKey v"
  using a
proof (cases rule: attemptPost_Inr)
  case (reused k)
  then show ?thesis using new by simp
next
  case (posted book routing ls period bd u L1 log)
  have core: "core_ok L" using ok by (simp add: ledger_ok_def)
  have bal: "entryBalanced L1 (je_id (pe_entry r))"
    using posted(9) entryBalanced_cong [of L' L1] by (simp add: posted(8))
  obtain rows n u' where w: "entryPosted L (pe_entry r) rows L1"
    "pe_entry r = postedStamp e n (fp_id period) bd u' (headerRow e (bk_id book) (headerOf v))"
    by (rule writePosted_entryPosted [OF core resolveLines_postable [OF posted(3)] posted(7) bal])
  have "period \<in> set (fiscal_periods L) \<and> periodCovers (bk_id book) (en_entryDate v) period"
    using resolvePeriodRow_covers [OF posted(5)] core by (simp add: core_ok_def)
  then have "inPeriod (fiscal_periods L) (pe_entry r)"
    unfolding inPeriod_def w(2) by (auto simp: headerOf_def)
  then show ?thesis using w posted(8) by (intro that) (auto simp: headerOf_def)
qed

lemma attemptPost_ok:
  assumes ok: "ledger_ok L" and a: "attemptPost e v L = Inr (r, L')"
  shows "ledger_ok L' \<and> journalGrows L L'"
proof (cases "pe_reused r")
  case True
  have "L' = L" using a by (cases rule: attemptPost_Inr) (use True in simp_all)
  then show ?thesis using ok by simp
next
  case False
  obtain rows L1 where w: "entryPosted L (pe_entry r) rows L1" "inPeriod (fiscal_periods L) (pe_entry r)"
    "je_reversesEntryId (pe_entry r) = None" "L' = L1\<lparr>audit_events := audit_events L'\<rparr>"
    by (rule attemptPost_entryPosted [OF ok a False])
  have eq: "journal_entries L' = journal_entries L1" "journal_lines L' = journal_lines L1"
    "fiscal_periods L' = fiscal_periods L1" "ledger_accounts L' = ledger_accounts L1"
    "accounting_books L' = accounting_books L1"
    by (subst w(4), simp)+
  show ?thesis using entryPosted_ok [OF ok w(1-3)] unfolding ledger_ok_cong [OF eq] .
qed

lemma postEntry_ok:
  assumes "ledger_ok L" and "postEntry e i L = Inr (r, L')"
  shows "ledger_ok L' \<and> journalGrows L L'"
proof -
  obtain v where "attemptPost e v L = Inr (r, L')" using assms(2) by (rule postEntry_attempt)
  then show ?thesis by (rule attemptPost_ok [OF assms(1)])
qed


lemma createDraft_ok:
  assumes ok: "ledger_ok L" and a: "createDraft e i L = Inr (r, L')"
  shows "ledger_ok L' \<and> journalGrows L L'"
proof -
  from a obtain v book routing ls d rows log where
    route: "routeBook L v = Inr (book, routing)" and res: "resolveLines L book (en_lines v) = Inr ls" and
    d: "d = headerRow e (bk_id book) (headerOf v)" "\<forall>x \<in> set (journal_entries L). \<not> entryClash d x"
      "validDate (je_entryDate d)" and
    rows: "list_all2 (rowOf (bk_id book) (uuidAt e 0)) ls rows"
      "\<forall>r \<in> set rows. (\<forall>x \<in> set (journal_lines L). \<not> lineClash x r)"
      "\<forall>r \<in> set rows. jl_amount r \<noteq> 0 \<and> jl_currency r = jl_functionalCurrency r \<and>
         (\<exists>a \<in> set (ledger_accounts L). la_id a = jl_ledgerAccountId r \<and> la_accountingBookId a = bk_id book)"
      "sorted_wrt (\<lambda>x r. \<not> lineClash x r) rows" and
    L': "L' = L\<lparr>journal_entries := journal_entries L @ [d], journal_lines := journal_lines L @ rows,
       journal_line_dimensions := journal_line_dimensions L',
       journal_entry_source_links := journal_entry_source_links L',
       audit_events := audit_events L @ log\<rparr>"
    by (rule createDraft_Inr)
  have t: "journal_entries L' = journal_entries L @ [d]" "journal_lines L' = journal_lines L @ rows"
    "fiscal_periods L' = fiscal_periods L" "ledger_accounts L' = ledger_accounts L"
    "accounting_books L' = accounting_books L"
    by (subst L', simp)+
  have acc: "accounts_ok (ledger_accounts L)" using ok by (simp add: ledger_ok_def core_ok_def)
  have fits: "rowsFor L d rows"
    using rows rowOf_set [OF rows(1)] postable_rows [OF acc resolveLines_postable [OF res] rows(1)]
    by (auto simp: rowsFor_def d(1) rowOf_def)
  have fresh: "\<forall>x \<in> set (journal_entries L). je_id x \<noteq> je_id d" by (rule rowsFor_fresh [OF d(2)])
  note same = linesOf_append_old [OF fits t(2)]
  have b: "bookExists L (je_accountingBookId d)"
    using routeBook_mem [OF route] by (auto simp: d(1) bookExists_iff)
  have "core_ok L'"
    by (rule core_append [OF _ t(1-4) d(2) b d(3) fits]) (use ok t(5) in \<open>auto simp: ledger_ok_def d(1)\<close>)
  moreover have "reversals_ok (journal_entries L') (linesOf L')"
    unfolding t(1) by (rule reversals_append [where F = "linesOf L"])
      (use ok fresh same in \<open>simp_all add: ledger_ok_def d(1) headerOf_def\<close>)
  moreover have "journalGrows L L'"
    unfolding journalGrows_def using fresh same by (simp add: t(1))
  ultimately show ?thesis by (simp add: ledger_ok_def)
qed

lemma draftUpdate_ok:
  assumes ok: "ledger_ok L" and core: "core_ok L'"
    and L': "journal_entries L' = updateWhere (\<lambda>r. je_id r = i) f (journal_entries L)" "journal_lines L' = journal_lines L"
    and old: "find (\<lambda>r. je_id r = i) (journal_entries L) = Some old" "je_status old = Draft"
    and f: "\<And>r. je_id (f r) = je_id r" "je_reversesEntryId (f old) = je_reversesEntryId old" "je_status (f old) \<noteq> Reversed"
  shows "ledger_ok L' \<and> journalGrows L L'"
proof -
  have keys: "distinct (map je_id (journal_entries L))"
    using ok by (simp add: ledger_ok_def core_ok_def entries_ok_def)
  have lines: "linesOf L' = linesOf L" by (rule ext) (simp add: L'(2))
  have "reversals_ok (journal_entries L') (linesOf L')"
    unfolding L'(1) lines by (rule reversals_update_draft [OF _ keys old f]) (use ok in \<open>simp add: ledger_ok_def\<close>)
  moreover have "r \<in> set (journal_entries L')" if "r \<in> set (journal_entries L)" "posted_status (je_status r)" for r
  proof -
    have "je_id r \<noteq> i"
      using distinct_key_eq [OF keys that(1)] find_SomeD [OF old(1)] that(2) old(2) by (auto simp: posted_status_def)
    then show ?thesis using that(1) by (simp add: L'(1) set_updateWhere)
  qed
  ultimately show ?thesis using core lines by (simp add: ledger_ok_def journalGrows_def fun_eq_iff)
qed

lemma postDraft_ok:
  assumes ok: "ledger_ok L" and a: "postDraft e i bd u req L = Inr (r, L')"
  shows "ledger_ok L' \<and> journalGrows L L'"
proof -
  from a obtain old book period bd' u' n log where
    old: "find (\<lambda>x. je_id x = i) (journal_entries L) = Some old" "je_status old = Draft" and
    book: "bk_id book = je_accountingBookId old" "find (\<lambda>r. bk_id r = bk_id book) (accounting_books L) = Some book" and
    bal: "linesBalance (linesOf L i)" and
    per: "resolvePeriodRow L (bk_id book) (je_entryDate old) = Inr period" and
    r: "n = bk_nextEntryNumber book" "pe_entry r = postedStamp e n (fp_id period) bd' u' old"
      "\<forall>x \<in> set (journal_entries L). je_id x \<noteq> i \<longrightarrow> \<not> entryClash (pe_entry r) x" and
    L': "L' = L\<lparr>accounting_books := bumpBook (bk_id book) (accounting_books L),
       journal_entries := updateWhere (\<lambda>r. je_id r = i) (postedStamp e n (fp_id period) bd' u') (journal_entries L),
       audit_events := audit_events L @ log\<rparr>"
    by (rule postDraft_Inr) blast
  let ?f = "postedStamp e n (fp_id period) bd' u'"
  have core: "core_ok L" using ok by (simp add: ledger_ok_def)
  have mem: "old \<in> set (journal_entries L)" using find_SomeD [OF old(1)] by simp
  have "period \<in> set (fiscal_periods L) \<and> periodCovers (bk_id book) (je_entryDate old) period"
    using resolvePeriodRow_covers [OF per] core by (simp add: core_ok_def)
  then have inp: "inPeriod (fiscal_periods L) (?f old)" by (auto simp: inPeriod_def book(1))
  have none: "je_entryNumber old = None"
    using core mem old(2) by (auto simp: core_ok_def entries_ok_def posted_status_def)
  have new: "\<forall>x \<in> set (journal_entries L). je_id x \<noteq> i \<longrightarrow> \<not> entryClash (?f old) x" using r by simp
  have "core_ok L'"
    by (rule core_update [where f = ?f, OF core _ _ _ _ old(1) _ _ _ new])
      (use book bal inp none r(1) in \<open>simp_all add: L'\<close>)
  then show ?thesis
    by (rule draftUpdate_ok [where f = ?f, OF ok _ _ _ old]) (simp_all add: L')
qed

lemma voidDraft_ok:
  assumes ok: "ledger_ok L" and a: "voidDraft e i reason actor req L = Inr (r, L')"
  shows "ledger_ok L' \<and> journalGrows L L'"
  using a
proof (cases rule: voidDraft_Inr)
  case same
  then show ?thesis using ok by simp
next
  case (voided old log)
  let ?f = "je_status_update (\<lambda>_. Void)"
  have core: "core_ok L" using ok by (simp add: ledger_ok_def)
  have mem: "old \<in> set (journal_entries L)" "je_id old = i" using find_SomeD [OF voided(1)] by auto
  have "\<not> entryClash (?f old) x" if "x \<in> set (journal_entries L)" "je_id x \<noteq> i" for x
  proof -
    have "\<not> entryClash old x"
      using core mem that by (auto simp: core_ok_def entries_ok_def clashFree_def)
    then show ?thesis by (simp add: entryClash_def)
  qed
  then have new: "\<forall>x \<in> set (journal_entries L). je_id x \<noteq> i \<longrightarrow> \<not> entryClash (?f old) x" by blast
  have "core_ok L'"
    by (rule core_update [where f = ?f, OF core _ _ _ _ voided(1) _ _ _ new])
      (use voided(2) in \<open>simp_all add: voided(4) posted_status_def\<close>)
  then show ?thesis
    by (rule draftUpdate_ok [where f = ?f, OF ok _ _ _ voided(1,2)]) (simp_all add: voided(4))
qed


text \<open>What a reversal that wrote something left behind.\<close>

lemma reverseEntry_new:
  assumes ok: "ledger_ok L" and a: "reverseEntry e i L = Inr (r, L')" and new: "\<not> pe_reused r"
  obtains x rows L1 where
    "find (\<lambda>x. je_id x = ri_journalEntryId i) (journal_entries L) = Some x"
    "je_status x = Posted" "je_reversesEntryId x = None"
    "\<forall>s \<in> set (journal_entries L). je_reversesEntryId s \<noteq> Some (je_id x)"
    "entryPosted L (pe_entry r) rows L1" "inPeriod (fiscal_periods L) (pe_entry r)"
    "je_reversesEntryId (pe_entry r) = Some (je_id x)" "je_accountingBookId (pe_entry r) = je_accountingBookId x"
    "cancels rows (linesOf L (je_id x))"
    "journal_entries L' = updateWhere (\<lambda>s. je_id s = je_id x) (je_status_update (\<lambda>_. Reversed)) (journal_entries L1)"
    "journal_lines L' = journal_lines L1" "fiscal_periods L' = fiscal_periods L1"
    "ledger_accounts L' = ledger_accounts L1" "accounting_books L' = accounting_books L1"
    "\<forall>y \<in> set (journal_entries L1). je_id y \<noteq> je_id x \<longrightarrow> \<not> entryClash (x\<lparr>je_status := Reversed\<rparr>) y"
    "je_entryDate (pe_entry r) = (case ri_entryDate i of None \<Rightarrow> je_entryDate x | Some d \<Rightarrow> d)"
  using a
proof (cases rule: reverseEntry_Inr)
  case (reused original)
  then show ?thesis using new by simp
next
  case (reversed x book period bd ls L1 L2 log)
  let ?r = "pe_entry r" and ?f = "je_status_update (\<lambda>_. Reversed)"
  have core: "core_ok L" using ok by (simp add: ledger_ok_def)
  have x: "find (\<lambda>x. je_id x = ri_journalEntryId i) (journal_entries L) = Some x"
    "je_status x \<noteq> Draft" "je_reversesEntryId x = None"
    "find (\<lambda>r. je_reversesEntryId r = Some (je_id x)) (journal_entries L) = None"
    "loadPostingBook L (je_accountingBookId x) = Inr book"
    "resolvePeriodRow L (bk_id book) (case ri_entryDate i of None \<Rightarrow> je_entryDate x | Some d \<Rightarrow> d) = Inr period"
    "mapE (reversedLine L) (loadLines L (je_id x)) = Inr ls"
    using reversed(1) by (simp_all add: reversalPre_def)
  have mem: "x \<in> set (journal_entries L)" using find_SomeD [OF x(1)] by simp
  have book: "bk_id book = je_accountingBookId x" using loadPostingBook_id [OF x(5)] by simp
  have xid: "find (\<lambda>y. je_id y = je_id x) (journal_entries L) = Some x"
    using x(1) find_SomeD [OF x(1)] by simp
  obtain n rows0 u' bk where w0:
    "?r = postedStamp e n (fp_id period) bd u' (headerRow e (bk_id book)
        (reversalHeader x (case ri_entryDate i of None \<Rightarrow> je_entryDate x | Some d \<Rightarrow> d) (js_trim (ri_reason i)) (ri_actorUserId i)))"
    "\<forall>y \<in> set (journal_entries L). \<not> entryClash ?r y"
    and L1: "L1 = L\<lparr>accounting_books := bumpBook (bk_id book) (accounting_books L),
       journal_entries := journal_entries L @ [?r], journal_lines := journal_lines L @ rows0,
       journal_line_dimensions := journal_line_dimensions L1,
       journal_entry_source_links := journal_entry_source_links L1\<rparr>"
    by (rule writePosted_Inr [OF reversed(2)])
  have e1: "journal_entries L1 = journal_entries L @ [?r]" by (subst L1, simp)
  have neq: "je_id x \<noteq> je_id ?r" using w0(2) mem by (auto simp: entryClash_def)
  have find1: "find (\<lambda>y. je_id y = je_id x) (journal_entries L1) = Some x" using xid by (simp add: e1 find_append)
  have up: "entryUpdateAllowed x (?f x)" "\<forall>y \<in> set (journal_entries L1). je_id y \<noteq> je_id x \<longrightarrow> \<not> entryClash (?f x) y"
    "L2 = L1\<lparr>journal_entries := updateWhere (\<lambda>s. je_id s = je_id x) ?f (journal_entries L1)\<rparr>"
    using updateEntry_Inr [OF find1, THEN iffD1, OF reversed(3)] by blast+
  have posted: "je_status x = Posted" using up(1) x(2) by (simp add: entryUpdateAllowed_def)
  have L': "journal_entries L' = updateWhere (\<lambda>s. je_id s = je_id x) ?f (journal_entries L1)"
    "journal_lines L' = journal_lines L1" "fiscal_periods L' = fiscal_periods L1"
    "ledger_accounts L' = ledger_accounts L1" "accounting_books L' = accounting_books L1"
    by (simp_all add: reversed(4) [symmetric] up(3))
  have "entryBalanced L1 (je_id ?r)"
  proof -
    have "find (\<lambda>s. je_id s = je_id ?r) (journal_entries L') = find (\<lambda>s. je_id s = je_id ?r) (journal_entries L1)"
      unfolding L'(1) by (rule find_other_key) (use neq in simp_all)
    then show ?thesis using reversed(6) by (simp add: entryBalanced_def L'(2) split: option.splits)
  qed
  then obtain rows where w: "entryPosted L ?r rows L1" "list_all2 (rowOf (bk_id book) (je_id ?r)) ls rows"
    by (rule writePosted_entryPosted [OF core reversedLines_postable [OF core x(7)] reversed(2)])
  have "list_all2 (negatedLine (je_id ?r)) (loadLines L (je_id x)) rows"
    by (rule reversedLines_rows [OF x(7) w(2)])
  then have canc: "cancels rows (linesOf L (je_id x))" unfolding loadLines_def by (rule negated_cancels)
  have "period \<in> set (fiscal_periods L) \<and>
      periodCovers (bk_id book) (case ri_entryDate i of None \<Rightarrow> je_entryDate x | Some d \<Rightarrow> d) period"
    using resolvePeriodRow_covers [OF x(6)] core by (simp add: core_ok_def)
  then have inp: "inPeriod (fiscal_periods L) ?r"
    unfolding inPeriod_def w0(1) by (auto simp: reversalHeader_def)
  have first: "\<forall>s \<in> set (journal_entries L). je_reversesEntryId s \<noteq> Some (je_id x)"
    using x(4) by (simp add: find_None_iff)
  have rr: "je_reversesEntryId ?r = Some (je_id x)" "je_accountingBookId ?r = je_accountingBookId x"
    "je_entryDate ?r = (case ri_entryDate i of None \<Rightarrow> je_entryDate x | Some d \<Rightarrow> d)"
    by (simp_all add: w0(1) reversalHeader_def book)
  show ?thesis
    by (rule that [OF x(1) posted x(3) first w(1) inp rr(1,2) canc L' up(2) rr(3)])
qed

lemma reverseEntry_ok:
  assumes ok: "ledger_ok L" and a: "reverseEntry e i L = Inr (r, L')"
  shows "ledger_ok L' \<and> journalGrows L L'"
proof (cases "pe_reused r")
  case True
  have "L' = L" using a by (cases rule: reverseEntry_Inr) (use True in simp_all)
  then show ?thesis using ok by simp
next
  case False
  let ?f = "je_status_update (\<lambda>_. Reversed)"
  obtain x rows L1 where
    x: "find (\<lambda>x. je_id x = ri_journalEntryId i) (journal_entries L) = Some x"
      "je_status x = Posted" "je_reversesEntryId x = None"
      "\<forall>s \<in> set (journal_entries L). je_reversesEntryId s \<noteq> Some (je_id x)" and
    w: "entryPosted L (pe_entry r) rows L1" "inPeriod (fiscal_periods L) (pe_entry r)"
      "je_reversesEntryId (pe_entry r) = Some (je_id x)" "je_accountingBookId (pe_entry r) = je_accountingBookId x"
      "cancels rows (linesOf L (je_id x))" and
    L': "journal_entries L' = updateWhere (\<lambda>s. je_id s = je_id x) ?f (journal_entries L1)"
      "journal_lines L' = journal_lines L1" "fiscal_periods L' = fiscal_periods L1"
      "ledger_accounts L' = ledger_accounts L1" "accounting_books L' = accounting_books L1" and
    clash: "\<forall>y \<in> set (journal_entries L1). je_id y \<noteq> je_id x \<longrightarrow> \<not> entryClash (?f x) y"
    by (rule reverseEntry_new [OF ok a False])
  have core: "core_ok L" using ok by (simp add: ledger_ok_def)
  have mem: "x \<in> set (journal_entries L)" using find_SomeD [OF x(1)] by simp
  have p: "journal_entries L1 = journal_entries L @ [pe_entry r]" "journal_lines L1 = journal_lines L @ rows"
    "je_status (pe_entry r) = Posted" "\<forall>y \<in> set (journal_entries L). \<not> entryClash (pe_entry r) y"
    "rowsFor L (pe_entry r) rows" "linesOf L1 (je_id (pe_entry r)) = rows"
    using w(1) unfolding entryPosted_def by blast+
  have fresh: "\<forall>y \<in> set (journal_entries L). je_id y \<noteq> je_id (pe_entry r)" by (rule rowsFor_fresh [OF p(4)])
  have keys: "distinct (map je_id (journal_entries L @ [pe_entry r]))"
    using core fresh by (auto simp: core_ok_def entries_ok_def)
  have lines: "linesOf L' j = linesOf L1 j" for j by (simp add: L'(2))
  have same: "j \<noteq> je_id (pe_entry r) \<Longrightarrow> linesOf L' j = linesOf L j" for j
    unfolding lines by (rule linesOf_append_old [OF p(5,2)])
  have find1: "find (\<lambda>y. je_id y = je_id x) (journal_entries L1) = Some x"
    using x(1) find_SomeD [OF x(1)] by (simp add: p(1) find_append)
  have core1: "core_ok L1" by (rule entryPosted_core [OF core w(1,2)])
  have "core_ok L'"
    by (rule core_update [where f = ?f, OF core1 L'(1-4) find1 _ _ _ clash])
      (use x(2) L'(5) in \<open>simp_all add: posted_status_def\<close>)
  moreover have "reversals_ok (journal_entries L') (linesOf L')"
    unfolding L'(1) p(1)
  proof (rule reversals_reverse [where F = "linesOf L", OF _ keys mem x(2,3) w(3) p(3) w(4) x(4) same])
    show "cancels (linesOf L' (je_id (pe_entry r))) (linesOf L (je_id x))"
      unfolding lines p(6) by (rule w(5))
  qed (use ok in \<open>simp add: ledger_ok_def\<close>)
  moreover have "journalGrows L L'"
    unfolding journalGrows_def
  proof (intro ballI impI conjI)
    fix y assume y: "y \<in> set (journal_entries L)" "posted_status (je_status y)"
    show "linesOf L' (je_id y) = linesOf L (je_id y)" using same fresh y(1) by simp
    have old: "y \<in> set (journal_entries L1)" using y(1) by (simp add: p(1))
    show "y \<in> set (journal_entries L') \<or> je_status y = Posted \<and> y\<lparr>je_status := Reversed\<rparr> \<in> set (journal_entries L')"
    proof (cases "je_id y = je_id x")
      case True
      have "distinct (map je_id (journal_entries L))" using keys by simp
      then have "y = x" using distinct_key_eq y(1) mem True by metis
      then show ?thesis using x(2) old by (auto simp: L'(1) set_updateWhere)
    qed (use old in \<open>simp add: L'(1) set_updateWhere\<close>)
  qed
  ultimately show ?thesis by (simp add: ledger_ok_def)
qed

end
