(* ===== verification/Ledger_Machine.thy ===== *)
theory Ledger_Machine
  imports Journal_Safety
begin

text \<open>
  The services of books, periods, chart and journal as one state machine over the ledger.
  \<open>serve\<close> is a call that commits or rolls back; \<open>reachable\<close> closes the empty ledger under calls
  and under changes to tables other services own. Each operation is an interpretation of
  \<open>ledger_operation\<close>, the contract that it keeps the ledger sound and its history intact.
\<close>

section \<open>Setting up books, periods and accounts\<close>

text \<open>What an operation outside the journal may do to the tables the journal stands on.\<close>

definition setupExtends :: "ledger \<Rightarrow> ledger \<Rightarrow> bool" where
  "setupExtends L L' \<longleftrightarrow>
     journal_entries L' = journal_entries L \<and> journal_lines L' = journal_lines L \<and>
     (books_ok (accounting_books L) \<longrightarrow> books_ok (accounting_books L')) \<and>
     (\<forall>b \<in> set (accounting_books L). \<exists>c \<in> set (accounting_books L'). bk_id c = bk_id b) \<and>
     (\<forall>c \<in> set (accounting_books L').
        (\<exists>b \<in> set (accounting_books L). bk_id b = bk_id c \<and> bk_nextEntryNumber b = bk_nextEntryNumber c) \<or>
        (\<not> bookExists L (bk_id c) \<and> bk_nextEntryNumber c = 1)) \<and>
     (periods_ok (fiscal_periods L) \<longrightarrow> periods_ok (fiscal_periods L')) \<and>
     (\<forall>p \<in> set (fiscal_periods L). \<exists>q \<in> set (fiscal_periods L'). fp_id q = fp_id p \<and>
        fp_accountingBookId q = fp_accountingBookId p \<and> fp_startsOn q = fp_startsOn p \<and> fp_endsOn q = fp_endsOn p) \<and>
     (\<forall>p \<in> set (fiscal_periods L). fp_status p = Locked \<longrightarrow> p \<in> set (fiscal_periods L')) \<and>
     (accounts_ok (ledger_accounts L) \<longrightarrow> accounts_ok (ledger_accounts L')) \<and>
     accountsExtend (carriesLines L) (ledger_accounts L) (ledger_accounts L')"

lemma setupExtends_same:
  assumes "journal_entries L' = journal_entries L" "journal_lines L' = journal_lines L"
    "accounting_books L' = accounting_books L" "fiscal_periods L' = fiscal_periods L"
    "ledger_accounts L' = ledger_accounts L"
  shows "setupExtends L L'"
  using assms accountsExtend_refl by (auto simp: setupExtends_def)

lemma setupExtends_chart:
  assumes "chartStep L L'"
  shows "setupExtends L L'"
proof -
  have L': "L' = L\<lparr>ledger_accounts := ledger_accounts L', audit_events := audit_events L'\<rparr>"
    and a: "accountsExtend (carriesLines L) (ledger_accounts L) (ledger_accounts L')"
      "accounts_ok (ledger_accounts L) \<longrightarrow> accounts_ok (ledger_accounts L')"
    using assms unfolding chartStep_def by blast+
  have "journal_entries L' = journal_entries L" "journal_lines L' = journal_lines L"
    "accounting_books L' = accounting_books L" "fiscal_periods L' = fiscal_periods L"
    by (subst L', simp)+
  then show ?thesis using a by (auto simp: setupExtends_def)
qed

lemma setupExtends_periods:
  assumes L': "L' = L\<lparr>fiscal_periods := fiscal_periods L', audit_events := audit_events L'\<rparr>"
    and "periods_ok (fiscal_periods L) \<Longrightarrow> periods_ok (fiscal_periods L')"
    and "\<forall>p \<in> set (fiscal_periods L). \<exists>q \<in> set (fiscal_periods L'). fp_id q = fp_id p \<and>
        fp_accountingBookId q = fp_accountingBookId p \<and> fp_startsOn q = fp_startsOn p \<and> fp_endsOn q = fp_endsOn p"
    and "\<forall>p \<in> set (fiscal_periods L). fp_status p = Locked \<longrightarrow> p \<in> set (fiscal_periods L')"
  shows "setupExtends L L'"
proof -
  have "journal_entries L' = journal_entries L" "journal_lines L' = journal_lines L"
    "accounting_books L' = accounting_books L" "ledger_accounts L' = ledger_accounts L"
    by (subst L', simp)+
  then show ?thesis using assms(2-4) accountsExtend_refl by (auto simp: setupExtends_def)
qed

lemma setupExtends_books:
  assumes L': "L' = L\<lparr>accounting_books := bs, audit_events := audit_events L'\<rparr>"
    and "books_ok (accounting_books L) \<longrightarrow> books_ok bs"
    and "\<forall>b \<in> set (accounting_books L). \<exists>c \<in> set bs. bk_id c = bk_id b"
    and "\<forall>c \<in> set bs.
        (\<exists>b \<in> set (accounting_books L). bk_id b = bk_id c \<and> bk_nextEntryNumber b = bk_nextEntryNumber c) \<or>
        (\<not> bookExists L (bk_id c) \<and> bk_nextEntryNumber c = 1)"
  shows "setupExtends L L'"
proof -
  have "journal_entries L' = journal_entries L" "journal_lines L' = journal_lines L"
    "accounting_books L' = bs" "ledger_accounts L' = ledger_accounts L" "fiscal_periods L' = fiscal_periods L"
    by (subst L', simp)+
  then show ?thesis using assms(2-4) accountsExtend_refl by (auto simp: setupExtends_def)
qed

lemma setupExtends_trans:
  assumes a: "setupExtends L M" and b: "setupExtends M N"
  shows "setupExtends L N"
proof -
  have e: "journal_entries N = journal_entries L" "journal_lines N = journal_lines L"
    "journal_lines M = journal_lines L"
    using a b by (simp_all add: setupExtends_def)
  have c: "carriesLines M = carriesLines L" by (rule ext) (simp add: carriesLines_def e)
  have ex: "bookExists L i \<Longrightarrow> bookExists M i" for i
    using a by (fastforce simp: setupExtends_def bookExists_def list_ex_iff)
  have books: "(\<exists>b \<in> set (accounting_books L). bk_id b = bk_id c \<and> bk_nextEntryNumber b = bk_nextEntryNumber c) \<or>
        (\<not> bookExists L (bk_id c) \<and> bk_nextEntryNumber c = 1)" if new: "c \<in> set (accounting_books N)" for c
  proof -
    consider m where "m \<in> set (accounting_books M)" "bk_id m = bk_id c" "bk_nextEntryNumber m = bk_nextEntryNumber c"
      | "\<not> bookExists M (bk_id c)" "bk_nextEntryNumber c = 1"
      using b new unfolding setupExtends_def by blast
    then show ?thesis
    proof cases
      case 1
      then have "(\<exists>b \<in> set (accounting_books L). bk_id b = bk_id m \<and> bk_nextEntryNumber b = bk_nextEntryNumber m) \<or>
        (\<not> bookExists L (bk_id m) \<and> bk_nextEntryNumber m = 1)"
        using a unfolding setupExtends_def by blast
      then show ?thesis using 1 by simp
    next
      case 2
      then show ?thesis using ex by blast
    qed
  qed
  have kept: "\<forall>b \<in> set (accounting_books L). \<exists>c \<in> set (accounting_books N). bk_id c = bk_id b"
  proof
    fix b0 assume "b0 \<in> set (accounting_books L)"
    then obtain m where "m \<in> set (accounting_books M)" "bk_id m = bk_id b0" using a unfolding setupExtends_def by blast
    moreover from this obtain c where "c \<in> set (accounting_books N)" "bk_id c = bk_id m"
      using b unfolding setupExtends_def by blast
    ultimately show "\<exists>c \<in> set (accounting_books N). bk_id c = bk_id b0" by auto
  qed
  have pers: "\<forall>p \<in> set (fiscal_periods L). \<exists>q \<in> set (fiscal_periods N). fp_id q = fp_id p \<and>
        fp_accountingBookId q = fp_accountingBookId p \<and> fp_startsOn q = fp_startsOn p \<and> fp_endsOn q = fp_endsOn p"
  proof
    fix p assume "p \<in> set (fiscal_periods L)"
    then obtain m where m: "m \<in> set (fiscal_periods M)" "fp_id m = fp_id p"
      "fp_accountingBookId m = fp_accountingBookId p" "fp_startsOn m = fp_startsOn p" "fp_endsOn m = fp_endsOn p"
      using a unfolding setupExtends_def by blast
    obtain q where "q \<in> set (fiscal_periods N)" "fp_id q = fp_id m"
      "fp_accountingBookId q = fp_accountingBookId m" "fp_startsOn q = fp_startsOn m" "fp_endsOn q = fp_endsOn m"
      using b m(1) unfolding setupExtends_def by blast
    then show "\<exists>q \<in> set (fiscal_periods N). fp_id q = fp_id p \<and> fp_accountingBookId q = fp_accountingBookId p \<and>
        fp_startsOn q = fp_startsOn p \<and> fp_endsOn q = fp_endsOn p"
      using m by auto
  qed
  have acc: "accountsExtend (carriesLines L) (ledger_accounts L) (ledger_accounts N)"
    by (rule accountsExtend_trans [of _ _ "ledger_accounts M"]) (use a b in \<open>unfold setupExtends_def c, blast+\<close>)
  have locked: "\<forall>p \<in> set (fiscal_periods L). fp_status p = Locked \<longrightarrow> p \<in> set (fiscal_periods N)"
    using a b unfolding setupExtends_def by blast
  have oks: "books_ok (accounting_books L) \<longrightarrow> books_ok (accounting_books N)"
    "periods_ok (fiscal_periods L) \<longrightarrow> periods_ok (fiscal_periods N)"
    "accounts_ok (ledger_accounts L) \<longrightarrow> accounts_ok (ledger_accounts N)"
    using a b unfolding setupExtends_def by blast+
  show ?thesis unfolding setupExtends_def using e(1,2) oks kept books pers locked acc by blast
qed

lemma setup_ok:
  assumes ok: "ledger_ok L" and x: "setupExtends L L'"
  shows "ledger_ok L' \<and> journalGrows L L'"
proof -
  have core: "core_ok L" using ok by (simp add: ledger_ok_def)
  have e: "journal_entries L' = journal_entries L" "journal_lines L' = journal_lines L"
    using x by (simp_all add: setupExtends_def)
  have bex: "bookExists L' i" if "bookExists L i" for i
    using x that by (fastforce simp: setupExtends_def bookExists_def list_ex_iff)
  have unref: "numbersOf (journal_entries L) i = []" if "\<not> bookExists L i" for i
    using core that by (auto simp: core_ok_def numbersOf_def filter_empty_conv)
  have gap: "gapless (accounting_books L') (journal_entries L')"
    unfolding gapless_def e
  proof
    fix c assume c: "c \<in> set (accounting_books L')"
    then consider b where "b \<in> set (accounting_books L)" "bk_id b = bk_id c" "bk_nextEntryNumber b = bk_nextEntryNumber c"
      | "\<not> bookExists L (bk_id c)" "bk_nextEntryNumber c = 1"
      using x unfolding setupExtends_def by blast
    then show "set (numbersOf (journal_entries L) (bk_id c)) = {1..<bk_nextEntryNumber c}"
    proof cases
      case 1
      then show ?thesis using core by (auto simp: core_ok_def gapless_def)
    qed (simp add: unref)
  qed
  have inp: "inPeriod (fiscal_periods L') r" if r: "inPeriod (fiscal_periods L) r" for r
  proof -
    obtain p where p: "p \<in> set (fiscal_periods L)" "je_fiscalPeriodId r = Some (fp_id p)"
      "periodCovers (je_accountingBookId r) (je_entryDate r) p" using r by (auto simp: inPeriod_def)
    obtain q where "q \<in> set (fiscal_periods L')" "fp_id q = fp_id p"
      "fp_accountingBookId q = fp_accountingBookId p" "fp_startsOn q = fp_startsOn p" "fp_endsOn q = fp_endsOn p"
      using x p(1) unfolding setupExtends_def by blast
    then show ?thesis using p(2,3) unfolding inPeriod_def periodCovers_def by metis
  qed
  have fits: "lineFits L' l" if l: "l \<in> set (journal_lines L)" for l
  proof -
    have old: "lineFits L l" using core l by (simp add: core_ok_def)
    then obtain a where a: "a \<in> set (ledger_accounts L)" "la_id a = jl_ledgerAccountId l"
      "la_accountingBookId a = jl_accountingBookId l" "la_isPostable a" by (auto simp: lineFits_def)
    have "carriesLines L (la_id a)" using l a(2) by (auto simp: carriesLines_def)
    then obtain c where "c \<in> set (ledger_accounts L')" "la_id c = la_id a"
      "la_accountingBookId c = la_accountingBookId a" "la_isPostable c"
      using x a(1,4) unfolding setupExtends_def accountsExtend_def by blast
    then show ?thesis using old a by (auto simp: lineFits_def e)
  qed
  have oks: "books_ok (accounting_books L')" "periods_ok (fiscal_periods L')" "accounts_ok (ledger_accounts L')"
    using x core by (simp_all add: setupExtends_def core_ok_def)
  have "core_ok L'"
    unfolding core_ok_def using oks gap inp fits bex core by (simp add: e core_ok_def)
  then show ?thesis using ok by (simp add: ledger_ok_def e journalGrows_def)
qed


lemma generateFiscalYear_setup:
  assumes "generateFiscalYear e i L = Inr (r, L')"
  shows "setupExtends L L'"
proof -
  obtain qs where L': "L' = L\<lparr>fiscal_periods := fiscal_periods L @ qs, audit_events := audit_events L'\<rparr>"
    using generateFiscalYear_frame [OF assms] by blast
  have ps: "fiscal_periods L' = fiscal_periods L @ qs" by (subst L', simp)
  show ?thesis
    by (rule setupExtends_periods) (use L' ps generateFiscalYear_ok [OF assms] in auto)
qed

lemma setStatus_setup:
  assumes ok: "periods_ok (fiscal_periods L)" and s: "setStatus e i L = Inr (r, L')"
  shows "setupExtends L L'"
  using s
proof (cases rule: setStatus_Inr)
  case (same p)
  then show ?thesis by (simp add: setupExtends_same)
next
  case (changed p c n)
  let ?f = "\<lambda>q. if fp_id q = ss_fiscalPeriodId i then applyStatus e (ss_status i) c n q else q"
  have ps: "fiscal_periods L' = map ?f (fiscal_periods L)" by (subst changed(5)) (simp add: updateWhere_def)
  show ?thesis
  proof (rule setupExtends_periods)
    show "L' = L\<lparr>fiscal_periods := fiscal_periods L', audit_events := audit_events L'\<rparr>"
      unfolding ps by (subst changed(5)) (simp add: updateWhere_def)
    show "\<forall>p \<in> set (fiscal_periods L). \<exists>q \<in> set (fiscal_periods L'). fp_id q = fp_id p \<and>
        fp_accountingBookId q = fp_accountingBookId p \<and> fp_startsOn q = fp_startsOn p \<and> fp_endsOn q = fp_endsOn p"
      unfolding ps set_map by (intro ballI) (rule bexI [of _ "?f x" for x], auto)
    show "\<forall>q \<in> set (fiscal_periods L). fp_status q = Locked \<longrightarrow> q \<in> set (fiscal_periods L')"
    proof (intro ballI impI)
      fix q assume q: "q \<in> set (fiscal_periods L)" "fp_status q = Locked"
      show "q \<in> set (fiscal_periods L')"
      proof (cases "fp_id q = ss_fiscalPeriodId i")
        case False
        then show ?thesis using q by (force simp: ps)
      next
        case True
        have "q = p"
          by (rule distinct_key_eq [of fp_id "fiscal_periods L"]) (use ok q True find_SomeD [OF changed(1)] in \<open>simp_all add: periods_ok_def\<close>)
        then show ?thesis using q changed(3) by simp
      qed
    qed
  qed (use setStatus_ok [OF s] in simp)
qed

lemma createBookRow_setup:
  assumes "createBookRow e v currency L = Inr (b, L')"
  shows "setupExtends L L'"
proof (rule setupExtends_books)
  show "L' = L\<lparr>accounting_books := accounting_books L @ [bookRow (uuidAt e 0) currency v], audit_events := audit_events L'\<rparr>"
    using assms by (auto simp: createBookRow_def Let_def insertBook_def)
qed (use assms in \<open>auto simp: createBookRow_def Let_def insertBook_def books_ok_def bookExists_def bookRow_def list_ex_iff\<close>)

lemma createBook_setup:
  assumes "createBook e t i L = (r, L')"
  shows "setupExtends L L'"
proof -
  have refl: "setupExtends L L" by (simp add: setupExtends_same)
  show ?thesis
  proof (cases "bindE (parseCreateBook i) (\<lambda>v. bindE (assertSupportedCurrency
           (case cb_functionalCurrency v of None \<Rightarrow> DEFAULT_FUNCTIONAL_CURRENCY | Some c \<Rightarrow> c)) (\<lambda>currency.
       bindE (createBookRow e v currency L) (\<lambda>(book, L1). Inr ((v, book), L1))))")
    case (Inl err)
    then show ?thesis using assms refl by (simp add: createBook_def nextTx_def)
  next
    case (Inr x)
    then obtain v book L1 where x: "x = ((v, book), L1)" by (cases x) auto
    then obtain c where "createBookRow e v c L = Inr (book, L1)" using Inr by auto
    then have 1: "setupExtends L L1" by (rule createBookRow_setup)
    let ?s = "if cb_seedChart v then
          bindE (seedDefaultChart (envShift 2 e) (bk_id book) t (cb_createdByUserId v) (cb_requestId v) L1)
            (\<lambda>(accounts, L2). Inr (length accounts, L2))
        else Inr (0, L1)"
    show ?thesis
    proof (cases ?s)
      case (Inl err)
      then show ?thesis using assms 1 Inr x by (simp add: createBook_def nextTx_def split: if_splits)
    next
      case (Inr y)
      then obtain n L2 where y: "y = (n, L2)" by (cases y)
      have 2: "setupExtends L1 L2"
        using Inr y setupExtends_chart [OF seedDefaultChart_chartStep]
        by (auto simp: setupExtends_same split: if_splits)
      note 12 = setupExtends_trans [OF 1 2]
      let ?g = "\<lparr>gi_accountingBookId = bk_id book,
               gi_fiscalYear = fiscalYearFor (bk_openedOn book) (bk_fiscalYearStartMonth book) (bk_fiscalYearStartDay book),
               gi_periodCount = 12, gi_actorUserId = cb_createdByUserId v, gi_requestId = cb_requestId v\<rparr>"
      have r: "(r, L') = nextTx L2
       (if cb_generatePeriods v then
          bindE (generateFiscalYear (envShift (3 + length t) e) ?g L2) (\<lambda>((_, periods), L3). Inr (length periods, L3))
        else Inr (0, L2)) (\<lambda>periodCount L3. (Inr (book, n, periodCount), L3))"
        unfolding assms [symmetric] createBook_def
        by (simp only: nextTx_def \<open>bindE _ _ = Inr x\<close> x Inr y sum.case prod.case)
      show ?thesis
      proof (cases "cb_generatePeriods v")
        case False
        then show ?thesis using r 12 by (simp add: nextTx_def)
      next
        case True
        show ?thesis
        proof (cases "generateFiscalYear (envShift (3 + length t) e) ?g L2")
          case (Inl err)
          then show ?thesis using r 12 True by (simp add: nextTx_def)
        next
          case (Inr z)
          then obtain q L3 where z: "z = (q, L3)" by (cases z)
          then have "L' = L3" using r Inr True by (auto simp: nextTx_def split: prod.splits)
          then show ?thesis
            using setupExtends_trans [OF 12 generateFiscalYear_setup [OF Inr [unfolded z]]] by simp
        qed
      qed
    qed
  qed
qed

lemma archiveBook_setup:
  assumes "archiveBook e i actor req L = Inr (b, L')"
  shows "setupExtends L L'"
proof -
  from assms consider "L' = L" | j where
    "L' = L\<lparr>accounting_books := updateWhere (\<lambda>b. bk_id b = j) (bk_status_update (\<lambda>_. Archived)) (accounting_books L),
       audit_events := audit_events L'\<rparr>"
    by (auto simp: archiveBook_def Let_def split: if_splits)
  then show ?thesis
  proof cases
    case (2 j)
    show ?thesis
    proof (rule setupExtends_books [OF 2], goal_cases)
      case 2
      show ?case
      proof
        fix b assume "b \<in> set (accounting_books L)"
        then show "\<exists>c \<in> set (updateWhere (\<lambda>b. bk_id b = j) (bk_status_update (\<lambda>_. Archived)) (accounting_books L)). bk_id c = bk_id b"
          by (intro bexI [of _ "if bk_id b = j then b\<lparr>bk_status := Archived\<rparr> else b"]) (auto simp: updateWhere_def)
      qed
    qed (auto simp: books_ok_def map_updateWhere set_updateWhere bookDatesOk_def)
  qed (simp add: setupExtends_same)
qed

lemma linkEntity_setup:
  assumes "linkEntity e i L = Some (Inr (r, L'))"
  shows "setupExtends L L'"
  using assms
  by (intro setupExtends_same)
    (auto simp: linkEntity_def insertLinkAudited_def insertLink_def Let_def split: sum.splits option.splits if_splits)

lemma endLink_setup:
  assumes "endLink e i t actor req L = Inr (r, L')"
  shows "setupExtends L L'"
  using assms
  by (intro setupExtends_same)
    (auto simp: endLink_def updateLinkEnd_def Let_def split: option.splits)


section \<open>Locked periods\<close>

text \<open>What locking promises: the period's row and the set of entries posted into it are final.\<close>

definition lockedKept :: "ledger \<Rightarrow> ledger \<Rightarrow> bool" where
  "lockedKept L L' \<longleftrightarrow>
     (\<forall>p \<in> set (fiscal_periods L). fp_status p = Locked \<longrightarrow>
        p \<in> set (fiscal_periods L') \<and>
        (\<forall>r \<in> set (journal_entries L'). posted_status (je_status r) \<and> je_fiscalPeriodId r = Some (fp_id p) \<longrightarrow>
           (\<exists>s \<in> set (journal_entries L). je_id s = je_id r \<and> posted_status (je_status s) \<and>
              je_fiscalPeriodId s = Some (fp_id p))))"

lemma lockedKept_refl [simp]: "lockedKept L L"
  by (auto simp: lockedKept_def)

lemma lockedKept_trans:
  assumes a: "lockedKept L M" and b: "lockedKept M N"
  shows "lockedKept L N"
  unfolding lockedKept_def
proof (intro ballI impI conjI)
  fix p assume p: "p \<in> set (fiscal_periods L)" "fp_status p = Locked"
  then have m: "p \<in> set (fiscal_periods M)" using a unfolding lockedKept_def by blast
  then show "p \<in> set (fiscal_periods N)" using b p(2) unfolding lockedKept_def by blast
  fix r assume "r \<in> set (journal_entries N)" "posted_status (je_status r) \<and> je_fiscalPeriodId r = Some (fp_id p)"
  then obtain s where s: "s \<in> set (journal_entries M)" "je_id s = je_id r"
    "posted_status (je_status s) \<and> je_fiscalPeriodId s = Some (fp_id p)"
    using b m p(2) unfolding lockedKept_def by blast
  then obtain t where "t \<in> set (journal_entries L)" "je_id t = je_id s" "posted_status (je_status t)"
    "je_fiscalPeriodId t = Some (fp_id p)"
    using a p unfolding lockedKept_def by blast
  then show "\<exists>s \<in> set (journal_entries L). je_id s = je_id r \<and> posted_status (je_status s) \<and>
      je_fiscalPeriodId s = Some (fp_id p)" using s(2) by auto
qed

lemma periodGuard_not_locked:
  assumes "periods_ok (fiscal_periods L)" and "p \<in> set (fiscal_periods L)" and "fp_status p = Locked"
    and "periodGuard L r"
  shows "je_fiscalPeriodId r \<noteq> Some (fp_id p)"
proof
  assume "je_fiscalPeriodId r = Some (fp_id p)"
  with assms(4) obtain q where q: "find (\<lambda>x. fp_id x = fp_id p) (fiscal_periods L) = Some q" "fp_status q \<noteq> Locked"
    by (auto simp: periodGuard_def split: option.splits)
  have "q = p"
    by (rule distinct_key_eq [of fp_id "fiscal_periods L"]) (use assms(1,2) find_SomeD [OF q(1)] in \<open>simp_all add: periods_ok_def\<close>)
  then show False using q(2) assms(3) by simp
qed

lemma lockedKeptI:
  assumes "ledger_ok L" and "fiscal_periods L' = fiscal_periods L"
    and "\<And>r. r \<in> set (journal_entries L') \<Longrightarrow> posted_status (je_status r) \<Longrightarrow>
      periodGuard L r \<or> (\<exists>s \<in> set (journal_entries L). je_id s = je_id r \<and> posted_status (je_status s) \<and>
        je_fiscalPeriodId s = je_fiscalPeriodId r)"
  shows "lockedKept L L'"
  unfolding lockedKept_def
proof (intro ballI impI conjI)
  fix p assume p: "p \<in> set (fiscal_periods L)" "fp_status p = Locked"
  then show "p \<in> set (fiscal_periods L')" by (simp add: assms(2))
  have ok: "periods_ok (fiscal_periods L)" using assms(1) by (simp add: ledger_ok_def core_ok_def)
  fix r assume r: "r \<in> set (journal_entries L')" "posted_status (je_status r) \<and> je_fiscalPeriodId r = Some (fp_id p)"
  then have "\<not> periodGuard L r" using periodGuard_not_locked [OF ok p, of r] by blast
  then obtain s where "s \<in> set (journal_entries L)" "je_id s = je_id r" "posted_status (je_status s)"
    "je_fiscalPeriodId s = je_fiscalPeriodId r"
    using assms(3) [OF r(1)] r(2) by blast
  then show "\<exists>s \<in> set (journal_entries L). je_id s = je_id r \<and> posted_status (je_status s) \<and>
      je_fiscalPeriodId s = Some (fp_id p)" using r(2) by auto
qed

lemma setupExtends_locked: "setupExtends L L' \<Longrightarrow> lockedKept L L'"
  by (auto simp: setupExtends_def lockedKept_def)

lemma postEntry_locked:
  assumes ok: "ledger_ok L" and a: "postEntry e i L = Inr (r, L')"
  shows "lockedKept L L'"
proof -
  obtain v where v: "attemptPost e v L = Inr (r, L')" using a by (rule postEntry_attempt)
  show ?thesis
  proof (cases "pe_reused r")
    case True
    have "L' = L" using v by (cases rule: attemptPost_Inr) (use True in simp_all)
    then show ?thesis by simp
  next
    case False
    obtain rows L1 where w: "entryPosted L (pe_entry r) rows L1" "L' = L1\<lparr>audit_events := audit_events L'\<rparr>"
      by (rule attemptPost_entryPosted [OF ok v False])
    have "journal_entries L' = journal_entries L1" "fiscal_periods L' = fiscal_periods L1" by (subst w(2), simp)+
    then have t: "journal_entries L' = journal_entries L @ [pe_entry r]" "fiscal_periods L' = fiscal_periods L"
      "periodGuard L (pe_entry r)" using w(1) by (simp_all add: entryPosted_def)
    show ?thesis by (rule lockedKeptI [OF ok t(2)]) (use t in auto)
  qed
qed

lemma createDraft_locked:
  assumes ok: "ledger_ok L" and a: "createDraft e i L = Inr (r, L')"
  shows "lockedKept L L'"
  using a
proof (rule createDraft_Inr)
  fix v book d rows log and routing :: "book_routing option" and ls :: "resolved_line list"
  assume d: "d = headerRow e (bk_id book) (headerOf v)"
    and L': "L' = L\<lparr>journal_entries := journal_entries L @ [d], journal_lines := journal_lines L @ rows,
       journal_line_dimensions := journal_line_dimensions L',
       journal_entry_source_links := journal_entry_source_links L',
       audit_events := audit_events L @ log\<rparr>"
  have "journal_entries L' = journal_entries L @ [d]" "fiscal_periods L' = fiscal_periods L" by (subst L', simp)+
  then show "lockedKept L L'" by (intro lockedKeptI [OF ok]) (auto simp: d)
qed

lemma postDraft_locked:
  assumes ok: "ledger_ok L" and a: "postDraft e i bd u req L = Inr (r, L')"
  shows "lockedKept L L'"
  using a
proof (rule postDraft_Inr)
  fix old book period bd' u' n log
  assume old: "find (\<lambda>x. je_id x = i) (journal_entries L) = Some old"
    and r: "pe_entry r = postedStamp e n (fp_id period) bd' u' old" "periodGuard L (pe_entry r)"
    and L': "L' = L\<lparr>accounting_books := bumpBook (bk_id book) (accounting_books L),
       journal_entries := updateWhere (\<lambda>r. je_id r = i) (postedStamp e n (fp_id period) bd' u') (journal_entries L),
       audit_events := audit_events L @ log\<rparr>"
  have uniq: "x = old" if "x \<in> set (journal_entries L)" "je_id x = i" for x
    by (rule distinct_key_eq [of je_id "journal_entries L"])
      (use ok find_SomeD [OF old] that in \<open>simp_all add: ledger_ok_def core_ok_def entries_ok_def\<close>)
  show "lockedKept L L'"
    by (rule lockedKeptI [OF ok]) (use r uniq in \<open>auto simp: L' set_updateWhere\<close>)
qed

lemma voidDraft_locked:
  assumes ok: "ledger_ok L" and a: "voidDraft e i reason actor req L = Inr (r, L')"
  shows "lockedKept L L'"
  using a
proof (cases rule: voidDraft_Inr)
  case (voided old log)
  show ?thesis by (rule lockedKeptI [OF ok]) (auto simp: voided(4) set_updateWhere posted_status_def)
qed simp

lemma reverseEntry_locked:
  assumes ok: "ledger_ok L" and a: "reverseEntry e i L = Inr (r, L')"
  shows "lockedKept L L'"
proof (cases "pe_reused r")
  case True
  have "L' = L" using a by (cases rule: reverseEntry_Inr) (use True in simp_all)
  then show ?thesis by simp
next
  case False
  obtain x rows L1 where x: "find (\<lambda>x. je_id x = ri_journalEntryId i) (journal_entries L) = Some x" "je_status x = Posted" and
    w: "entryPosted L (pe_entry r) rows L1" and
    L': "journal_entries L' = updateWhere (\<lambda>s. je_id s = je_id x) (je_status_update (\<lambda>_. Reversed)) (journal_entries L1)"
      "fiscal_periods L' = fiscal_periods L1"
    by (rule reverseEntry_new [OF ok a False])
  have t: "journal_entries L1 = journal_entries L @ [pe_entry r]" "fiscal_periods L' = fiscal_periods L"
    "periodGuard L (pe_entry r)" "\<forall>y \<in> set (journal_entries L). \<not> entryClash (pe_entry r) y"
    using w L'(2) by (simp_all add: entryPosted_def)
  have mem: "x \<in> set (journal_entries L)" using find_SomeD [OF x(1)] by simp
  have uniq: "je_id y = je_id x \<longleftrightarrow> y = x" if "y \<in> set (journal_entries L)" for y
    using distinct_key_eq [of je_id "journal_entries L" y x] ok mem that by (auto simp: ledger_ok_def core_ok_def entries_ok_def)
  have neq: "je_id (pe_entry r) \<noteq> je_id x" using t(4) mem by (auto simp: entryClash_def)
  show ?thesis
    by (rule lockedKeptI [OF ok t(2)]) (use t(3) x(2) mem uniq neq in \<open>auto simp: L'(1) t(1) set_updateWhere posted_status_def\<close>)
qed

section \<open>The contract of an operation\<close>

text \<open>What a call leaves in the database: the new state when it returned, the old one when it
  threw.\<close>

definition committed :: "ledger \<Rightarrow> ('r \<times> ledger) acc \<Rightarrow> ledger" where
  "committed L r = (case r of Inl _ \<Rightarrow> L | Inr (_, L') \<Rightarrow> L')"

locale ledger_operation =
  fixes operation :: "env \<Rightarrow> 'i \<Rightarrow> ledger \<Rightarrow> ('r \<times> ledger) acc"
  assumes sound: "ledger_ok L \<Longrightarrow> operation e i L = Inr (r, L') \<Longrightarrow> ledger_ok L' \<and> journalGrows L L'"
    and guarded: "ledger_ok L \<Longrightarrow> operation e i L = Inr (r, L') \<Longrightarrow> lockedKept L L'"
begin

lemma committed_sound:
  assumes "ledger_ok L"
  shows "ledger_ok (committed L (operation e i L))" and "journalGrows L (committed L (operation e i L))"
    and "lockedKept L (committed L (operation e i L))"
  using assms sound [of L e i] guarded [of L e i] by (auto simp: committed_def split: sum.split)

lemma attempts_sound:
  "ledger_ok L \<Longrightarrow> ledger_ok (fold (\<lambda>(e, i) M. committed M (operation e i M)) calls L) \<and>
     journalGrows L (fold (\<lambda>(e, i) M. committed M (operation e i M)) calls L)"
proof (induction calls arbitrary: L)
  case (Cons c calls)
  obtain e i where c: "c = (e, i)" by (cases c)
  have "ledger_ok (committed L (operation e i L))" "journalGrows L (committed L (operation e i L))"
    using committed_sound [OF Cons.prems] by blast+
  then show ?case using Cons.IH journalGrows_trans by (simp add: c)
qed simp

end

text \<open>An operation that only sets up books, periods, accounts or links meets the contract.\<close>

locale setup_operation =
  fixes operation :: "env \<Rightarrow> 'i \<Rightarrow> ledger \<Rightarrow> ('r \<times> ledger) acc"
  assumes extends: "ledger_ok L \<Longrightarrow> operation e i L = Inr (r, L') \<Longrightarrow> setupExtends L L'"
begin

lemma journal_untouched:
  "ledger_ok L \<Longrightarrow> operation e i L = Inr (r, L') \<Longrightarrow>
     journal_entries L' = journal_entries L \<and> journal_lines L' = journal_lines L"
  using extends by (simp add: setupExtends_def)

end

sublocale setup_operation \<subseteq> ledger_operation operation
  by unfold_locales (use extends setup_ok setupExtends_locked in blast)+

interpretation post: ledger_operation postEntry
  by unfold_locales (rule postEntry_ok postEntry_locked, assumption+)+

interpretation draft: ledger_operation createDraft
  by unfold_locales (rule createDraft_ok createDraft_locked, assumption+)+

interpretation reversal: ledger_operation reverseEntry
  by unfold_locales (rule reverseEntry_ok reverseEntry_locked, assumption+)+

interpretation post_draft: ledger_operation "\<lambda>e (i, bd, u, req). postDraft e i bd u req"
  by unfold_locales (auto dest: postDraft_ok postDraft_locked)

interpretation void_draft: ledger_operation "\<lambda>e (i, reason, actor, req). voidDraft e i reason actor req"
  by unfold_locales (auto dest: voidDraft_ok voidDraft_locked)

interpretation generate: setup_operation generateFiscalYear
  by unfold_locales (rule generateFiscalYear_setup)

interpretation period: setup_operation setStatus
  by unfold_locales (rule setStatus_setup, simp_all add: ledger_ok_def core_ok_def)

interpretation chart_seed: setup_operation "\<lambda>e (b, t, actor, req). seedDefaultChart e b t actor req"
  by unfold_locales (auto dest: seedDefaultChart_chartStep intro: setupExtends_chart)

interpretation chart_create: setup_operation createAccount
  by unfold_locales (rule setupExtends_chart, rule createAccount_chartStep)

interpretation chart_update: setup_operation updateAccount
  by unfold_locales (rule setupExtends_chart, rule updateAccount_chartStep)

interpretation chart_archive: setup_operation "\<lambda>e (i, actor, req). archiveAccount e i actor req"
  by unfold_locales (auto simp: ledger_ok_def core_ok_def dest: archiveAccount_chartStep intro: setupExtends_chart)

interpretation chart_reactivate: setup_operation "\<lambda>e (i, actor, req). reactivateAccount e i actor req"
  by unfold_locales (auto dest: reactivateAccount_chartStep intro: setupExtends_chart)

interpretation book_archive: setup_operation "\<lambda>e (i, actor, req). archiveBook e i actor req"
  by unfold_locales (auto dest: archiveBook_setup)

interpretation link_end: setup_operation "\<lambda>e (i, t, actor, req). endLink e i t actor req"
  by unfold_locales (auto dest: endLink_setup)

section \<open>The service as a state machine\<close>

datatype request =
    PostEntry entry_input
  | CreateDraft entry_input
  | PostDraft uuid bool "string option" "string option"
  | VoidDraft uuid string "string option" "string option"
  | ReverseEntry reverse_input
  | GenerateFiscalYear generate_input
  | SetPeriodStatus set_status_input
  | SeedDefaultChart uuid "chart_template_account list" "string option" "string option"
  | CreateAccount create_account_input
  | UpdateAccount update_account_input
  | ArchiveAccount uuid "string option" "string option"
  | ReactivateAccount uuid "string option" "string option"
  | CreateBook "chart_template_account list" create_book_input
  | ArchiveBook uuid "string option" "string option"
  | LinkEntity link_entity_input
  | EndLink uuid date "string option" "string option"

fun serve :: "env \<Rightarrow> request \<Rightarrow> ledger \<Rightarrow> ledger" where
  "serve e (PostEntry i) L = committed L (postEntry e i L)"
| "serve e (CreateDraft i) L = committed L (createDraft e i L)"
| "serve e (PostDraft i bd u req) L = committed L (postDraft e i bd u req L)"
| "serve e (VoidDraft i reason actor req) L = committed L (voidDraft e i reason actor req L)"
| "serve e (ReverseEntry i) L = committed L (reverseEntry e i L)"
| "serve e (GenerateFiscalYear i) L = committed L (generateFiscalYear e i L)"
| "serve e (SetPeriodStatus i) L = committed L (setStatus e i L)"
| "serve e (SeedDefaultChart b t actor req) L = committed L (seedDefaultChart e b t actor req L)"
| "serve e (CreateAccount i) L = committed L (createAccount e i L)"
| "serve e (UpdateAccount i) L = committed L (updateAccount e i L)"
| "serve e (ArchiveAccount i actor req) L = committed L (archiveAccount e i actor req L)"
| "serve e (ReactivateAccount i actor req) L = committed L (reactivateAccount e i actor req L)"
| "serve e (CreateBook t i) L = snd (createBook e t i L)"
| "serve e (ArchiveBook i actor req) L = committed L (archiveBook e i actor req L)"
| "serve e (LinkEntity i) L = (case linkEntity e i L of None \<Rightarrow> L | Some r \<Rightarrow> committed L r)"
| "serve e (EndLink i t actor req) L = committed L (endLink e i t actor req L)"

definition serveAll :: "(env \<times> request) list \<Rightarrow> ledger \<Rightarrow> ledger" where
  "serveAll calls = fold (\<lambda>(e, q). serve e q) calls"

lemma serve_sound:
  assumes "ledger_ok L"
  shows "ledger_ok (serve e q L) \<and> journalGrows L (serve e q L) \<and> lockedKept L (serve e q L)"
proof (cases q)
  case (CreateBook t i)
  have x: "setupExtends L (snd (createBook e t i L))" by (rule createBook_setup) (simp add: prod_eq_iff)
  then show ?thesis using setup_ok [OF assms x] setupExtends_locked [OF x] CreateBook by simp
next
  case (LinkEntity i)
  then show ?thesis
    using setup_ok [OF assms linkEntity_setup [of e i L]] setupExtends_locked [OF linkEntity_setup [of e i L]] assms
    by (auto simp: committed_def split: option.split sum.split)
next
  case (PostDraft i bd u req)
  then show ?thesis using post_draft.committed_sound [OF assms, of e "(i, bd, u, req)"] by simp
next
  case (VoidDraft i reason actor req)
  then show ?thesis using void_draft.committed_sound [OF assms, of e "(i, reason, actor, req)"] by simp
next
  case (SeedDefaultChart b t actor req)
  then show ?thesis using chart_seed.committed_sound [OF assms, of e "(b, t, actor, req)"] by simp
next
  case (ArchiveAccount i actor req)
  then show ?thesis using chart_archive.committed_sound [OF assms, of e "(i, actor, req)"] by simp
next
  case (ReactivateAccount i actor req)
  then show ?thesis using chart_reactivate.committed_sound [OF assms, of e "(i, actor, req)"] by simp
next
  case (ArchiveBook i actor req)
  then show ?thesis using book_archive.committed_sound [OF assms, of e "(i, actor, req)"] by simp
next
  case (EndLink i t actor req)
  then show ?thesis using link_end.committed_sound [OF assms, of e "(i, t, actor, req)"] by simp
qed (simp_all add: assms post.committed_sound draft.committed_sound reversal.committed_sound
    generate.committed_sound period.committed_sound chart_create.committed_sound chart_update.committed_sound)

lemma serveAll_sound:
  "ledger_ok L \<Longrightarrow> ledger_ok (serveAll calls L) \<and> journalGrows L (serveAll calls L) \<and> lockedKept L (serveAll calls L)"
proof (induction calls arbitrary: L)
  case (Cons c calls)
  obtain e q where c: "c = (e, q)" by (cases c)
  have "ledger_ok (serve e q L)" "journalGrows L (serve e q L)" "lockedKept L (serve e q L)"
    using serve_sound [OF Cons.prems] by blast+
  then show ?case using Cons.IH journalGrows_trans lockedKept_trans by (auto simp: c serveAll_def)
qed (simp add: serveAll_def)

text \<open>The tables of other services (entities, dimensions, posting rules) may change between
  calls in any way.\<close>

definition foreignChange :: "ledger \<Rightarrow> ledger \<Rightarrow> bool" where
  "foreignChange L L' \<longleftrightarrow>
     accounting_books L' = accounting_books L \<and> book_entity_links L' = book_entity_links L \<and>
     ledger_accounts L' = ledger_accounts L \<and> fiscal_periods L' = fiscal_periods L \<and>
     journal_entries L' = journal_entries L \<and> journal_lines L' = journal_lines L"

inductive ledger_step :: "ledger \<Rightarrow> ledger \<Rightarrow> bool" where
  served: "ledger_step L (serve e q L)"
| foreign: "foreignChange L L' \<Longrightarrow> ledger_step L L'"

inductive reachable :: "ledger \<Rightarrow> bool" where
  start: "foreignChange emptyLedger L \<Longrightarrow> reachable L"
| step: "reachable L \<Longrightarrow> ledger_step L L' \<Longrightarrow> reachable L'"

inductive_cases ledger_stepE: "ledger_step L L'"

lemma foreignChange_sound:
  assumes "foreignChange L L'"
  shows "ledger_ok L' = ledger_ok L" and "journalGrows L L'"
  using assms ledger_ok_cong(1) [of L' L] ledger_ok_cong(2) [of L' L L] by (simp_all add: foreignChange_def)

lemma emptyLedger_ok: "ledger_ok emptyLedger"
  by (simp add: emptyLedger_def ledger_ok_def core_ok_def books_ok_def accounts_ok_def entries_ok_def
      gapless_def clashFree_def reversals_ok_def)

lemma ledger_step_sound: "ledger_step L L' \<Longrightarrow> ledger_ok L \<Longrightarrow> ledger_ok L' \<and> journalGrows L L'"
  by (elim ledger_stepE) (use serve_sound foreignChange_sound in auto)

lemma reachable_ok: "reachable L \<Longrightarrow> ledger_ok L"
  by (induction rule: reachable.induct) (use emptyLedger_ok foreignChange_sound ledger_step_sound in blast)+

lemma reachable_serveAll: "reachable L \<Longrightarrow> reachable (serveAll calls L)"
  by (induction calls arbitrary: L) (auto simp: serveAll_def intro: reachable.step ledger_step.served)

end
