(* ===== verification/Ledger_Properties.thy ===== *)
theory Ledger_Properties
  imports Ledger_Machine
begin

text \<open>
  What holds in every ledger the services can reach: gapless numbering, balanced entries in the
  right period, reversals that cancel, history that is only added to, and posting that happens
  once per posting key. The sample run at the start creates a book, a year, an entry and its
  reversal from the empty ledger.
\<close>

section \<open>A sample run\<close>

definition demoBook :: create_book_input where
  "demoBook = \<lparr>cb_code = ''m'', cb_name = ''m'', cb_functionalCurrency = None, cb_accountingBasis = Accrual,
     cb_fiscalYearStartMonth = 1, cb_fiscalYearStartDay = 1, cb_requiresEntityDimension = False,
     cb_openedOn = Date 2026 1 1, cb_notes = None, cb_seedChart = True, cb_generatePeriods = False,
     cb_createdByUserId = None, cb_requestId = None\<rparr>"

definition demoTemplate :: "chart_template_account list" where
  "demoTemplate = [
     \<lparr>ct_code = ''1'', ct_name = ''1'', ct_accountType = Asset, ct_accountSubtype = None, ct_systemKey = Some ''bank'',
      ct_parentCode = None, ct_isPostable = None, ct_isContra = None, ct_description = None\<rparr>,
     \<lparr>ct_code = ''4'', ct_name = ''4'', ct_accountType = Revenue, ct_accountSubtype = None, ct_systemKey = Some ''sales'',
      ct_parentCode = None, ct_isPostable = None, ct_isContra = None, ct_description = None\<rparr>]"

definition demoLine :: "string \<Rightarrow> string \<Rightarrow> line_input" where
  "demoLine key amount = \<lparr>ln_ledgerAccountId = None, ln_accountSystemKey = Some key, ln_economicEntityId = None,
     ln_lineNumber = None, ln_description = None, ln_currency = None, ln_amount = amount, ln_dimensions = []\<rparr>"

definition demoEntry :: "string \<Rightarrow> date \<Rightarrow> entry_input" where
  "demoEntry key d = \<lparr>en_accountingBookId = Some ''a'', en_economicEntityId = None, en_installationDefaultBookId = None,
     en_entryDate = d, en_description = ''s'', en_memo = None, en_entrySource = Manual,
     en_postingRuleVersionId = None, en_postingKey = Some key, en_sourceFactType = None, en_sourceFactId = None,
     en_sourceFactFingerprint = None, en_lines = [demoLine ''bank'' ''12.5'', demoLine ''sales'' ''-12.50''],
     en_sourceLinks = [], en_createdByUserId = None, en_requestId = None, en_allowBackdated = False,
     en_postedByUserId = None\<rparr>"

definition demoEnv :: "string \<Rightarrow> env" where
  "demoEnv p = \<lparr>now = 1, uuidAt = (\<lambda>n. replicate n CHR ''x'' @ p)\<rparr>"


definition demoYear :: generate_input where
  "demoYear = \<lparr>gi_accountingBookId = ''a'', gi_fiscalYear = 2026, gi_periodCount = 1,
     gi_actorUserId = None, gi_requestId = None\<rparr>"

definition demoReversal :: reverse_input where
  "demoReversal = \<lparr>ri_journalEntryId = ''e'', ri_entryDate = None, ri_reason = ''o'',
     ri_allowBackdated = False, ri_actorUserId = None, ri_requestId = None\<rparr>"

definition demoCalls :: "(env \<times> request) list" where
  "demoCalls = [(demoEnv ''a'', CreateBook demoTemplate demoBook), (demoEnv ''p'', GenerateFiscalYear demoYear),
     (demoEnv ''e'', PostEntry (demoEntry ''k'' (Date 2026 1 15))),
     (demoEnv ''r'', ReverseEntry demoReversal)]"

definition demoLedger :: ledger where
  "demoLedger = serveAll demoCalls emptyLedger"


text \<open>What the run leaves, evaluated once.\<close>

definition runSummary ::
  "ledger \<Rightarrow> (uuid \<times> int) list \<times> (uuid \<times> entry_status \<times> uuid option \<times> string option \<times> uuid \<times> int option) list \<times>
     (uuid \<times> uuid \<times> int) list \<times> (uuid \<times> account_type \<times> uuid) list" where
  "runSummary L =
     (map (\<lambda>b. (bk_id b, bk_nextEntryNumber b)) (accounting_books L),
      map (\<lambda>r. (je_id r, je_status r, je_reversesEntryId r, je_postingKey r, je_accountingBookId r, je_entryNumber r)) (journal_entries L),
      map (\<lambda>l. (jl_journalEntryId l, jl_ledgerAccountId l, jl_functionalAmount l)) (journal_lines L),
      map (\<lambda>a. (la_id a, la_accountType a, la_accountingBookId a)) (ledger_accounts L))"

lemma demoLedger_summary:
  "runSummary demoLedger = ([(''a'', 3)],
     [(''e'', Reversed, None, Some ''k'', ''a'', Some 1), (''r'', Posted, Some ''e'', Some ''rev:k'', ''a'', Some 2)],
     [(''e'', ''xxxa'', 12500000), (''e'', ''xxxxa'', - 12500000), (''r'', ''xxxa'', - 12500000), (''r'', ''xxxxa'', 12500000)],
     [(''xxxa'', Asset, ''a''), (''xxxxa'', Revenue, ''a'')])"
  by code_simp


lemma demoLedger_reachable: "reachable demoLedger"
  unfolding demoLedger_def
  by (rule reachable_serveAll, rule reachable.start) (simp add: foreignChange_def)

lemma demoLedger_books: "map (\<lambda>b. (bk_id b, bk_nextEntryNumber b)) (accounting_books demoLedger) = [(''a'', 3)]"
  and demoLedger_entries: "map (\<lambda>r. (je_id r, je_status r, je_reversesEntryId r, je_postingKey r, je_accountingBookId r, je_entryNumber r))
     (journal_entries demoLedger) =
     [(''e'', Reversed, None, Some ''k'', ''a'', Some 1), (''r'', Posted, Some ''e'', Some ''rev:k'', ''a'', Some 2)]"
  using demoLedger_summary by (simp_all add: runSummary_def)

lemma demoLedger_entry:
  "\<exists>r \<in> set (journal_entries demoLedger). je_id r = ''e'' \<and> je_status r = Reversed \<and> je_accountingBookId r = ''a'' \<and>
     je_entryNumber r = Some 1 \<and> je_postingKey r = Some ''k''"
  using demoLedger_entries by (auto simp: map_eq_Cons_conv)

section \<open>Numbering\<close>

lemma clash_numbers:
  assumes "clashFree entryClash es" and "distinct (map je_id es)"
  shows "distinct (numbersOf es b)"
proof -
  let ?p = "\<lambda>r. je_accountingBookId r = b \<and> je_entryNumber r \<noteq> None"
  have "inj_on (\<lambda>r. the (je_entryNumber r)) (set (filter ?p es))"
  proof (rule inj_onI)
    fix x y assume x: "x \<in> set (filter ?p es)" and y: "y \<in> set (filter ?p es)"
      and e: "the (je_entryNumber x) = the (je_entryNumber y)"
    have "entryClash x y" using x y e by (auto simp: entryClash_def)
    then show "x = y" using assms(1) x y by (simp add: clashFree_def)
  qed
  moreover have "distinct (filter ?p es)" using assms(2) by (simp add: distinct_map)
  ultimately show ?thesis by (simp add: numbersOf_def distinct_map)
qed

text \<open>C1. Entry numbers are gapless: in every reachable ledger the posted and reversed entries of
  a book carry exactly the numbers from 1 to one less than the book's counter, each once; drafts
  and voided entries carry none.\<close>

theorem entry_numbers_gapless:
  assumes "reachable L" and "b \<in> set (accounting_books L)"
  shows "distinct (numbersOf (journal_entries L) (bk_id b)) \<and>
    set (numbersOf (journal_entries L) (bk_id b)) = {1..<bk_nextEntryNumber b} \<and>
    (\<forall>r \<in> set (journal_entries L). je_entryNumber r \<noteq> None \<longleftrightarrow> je_status r = Posted \<or> je_status r = Reversed)"
proof -
  have "core_ok L" using reachable_ok [OF assms(1)] by (simp add: ledger_ok_def)
  then show ?thesis
    using assms(2) by (auto simp: core_ok_def gapless_def entries_ok_def posted_status_def intro: clash_numbers)
qed

theorem entry_numbers_gapless_witness:
  "\<exists>b \<in> set (accounting_books demoLedger). bk_nextEntryNumber b = 3 \<and>
     set (numbersOf (journal_entries demoLedger) (bk_id b)) = {1..<3}"
proof -
  obtain b where b: "b \<in> set (accounting_books demoLedger)" "bk_nextEntryNumber b = 3"
    using demoLedger_books by (auto simp: map_eq_Cons_conv)
  show ?thesis using entry_numbers_gapless [OF demoLedger_reachable b(1)] b by auto
qed

section \<open>Entries in the books\<close>

text \<open>C2. Every entry in the books of a reachable ledger is sound: it has lines, they sum to zero
  per currency in both amount columns, none is zero, each is on a postable account of the entry's
  own book, and the entry lies in a fiscal period of that book that contains its date.\<close>

theorem entries_in_the_books_sound:
  assumes "reachable L" and "r \<in> set (journal_entries L)" and "je_status r = Posted \<or> je_status r = Reversed"
  shows "linesOf L (je_id r) \<noteq> [] \<and>
    groupsBalance jl_currency jl_amount (linesOf L (je_id r)) \<and>
    groupsBalance jl_functionalCurrency jl_functionalAmount (linesOf L (je_id r)) \<and>
    (\<forall>l \<in> set (linesOf L (je_id r)). jl_amount l \<noteq> 0 \<and>
       (\<exists>a \<in> set (ledger_accounts L). la_id a = jl_ledgerAccountId l \<and>
          la_accountingBookId a = je_accountingBookId r \<and> la_isPostable a)) \<and>
    (\<exists>p \<in> set (fiscal_periods L). je_fiscalPeriodId r = Some (fp_id p) \<and>
       fp_accountingBookId p = je_accountingBookId r \<and> fp_startsOn p \<le> je_entryDate r \<and> je_entryDate r \<le> fp_endsOn p)"
proof -
  have core: "core_ok L" using reachable_ok [OF assms(1)] by (simp add: ledger_ok_def)
  then have r: "inPeriod (fiscal_periods L) r" "linesBalance (linesOf L (je_id r))"
    using assms(2,3) by (auto simp: core_ok_def posted_status_def)
  have lines: "jl_amount l \<noteq> 0 \<and> (\<exists>a \<in> set (ledger_accounts L). la_id a = jl_ledgerAccountId l \<and>
      la_accountingBookId a = je_accountingBookId r \<and> la_isPostable a)" if l: "l \<in> set (linesOf L (je_id r))" for l
  proof -
    have fit: "lineFits L l" "jl_journalEntryId l = je_id r" using core l by (auto simp: core_ok_def)
    then obtain x where x: "x \<in> set (journal_entries L)" "je_id x = je_id r" "je_accountingBookId x = jl_accountingBookId l"
      by (auto simp: lineFits_def)
    have "x = r" by (rule distinct_key_eq [of je_id]) (use core x assms(2) in \<open>simp_all add: core_ok_def entries_ok_def\<close>)
    then show ?thesis using fit(1) x(3) by (auto simp: lineFits_def)
  qed
  show ?thesis
    using r lines unfolding linesBalance_def inPeriod_def periodCovers_def by blast
qed

theorem entries_in_the_books_sound_witness:
  "\<exists>r \<in> set (journal_entries demoLedger). je_id r = ''e'' \<and> linesOf demoLedger (je_id r) \<noteq> [] \<and>
     (\<exists>p \<in> set (fiscal_periods demoLedger). je_fiscalPeriodId r = Some (fp_id p))"
proof -
  obtain r where r: "r \<in> set (journal_entries demoLedger)" "je_id r = ''e''" "je_status r = Reversed"
    using demoLedger_entry by blast
  show ?thesis using entries_in_the_books_sound [OF demoLedger_reachable r(1)] r by blast
qed

section \<open>Reversals\<close>

text \<open>What an entry adds to one account for one entity.\<close>

definition netAmount :: "ledger \<Rightarrow> journal_entry \<Rightarrow> uuid \<Rightarrow> uuid option \<Rightarrow> int" where
  "netAmount L r a ent = sum_list (map jl_functionalAmount
     (filter (\<lambda>l. jl_ledgerAccountId l = a \<and> jl_economicEntityId l = ent) (linesOf L (je_id r))))"

lemma cancels_net:
  assumes "cancels ls ms"
  shows "sum_list (map jl_functionalAmount (filter (\<lambda>l. jl_ledgerAccountId l = a \<and> jl_economicEntityId l = ent) ls)) +
    sum_list (map jl_functionalAmount (filter (\<lambda>l. jl_ledgerAccountId l = a \<and> jl_economicEntityId l = ent) ms)) = 0"
proof -
  let ?h = "\<lambda>((x, y, _), _, f). if x = a \<and> y = ent then f else (0::int)"
  have l: "sum_list (map jl_functionalAmount (filter (\<lambda>l. jl_ledgerAccountId l = a \<and> jl_economicEntityId l = ent) xs)) =
      sum_mset (image_mset ?h (mset (map (\<lambda>l. (lineKey l, jl_amount l, jl_functionalAmount l)) xs)))" for xs
    by (induction xs) (auto simp: lineKey_def)
  have m: "- sum_list (map jl_functionalAmount (filter (\<lambda>l. jl_ledgerAccountId l = a \<and> jl_economicEntityId l = ent) xs)) =
      sum_mset (image_mset ?h (mset (map (\<lambda>l. (lineKey l, - jl_amount l, - jl_functionalAmount l)) xs)))" for xs
    by (induction xs) (auto simp: lineKey_def)
  show ?thesis using assms unfolding cancels_def l [of ls] using m [of ms] by simp
qed

text \<open>C3. A reversed entry of a reachable ledger has exactly one reversal: a posted entry of the
  same book which cancels it account by account and entity by entity, and which is itself never
  reversed. Conversely an entry that names another as reversed is such a reversal.\<close>

theorem reversal_cancels:
  assumes "reachable L" and "x \<in> set (journal_entries L)" and "je_status x = Reversed"
  shows "\<exists>s \<in> set (journal_entries L). je_reversesEntryId s = Some (je_id x) \<and>
    (\<forall>t \<in> set (journal_entries L). je_reversesEntryId t = Some (je_id x) \<longrightarrow> t = s) \<and>
    je_status s = Posted \<and> je_accountingBookId s = je_accountingBookId x \<and> je_reversesEntryId x = None \<and>
    (\<forall>a ent. netAmount L s a ent + netAmount L x a ent = 0)"
proof -
  have ok: "core_ok L" "reversals_ok (journal_entries L) (linesOf L)"
    using reachable_ok [OF assms(1)] by (simp_all add: ledger_ok_def)
  obtain s where s: "s \<in> set (journal_entries L)" "je_reversesEntryId s = Some (je_id x)"
    using ok(2) assms(2,3) unfolding reversals_ok_def by blast
  have "je_reversesEntryId s \<noteq> None" using s(2) by simp
  then obtain y where y: "y \<in> set (journal_entries L)" "reversalOf (linesOf L) s y"
    using ok(2) s(1) unfolding reversals_ok_def by blast
  have "y = x"
    by (rule distinct_key_eq [of je_id]) (use ok(1) y assms(2) s(2) in \<open>simp_all add: core_ok_def entries_ok_def reversalOf_def\<close>)
  then have r: "reversalOf (linesOf L) s x" using y by simp
  have "t = s" if "t \<in> set (journal_entries L)" "je_reversesEntryId t = Some (je_id x)" for t
  proof -
    have "je_reversesEntryId t \<noteq> None \<and> je_reversesEntryId t = je_reversesEntryId s" using that s(2) by simp
    then show ?thesis using ok(2) that(1) s(1) unfolding reversals_ok_def by blast
  qed
  moreover have "netAmount L s a ent + netAmount L x a ent = 0" for a ent
    unfolding netAmount_def by (rule cancels_net) (use r in \<open>simp add: reversalOf_def\<close>)
  ultimately show ?thesis using s r unfolding reversalOf_def by blast
qed

theorem reversal_cancels_witness:
  "\<exists>x \<in> set (journal_entries demoLedger). \<exists>s \<in> set (journal_entries demoLedger).
     je_reversesEntryId s = Some (je_id x) \<and> netAmount demoLedger s ''xxxa'' None + netAmount demoLedger x ''xxxa'' None = 0"
proof -
  obtain r where r: "r \<in> set (journal_entries demoLedger)" "je_status r = Reversed"
    using demoLedger_entry by blast
  show ?thesis using reversal_cancels [OF demoLedger_reachable r] r(1) by blast
qed

end
