(* ===== verification/Journal_Properties.thy ===== *)
theory Journal_Properties
  imports Ledger_Properties
begin

text \<open>
  What a caller of the journal may rely on: what one post writes, that history is only added to,
  that locking is final, that a posting key posts once and an entry is reversed once. Two
  behaviours of drafts are stated as they are: the key of an unposted entry blocks its post, and
  a draft posts into an account archived meanwhile.
\<close>

section \<open>What posting writes\<close>

text \<open>The row a line of the input becomes.\<close>

definition postedFrom :: "ledger \<Rightarrow> uuid \<Rightarrow> line_input \<Rightarrow> journal_line \<Rightarrow> bool" where
  "postedFrom L b l row \<longleftrightarrow>
     moneyUnits (ln_amount l) = Inr (jl_amount row) \<and> jl_functionalAmount row = jl_amount row \<and>
     jl_economicEntityId row = ln_economicEntityId l \<and>
     (\<exists>a \<in> set (ledger_accounts L). la_id a = jl_ledgerAccountId row \<and> la_accountingBookId a = b \<and>
        la_isPostable a \<and> la_status a = Active \<and>
        (case ln_ledgerAccountId l of Some i \<Rightarrow> la_id a = i
         | None \<Rightarrow> la_systemKey a = Some (case ln_accountSystemKey l of None \<Rightarrow> [] | Some k \<Rightarrow> k)))"

lemma resolveLine_row:
  assumes "resolveLine L book k l = Inr s" and "rowOf b i s row"
  shows "postedFrom L (bk_id book) l row"
proof -
  obtain a u where a: "lineAccount L book l = Some a" "la_accountingBookId a = bk_id book" "la_isPostable a"
    "la_status a = Active" and u: "moneyUnits (ln_amount l) = Inr u" and
    s: "rs_ledgerAccountId s = la_id a" "rs_economicEntityId s = ln_economicEntityId l"
      "rs_amount s = money_text u" "rs_functionalAmount s = money_text u"
    using assms(1) by (auto simp: resolveLine_def toMoneyString_iff)
  have "a \<in> set (ledger_accounts L)" "case ln_ledgerAccountId l of Some i \<Rightarrow> la_id a = i
     | None \<Rightarrow> la_systemKey a = Some (case ln_accountSystemKey l of None \<Rightarrow> [] | Some k \<Rightarrow> k)"
    using a(1) by (cases "ln_ledgerAccountId l"; force simp: lineAccount_def dest!: find_SomeD)+
  then show ?thesis using a(2-) u s assms(2) by (auto simp: postedFrom_def rowOf_def)
qed

lemma resolveLines_rows:
  assumes "resolveLines L book ls = Inr rs" and "list_all2 (rowOf b i) rs rows"
  shows "list_all2 (postedFrom L (bk_id book)) ls rows"
proof -
  have "mapE (\<lambda>(k, l). resolveLine L book k l) (enumerate n ls) = Inr rs \<Longrightarrow> list_all2 (rowOf b i) rs rows \<Longrightarrow>
      list_all2 (postedFrom L (bk_id book)) ls rows" for n
  proof (induction ls arbitrary: n rs rows)
    case (Cons l ls)
    then obtain s ss row rows' where s: "resolveLine L book n l = Inr s" "rowOf b i s row" "rows = row # rows'"
      "mapE (\<lambda>(k, l). resolveLine L book k l) (enumerate (Suc n) ls) = Inr ss" "list_all2 (rowOf b i) ss rows'"
      by (auto simp: list_all2_Cons1)
    then show ?case using resolveLine_row [OF s(1,2)] Cons.IH [OF s(4,5)] by simp
  qed simp
  then show ?thesis using assms by (simp add: resolveLines_def)
qed

text \<open>C13. A post that is not a replay appends exactly one posted entry: it takes the book's next
  number, moves the counter by one, carries the input's lines one for one at their exact amount on
  active, postable accounts of the book, and lies in the period of the book that holds its date,
  which is open, or soft-closed with the caller's consent and a back-dated mark.\<close>

theorem postEntry_effect:
  assumes "reachable L" and "postEntry e i L = Inr (p, L')" and "\<not> pe_reused p"
  shows "\<exists>v. parseEntryInput i = Inr v \<and>
    journal_entries L' = journal_entries L @ [pe_entry p] \<and> je_status (pe_entry p) = Posted \<and>
    je_entryDate (pe_entry p) = en_entryDate v \<and>
    (\<exists>bk \<in> set (accounting_books L). bk_id bk = je_accountingBookId (pe_entry p) \<and> bk_status bk = Active \<and>
       je_entryNumber (pe_entry p) = Some (bk_nextEntryNumber bk) \<and>
       bk\<lparr>bk_nextEntryNumber := bk_nextEntryNumber bk + 1\<rparr> \<in> set (accounting_books L')) \<and>
    list_all2 (postedFrom L (je_accountingBookId (pe_entry p))) (en_lines v) (linesOf L' (je_id (pe_entry p))) \<and>
    (\<exists>q \<in> set (fiscal_periods L). je_fiscalPeriodId (pe_entry p) = Some (fp_id q) \<and>
       fp_accountingBookId q = je_accountingBookId (pe_entry p) \<and>
       fp_startsOn q \<le> en_entryDate v \<and> en_entryDate v \<le> fp_endsOn q \<and>
       (if je_isBackdated (pe_entry p) then fp_status q = SoftClosed \<and> en_allowBackdated v else fp_status q = Open))"
proof -
  have ok: "ledger_ok L" by (rule reachable_ok [OF assms(1)])
  then have core: "core_ok L" by (simp add: ledger_ok_def)
  obtain v where v: "parseEntryInput i = Inr v" "attemptPost e v L = Inr (p, L')"
    using assms(2) by (rule postEntry_attempt)
  from v(2) show ?thesis
  proof (cases rule: attemptPost_Inr)
    case (reused k)
    then show ?thesis using assms(3) by simp
  next
    case (posted book routing ls period bd u L1 log)
    have bal: "entryBalanced L1 (je_id (pe_entry p))"
      using posted(9) entryBalanced_cong [of L' L1] by (simp add: posted(8))
    obtain rows n u' where w: "entryPosted L (pe_entry p) rows L1" "list_all2 (rowOf (bk_id book) (je_id (pe_entry p))) ls rows"
      "pe_entry p = postedStamp e n (fp_id period) bd u' (headerRow e (bk_id book) (headerOf v))"
      by (rule writePosted_entryPosted [OF core resolveLines_postable [OF posted(3)] posted(7) bal])
    have tables: "journal_entries L' = journal_entries L1" "accounting_books L' = accounting_books L1"
      "journal_lines L' = journal_lines L1" by (simp_all add: posted(8))
    have b: "je_accountingBookId (pe_entry p) = bk_id book" by (simp add: w(3))
    have own: "linesOf L' (je_id (pe_entry p)) = rows"
    proof -
      have "linesOf L1 (je_id (pe_entry p)) = rows" using w(1) unfolding entryPosted_def by blast
      then show ?thesis by (simp add: tables(3))
    qed
    have e1: "journal_entries L' = journal_entries L @ [pe_entry p]" "je_status (pe_entry p) = Posted"
      using w(1) by (simp_all add: entryPosted_def tables)
    obtain bk where bk: "find (\<lambda>x. bk_id x = bk_id book) (accounting_books L) = Some bk"
      "je_entryNumber (pe_entry p) = Some (bk_nextEntryNumber bk)"
      using w(1) b by (auto simp: entryPosted_def)
    have mem: "bk \<in> set (accounting_books L)" "bk_id bk = bk_id book" using find_SomeD [OF bk(1)] by auto
    have "book \<in> set (accounting_books L)" using posted(2) by (rule routeBook_mem)
    then have same: "bk = book"
      by (intro distinct_key_eq [of bk_id "accounting_books L"]) (use core mem in \<open>simp_all add: core_ok_def books_ok_def\<close>)
    have active: "bk_status book = Active"
      using posted(2) by (auto simp: routeBook_def loadPostingBook_def split: option.splits)
    have bump: "bk\<lparr>bk_nextEntryNumber := bk_nextEntryNumber bk + 1\<rparr> \<in> set (accounting_books L')"
      using w(1) mem b by (force simp: entryPosted_def tables bumpBook_def set_updateWhere)
    have per: "period \<in> set (fiscal_periods L)" "periodCovers (bk_id book) (en_entryDate v) period"
      using resolvePeriodRow_covers [OF posted(5)] core by (auto simp: core_ok_def)
    have st: "if bd then fp_status period = SoftClosed \<and> en_allowBackdated v else fp_status period = Open"
      using posted(6) by (cases "fp_status period") (auto simp: assertPeriodAcceptsPosting_def HARD_CLOSED_def split: if_splits)
    have r: "je_entryDate (pe_entry p) = en_entryDate v" "je_fiscalPeriodId (pe_entry p) = Some (fp_id period)"
      "je_isBackdated (pe_entry p) = bd" by (simp_all add: w(3) headerOf_def)
    have lines: "list_all2 (postedFrom L (bk_id book)) (en_lines v) rows"
      by (rule resolveLines_rows [OF posted(3) w(2)])
    show ?thesis
      unfolding b own r
      using v(1) e1 mem active bk(2) bump lines per st by (auto simp: periodCovers_def same)
  qed
qed

section \<open>History\<close>

text \<open>C14. History is only added to: whatever is called afterwards, an entry in the books keeps its
  lines and its row, except that a posted entry may become reversed.\<close>

theorem history_kept:
  assumes "reachable L" and "r \<in> set (journal_entries L)" and "je_status r = Posted \<or> je_status r = Reversed"
  shows "linesOf (serveAll calls L) (je_id r) = linesOf L (je_id r) \<and>
    (r \<in> set (journal_entries (serveAll calls L)) \<or>
     je_status r = Posted \<and> r\<lparr>je_status := Reversed\<rparr> \<in> set (journal_entries (serveAll calls L)))"
  using serveAll_sound [OF reachable_ok [OF assms(1)], of calls] assms(2,3)
  by (auto simp: journalGrows_def posted_status_def)

text \<open>C5. Locking a period is final: whatever is called afterwards, the period's row is unchanged
  and no entry joins the entries posted into it.\<close>

theorem locked_period_final:
  assumes "reachable L" and "p \<in> set (fiscal_periods L)" and "fp_status p = Locked"
  shows "p \<in> set (fiscal_periods (serveAll calls L)) \<and>
    {je_id r | r. r \<in> set (journal_entries (serveAll calls L)) \<and> posted_status (je_status r) \<and> je_fiscalPeriodId r = Some (fp_id p)} =
    {je_id r | r. r \<in> set (journal_entries L) \<and> posted_status (je_status r) \<and> je_fiscalPeriodId r = Some (fp_id p)}"
  (is "_ \<and> ?new = ?old")
proof -
  have k: "lockedKept L (serveAll calls L)" "journalGrows L (serveAll calls L)"
    using serveAll_sound [OF reachable_ok [OF assms(1)], of calls] by blast+
  have "?new \<subseteq> ?old"
  proof
    fix x assume "x \<in> ?new"
    then obtain r where "x = je_id r" "r \<in> set (journal_entries (serveAll calls L))" "posted_status (je_status r)"
      "je_fiscalPeriodId r = Some (fp_id p)" by blast
    then show "x \<in> ?old" using k(1) assms(2,3) unfolding lockedKept_def by (metis (mono_tags, lifting) mem_Collect_eq)
  qed
  moreover have "?old \<subseteq> ?new"
  proof
    fix x assume "x \<in> ?old"
    then obtain r where r: "x = je_id r" "r \<in> set (journal_entries L)" "posted_status (je_status r)"
      "je_fiscalPeriodId r = Some (fp_id p)" by blast
    then obtain s where s: "s \<in> set (journal_entries (serveAll calls L))" "s = r \<or> s = r\<lparr>je_status := Reversed\<rparr>"
      using k(2) unfolding journalGrows_def by blast
    then have "je_id s = je_id r" "posted_status (je_status s)" "je_fiscalPeriodId s = je_fiscalPeriodId r"
      using r(3) by auto
    then show "x \<in> ?new" using r s(1) by (intro CollectI exI [of _ s]) simp
  qed
  ultimately show ?thesis using k(1) assms(2,3) unfolding lockedKept_def by blast
qed

text \<open>C33. The periods of a book never overlap: in a reachable ledger every date lies in at most
  one fiscal period of a book.\<close>

theorem periods_disjoint:
  assumes "reachable L" and "p \<in> set (fiscal_periods L)" and "q \<in> set (fiscal_periods L)"
    and "periodCovers b d p" and "periodCovers b d q"
  shows "p = q"
proof -
  have "periods_ok (fiscal_periods L)" using reachable_ok [OF assms(1)] by (simp add: ledger_ok_def core_ok_def)
  moreover have "periodsOverlap p q" using assms(4,5) by (auto simp: periodCovers_def periodsOverlap_def)
  ultimately show ?thesis using assms(2,3) unfolding periods_ok_def by blast
qed

section \<open>Posting keys\<close>

lemma key_unique:
  assumes "core_ok L" and "x \<in> set (journal_entries L)" and "y \<in> set (journal_entries L)"
    and "je_postingKey x = Some k" and "je_postingKey y = Some k"
  shows "x = y"
proof -
  have "entryClash x y" using assms(4,5) by (simp add: entryClash_def)
  then show ?thesis using assms(1-3) by (simp add: core_ok_def entries_ok_def clashFree_def)
qed

lemma postEntry_replay:
  assumes core: "core_ok L" and x: "x \<in> set (journal_entries L)" "je_postingKey x = Some k"
    and v: "parseEntryInput i = Inr v" "en_postingKey v = Some k"
  shows "postEntry e i L =
    Inr (\<lparr>pe_entry = x, pe_lines = loadLines L (je_id x), pe_reused = True, pe_routing = None\<rparr>, L)"
proof -
  obtain y where y: "find (\<lambda>r. je_postingKey r = Some k) (journal_entries L) = Some y"
    using x by (cases "find (\<lambda>r. je_postingKey r = Some k) (journal_entries L)") (auto simp: find_None_iff)
  have "y = x" by (rule key_unique [OF core _ x(1) _ x(2)]) (use find_SomeD [OF y] in simp_all)
  then show ?thesis by (simp add: postEntry_def postEntryOn_def attemptPost_def existingByPostingKey_def v y)
qed

text \<open>C20. A posting key posts once: after a successful post, whatever is called in between, every
  later post with the same key succeeds, writes nothing and returns that entry with its lines.\<close>

theorem posting_key_posts_once:
  assumes "reachable L" and "postEntry e i L = Inr (p, L')" and "\<not> pe_reused p"
    and "parseEntryInput i = Inr v" and "en_postingKey v = Some k"
    and "parseEntryInput j = Inr w" and "en_postingKey w = Some k"
  shows "\<exists>q. postEntry e' j (serveAll calls L') = Inr (q, serveAll calls L') \<and> pe_reused q \<and>
    je_id (pe_entry q) = je_id (pe_entry p) \<and> je_entryNumber (pe_entry q) = je_entryNumber (pe_entry p) \<and>
    pe_lines q = loadLines L' (je_id (pe_entry p))"
proof -
  let ?M = "serveAll calls L'"
  have ok: "ledger_ok L" by (rule reachable_ok [OF assms(1)])
  obtain v' where v': "parseEntryInput i = Inr v'" "attemptPost e v' L = Inr (p, L')"
    using assms(2) by (rule postEntry_attempt)
  obtain rows L1 where w: "entryPosted L (pe_entry p) rows L1" "L' = L1\<lparr>audit_events := audit_events L'\<rparr>"
    "je_postingKey (pe_entry p) = en_postingKey v'"
    by (rule attemptPost_entryPosted [OF ok v'(2) assms(3)])
  have "journal_entries L' = journal_entries L1" by (subst w(2), simp)
  then have r: "pe_entry p \<in> set (journal_entries L')" "je_status (pe_entry p) = Posted"
    "je_postingKey (pe_entry p) = Some k"
    using w(1,3) v'(1) assms(4,5) by (simp_all add: entryPosted_def)
  have ok': "ledger_ok L'" using postEntry_ok [OF ok assms(2)] by blast
  have M: "ledger_ok ?M" "journalGrows L' ?M" using serveAll_sound [OF ok', of calls] by blast+
  obtain x where x: "x \<in> set (journal_entries ?M)" "x = pe_entry p \<or> x = (pe_entry p)\<lparr>je_status := Reversed\<rparr>"
    and lines: "linesOf ?M (je_id (pe_entry p)) = linesOf L' (je_id (pe_entry p))"
    using M(2) r unfolding journalGrows_def by (force simp: posted_status_def)
  have "je_postingKey x = Some k" "je_id x = je_id (pe_entry p)" "je_entryNumber x = je_entryNumber (pe_entry p)"
    using x(2) r(3) by auto
  then show ?thesis
    using postEntry_replay [OF _ x(1) _ assms(6,7), of e'] M(1) lines by (simp add: ledger_ok_def loadLines_def)
qed

text \<open>C34. The key of a draft blocks its post: if a draft or voided entry carries the posting key,
  posting with that key reports success, returns that entry as already posted and writes nothing.\<close>

theorem posting_key_of_unposted_entry_blocks:
  assumes "reachable L" and "x \<in> set (journal_entries L)" and "je_status x = Draft \<or> je_status x = Void"
    and "je_postingKey x = Some k" and "parseEntryInput i = Inr v" and "en_postingKey v = Some k"
  shows "\<exists>q. postEntry e i L = Inr (q, L) \<and> pe_reused q \<and> pe_entry q = x \<and> je_entryNumber (pe_entry q) = None"
proof -
  have core: "core_ok L" using reachable_ok [OF assms(1)] by (simp add: ledger_ok_def)
  then have "je_entryNumber x = None"
    using assms(2,3) by (auto simp: core_ok_def entries_ok_def posted_status_def)
  then show ?thesis using postEntry_replay [OF core assms(2,4-6), of e] by simp
qed

lemma reverseEntry_replay:
  assumes ok: "ledger_ok L" and s: "s \<in> set (journal_entries L)" "je_reversesEntryId s = Some (ri_journalEntryId j)"
    and reason: "js_trim (ri_reason j) \<noteq> []"
  shows "reverseEntry e j L =
    Inr (\<lparr>pe_entry = s, pe_lines = loadLines L (je_id s), pe_reused = True, pe_routing = None\<rparr>, L)"
proof -
  have core: "core_ok L" and rev: "reversals_ok (journal_entries L) (linesOf L)" using ok by (simp_all add: ledger_ok_def)
  obtain x where x: "x \<in> set (journal_entries L)" "reversalOf (linesOf L) s x"
    using rev s unfolding reversals_ok_def by blast
  then have xs: "je_id x = ri_journalEntryId j" "je_status x = Reversed" "je_reversesEntryId x = None"
    using s(2) by (simp_all add: reversalOf_def)
  have keys: "distinct (map je_id (journal_entries L))" using core by (simp add: core_ok_def entries_ok_def)
  obtain y where y: "find (\<lambda>r. je_id r = ri_journalEntryId j) (journal_entries L) = Some y"
    using x(1) xs(1) by (cases "find (\<lambda>r. je_id r = ri_journalEntryId j) (journal_entries L)") (auto simp: find_None_iff)
  have "y = x" by (rule distinct_key_eq [OF keys]) (use x(1) xs(1) find_SomeD [OF y] in simp_all)
  then have load: "loadEntry L (ri_journalEntryId j) = Inr x" using y by (simp add: loadEntry_def)
  obtain t where t: "find (\<lambda>r. je_reversesEntryId r = Some (ri_journalEntryId j)) (journal_entries L) = Some t"
    using s by (cases "find (\<lambda>r. je_reversesEntryId r = Some (ri_journalEntryId j)) (journal_entries L)") (auto simp: find_None_iff)
  have "t \<in> set (journal_entries L)" "je_reversesEntryId t \<noteq> None \<and> je_reversesEntryId t = je_reversesEntryId s"
    using find_SomeD [OF t] s(2) by auto
  then have "t = s" using rev s(1) unfolding reversals_ok_def by blast
  then show ?thesis by (simp add: reverseEntry_def Let_def reason load xs t)
qed

lemma reverseEntry_entry:
  assumes ok: "ledger_ok L" and a: "reverseEntry e i L = Inr (p, L')"
  shows "pe_entry p \<in> set (journal_entries L') \<and> je_reversesEntryId (pe_entry p) = Some (ri_journalEntryId i)"
proof (cases "pe_reused p")
  case True
  from a show ?thesis
    by (cases rule: reverseEntry_Inr) (use True in \<open>auto dest: find_SomeD\<close>)
next
  case False
  obtain x rows L1 where x: "find (\<lambda>x. je_id x = ri_journalEntryId i) (journal_entries L) = Some x" and
    w: "entryPosted L (pe_entry p) rows L1" "je_reversesEntryId (pe_entry p) = Some (je_id x)" and
    L': "journal_entries L' = updateWhere (\<lambda>s. je_id s = je_id x) (je_status_update (\<lambda>_. Reversed)) (journal_entries L1)"
    by (rule reverseEntry_new [OF ok a False])
  have "x \<in> set (journal_entries L)" using find_SomeD [OF x] by simp
  then have "je_id (pe_entry p) \<noteq> je_id x" using w(1) by (auto simp: entryPosted_def entryClash_def)
  then show ?thesis
    using w find_SomeD [OF x] by (simp add: L' set_updateWhere entryPosted_def)
qed

text \<open>C21. An entry is reversed at most once: after a successful reversal, whatever is called in
  between, reversing the same entry again succeeds, writes nothing and returns that reversal.\<close>

theorem reversal_once:
  assumes "reachable L" and "reverseEntry e i L = Inr (p, L')"
    and "ri_journalEntryId j = ri_journalEntryId i" and "js_trim (ri_reason j) \<noteq> []"
  shows "\<exists>q. reverseEntry e' j (serveAll calls L') = Inr (q, serveAll calls L') \<and> pe_reused q \<and>
    je_id (pe_entry q) = je_id (pe_entry p) \<and> je_reversesEntryId (pe_entry q) = Some (ri_journalEntryId i)"
proof -
  let ?M = "serveAll calls L'"
  have ok: "ledger_ok L" by (rule reachable_ok [OF assms(1)])
  have ok': "ledger_ok L'" using reverseEntry_ok [OF ok assms(2)] by blast
  have M: "ledger_ok ?M" "journalGrows L' ?M" using serveAll_sound [OF ok', of calls] by blast+
  have rev: "pe_entry p \<in> set (journal_entries L')" "je_reversesEntryId (pe_entry p) = Some (ri_journalEntryId i)"
    using reverseEntry_entry [OF ok assms(2)] by auto
  have "je_reversesEntryId (pe_entry p) \<noteq> None" using rev(2) by simp
  then have "posted_status (je_status (pe_entry p))"
    using ok' rev(1) unfolding ledger_ok_def reversals_ok_def reversalOf_def posted_status_def by blast
  then obtain x where x: "x \<in> set (journal_entries ?M)" "x = pe_entry p \<or> x = (pe_entry p)\<lparr>je_status := Reversed\<rparr>"
    using M(2) rev(1) unfolding journalGrows_def by blast
  then have "je_reversesEntryId x = Some (ri_journalEntryId j)" "je_id x = je_id (pe_entry p)"
    using rev(2) assms(3) by auto
  then show ?thesis using reverseEntry_replay [OF M(1) x(1) _ assms(4), of e'] assms(3) by simp
qed

section \<open>Runs and witnesses\<close>

definition demoAfter :: "(env \<times> request) list \<Rightarrow> ledger" where
  "demoAfter calls = serveAll calls demoLedger"

lemma demoAfter_reachable: "reachable (demoAfter calls)"
  unfolding demoAfter_def by (rule reachable_serveAll [OF demoLedger_reachable])

definition demoDraft :: "env \<times> request" where
  "demoDraft = (demoEnv ''d'', CreateDraft (demoEntry ''d'' (Date 2026 1 20)))"

definition demoVoided :: ledger where
  "demoVoided = demoAfter [demoDraft, (demoEnv ''v'', VoidDraft ''d'' ''o'' None None)]"

definition demoLocked :: ledger where
  "demoLocked = demoAfter [(demoEnv ''l'', SetPeriodStatus
     \<lparr>ss_fiscalPeriodId = ''xp'', ss_status = Locked, ss_note = Undefined, ss_actorUserId = None, ss_requestId = None\<rparr>)]"

definition demoPost :: "(posted_entry \<times> ledger) acc" where
  "demoPost = postEntry (demoEnv ''z'') (demoEntry ''z'' (Date 2026 1 31)) demoLedger"

definition demoAccount :: create_account_input where
  "demoAccount = \<lparr>ca_accountingBookId = ''a'', ca_code = ''6'', ca_name = ''6'', ca_accountType = Expense,
     ca_accountSubtype = None, ca_systemKey = None, ca_parentAccountId = None, ca_isPostable = True, ca_isContra = False,
     ca_currency = None, ca_description = None, ca_actorUserId = None, ca_requestId = None\<rparr>"

definition plainEntry :: entry_input where
  "plainEntry = (demoEntry ''p'' (Date 2026 1 20))\<lparr>en_lines :=
     [(demoLine ''6'' ''3'')\<lparr>ln_ledgerAccountId := Some ''xc'', ln_accountSystemKey := None\<rparr>, demoLine ''sales'' ''-3'']\<rparr>"

definition demoArchived :: ledger where
  "demoArchived = demoAfter [(demoEnv ''c'', CreateAccount demoAccount), (demoEnv ''d'', CreateDraft plainEntry),
     (demoEnv ''w'', ArchiveAccount ''xc'' None None)]"

text \<open>What these runs leave.\<close>

lemma demoPost_new: "case demoPost of Inr (p, L') \<Rightarrow> \<not> pe_reused p \<and> je_entryNumber (pe_entry p) = Some 3 | Inl _ \<Rightarrow> False"
  by code_simp

lemma demoLocked_periods:
  "map (\<lambda>p. (fp_id p, fp_status p, periodCovers ''a'' (Date 2026 1 20) p)) (fiscal_periods demoLocked) = [(''xp'', Locked, True)]"
  by code_simp

lemma demoVoided_entries:
  "map (\<lambda>r. (je_id r, je_status r, je_postingKey r)) (journal_entries demoVoided) =
     [(''e'', Reversed, Some ''k''), (''r'', Posted, Some ''rev:k''), (''d'', Void, Some ''d'')]"
  by code_simp

lemma demo_keys:
  "map_sum id en_postingKey (parseEntryInput (demoEntry ''d'' (Date 2026 1 20))) = Inr (Some ''d'')"
  "map_sum id en_postingKey (parseEntryInput (demoEntry ''z'' (Date 2026 1 31))) = Inr (Some ''z'')"
  by code_simp+

text \<open>What a call that returned says: the entry's status, its accounts in line order, and the
  accounts of the ledger it left.\<close>

definition postedSummary ::
  "(posted_entry \<times> ledger) acc \<Rightarrow> (entry_status \<times> uuid list \<times> (uuid \<times> active_status) list) acc" where
  "postedSummary r = map_sum id (\<lambda>(p, L). (je_status (pe_entry p), map jl_ledgerAccountId (pe_lines p),
     map (\<lambda>a. (la_id a, la_status a)) (ledger_accounts L))) r"

lemma demoArchived_posts:
  "postedSummary (postDraft (demoEnv ''t'') ''d'' False None None demoArchived) =
     Inr (Posted, [''xc'', ''xxxxa''], [(''xxxa'', Active), (''xxxxa'', Active), (''xc'', Archived)])"
  by code_simp

lemma demoArchived_refuses:
  "map_sum id (\<lambda>_. ()) (postEntry (demoEnv ''t'') (plainEntry\<lparr>en_postingKey := None\<rparr>) demoArchived) =
     Inl AccountingValidationError"
  by code_simp


theorem postEntry_effect_witness:
  "\<exists>p L'. demoPost = Inr (p, L') \<and> journal_entries L' = journal_entries demoLedger @ [pe_entry p] \<and>
     je_entryDate (pe_entry p) = Date 2026 1 31 \<and> linesOf L' (je_id (pe_entry p)) \<noteq> []"
proof -
  obtain p L' where p: "demoPost = Inr (p, L')" "\<not> pe_reused p"
    using demoPost_new by (auto split: sum.splits prod.splits)
  obtain v where v: "parseEntryInput (demoEntry ''z'' (Date 2026 1 31)) = Inr v"
    "journal_entries L' = journal_entries demoLedger @ [pe_entry p]" "je_entryDate (pe_entry p) = en_entryDate v"
    "list_all2 (postedFrom demoLedger (je_accountingBookId (pe_entry p))) (en_lines v) (linesOf L' (je_id (pe_entry p)))"
    using postEntry_effect [OF demoLedger_reachable p(1) [unfolded demoPost_def] p(2)] by blast
  have "en_entryDate v = Date 2026 1 31 \<and> en_lines v \<noteq> []"
    using v(1) by (auto simp: parseEntryInput_def demoEntry_def)
  then show ?thesis using p(1) v by (intro exI [of _ p] exI [of _ L']) auto
qed

theorem history_kept_witness:
  "linesOf (serveAll [(demoEnv ''v'', ReverseEntry demoReversal)] demoLedger) ''e'' = linesOf demoLedger ''e''"
proof -
  obtain r where r: "r \<in> set (journal_entries demoLedger)" "je_id r = ''e''" "je_status r = Posted \<or> je_status r = Reversed"
    using demoLedger_entry by blast
  show ?thesis using history_kept [OF demoLedger_reachable r(1,3)] r(2) by simp
qed

theorem locked_period_final_witness:
  "\<exists>p \<in> set (fiscal_periods demoLocked). fp_id p = ''xp'' \<and> fp_status p = Locked \<and>
     p \<in> set (fiscal_periods (serveAll [(demoEnv ''z'', PostEntry (demoEntry ''z'' (Date 2026 1 31)))] demoLocked))"
proof -
  obtain p where p: "p \<in> set (fiscal_periods demoLocked)" "fp_id p = ''xp''" "fp_status p = Locked"
    using demoLocked_periods by (auto simp: map_eq_Cons_conv)
  have "reachable demoLocked" unfolding demoLocked_def by (rule demoAfter_reachable)
  then show ?thesis using locked_period_final [OF _ p(1,3)] p by blast
qed

theorem periods_disjoint_witness:
  "\<exists>p \<in> set (fiscal_periods demoLocked). \<forall>q \<in> set (fiscal_periods demoLocked).
     periodCovers ''a'' (Date 2026 1 20) q \<longrightarrow> p = q"
proof -
  obtain p where p: "p \<in> set (fiscal_periods demoLocked)" "periodCovers ''a'' (Date 2026 1 20) p"
    using demoLocked_periods by (auto simp: map_eq_Cons_conv)
  show ?thesis
    using periods_disjoint [OF _ p(1) _ p(2)] demoAfter_reachable p(1) unfolding demoLocked_def by blast
qed

theorem posting_key_posts_once_witness:
  "\<exists>p L' q. demoPost = Inr (p, L') \<and> pe_reused q \<and> je_id (pe_entry q) = je_id (pe_entry p) \<and>
     postEntry (demoEnv ''y'') (demoEntry ''z'' (Date 2026 1 31)) L' = Inr (q, L')"
proof -
  obtain p L' where p: "demoPost = Inr (p, L')" "\<not> pe_reused p"
    using demoPost_new by (auto split: sum.splits prod.splits)
  obtain v where v: "parseEntryInput (demoEntry ''z'' (Date 2026 1 31)) = Inr v" "en_postingKey v = Some ''z''"
    using demo_keys(2) by (cases "parseEntryInput (demoEntry ''z'' (Date 2026 1 31))") auto
  show ?thesis
    using posting_key_posts_once [OF demoLedger_reachable p(1) [unfolded demoPost_def] p(2) v v, of "demoEnv ''y''" "[]"] p(1)
    by (auto simp: serveAll_def)
qed

theorem posting_key_of_unposted_entry_blocks_witness:
  "\<exists>q. postEntry (demoEnv ''y'') (demoEntry ''d'' (Date 2026 1 20)) demoVoided = Inr (q, demoVoided) \<and>
     pe_reused q \<and> je_status (pe_entry q) = Void"
proof -
  have "\<exists>x \<in> set (journal_entries demoVoided). je_status x = Void \<and> je_postingKey x = Some ''d''"
    using demoVoided_entries by (auto simp: map_eq_Cons_conv)
  then obtain x where x: "x \<in> set (journal_entries demoVoided)" "je_status x = Void" "je_postingKey x = Some ''d''"
    by blast
  obtain v where v: "parseEntryInput (demoEntry ''d'' (Date 2026 1 20)) = Inr v" "en_postingKey v = Some ''d''"
    using demo_keys(1) by (cases "parseEntryInput (demoEntry ''d'' (Date 2026 1 20))") auto
  have "reachable demoVoided" unfolding demoVoided_def by (rule demoAfter_reachable)
  then show ?thesis
    using posting_key_of_unposted_entry_blocks [OF _ x(1) disjI2 [OF x(2)] x(3) v] x(2) by blast
qed

theorem reversal_once_witness:
  "\<exists>q. reverseEntry (demoEnv ''y'') demoReversal demoLedger = Inr (q, demoLedger) \<and> pe_reused q \<and>
     je_reversesEntryId (pe_entry q) = Some ''e''"
proof -
  have "case reverseEntry (demoEnv ''y'') demoReversal demoLedger of Inr (p, L') \<Rightarrow> pe_reused p | Inl _ \<Rightarrow> False"
    by code_simp
  then obtain p L' where p: "reverseEntry (demoEnv ''y'') demoReversal demoLedger = Inr (p, L')" "pe_reused p"
    by (auto split: sum.splits prod.splits)
  have L': "L' = demoLedger" using p by (auto elim: reverseEntry_Inr)
  have reason: "js_trim (ri_reason demoReversal) \<noteq> []" by code_simp
  show ?thesis
    using reversal_once [OF demoLedger_reachable p(1) refl reason, of "demoEnv ''y''" "[]"]
    by (auto simp: L' serveAll_def demoReversal_def)
qed

end
