(* ===== verification/Ledger_Reports.thy ===== *)
theory Ledger_Reports
  imports Ledger_Properties
begin

text \<open>
  The read models of \<^verbatim>\<open>ledger-reports.ts\<close> and \<^verbatim>\<open>statements.ts\<close>: trial balance, account
  balance and activity, income statement and balance sheet. A query is a filter over the join
  of lines and entries, its \<^verbatim>\<open>numeric(20, 6)\<close> cast an error branch. Rows come in table order:
  the collation of account codes is not modelled. The lemmas reduce every report to sums over
  the lines of entries in the books.
\<close>

section \<open>The aggregate query\<close>

definition IN_THE_BOOKS :: "entry_status list" where
  "IN_THE_BOOKS = [Posted, Reversed]"

type_synonym ledger_row = "journal_line \<times> journal_entry"

definition joinedRows :: "ledger \<Rightarrow> ledger_row list" where
  "joinedRows L = concat (map (\<lambda>e. map (\<lambda>l. (l, e)) (linesOf L (je_id e))) (journal_entries L))"

definition entryPredicates :: "date option \<Rightarrow> date option \<Rightarrow> uuid option \<Rightarrow> ledger_row \<Rightarrow> bool" where
  "entryPredicates from to ent = (\<lambda>(l, e).
     List.member IN_THE_BOOKS (je_status e) \<and>
     (case from of None \<Rightarrow> True | Some d \<Rightarrow> d \<le> je_entryDate e) \<and>
     (case to of None \<Rightarrow> True | Some d \<Rightarrow> je_entryDate e \<le> d) \<and>
     (case ent of None \<Rightarrow> True | Some i \<Rightarrow> jl_economicEntityId l = Some i))"

definition windowRows :: "ledger \<Rightarrow> uuid \<Rightarrow> date option \<Rightarrow> date option \<Rightarrow> uuid option \<Rightarrow> ledger_row list" where
  "windowRows L b from to ent =
     filter (\<lambda>(l, e). jl_accountingBookId l = b \<and> entryPredicates from to ent (l, e)) (joinedRows L)"

definition accountRows :: "ledger_row list \<Rightarrow> ledger_account \<Rightarrow> ledger_row list" where
  "accountRows rows a = filter (\<lambda>(l, e). jl_ledgerAccountId l = la_id a) rows"

text \<open>\<^verbatim>\<open>::numeric(20, 6)::text\<close>\<close>

definition numericText :: "int \<Rightarrow> string acc" where
  "numericText u = bindE (assertE (\<bar>u\<bar> < 10 ^ 20) (DatabaseError NumericOutOfRange)) (\<lambda>_. Inr (money_text u))"

definition sumRows :: "(int \<Rightarrow> int) \<Rightarrow> ledger_row list \<Rightarrow> int" where
  "sumRows g rows = sum_list (map (\<lambda>(l, e). g (jl_functionalAmount l)) rows)"

definition bookCurrency :: "ledger \<Rightarrow> uuid \<Rightarrow> string" where
  "bookCurrency L b =
     (case find (\<lambda>x. bk_id x = b) (accounting_books L) of None \<Rightarrow> [] | Some x \<Rightarrow> bk_functionalCurrency x)"

section \<open>Trial balance\<close>

record report_filter =
  rf_from :: "date option"
  rf_to :: "date option"
  rf_economicEntityId :: "uuid option"
  rf_includeArchivedAccounts :: "bool option"
  rf_includeEmptyAccounts :: "bool option"

record trial_balance_row =
  tr_account :: ledger_account
  tr_balance :: string
  tr_debit :: string
  tr_credit :: string
  tr_lineCount :: nat

record trial_balance =
  tb_accountingBookId :: uuid
  tb_functionalCurrency :: string
  tb_rows :: "trial_balance_row list"
  tb_totalDebit :: string
  tb_totalCredit :: string
  tb_difference :: string

definition filterRows :: "ledger \<Rightarrow> uuid \<Rightarrow> report_filter \<Rightarrow> ledger_row list" where
  "filterRows L b f = windowRows L b (rf_from f) (rf_to f) (rf_economicEntityId f)"

definition balanceRow :: "ledger_row list \<Rightarrow> ledger_account \<Rightarrow> trial_balance_row acc" where
  "balanceRow rows a =
     (let own = accountRows rows a in
      bindE (numericText (sumRows (\<lambda>u. u) own)) (\<lambda>balance.
      bindE (numericText (sumRows (\<lambda>u. max u 0) own)) (\<lambda>debit.
      bindE (numericText (sumRows (\<lambda>u. max (- u) 0) own)) (\<lambda>credit.
      Inr \<lparr>tr_account = a, tr_balance = balance, tr_debit = debit, tr_credit = credit,
           tr_lineCount = length own\<rparr>))))"

definition trialAccounts :: "ledger \<Rightarrow> uuid \<Rightarrow> report_filter \<Rightarrow> ledger_row list \<Rightarrow> ledger_account list" where
  "trialAccounts L b f rows =
     filter (\<lambda>a. la_accountingBookId a = b \<and>
         (rf_includeArchivedAccounts f = Some False \<longrightarrow> la_status a = Active) \<and>
         (rf_includeEmptyAccounts f \<noteq> Some True \<longrightarrow> accountRows rows a \<noteq> []))
       (ledger_accounts L)"

definition trialBalance :: "ledger \<Rightarrow> uuid \<Rightarrow> report_filter \<Rightarrow> trial_balance acc" where
  "trialBalance L b f =
     (let rows = filterRows L b f in
      bindE (mapE (balanceRow rows) (trialAccounts L b f rows)) (\<lambda>trs.
      bindE (sumDecimals (map tr_debit trs)) (\<lambda>totalDebit.
      bindE (sumDecimals (map tr_credit trs)) (\<lambda>totalCredit.
      bindE (sumDecimals [totalDebit, ''-'' @ totalCredit]) (\<lambda>difference.
      Inr \<lparr>tb_accountingBookId = b, tb_functionalCurrency = bookCurrency L b, tb_rows = trs,
           tb_totalDebit = totalDebit, tb_totalCredit = totalCredit, tb_difference = difference\<rparr>)))))"

definition accountPredicate :: "uuid option \<Rightarrow> string option \<Rightarrow> (ledger_account \<Rightarrow> bool) acc" where
  "accountPredicate byId bySystemKey =
     (case byId of
        Some i \<Rightarrow> Inr (\<lambda>a. la_id a = i)
      | None \<Rightarrow>
          (case bySystemKey of
             Some k \<Rightarrow> bindE (textLiteral k) (\<lambda>_. Inr (\<lambda>a. la_systemKey a = Some k))
           | None \<Rightarrow> Inl PlainError))"

record account_balance =
  ab_row :: trial_balance_row
  ab_normalBalance :: balance_side
  ab_functionalCurrency :: string

definition accountBalance ::
  "ledger \<Rightarrow> uuid \<Rightarrow> uuid option \<Rightarrow> string option \<Rightarrow> report_filter \<Rightarrow> account_balance acc" where
  "accountBalance L b byId bySystemKey f =
     bindE (accountPredicate byId bySystemKey) (\<lambda>p.
     bindE (fromOption PlainError
         (find (\<lambda>a. la_accountingBookId a = b \<and> p a) (ledger_accounts L))) (\<lambda>a.
     bindE (balanceRow (filterRows L b f) a) (\<lambda>row.
     let natural = (if la_accountType a = Asset \<or> la_accountType a = Expense then DebitSide else CreditSide) in
     Inr \<lparr>ab_row = row,
          ab_normalBalance =
            (if la_isContra a then (if natural = DebitSide then CreditSide else DebitSide) else natural),
          ab_functionalCurrency = bookCurrency L b\<rparr>)))"

record account_activity_row =
  aa_line :: journal_line
  aa_entry :: journal_entry
  aa_description :: string

definition accountActivity ::
  "ledger \<Rightarrow> uuid \<Rightarrow> uuid option \<Rightarrow> string option \<Rightarrow> report_filter \<Rightarrow> int option \<Rightarrow>
   account_activity_row list acc" where
  "accountActivity L b byId bySystemKey f limit =
     bindE (accountPredicate byId bySystemKey) (\<lambda>p.
     let accounts = filter p (ledger_accounts L);
         rows = filter (\<lambda>(l, e). list_ex (\<lambda>a. la_id a = jl_ledgerAccountId l) accounts) (filterRows L b f);
         ordered = sort_key (\<lambda>(l, e). je_entryDate e)
           (sort_key (\<lambda>(l, e). case je_entryNumber e of None \<Rightarrow> 0 | Some n \<Rightarrow> n)
             (sort_key (\<lambda>(l, e). jl_lineNumber l) rows));
         shown = (case limit of None \<Rightarrow> ordered | Some n \<Rightarrow> take (nat (max 1 n)) ordered)
     in Inr (map (\<lambda>(l, e). \<lparr>aa_line = l, aa_entry = e,
          aa_description = (case jl_description l of None \<Rightarrow> je_description e | Some d \<Rightarrow> d)\<rparr>) shown))"

record entity_coverage =
  ec_total :: nat
  ec_withEntity :: nat
  ec_complete :: bool

definition entityDimensionCoverage :: "ledger \<Rightarrow> uuid \<Rightarrow> entity_coverage" where
  "entityDimensionCoverage L b =
     (let rows = windowRows L b None None None;
          t = length rows;
          w = length (filter (\<lambda>(l, e). jl_economicEntityId l \<noteq> None) rows)
      in \<lparr>ec_total = t, ec_withEntity = w, ec_complete = (t = w)\<rparr>)"

section \<open>Statements\<close>

record statement_line =
  sm_account :: ledger_account
  sm_amount :: string

record statement_section =
  ss_lines :: "statement_line list"
  ss_total :: string

record income_statement =
  is_revenue :: statement_section
  is_expense :: statement_section
  is_netIncome :: string
  is_functionalCurrency :: string

record balance_sheet =
  bs_assets :: statement_section
  bs_liabilities :: statement_section
  bs_equityAccounts :: statement_section
  bs_retainedEarnings :: string
  bs_currentEarnings :: string
  bs_totalEquity :: string
  bs_difference :: string
  bs_balanced :: bool
  bs_functionalCurrency :: string

record statement_filter =
  sf_economicEntityId :: "uuid option"
  sf_includeEmptyAccounts :: "bool option"

definition balancesByAccount ::
  "ledger \<Rightarrow> uuid \<Rightarrow> account_type \<Rightarrow> date option \<Rightarrow> date option \<Rightarrow> statement_filter \<Rightarrow> statement_line list acc" where
  "balancesByAccount L b ty from to f =
     (let rows = windowRows L b from to (sf_economicEntityId f) in
      mapE (\<lambda>a. bindE (numericText (sumRows (\<lambda>u. u) (accountRows rows a))) (\<lambda>s.
            Inr \<lparr>sm_account = a, sm_amount = s\<rparr>))
        (filter (\<lambda>a. la_accountingBookId a = b \<and> la_accountType a = ty \<and> la_isPostable a \<and>
            (sf_includeEmptyAccounts f \<noteq> Some True \<longrightarrow> accountRows rows a \<noteq> []))
          (ledger_accounts L)))"

definition netIncomeBetween :: "ledger \<Rightarrow> uuid \<Rightarrow> date option \<Rightarrow> date \<Rightarrow> uuid option \<Rightarrow> string acc" where
  "netIncomeBetween L b from to ent =
     bindE (numericText (sumRows (\<lambda>u. u) (filter (\<lambda>(l, e).
         list_ex (\<lambda>a. la_id a = jl_ledgerAccountId l \<and> (la_accountType a = Revenue \<or> la_accountType a = Expense))
           (ledger_accounts L))
       (windowRows L b from (Some to) ent)))) negateDecimal"

definition statementSection :: "statement_line list \<Rightarrow> bool \<Rightarrow> statement_section acc" where
  "statementSection ls flip =
     bindE (mapE (\<lambda>l. bindE (if flip then negateDecimal (sm_amount l) else Inr (sm_amount l)) (\<lambda>s.
         Inr (l\<lparr>sm_amount := s\<rparr>))) ls) (\<lambda>presented.
     bindE (sumDecimals (map sm_amount presented)) (\<lambda>t. Inr \<lparr>ss_lines = presented, ss_total = t\<rparr>))"

definition sectionOf ::
  "ledger \<Rightarrow> uuid \<Rightarrow> account_type \<Rightarrow> bool \<Rightarrow> date option \<Rightarrow> date option \<Rightarrow> statement_filter \<Rightarrow> statement_section acc" where
  "sectionOf L b ty flip from to f = bindE (balancesByAccount L b ty from to f) (\<lambda>ls. statementSection ls flip)"

definition incomeStatement :: "ledger \<Rightarrow> uuid \<Rightarrow> date \<Rightarrow> date \<Rightarrow> statement_filter \<Rightarrow> income_statement acc" where
  "incomeStatement L b from to f =
     bindE (loadBook L b) (\<lambda>book.
     bindE (sectionOf L b Revenue True (Some from) (Some to) f) (\<lambda>revenue.
     bindE (sectionOf L b Expense False (Some from) (Some to) f) (\<lambda>expense.
     bindE (negateDecimal (ss_total expense)) (\<lambda>cost.
     bindE (sumDecimals [ss_total revenue, cost]) (\<lambda>netIncome.
     Inr \<lparr>is_revenue = revenue, is_expense = expense, is_netIncome = netIncome,
          is_functionalCurrency = bk_functionalCurrency book\<rparr>)))))"

definition entityGate :: "ledger \<Rightarrow> accounting_book \<Rightarrow> uuid \<Rightarrow> uuid option \<Rightarrow> unit acc" where
  "entityGate L book b ent =
     (case ent of None \<Rightarrow> Inr ()
      | Some _ \<Rightarrow>
          bindE (assertE (bk_requiresEntityDimension book) AccountingValidationError) (\<lambda>_.
          assertE (ec_complete (entityDimensionCoverage L b)) AccountingValidationError))"

definition balanceSheet :: "ledger \<Rightarrow> uuid \<Rightarrow> date \<Rightarrow> statement_filter \<Rightarrow> balance_sheet acc" where
  "balanceSheet L b asOf f =
     bindE (loadBook L b) (\<lambda>book.
     bindE (entityGate L book b (sf_economicEntityId f)) (\<lambda>_.
     bindE (sectionOf L b Asset False None (Some asOf) f) (\<lambda>assets.
     bindE (sectionOf L b Liability True None (Some asOf) f) (\<lambda>liabilities.
     bindE (sectionOf L b Equity True None (Some asOf) f) (\<lambda>equityAccounts.
     let yearStart = fiscalYearStartDate
           (fiscalYearFor asOf (bk_fiscalYearStartMonth book) (bk_fiscalYearStartDay book))
           (bk_fiscalYearStartMonth book) (bk_fiscalYearStartDay book);
         priorEnd = prevDay yearStart
     in
     bindE (netIncomeBetween L b None priorEnd (sf_economicEntityId f)) (\<lambda>retainedEarnings.
     bindE (netIncomeBetween L b (Some yearStart) asOf (sf_economicEntityId f)) (\<lambda>currentEarnings.
     bindE (sumDecimals [ss_total equityAccounts, retainedEarnings, currentEarnings]) (\<lambda>totalEquity.
     bindE (negateDecimal (ss_total liabilities)) (\<lambda>minusLiabilities.
     bindE (negateDecimal totalEquity) (\<lambda>minusEquity.
     bindE (sumDecimals [ss_total assets, minusLiabilities, minusEquity]) (\<lambda>difference.
     Inr \<lparr>bs_assets = assets, bs_liabilities = liabilities, bs_equityAccounts = equityAccounts,
          bs_retainedEarnings = retainedEarnings, bs_currentEarnings = currentEarnings,
          bs_totalEquity = totalEquity, bs_difference = difference,
          bs_balanced = (difference = ''0.000000''),
          bs_functionalCurrency = bk_functionalCurrency book\<rparr>)))))))))))"

section \<open>Sums over the lines of a window\<close>

lemma sum_list_partition:
  fixes g :: "'a \<Rightarrow> int"
  assumes "distinct ks" and "\<forall>x \<in> set xs. k x \<in> set ks"
  shows "sum_list (map (\<lambda>c. sum_list (map g (filter (\<lambda>x. k x = c) xs))) ks) = sum_list (map g xs)"
  using assms(2)
proof (induction xs)
  case (Cons x xs)
  have "sum_list (map (\<lambda>c. sum_list (map g (filter (\<lambda>y. k y = c) (x # xs)))) ks) =
      sum_list (map (\<lambda>c. (if k x = c then g x else 0) + sum_list (map g (filter (\<lambda>y. k y = c) xs))) ks)"
    by (intro arg_cong [where f = sum_list] map_cong) auto
  also have "\<dots> = sum_list (map (\<lambda>c. if k x = c then g x else 0) ks) + sum_list (map g xs)"
    using Cons by (simp add: sum_list_addf)
  also have "sum_list (map (\<lambda>c. if k x = c then g x else 0) ks) = g x"
    using Cons.prems assms(1) by (simp add: sum_list_distinct_conv_sum_set)
  finally show ?case by simp
qed simp

lemma groups_total:
  assumes "groupsBalance c a rs"
  shows "sum_list (map a rs) = 0"
proof -
  have "sum_list (map a rs) = sum_list (map (\<lambda>k. sum_list (map a (filter (\<lambda>r. c r = k) rs))) (remdups (map c rs)))"
    by (rule sum_list_partition [symmetric]) auto
  also have "\<dots> = sum_list (map (\<lambda>k. 0) (remdups (map c rs)))"
    using assms by (intro arg_cong [where f = sum_list] map_cong) (auto simp: groupsBalance_def list_all_iff)
  finally show ?thesis by simp
qed

lemma sumRows_filter_split:
  "sumRows g (filter P rows) = sumRows g (filter (\<lambda>r. P r \<and> Q r) rows) + sumRows g (filter (\<lambda>r. P r \<and> \<not> Q r) rows)"
  by (induction rows) (auto simp: sumRows_def)

lemma joined_lines:
  assumes "core_ok L" and "(l, e) \<in> set (joinedRows L)"
  shows "l \<in> set (journal_lines L) \<and> e \<in> set (journal_entries L) \<and> jl_journalEntryId l = je_id e \<and>
    jl_accountingBookId l = je_accountingBookId e"
proof -
  have l: "l \<in> set (journal_lines L)" "e \<in> set (journal_entries L)" "jl_journalEntryId l = je_id e"
    using assms(2) by (auto simp: joinedRows_def)
  then obtain x where x: "x \<in> set (journal_entries L)" "je_id x = je_id e" "je_accountingBookId x = jl_accountingBookId l"
    using assms(1) by (auto simp: core_ok_def lineFits_def)
  have "x = e" by (rule distinct_key_eq [of je_id]) (use assms(1) x l in \<open>simp_all add: core_ok_def entries_ok_def\<close>)
  with l x show ?thesis by simp
qed

text \<open>Without an entity filter the lines of a window are whole entries, so they sum to zero.\<close>

lemma window_zero:
  assumes ok: "core_ok L"
  shows "sumRows (\<lambda>u. u) (windowRows L b from to None) = 0"
proof -
  let ?P = "\<lambda>(l, e). jl_accountingBookId l = b \<and> entryPredicates from to None (l, e)"
  let ?J = "\<lambda>es. concat (map (\<lambda>e. map (\<lambda>l. (l, e)) (linesOf L (je_id e))) es)"
  have "sumRows (\<lambda>u. u) (filter ?P (?J es)) = 0" if "set es \<subseteq> set (journal_entries L)" for es
    using that
  proof (induction es)
    case (Cons e es)
    have e: "e \<in> set (journal_entries L)" using Cons.prems by simp
    have book: "jl_accountingBookId l = je_accountingBookId e" if "l \<in> set (linesOf L (je_id e))" for l
    proof -
      have "(l, e) \<in> set (joinedRows L)"
        unfolding joinedRows_def set_concat set_map image_image by (rule UN_I [OF e]) (rule imageI [OF that])
      then show ?thesis using joined_lines [OF ok] by blast
    qed
    have own: "sumRows (\<lambda>u. u) (filter ?P (map (\<lambda>l. (l, e)) (linesOf L (je_id e)))) = 0"
    proof (cases "je_accountingBookId e = b \<and> (\<forall>l. entryPredicates from to None (l, e))")
      case True
      then have all: "filter ?P (map (\<lambda>l. (l, e)) (linesOf L (je_id e))) = map (\<lambda>l. (l, e)) (linesOf L (je_id e))"
        using book by (intro filter_True) auto
      have "posted_status (je_status e)"
        using True by (auto simp: entryPredicates_def IN_THE_BOOKS_def posted_status_def)
      then have "linesBalance (linesOf L (je_id e))" using ok e by (simp add: core_ok_def)
      then have "sum_list (map jl_functionalAmount (linesOf L (je_id e))) = 0"
        unfolding linesBalance_def using groups_total by blast
      then show ?thesis unfolding all by (simp add: sumRows_def comp_def)
    next
      case False
      have "\<not> ?P (l, e)" if "l \<in> set (linesOf L (je_id e))" for l
        using False book [OF that] by (auto simp: entryPredicates_def)
      then have "filter ?P (map (\<lambda>l. (l, e)) (linesOf L (je_id e))) = []" by (intro filter_False) auto
      then show ?thesis by (simp only: sumRows_def list.map sum_list.Nil)
    qed
    have "filter ?P (?J (e # es)) = filter ?P (map (\<lambda>l. (l, e)) (linesOf L (je_id e))) @ filter ?P (?J es)"
      by simp
    then show ?case using own Cons by (simp only: sumRows_def map_append sum_list_append) simp
  qed (simp add: sumRows_def)
  from this [OF subset_refl] show ?thesis by (simp only: windowRows_def joinedRows_def)
qed

section \<open>Rows and accounts\<close>

lemma window_accounts:
  assumes "core_ok L" and "(l, e) \<in> set (windowRows L b from to ent)"
  shows "\<exists>a \<in> set (ledger_accounts L). la_id a = jl_ledgerAccountId l \<and> la_accountingBookId a = b \<and> la_isPostable a"
proof -
  have "l \<in> set (journal_lines L)" "jl_accountingBookId l = b"
    using assms joined_lines [OF assms(1), of l e] by (auto simp: windowRows_def)
  then show ?thesis using assms(1) by (auto simp: core_ok_def lineFits_def)
qed

lemma sum_accountRows:
  assumes "distinct (map la_id as)" and "\<forall>(l, e) \<in> set rows. jl_ledgerAccountId l \<in> la_id ` set as"
  shows "sum_list (map (\<lambda>a. sumRows g (accountRows rows a)) as) = sumRows g rows"
proof -
  let ?k = "\<lambda>r. jl_ledgerAccountId (fst r)" and ?g = "\<lambda>r. g (jl_functionalAmount (fst r))"
  have s: "sumRows g rs = sum_list (map ?g rs)" for rs by (simp add: sumRows_def case_prod_beta')
  have "sum_list (map (\<lambda>c. sum_list (map ?g (filter (\<lambda>r. ?k r = c) rows))) (map la_id as)) = sum_list (map ?g rows)"
    by (rule sum_list_partition) (use assms in auto)
  then show ?thesis by (simp add: s accountRows_def case_prod_beta' comp_def)
qed

lemma numericText_Inr [resE]: "numericText u = Inr s \<longleftrightarrow> \<bar>u\<bar> < 10 ^ 20 \<and> s = money_text u"
  by (auto simp: numericText_def)

lemma balanceRow_Inr:
  "balanceRow rows a = Inr r \<Longrightarrow>
     r = \<lparr>tr_account = a, tr_balance = money_text (sumRows (\<lambda>u. u) (accountRows rows a)),
       tr_debit = money_text (sumRows (\<lambda>u. max u 0) (accountRows rows a)),
       tr_credit = money_text (sumRows (\<lambda>u. max (- u) 0) (accountRows rows a)),
       tr_lineCount = length (accountRows rows a)\<rparr>"
  by (auto simp: balanceRow_def Let_def numericText_Inr)

lemma mapE_map_values: "mapE f xs = Inr ys \<Longrightarrow> (\<And>x y. f x = Inr y \<Longrightarrow> h y = k x) \<Longrightarrow> map h ys = map k xs"
  by (induction xs arbitrary: ys) auto

lemma moneyUnits_minus:
  assumes "0 \<le> c"
  shows "moneyUnits (''-'' @ money_text c) = Inr (- c)"
proof (cases "c = 0")
  case True
  have "moneyUnits (''-'' @ money_text 0) = Inr 0" by code_simp
  then show ?thesis using True by simp
next
  case False
  then have "''-'' @ money_text c = money_text (- c)" using assms by (simp add: formatDecimal_def Let_def)
  then show ?thesis by simp
qed

section \<open>The trial balance\<close>

lemma sumRows_debit_credit:
  "sumRows (\<lambda>u. max u 0) rows - sumRows (\<lambda>u. max (- u) 0) rows = sumRows (\<lambda>u. u) rows"
  unfolding sumRows_def by (induction rows) (auto simp: max_def)

lemma trialBalance_Inr:
  assumes "trialBalance L b f = Inr t"
  shows "mapE (balanceRow (filterRows L b f)) (trialAccounts L b f (filterRows L b f)) = Inr (tb_rows t)"
    and "tb_difference t = money_text
      (sum_list (map (\<lambda>a. sumRows (\<lambda>u. u) (accountRows (filterRows L b f) a)) (trialAccounts L b f (filterRows L b f))))"
proof -
  let ?rows = "filterRows L b f" and ?as = "trialAccounts L b f (filterRows L b f)"
  let ?d = "\<lambda>a. sumRows (\<lambda>u. max u 0) (accountRows ?rows a)"
  let ?c = "\<lambda>a. sumRows (\<lambda>u. max (- u) 0) (accountRows ?rows a)"
  show m: "mapE (balanceRow ?rows) ?as = Inr (tb_rows t)"
    using assms by (auto simp: trialBalance_def Let_def)
  have d: "map tr_debit (tb_rows t) = map money_text (map ?d ?as)"
    unfolding map_map comp_def by (rule mapE_map_values [OF m]) (drule balanceRow_Inr, simp)
  have c: "map tr_credit (tb_rows t) = map money_text (map ?c ?as)"
    unfolding map_map comp_def by (rule mapE_map_values [OF m]) (drule balanceRow_Inr, simp)
  have nonneg: "0 \<le> ?c a" for a
    unfolding sumRows_def by (intro sum_list_nonneg) auto
  then have cpos: "0 \<le> sum_list (map ?c ?as)" by (intro sum_list_nonneg) auto
  from assms obtain td tc where "sumDecimals (map tr_debit (tb_rows t)) = Inr td"
    "sumDecimals (map tr_credit (tb_rows t)) = Inr tc" "sumDecimals [td, ''-'' @ tc] = Inr (tb_difference t)"
    by (auto simp: trialBalance_def Let_def)
  then have "sumDecimals [money_text (sum_list (map ?d ?as)), ''-'' @ money_text (sum_list (map ?c ?as))] = Inr (tb_difference t)"
    unfolding d c by (simp del: map_map)
  then have "tb_difference t = money_text (sum_list (map ?d ?as) - sum_list (map ?c ?as))"
    using moneyUnits_minus [OF cpos] by (simp add: sumDecimals_def)
  moreover have "?d a - ?c a = sumRows (\<lambda>u. u) (accountRows ?rows a)" for a
    by (rule sumRows_debit_credit)
  ultimately show "tb_difference t = money_text (sum_list (map (\<lambda>a. sumRows (\<lambda>u. u) (accountRows ?rows a)) ?as))"
    by (simp add: sum_list_subtractf [symmetric])
qed

lemma trialAccounts_distinct: "core_ok L \<Longrightarrow> distinct (map la_id (trialAccounts L b f rows))"
  by (simp add: trialAccounts_def core_ok_def accounts_ok_def distinct_map_filter)

lemma trialBalance_difference:
  assumes ok: "core_ok L" and t: "trialBalance L b f = Inr t"
    and plain: "rf_economicEntityId f = None" "rf_includeArchivedAccounts f \<noteq> Some False"
  shows "tb_difference t = money_text 0"
proof -
  let ?rows = "filterRows L b f" and ?as = "trialAccounts L b f (filterRows L b f)"
  have "\<forall>(l, e) \<in> set ?rows. jl_ledgerAccountId l \<in> la_id ` set ?as"
  proof (clarify)
    fix l e assume le: "(l, e) \<in> set ?rows"
    obtain a where a: "a \<in> set (ledger_accounts L)" "la_id a = jl_ledgerAccountId l" "la_accountingBookId a = b"
      using window_accounts [OF ok le [unfolded filterRows_def]] by blast
    have "(l, e) \<in> set (accountRows ?rows a)" using le a(2) by (simp add: accountRows_def)
    then have "a \<in> set ?as" using a plain(2) by (auto simp: trialAccounts_def)
    then show "jl_ledgerAccountId l \<in> la_id ` set ?as" using a(2) by force
  qed
  then have "sum_list (map (\<lambda>a. sumRows (\<lambda>u. u) (accountRows ?rows a)) ?as) = sumRows (\<lambda>u. u) ?rows"
    by (rule sum_accountRows [OF trialAccounts_distinct [OF ok]])
  also have "\<dots> = 0" using window_zero [OF ok] plain(1) by (simp add: filterRows_def)
  finally show ?thesis using trialBalance_Inr(2) [OF t] by simp
qed

section \<open>The statements\<close>

definition typeRows :: "ledger \<Rightarrow> account_type \<Rightarrow> ledger_row list \<Rightarrow> ledger_row list" where
  "typeRows L ty rows =
     filter (\<lambda>(l, e). \<exists>a \<in> set (ledger_accounts L). la_id a = jl_ledgerAccountId l \<and> la_accountType a = ty) rows"

lemma statementSection_total:
  assumes "statementSection ls flip = Inr s" and "map sm_amount ls = map money_text us"
  shows "ss_total s = money_text ((if flip then - 1 else 1) * sum_list us)"
proof -
  let ?k = "if flip then - 1 else (1::int)"
  let ?f = "\<lambda>l. bindE (if flip then negateDecimal (sm_amount l) else Inr (sm_amount l)) (\<lambda>s. Inr (l\<lparr>sm_amount := s\<rparr>))"
  have m: "mapE ?f ls = Inr ps \<Longrightarrow> map sm_amount ls = map money_text us \<Longrightarrow>
      map sm_amount ps = map money_text (map ((*) ?k) us)" for ps us
  proof (induction ls arbitrary: ps us)
    case (Cons l ls)
    then show ?case by (cases us) (auto split: if_splits)
  qed simp
  obtain ps where "mapE ?f ls = Inr ps" "sumDecimals (map sm_amount ps) = Inr (ss_total s)"
    using assms(1) by (auto simp: statementSection_def)
  then have "ss_total s = money_text (sum_list (map ((*) ?k) us))"
    using m [OF _ assms(2)] by (simp del: map_map)
  then show ?thesis by (simp add: sum_list_const_mult)
qed

lemma typeRows_account:
  assumes "core_ok L" and "a \<in> set (ledger_accounts L)" and "la_accountType a = ty"
  shows "accountRows (typeRows L ty rows) a = accountRows rows a"
proof -
  have "(\<exists>x \<in> set (ledger_accounts L). la_id x = la_id a \<and> la_accountType x = ty)" using assms by blast
  then show ?thesis
    unfolding accountRows_def typeRows_def filter_filter by (intro filter_cong) auto
qed

lemma sectionOf_Inr:
  assumes ok: "core_ok L" and s: "sectionOf L b ty flip from to f = Inr s"
  shows "ss_total s = money_text ((if flip then - 1 else 1) *
    sumRows (\<lambda>u. u) (typeRows L ty (windowRows L b from to (sf_economicEntityId f))))"
proof -
  let ?rows = "windowRows L b from to (sf_economicEntityId f)"
  let ?as = "filter (\<lambda>a. la_accountingBookId a = b \<and> la_accountType a = ty \<and> la_isPostable a \<and>
            (sf_includeEmptyAccounts f \<noteq> Some True \<longrightarrow> accountRows ?rows a \<noteq> [])) (ledger_accounts L)"
  let ?v = "\<lambda>rows a. sumRows (\<lambda>u. u) (accountRows rows a)"
  obtain ls where ls: "balancesByAccount L b ty from to f = Inr ls" "statementSection ls flip = Inr s"
    using s by (auto simp: sectionOf_def)
  have "map sm_amount ls = map (\<lambda>a. money_text (?v ?rows a)) ?as"
    by (rule mapE_map_values [OF ls(1) [unfolded balancesByAccount_def Let_def]]) (auto simp: numericText_Inr)
  then have am: "map sm_amount ls = map money_text (map (?v ?rows) ?as)" by simp
  have "map (?v ?rows) ?as = map (?v (typeRows L ty ?rows)) ?as"
    using typeRows_account [OF ok] by (intro map_cong) auto
  also have "sum_list \<dots> = sumRows (\<lambda>u. u) (typeRows L ty ?rows)"
  proof (rule sum_accountRows)
    show "distinct (map la_id ?as)" using ok by (simp add: core_ok_def accounts_ok_def distinct_map_filter)
    show "\<forall>(l, e) \<in> set (typeRows L ty ?rows). jl_ledgerAccountId l \<in> la_id ` set ?as"
    proof (clarify)
      fix l e assume "(l, e) \<in> set (typeRows L ty ?rows)"
      then obtain x where le: "(l, e) \<in> set ?rows" and
        x: "x \<in> set (ledger_accounts L)" "la_id x = jl_ledgerAccountId l" "la_accountType x = ty"
        by (auto simp: typeRows_def)
      obtain a where a: "a \<in> set (ledger_accounts L)" "la_id a = jl_ledgerAccountId l" "la_accountingBookId a = b"
        "la_isPostable a" using window_accounts [OF ok le] by blast
      have "x = a" by (rule distinct_key_eq [of la_id]) (use ok x a in \<open>simp_all add: core_ok_def accounts_ok_def\<close>)
      moreover have "(l, e) \<in> set (accountRows ?rows a)" using le a(2) by (simp add: accountRows_def)
      ultimately have "a \<in> set ?as" using a x(3) by auto
      then show "jl_ledgerAccountId l \<in> la_id ` set ?as" using a(2) by force
    qed
  qed
  finally show ?thesis using statementSection_total [OF ls(2) am] by simp
qed

definition profitRows :: "ledger \<Rightarrow> ledger_row list \<Rightarrow> ledger_row list" where
  "profitRows L rows = filter (\<lambda>(l, e).
     list_ex (\<lambda>a. la_id a = jl_ledgerAccountId l \<and> (la_accountType a = Revenue \<or> la_accountType a = Expense))
       (ledger_accounts L)) rows"

lemma netIncomeBetween_Inr:
  "netIncomeBetween L b from to ent = Inr s \<Longrightarrow>
     s = money_text (- sumRows (\<lambda>u. u) (profitRows L (windowRows L b from (Some to) ent)))"
  by (auto simp: netIncomeBetween_def numericText_Inr profitRows_def)

lemma type_unique:
  assumes "core_ok L" and "a \<in> set (ledger_accounts L)" and "c \<in> set (ledger_accounts L)" and "la_id a = la_id c"
  shows "a = c"
  by (rule distinct_key_eq [of la_id]) (use assms in \<open>simp_all add: core_ok_def accounts_ok_def\<close>)

lemma sumRows_cong_disjoint:
  assumes "\<And>r. r \<in> set rows \<Longrightarrow> P r \<longleftrightarrow> Q r \<or> R r" and "\<And>r. r \<in> set rows \<Longrightarrow> \<not> (Q r \<and> R r)"
  shows "sumRows g (filter P rows) = sumRows g (filter Q rows) + sumRows g (filter R rows)"
  using assms by (induction rows) (auto simp: sumRows_def)

lemma profitRows_types:
  assumes ok: "core_ok L"
  shows "sumRows g (profitRows L rows) = sumRows g (typeRows L Revenue rows) + sumRows g (typeRows L Expense rows)"
  unfolding profitRows_def typeRows_def
proof (rule sumRows_cong_disjoint, goal_cases)
  case (1 r)
  show ?case by (auto simp: list_ex_iff split: prod.splits)
next
  case (2 r)
  have "False" if "a \<in> set (ledger_accounts L)" "c \<in> set (ledger_accounts L)" "la_id a = la_id c"
    "la_accountType a = Revenue" "la_accountType c = Expense" for a c
    using type_unique [OF ok that(1-3)] that(4,5) by simp
  then show ?case by (cases r) (auto, metis)
qed

lemma rows_by_type:
  assumes ok: "core_ok L" and rows: "\<forall>(l, e) \<in> set rows. \<exists>a \<in> set (ledger_accounts L). la_id a = jl_ledgerAccountId l"
  shows "sumRows g rows = sumRows g (typeRows L Asset rows) + sumRows g (typeRows L Liability rows) +
    sumRows g (typeRows L Equity rows) + sumRows g (typeRows L Revenue rows) + sumRows g (typeRows L Expense rows)"
  using rows
proof (induction rows)
  case (Cons r rows)
  obtain l e where r: "r = (l, e)" by (cases r)
  then obtain a where a: "a \<in> set (ledger_accounts L)" "la_id a = jl_ledgerAccountId l" using Cons.prems by auto
  have t: "(\<exists>x \<in> set (ledger_accounts L). la_id x = jl_ledgerAccountId l \<and> la_accountType x = ty) \<longleftrightarrow> la_accountType a = ty" for ty
  proof
    assume "\<exists>x \<in> set (ledger_accounts L). la_id x = jl_ledgerAccountId l \<and> la_accountType x = ty"
    then obtain x where "x \<in> set (ledger_accounts L)" "la_id x = jl_ledgerAccountId l" "la_accountType x = ty" by blast
    moreover from this have "x = a" using type_unique [OF ok _ a(1), of x] a(2) by simp
    ultimately show "la_accountType a = ty" by simp
  qed (use a in blast)
  have "sumRows g (typeRows L ty (r # rows)) =
      (if la_accountType a = ty then g (jl_functionalAmount l) else 0) + sumRows g (typeRows L ty rows)" for ty
    by (simp add: typeRows_def sumRows_def r t)
  then show ?case
    using Cons by (cases "la_accountType a") (simp_all add: r sumRows_def)
qed (simp add: typeRows_def sumRows_def)


lemma sumRows_append [simp]: "sumRows g (xs @ ys) = sumRows g xs + sumRows g ys"
  by (simp add: sumRows_def)

lemma windowRows_split:
  assumes ok: "core_ok L" and book: "bookDatesOk book"
    and y: "y = startOf book (fiscalYearFor asOf (bk_fiscalYearStartMonth book) (bk_fiscalYearStartDay book))"
  shows "sumRows g (filter P (windowRows L b None (Some asOf) ent)) =
    sumRows g (filter P (windowRows L b None (Some (prevDay y)) ent)) +
    sumRows g (filter P (windowRows L b (Some y) (Some asOf) ent))"
proof -
  have le: "y \<le> asOf" using fiscalYearFor_range [OF refl] by (simp add: y)
  have v: "validDate y" unfolding y by (rule startOf_valid [OF book])
  have d: "je_entryDate e \<le> prevDay y \<longleftrightarrow> je_entryDate e < y" if "(l, e) \<in> set (joinedRows L)" for l e
    using joined_lines [OF ok that] ok v by (intro le_prevDay_iff) (auto simp: core_ok_def entries_ok_def)
  show ?thesis
    unfolding windowRows_def filter_filter
  proof (rule sumRows_cong_disjoint, goal_cases)
    case (1 r)
    obtain l e where r: "r = (l, e)" by (cases r)
    show ?case
      using d [of l e] 1 le by (cases "je_entryDate e < y") (auto simp: r entryPredicates_def)
  next
    case (2 r)
    obtain l e where r: "r = (l, e)" by (cases r)
    show ?case using d [of l e] 2 by (auto simp: r entryPredicates_def)
  qed
qed

lemma balanceSheet_difference:
  assumes ok: "core_ok L" and s: "balanceSheet L b asOf f = Inr s" and plain: "sf_economicEntityId f = None"
  shows "bs_difference s = money_text 0 \<and> bs_balanced s"
proof -
  from s obtain book assets liabilities equity retained current minusL minusE where
    book: "loadBook L b = Inr book" and
    sec: "sectionOf L b Asset False None (Some asOf) f = Inr assets"
      "sectionOf L b Liability True None (Some asOf) f = Inr liabilities"
      "sectionOf L b Equity True None (Some asOf) f = Inr equity" and
    inc: "netIncomeBetween L b None (prevDay (startOf book (fiscalYearFor asOf (bk_fiscalYearStartMonth book) (bk_fiscalYearStartDay book)))) None = Inr retained"
      "netIncomeBetween L b (Some (startOf book (fiscalYearFor asOf (bk_fiscalYearStartMonth book) (bk_fiscalYearStartDay book)))) asOf None = Inr current" and
    tot: "sumDecimals [ss_total equity, retained, current] = Inr (bs_totalEquity s)"
      "negateDecimal (ss_total liabilities) = Inr minusL" "negateDecimal (bs_totalEquity s) = Inr minusE"
      "sumDecimals [ss_total assets, minusL, minusE] = Inr (bs_difference s)" and
    bal: "bs_balanced s = (bs_difference s = ''0.000000'')"
    by (auto simp: balanceSheet_def Let_def plain)
  let ?y = "startOf book (fiscalYearFor asOf (bk_fiscalYearStartMonth book) (bk_fiscalYearStartDay book))"
  let ?rows = "windowRows L b None (Some asOf) None"
  let ?t = "\<lambda>ty. sumRows (\<lambda>u. u) (typeRows L ty ?rows)"
  have "book \<in> set (accounting_books L)" using book by (auto simp: loadBook_def dest: find_SomeD)
  then have dates: "bookDatesOk book" using ok by (simp add: core_ok_def books_ok_def)
  note sec' = sectionOf_Inr [OF ok sec(1)] sectionOf_Inr [OF ok sec(2)] sectionOf_Inr [OF ok sec(3)]
  note inc' = netIncomeBetween_Inr [OF inc(1)] netIncomeBetween_Inr [OF inc(2)]
  have profit: "sumRows (\<lambda>u. u) (profitRows L (windowRows L b None (Some (prevDay ?y)) None)) +
      sumRows (\<lambda>u. u) (profitRows L (windowRows L b (Some ?y) (Some asOf) None)) = ?t Revenue + ?t Expense"
    unfolding profitRows_types [OF ok, symmetric] profitRows_def
    by (rule windowRows_split [OF ok dates refl, symmetric])
  have types: "sumRows (\<lambda>u. u) ?rows = ?t Asset + ?t Liability + ?t Equity + ?t Revenue + ?t Expense"
    by (rule rows_by_type [OF ok]) (use window_accounts [OF ok] in blast)
  have zero: "sumRows (\<lambda>u. u) ?rows = 0" by (rule window_zero [OF ok])
  have te: "bs_totalEquity s = money_text (- ?t Equity - ?t Revenue - ?t Expense)"
    using tot(1) profit unfolding sec'(3) inc' by (simp add: sumDecimals_def plain algebra_simps)
  have "bs_difference s = money_text (?t Asset + ?t Liability + ?t Equity + ?t Revenue + ?t Expense)"
    using tot(2-4) unfolding sec'(1,2) te by (auto simp: sumDecimals_def plain algebra_simps)
  then have "bs_difference s = money_text 0" using types zero by simp
  moreover have "money_text 0 = ''0.000000''" by code_simp
  ultimately show ?thesis using bal by simp
qed

section \<open>What the reports promise\<close>

text \<open>C6. The trial balance is in balance: over a reachable ledger, a trial balance that is not
  restricted to an entity and does not hide archived accounts reports the difference zero, whatever
  its window.\<close>

theorem trialBalance_zero:
  assumes "reachable L" and "trialBalance L b f = Inr t"
    and "rf_economicEntityId f = None" and "rf_includeArchivedAccounts f \<noteq> Some False"
  shows "tb_difference t = ''0.000000''"
proof -
  have "core_ok L" using reachable_ok [OF assms(1)] by (simp add: ledger_ok_def)
  then have "tb_difference t = money_text 0" by (rule trialBalance_difference [OF _ assms(2-4)])
  also have "\<dots> = ''0.000000''" by code_simp
  finally show ?thesis .
qed

text \<open>C37. The balance of one account is its row of the trial balance: for every row the trial
  balance reports, the account query with the same filter returns exactly that row.\<close>

theorem accountBalance_is_trial_row:
  assumes "reachable L" and "trialBalance L b f = Inr t" and "row \<in> set (tb_rows t)"
  shows "\<exists>r. accountBalance L b (Some (la_id (tr_account row))) None f = Inr r \<and> ab_row r = row \<and>
    ab_functionalCurrency r = tb_functionalCurrency t"
proof -
  have core: "core_ok L" using reachable_ok [OF assms(1)] by (simp add: ledger_ok_def)
  obtain a where a: "a \<in> set (trialAccounts L b f (filterRows L b f))" "balanceRow (filterRows L b f) a = Inr row"
    using mapE_mem [OF trialBalance_Inr(1) [OF assms(2)] assms(3)] by blast
  have acc: "tr_account row = a" using balanceRow_Inr [OF a(2)] by simp
  have mem: "a \<in> set (ledger_accounts L)" "la_accountingBookId a = b" using a(1) by (auto simp: trialAccounts_def)
  then obtain c where c: "find (\<lambda>x. la_accountingBookId x = b \<and> la_id x = la_id a) (ledger_accounts L) = Some c"
    by (cases "find (\<lambda>x. la_accountingBookId x = b \<and> la_id x = la_id a) (ledger_accounts L)") (auto simp: find_None_iff)
  have "c = a" by (rule type_unique [OF core]) (use find_SomeD [OF c] mem in auto)
  moreover have "tb_functionalCurrency t = bookCurrency L b" using assms(2) by (auto simp: trialBalance_def Let_def)
  ultimately show ?thesis using c a(2) by (simp add: accountBalance_def accountPredicate_def acc Let_def)
qed

text \<open>C11. The balance sheet balances: over a reachable ledger, a balance sheet of a whole book is
  in balance on every date, in the middle of a year too, although the year is never closed into
  retained earnings.\<close>

theorem balanceSheet_balances:
  assumes "reachable L" and "balanceSheet L b asOf f = Inr s" and "sf_economicEntityId f = None"
  shows "bs_balanced s \<and> bs_difference s = ''0.000000''"
proof -
  have "core_ok L" using reachable_ok [OF assms(1)] by (simp add: ledger_ok_def)
  then have "bs_difference s = money_text 0 \<and> bs_balanced s" by (rule balanceSheet_difference [OF _ assms(2,3)])
  moreover have "money_text 0 = ''0.000000''" by code_simp
  ultimately show ?thesis by simp
qed

text \<open>C36. The two statements agree: the current earnings of a balance sheet are the net income of
  the income statement from the first day of the fiscal year to the same date.\<close>

theorem current_earnings_are_net_income:
  assumes "reachable L" and "balanceSheet L b asOf f = Inr s" and "book \<in> set (accounting_books L)" and "bk_id book = b"
    and "incomeStatement L b (fiscalYearStartDate (fiscalYearFor asOf (bk_fiscalYearStartMonth book) (bk_fiscalYearStartDay book))
      (bk_fiscalYearStartMonth book) (bk_fiscalYearStartDay book)) asOf g = Inr t"
    and "sf_economicEntityId g = sf_economicEntityId f"
  shows "is_netIncome t = bs_currentEarnings s"
proof -
  have ok: "core_ok L" using reachable_ok [OF assms(1)] by (simp add: ledger_ok_def)
  let ?y = "fiscalYearStartDate (fiscalYearFor asOf (bk_fiscalYearStartMonth book) (bk_fiscalYearStartDay book))
      (bk_fiscalYearStartMonth book) (bk_fiscalYearStartDay book)"
  let ?rows = "windowRows L b (Some ?y) (Some asOf) (sf_economicEntityId f)"
  have load: "loadBook L b = Inr book"
  proof -
    obtain c where c: "find (\<lambda>x. bk_id x = b) (accounting_books L) = Some c"
      using assms(3,4) by (cases "find (\<lambda>x. bk_id x = b) (accounting_books L)") (auto simp: find_None_iff)
    have "c = book" by (rule distinct_key_eq [of bk_id "accounting_books L"])
      (use ok assms(3,4) find_SomeD [OF c] in \<open>simp_all add: core_ok_def books_ok_def\<close>)
    then show ?thesis using c by (simp add: loadBook_def)
  qed
  then have "netIncomeBetween L b (Some ?y) asOf (sf_economicEntityId f) = Inr (bs_currentEarnings s)"
    using assms(2) by (auto simp: balanceSheet_def Let_def)
  from netIncomeBetween_Inr [OF this]
  have cur: "bs_currentEarnings s = money_text (- (sumRows (\<lambda>u. u) (typeRows L Revenue ?rows) + sumRows (\<lambda>u. u) (typeRows L Expense ?rows)))"
    by (simp add: profitRows_types [OF ok])
  obtain revenue expense cost where sec: "sectionOf L b Revenue True (Some ?y) (Some asOf) g = Inr revenue"
    "sectionOf L b Expense False (Some ?y) (Some asOf) g = Inr expense" and
    net: "negateDecimal (ss_total expense) = Inr cost" "sumDecimals [ss_total revenue, cost] = Inr (is_netIncome t)"
    using assms(5) by (auto simp: incomeStatement_def Let_def)
  show ?thesis
    using net unfolding sectionOf_Inr [OF ok sec(1)] sectionOf_Inr [OF ok sec(2)] assms(6) cur
    by (auto simp: sumDecimals_def algebra_simps)
qed

section \<open>Runs and witnesses\<close>

definition wholeBook :: statement_filter where
  "wholeBook = \<lparr>sf_economicEntityId = None, sf_includeEmptyAccounts = None\<rparr>"

definition allLines :: report_filter where
  "allLines = \<lparr>rf_from = None, rf_to = None, rf_economicEntityId = None, rf_includeArchivedAccounts = None,
     rf_includeEmptyAccounts = None\<rparr>"

text \<open>An entry whose two lines belong to different entities, in a book that requires entities.\<close>

definition entityLedger :: ledger where
  "entityLedger = serveAll
     [(demoEnv ''a'', CreateBook demoTemplate (demoBook\<lparr>cb_requiresEntityDimension := True\<rparr>)),
      (demoEnv ''p'', GenerateFiscalYear demoYear),
      (demoEnv ''e'', PostEntry ((demoEntry ''k'' (Date 2026 1 15))\<lparr>en_lines :=
         [(demoLine ''bank'' ''10'')\<lparr>ln_economicEntityId := Some ''u''\<rparr>,
          (demoLine ''sales'' ''-10'')\<lparr>ln_economicEntityId := Some ''w''\<rparr>]\<rparr>))]
     (emptyLedger\<lparr>economic_entities := [\<lparr>ee_id = ''u'', ee_name = ''u'', ee_parentEntityId = None\<rparr>, \<lparr>ee_id = ''w'', ee_name = ''w'', ee_parentEntityId = None\<rparr>]\<rparr>)"

lemma entityLedger_reachable: "reachable entityLedger"
  unfolding entityLedger_def
  by (rule reachable_serveAll, rule reachable.start) (simp add: foreignChange_def)

lemma entityLedger_trial:
  "map_sum id (\<lambda>t. (tb_totalDebit t, map (\<lambda>r. (la_id (tr_account r), tr_balance r)) (tb_rows t)))
     (trialBalance entityLedger ''a'' allLines) =
   Inr (''10.000000'', [(''xxxa'', ''10.000000''), (''xxxxa'', ''-10.000000'')])"
  by code_simp

definition sheetSummary :: "balance_sheet acc \<Rightarrow> (string \<times> string \<times> string \<times> bool) acc" where
  "sheetSummary = map_sum id (\<lambda>s. (ss_total (bs_assets s), bs_totalEquity s, bs_difference s, bs_balanced s))"

lemma entityLedger_sheet:
  "sheetSummary (balanceSheet entityLedger ''a'' (Date 2026 1 31) wholeBook) =
     Inr (''10.000000'', ''10.000000'', ''0.000000'', True)"
  by code_simp

lemma entityLedger_entity_sheet:
  "sheetSummary (balanceSheet entityLedger ''a'' (Date 2026 1 31) (wholeBook\<lparr>sf_economicEntityId := Some ''u''\<rparr>)) =
     Inr (''10.000000'', ''0.000000'', ''10.000000'', False)"
  by code_simp

lemma entityLedger_books:
  "map (\<lambda>b. (bk_id b, bk_fiscalYearStartMonth b, bk_fiscalYearStartDay b, bk_requiresEntityDimension b)) (accounting_books entityLedger) =
     [(''a'', 1, 1, True)]"
  by code_simp

lemma entityLedger_income:
  "map_sum id is_netIncome (incomeStatement entityLedger ''a'' (fiscalYearStartDate (fiscalYearFor (Date 2026 1 31) 1 1) 1 1)
     (Date 2026 1 31) wholeBook) = Inr ''10.000000''"
  by code_simp


theorem trialBalance_zero_witness:
  "\<exists>t. trialBalance entityLedger ''a'' allLines = Inr t \<and> tb_totalDebit t = ''10.000000'' \<and> tb_difference t = ''0.000000''"
proof -
  obtain t where t: "trialBalance entityLedger ''a'' allLines = Inr t" "tb_totalDebit t = ''10.000000''"
    using entityLedger_trial by (cases "trialBalance entityLedger ''a'' allLines") auto
  show ?thesis using trialBalance_zero [OF entityLedger_reachable t(1)] t by (simp add: allLines_def)
qed

theorem accountBalance_is_trial_row_witness:
  "\<exists>r. accountBalance entityLedger ''a'' (Some ''xxxxa'') None allLines = Inr r \<and> tr_balance (ab_row r) = ''-10.000000''"
proof -
  obtain t where t: "trialBalance entityLedger ''a'' allLines = Inr t"
    "map (\<lambda>r. (la_id (tr_account r), tr_balance r)) (tb_rows t) = [(''xxxa'', ''10.000000''), (''xxxxa'', ''-10.000000'')]"
    using entityLedger_trial by (cases "trialBalance entityLedger ''a'' allLines") auto
  obtain x row where "tb_rows t = [x, row]" "la_id (tr_account row) = ''xxxxa''" "tr_balance row = ''-10.000000''"
    using t(2) by (auto simp: map_eq_Cons_conv)
  then show ?thesis using accountBalance_is_trial_row [OF entityLedger_reachable t(1), of row] by auto
qed

theorem balanceSheet_balances_witness:
  "\<exists>s. balanceSheet entityLedger ''a'' (Date 2026 1 31) wholeBook = Inr s \<and> ss_total (bs_assets s) = ''10.000000'' \<and> bs_balanced s"
proof -
  obtain s where s: "balanceSheet entityLedger ''a'' (Date 2026 1 31) wholeBook = Inr s" "ss_total (bs_assets s) = ''10.000000''"
    using entityLedger_sheet by (cases "balanceSheet entityLedger ''a'' (Date 2026 1 31) wholeBook") (auto simp: sheetSummary_def)
  show ?thesis using balanceSheet_balances [OF entityLedger_reachable s(1)] s by (simp add: wholeBook_def)
qed

theorem current_earnings_are_net_income_witness:
  "\<exists>s t. balanceSheet entityLedger ''a'' (Date 2026 1 31) wholeBook = Inr s \<and>
     incomeStatement entityLedger ''a'' (fiscalYearStartDate (fiscalYearFor (Date 2026 1 31) 1 1) 1 1) (Date 2026 1 31) wholeBook = Inr t \<and>
     is_netIncome t = ''10.000000'' \<and> is_netIncome t = bs_currentEarnings s"
proof -
  obtain s where s: "balanceSheet entityLedger ''a'' (Date 2026 1 31) wholeBook = Inr s"
    using entityLedger_sheet by (cases "balanceSheet entityLedger ''a'' (Date 2026 1 31) wholeBook") (auto simp: sheetSummary_def)
  obtain b where b: "b \<in> set (accounting_books entityLedger)" "bk_id b = ''a''" "bk_fiscalYearStartMonth b = 1"
    "bk_fiscalYearStartDay b = 1" using entityLedger_books by (auto simp: map_eq_Cons_conv)
  let ?i = "incomeStatement entityLedger ''a'' (fiscalYearStartDate (fiscalYearFor (Date 2026 1 31) 1 1) 1 1) (Date 2026 1 31) wholeBook"
  obtain t where t: "?i = Inr t" "is_netIncome t = ''10.000000''"
    using entityLedger_income by (cases ?i) auto
  have "is_netIncome t = bs_currentEarnings s"
    by (rule current_earnings_are_net_income [OF entityLedger_reachable s b(1,2) _ refl]) (simp only: b t(1))
  then show ?thesis using s t by blast
qed

end
