(* ===== verification/Source_Facts.thy ===== *)
theory Source_Facts
  imports Periods
begin

text \<open>
  \<^verbatim>\<open>source-facts.ts\<close>: the operational rows a posting rule may read, normalized into one
  \<open>source_fact\<close>. \<open>operations\<close> holds the tables of other packages the reader selects from, in
  insertion order. An instant is a UTC date and the microseconds into that day, so the cast
  \<^verbatim>\<open>(x at time zone 'UTC')::date\<close> is its first component. Placeholders are a map with the keys
  the fact sets.
\<close>

section \<open>The rows that are read\<close>

type_synonym instant = "date \<times> int"

record order_row =
  or_id :: uuid
  or_provider :: string
  or_channel :: string
  or_externalOrderId :: string
  or_externalOrderNumber :: "string option"
  or_economicEntityId :: "uuid option"
  or_status :: string
  or_currency :: string
  or_subtotalAmount :: int
  or_shippingAmount :: int
  or_discountAmount :: int
  or_taxAmount :: int
  or_feeAmount :: int
  or_refundedAmount :: int
  or_totalAmount :: int
  or_placedAt :: instant
  or_duplicateOfOrderId :: "uuid option"

record order_fee_row =
  of_id :: uuid
  of_orderId :: uuid
  of_feeDirection :: string
  of_feeType :: string
  of_currency :: string
  of_amount :: int
  of_chargedAt :: "instant option"

record order_refund_row =
  rf_id :: uuid
  rf_orderId :: uuid
  rf_status :: string
  rf_currency :: string
  rf_amount :: int
  rf_refundedAt :: "instant option"

record expense_allocation_row =
  xa_id :: uuid
  xa_expenseId :: uuid
  xa_lineNumber :: int
  xa_economicEntityId :: "uuid option"
  xa_ledgerAccountId :: "uuid option"
  xa_dimensionValueId :: "uuid option"
  xa_amount :: int

record expense_fact_row =
  xf_id :: uuid
  xf_referenceCode :: string
  xf_category :: string
  xf_status :: string
  xf_currency :: string
  xf_amount :: int
  xf_taxAmount :: int
  xf_expenseDate :: date
  xf_payeeName :: "string option"
  xf_economicEntityId :: "uuid option"
  xf_accountingBookId :: "uuid option"
  xf_acquisitionCostId :: "uuid option"

record acquisition_row =
  aq_id :: uuid
  aq_economicEntityId :: "uuid option"
  aq_sourceKind :: string
  aq_status :: string
  aq_referenceCode :: string
  aq_vendorName :: "string option"
  aq_currency :: string
  aq_acquiredAt :: instant

record acquisition_cost_row =
  ac_id :: uuid
  ac_acquisitionId :: uuid
  ac_costType :: string
  ac_capitalize :: bool
  ac_vendorName :: "string option"
  ac_currency :: string
  ac_amount :: int
  ac_incurredAt :: "instant option"

record inventory_item_row =
  ii_id :: uuid
  ii_itemCode :: string
  ii_acquisitionId :: "uuid option"
  ii_economicEntityId :: "uuid option"
  ii_currency :: string
  ii_quantity :: int
  ii_landedCostAmount :: int

record inventory_movement_row =
  mv_id :: uuid
  mv_inventoryItemId :: uuid
  mv_movementKind :: string
  mv_quantity :: int
  mv_orderLineId :: "uuid option"
  mv_reversesMovementId :: "uuid option"
  mv_occurredAt :: instant

record operations =
  orders :: "order_row list"
  order_lines :: "(uuid \<times> uuid) list"
  order_fees :: "order_fee_row list"
  order_refunds :: "order_refund_row list"
  expense_facts :: "expense_fact_row list"
  expense_allocations :: "expense_allocation_row list"
  acquisitions :: "acquisition_row list"
  acquisition_costs :: "acquisition_cost_row list"
  inventory_items :: "inventory_item_row list"
  inventory_movements :: "inventory_movement_row list"

section \<open>What a fact type carries\<close>

datatype fact_type =
  OrderFact | OrderFeeFact | OrderRefundFact | ExpenseFact | AcquisitionCostFact | InventoryMovementFact

fun factTypeText :: "fact_type \<Rightarrow> string" where
  "factTypeText OrderFact = ''order''"
| "factTypeText OrderFeeFact = ''order_fee''"
| "factTypeText OrderRefundFact = ''order_refund''"
| "factTypeText ExpenseFact = ''expense''"
| "factTypeText AcquisitionCostFact = ''acquisition_cost''"
| "factTypeText InventoryMovementFact = ''inventory_movement''"

definition READABLE_SOURCE_FACT_TYPES :: "fact_type list" where
  "READABLE_SOURCE_FACT_TYPES =
     [OrderFact, OrderFeeFact, OrderRefundFact, ExpenseFact, AcquisitionCostFact, InventoryMovementFact]"

definition readableSourceFactType :: "string \<Rightarrow> fact_type option" where
  "readableSourceFactType value = find (\<lambda>t. factTypeText t = value) READABLE_SOURCE_FACT_TYPES"

fun AMOUNT_SOURCES_BY_FACT_TYPE :: "fact_type \<Rightarrow> amount_source list" where
  "AMOUNT_SOURCES_BY_FACT_TYPE OrderFact =
     [Total, Subtotal, Shipping, Discount, Tax, Fee, Refund, Net, Remainder]"
| "AMOUNT_SOURCES_BY_FACT_TYPE OrderFeeFact = [Fee, Total, Net, Remainder]"
| "AMOUNT_SOURCES_BY_FACT_TYPE OrderRefundFact = [Refund, Total, Net, Remainder]"
| "AMOUNT_SOURCES_BY_FACT_TYPE ExpenseFact = [Total, Tax, Net, Remainder]"
| "AMOUNT_SOURCES_BY_FACT_TYPE AcquisitionCostFact = [Total, Net, Remainder]"
| "AMOUNT_SOURCES_BY_FACT_TYPE InventoryMovementFact = [CostBasis, QuantityTimesBasis, Total, Remainder]"

datatype fact_predicate =
  ByProvider | ByChannel | ByEconomicEntity | ByCurrency | ByAmount | ByFeeType | ByFeeDirection
| ByMovementKind | BySourceKind | ByExpenseCategory | ByCapitalize

fun PREDICATES_BY_FACT_TYPE :: "fact_type \<Rightarrow> fact_predicate list" where
  "PREDICATES_BY_FACT_TYPE OrderFact = [ByProvider, ByChannel, ByEconomicEntity, ByCurrency, ByAmount]"
| "PREDICATES_BY_FACT_TYPE OrderFeeFact =
     [ByProvider, ByChannel, ByEconomicEntity, ByCurrency, ByAmount, ByFeeType, ByFeeDirection]"
| "PREDICATES_BY_FACT_TYPE OrderRefundFact = [ByProvider, ByChannel, ByEconomicEntity, ByCurrency, ByAmount]"
| "PREDICATES_BY_FACT_TYPE ExpenseFact = [ByEconomicEntity, ByCurrency, ByAmount, ByExpenseCategory]"
| "PREDICATES_BY_FACT_TYPE AcquisitionCostFact =
     [ByEconomicEntity, ByCurrency, ByAmount, ByCapitalize, BySourceKind]"
| "PREDICATES_BY_FACT_TYPE InventoryMovementFact =
     [ByEconomicEntity, ByCurrency, ByAmount, ByMovementKind, BySourceKind]"

fun PLACEHOLDERS_BY_FACT_TYPE :: "fact_type \<Rightarrow> string list" where
  "PLACEHOLDERS_BY_FACT_TYPE OrderFact = [''external_order_number'', ''provider'', ''channel'']"
| "PLACEHOLDERS_BY_FACT_TYPE OrderFeeFact =
     [''external_order_number'', ''fee_type'', ''provider'', ''channel'']"
| "PLACEHOLDERS_BY_FACT_TYPE OrderRefundFact = [''external_order_number'', ''provider'', ''channel'']"
| "PLACEHOLDERS_BY_FACT_TYPE ExpenseFact = [''reference_code'', ''payee_name'', ''category'']"
| "PLACEHOLDERS_BY_FACT_TYPE AcquisitionCostFact = [''reference_code'', ''cost_type'', ''vendor_name'']"
| "PLACEHOLDERS_BY_FACT_TYPE InventoryMovementFact = [''item_code'', ''movement_kind'', ''reference_code'']"

section \<open>The fact\<close>

text \<open>An attribute that a fact does not set is \<open>None\<close>, like one that is null: neither matches.\<close>

record fact_attributes =
  fa_provider :: "string option"
  fa_channel :: "string option"
  fa_feeType :: "string option"
  fa_feeDirection :: "string option"
  fa_movementKind :: "string option"
  fa_sourceKind :: "string option"
  fa_expenseCategory :: "string option"
  fa_capitalize :: "bool option"

definition noAttributes :: fact_attributes where
  "noAttributes = \<lparr>fa_provider = None, fa_channel = None, fa_feeType = None, fa_feeDirection = None,
     fa_movementKind = None, fa_sourceKind = None, fa_expenseCategory = None, fa_capitalize = None\<rparr>"

record fact_allocation =
  al_ledgerAccountId :: "uuid option"
  al_amount :: string
  al_economicEntityId :: "uuid option"
  al_dimensionValueId :: "uuid option"

record source_fact =
  sf_sourceFactType :: fact_type
  sf_sourceFactId :: uuid
  sf_accountingDate :: date
  sf_factEntityId :: "uuid option"
  sf_currency :: string
  sf_amounts :: "amount_source \<Rightarrow> string option"
  sf_attributes :: fact_attributes
  sf_matchAmount :: string
  sf_placeholders :: "(string \<times> string) list"
  sf_description :: string
  sf_relatedFacts :: "(string \<times> uuid \<times> source_role) list"
  sf_accountingBookIdOverride :: "uuid option"
  sf_allocations :: "fact_allocation list"
  sf_ineligibleReason :: "string option"

fun amountsOf :: "(amount_source \<times> string) list \<Rightarrow> amount_source \<Rightarrow> string option" where
  "amountsOf ps s = map_of ps s"

definition orBlank :: "string option \<Rightarrow> string" where
  "orBlank s = (case s of None \<Rightarrow> [] | Some x \<Rightarrow> x)"

text \<open>The em dash of a description, in UTF-8.\<close>

definition EM_DASH :: string where
  "EM_DASH = [CHR 0xE2, CHR 0x80, CHR 0x94]"

section \<open>Eligibility\<close>

definition UNPOSTABLE_LOT_STATUSES :: "string list" where
  "UNPOSTABLE_LOT_STATUSES = [''draft'', ''void'', ''cancelled'']"

definition acquisitionCostIneligibility :: "string option \<Rightarrow> bool \<Rightarrow> string \<Rightarrow> string \<Rightarrow> string option" where
  "acquisitionCostIneligibility lotStatus capitalize currency lotCurrency =
     (if (case lotStatus of None \<Rightarrow> False | Some s \<Rightarrow> List.member UNPOSTABLE_LOT_STATUSES s)
      then Some (''the acquisition is '' @ orBlank lotStatus @ '': only a recorded lot's costs post'')
      else if capitalize \<and> toUpperCase currency \<noteq> toUpperCase lotCurrency
      then Some (''this capitalized cost is in '' @ currency @ '' while the lot is in '' @ lotCurrency @
        ''. @loxep/inventory excludes a foreign-currency capitalized cost from landed cost rather than '' @
        ''converting it, so no item's basis carries this money and no depletion would ever relieve it '' @
        EM_DASH @ '' posting it to inventory would create an asset that only grows.'')
      else None)"

definition movementIneligibility :: "string \<Rightarrow> string option \<Rightarrow> string option" where
  "movementIneligibility movementKind reversedKind =
     (if movementKind = ''depletion_sale'' then None
      else if movementKind = ''reversal'' then
        (if reversedKind = Some ''depletion_sale'' then None
         else Some (''this reversal undoes a '' @ (case reversedKind of None \<Rightarrow> ''missing'' | Some k \<Rightarrow> k) @
           '' movement, which posted nothing: reversing it in the ledger would invent an entry '' @
           ''to cancel an entry that never existed''))
      else if movementKind = ''receipt'' \<or> movementKind = ''found'' then
        Some (''an intake movement carries no dollar of its own: the lot's capitalized acquisition_costs '' @
          ''are what debit inventory, and posting the receipt as well would count the same purchase twice'')
      else if movementKind = ''transfer_in'' \<or> movementKind = ''transfer_out'' then
        Some ''a transfer moves stock between locations and changes no value''
      else if movementKind = ''return_in'' then
        Some (''a returned unit's basis is not a Phase 5 decision: nothing in the product writes a return_in '' @
          ''movement yet, and whether the restored asset carries the depleted basis or a re-valuation has '' @
          ''to be stated before it can post'')
      else Some (''a '' @ movementKind @ '' movement writes stock off, and the value of a write-off is a '' @
          ''valuation judgement Phase 5 deliberately does not form '' @ EM_DASH @
          '' it is a named backlog item, not an invented loss account''))"

section \<open>The readers\<close>

definition readOrder :: "operations \<Rightarrow> uuid \<Rightarrow> source_fact option acc" where
  "readOrder D i =
     (case find (\<lambda>o'. or_id o' = i) (orders D) of
        None \<Rightarrow> Inr None
      | Some row \<Rightarrow>
          let total = money_text (or_totalAmount row);
              refund = money_text (or_refundedAmount row);
              externalNumber = (case or_externalOrderNumber row of None \<Rightarrow> or_externalOrderId row | Some n \<Rightarrow> n)
          in bindE (subtractDecimals total refund) (\<lambda>net.
          Inr (Some \<lparr>sf_sourceFactType = OrderFact, sf_sourceFactId = i,
            sf_accountingDate = fst (or_placedAt row), sf_factEntityId = or_economicEntityId row,
            sf_currency = or_currency row,
            sf_amounts = amountsOf [(Total, total), (Subtotal, money_text (or_subtotalAmount row)),
              (Shipping, money_text (or_shippingAmount row)), (Discount, money_text (or_discountAmount row)),
              (Tax, money_text (or_taxAmount row)), (Fee, money_text (or_feeAmount row)),
              (Refund, refund), (Net, net)],
            sf_attributes = noAttributes\<lparr>fa_provider := Some (or_provider row), fa_channel := Some (or_channel row)\<rparr>,
            sf_matchAmount = total,
            sf_placeholders = [(''external_order_number'', externalNumber), (''provider'', or_provider row),
              (''channel'', or_channel row)],
            sf_description = js_trim (or_provider row @ '' sale '' @ externalNumber),
            sf_relatedFacts = [], sf_accountingBookIdOverride = None, sf_allocations = [],
            sf_ineligibleReason = (if or_status row = ''cancelled'' 
              then Some ''the order is cancelled: nothing was earned to recognize'' else None)\<rparr>)))"

definition orderNumberText :: "order_row \<Rightarrow> string" where
  "orderNumberText o' = (case or_externalOrderNumber o' of None \<Rightarrow> or_externalOrderId o' | Some n \<Rightarrow> n)"

definition readOrderFee :: "operations \<Rightarrow> uuid \<Rightarrow> source_fact option acc" where
  "readOrderFee D i =
     (case find (\<lambda>(f, o'). of_id f = i)
          (concat (map (\<lambda>f. map (\<lambda>o'. (f, o')) (filter (\<lambda>o'. or_id o' = of_orderId f) (orders D))) (order_fees D))) of
        None \<Rightarrow> Inr None
      | Some (row, o') \<Rightarrow>
          let amount = money_text (of_amount row) in
          Inr (Some \<lparr>sf_sourceFactType = OrderFeeFact, sf_sourceFactId = i,
            sf_accountingDate = fst (case of_chargedAt row of None \<Rightarrow> or_placedAt o' | Some t \<Rightarrow> t),
            sf_factEntityId = or_economicEntityId o', sf_currency = of_currency row,
            sf_amounts = amountsOf [(Fee, amount), (Total, amount), (Net, amount)],
            sf_attributes = noAttributes\<lparr>fa_provider := Some (or_provider o'), fa_channel := Some (or_channel o'),
              fa_feeType := Some (of_feeType row), fa_feeDirection := Some (of_feeDirection row)\<rparr>,
            sf_matchAmount = amount,
            sf_placeholders = [(''external_order_number'', orderNumberText o'), (''fee_type'', of_feeType row),
              (''provider'', or_provider o'), (''channel'', or_channel o')],
            sf_description = js_trim (of_feeType row @ '' fee on '' @ orderNumberText o'),
            sf_relatedFacts = [(''order'', of_orderId row, Evidence)],
            sf_accountingBookIdOverride = None, sf_allocations = [], sf_ineligibleReason = None\<rparr>))"

definition readOrderRefund :: "operations \<Rightarrow> uuid \<Rightarrow> source_fact option acc" where
  "readOrderRefund D i =
     (case find (\<lambda>(r, o'). rf_id r = i)
          (concat (map (\<lambda>r. map (\<lambda>o'. (r, o')) (filter (\<lambda>o'. or_id o' = rf_orderId r) (orders D))) (order_refunds D))) of
        None \<Rightarrow> Inr None
      | Some (row, o') \<Rightarrow>
          let amount = money_text (rf_amount row) in
          Inr (Some \<lparr>sf_sourceFactType = OrderRefundFact, sf_sourceFactId = i,
            sf_accountingDate = fst (case rf_refundedAt row of None \<Rightarrow> or_placedAt o' | Some t \<Rightarrow> t),
            sf_factEntityId = or_economicEntityId o', sf_currency = rf_currency row,
            sf_amounts = amountsOf [(Refund, amount), (Total, amount), (Net, amount)],
            sf_attributes = noAttributes\<lparr>fa_provider := Some (or_provider o'), fa_channel := Some (or_channel o')\<rparr>,
            sf_matchAmount = amount,
            sf_placeholders = [(''external_order_number'', orderNumberText o'), (''provider'', or_provider o'),
              (''channel'', or_channel o')],
            sf_description = js_trim (''Refund on '' @ orderNumberText o'),
            sf_relatedFacts = [(''order'', rf_orderId row, Evidence)],
            sf_accountingBookIdOverride = None, sf_allocations = [],
            sf_ineligibleReason =
              (if rf_status row = ''pending'' \<or> rf_status row = ''failed'' \<or> rf_status row = ''cancelled''
               then Some (''the refund is '' @ rf_status row @ '': no money has moved'') else None)\<rparr>))"

definition readExpense :: "operations \<Rightarrow> uuid \<Rightarrow> source_fact option acc" where
  "readExpense D i =
     (case find (\<lambda>x. xf_id x = i) (expense_facts D) of
        None \<Rightarrow> Inr None
      | Some row \<Rightarrow>
          let amount = money_text (xf_amount row);
              tax = money_text (xf_taxAmount row);
              allocated = sort_key xa_lineNumber
                (filter (\<lambda>a. xa_expenseId a = i \<and> xa_ledgerAccountId a \<noteq> None) (expense_allocations D))
          in bindE (subtractDecimals amount tax) (\<lambda>net.
          Inr (Some \<lparr>sf_sourceFactType = ExpenseFact, sf_sourceFactId = i,
            sf_accountingDate = xf_expenseDate row, sf_factEntityId = xf_economicEntityId row,
            sf_currency = xf_currency row,
            sf_amounts = amountsOf [(Total, amount), (Tax, tax), (Net, net)],
            sf_attributes = noAttributes\<lparr>fa_expenseCategory := Some (xf_category row)\<rparr>,
            sf_matchAmount = amount,
            sf_placeholders = [(''reference_code'', xf_referenceCode row), (''payee_name'', orBlank (xf_payeeName row)),
              (''category'', xf_category row)],
            sf_description = js_trim (xf_category row @ '' '' @ EM_DASH @ '' '' @
              (case xf_payeeName row of None \<Rightarrow> xf_referenceCode row | Some p \<Rightarrow> p)),
            sf_relatedFacts = [], sf_accountingBookIdOverride = xf_accountingBookId row,
            sf_allocations = map (\<lambda>a. \<lparr>al_ledgerAccountId = xa_ledgerAccountId a, al_amount = money_text (xa_amount a),
              al_economicEntityId = xa_economicEntityId a, al_dimensionValueId = xa_dimensionValueId a\<rparr>) allocated,
            sf_ineligibleReason =
              (if xf_status row = ''draft'' \<or> xf_status row = ''void'' 
               then Some (''the expense is '' @ xf_status row @ '': only a recorded expense posts'') else None)\<rparr>)))"

definition readAcquisitionCost :: "operations \<Rightarrow> uuid \<Rightarrow> source_fact option acc" where
  "readAcquisitionCost D i =
     (case find (\<lambda>(c, a). ac_id c = i)
          (concat (map (\<lambda>c. map (\<lambda>a. (c, a)) (filter (\<lambda>a. aq_id a = ac_acquisitionId c) (acquisitions D)))
            (acquisition_costs D))) of
        None \<Rightarrow> Inr None
      | Some (row, lot) \<Rightarrow>
          let amount = money_text (ac_amount row);
              vendor = orBlank (case ac_vendorName row of None \<Rightarrow> aq_vendorName lot | Some v \<Rightarrow> Some v);
              superseded = find (\<lambda>x. xf_acquisitionCostId x = Some i) (expense_facts D)
          in Inr (Some \<lparr>sf_sourceFactType = AcquisitionCostFact, sf_sourceFactId = i,
            sf_accountingDate = fst (case ac_incurredAt row of None \<Rightarrow> aq_acquiredAt lot | Some t \<Rightarrow> t),
            sf_factEntityId = aq_economicEntityId lot, sf_currency = ac_currency row,
            sf_amounts = amountsOf [(Total, amount), (Net, amount)],
            sf_attributes = noAttributes\<lparr>fa_capitalize := Some (ac_capitalize row), fa_sourceKind := Some (aq_sourceKind lot)\<rparr>,
            sf_matchAmount = amount,
            sf_placeholders = [(''reference_code'', aq_referenceCode lot), (''cost_type'', ac_costType row),
              (''vendor_name'', vendor)],
            sf_description = js_trim (ac_costType row @ '' on '' @ aq_referenceCode lot),
            sf_relatedFacts = (case superseded of None \<Rightarrow> [] | Some x \<Rightarrow> [(''expense'', xf_id x, Evidence)]),
            sf_accountingBookIdOverride = None, sf_allocations = [],
            sf_ineligibleReason = acquisitionCostIneligibility (Some (aq_status lot)) (ac_capitalize row)
              (ac_currency row) (aq_currency lot)\<rparr>))"

section \<open>The basis of a movement\<close>

text \<open>The total order \<^verbatim>\<open>(occurred_at, id)\<close>; a uuid compares as its bytes.\<close>

fun lexLess :: "string \<Rightarrow> string \<Rightarrow> bool" where
  "lexLess _ [] \<longleftrightarrow> False"
| "lexLess [] (_ # _) \<longleftrightarrow> True"
| "lexLess (a # s) (b # t) \<longleftrightarrow> (of_char a :: nat) < of_char b \<or> (a = b \<and> lexLess s t)"

definition earlier :: "inventory_movement_row \<Rightarrow> inventory_movement_row \<Rightarrow> bool" where
  "earlier p m \<longleftrightarrow>
     (let (d, t) = mv_occurredAt p; (d', t') = mv_occurredAt m in
      d < d' \<or> (d = d' \<and> t < t') \<or> (d = d' \<and> t = t' \<and> lexLess (mv_id p) (mv_id m)))"

definition priorDepleted :: "operations \<Rightarrow> inventory_movement_row \<Rightarrow> string acc" where
  "priorDepleted D m =
     (let u = sum_list (map (\<lambda>p. \<bar>mv_quantity p\<bar>)
           (filter (\<lambda>p. mv_inventoryItemId p = mv_inventoryItemId m \<and> mv_movementKind p = ''depletion_sale'' \<and> earlier p m)
             (inventory_movements D)))
      in bindE (assertE (\<bar>u\<bar> < 10 ^ 20) (DatabaseError NumericOutOfRange)) (\<lambda>_. Inr (money_text u)))"

definition movementBasis :: "string \<Rightarrow> string \<Rightarrow> string \<Rightarrow> string \<Rightarrow> string acc" where
  "movementBasis landedCost priorQuantity quantity itemQuantity =
     bindE (sumDecimals [priorQuantity, quantity]) (\<lambda>upTo.
     bindE (proRataShare landedCost upTo itemQuantity) (\<lambda>a.
     bindE (proRataShare landedCost priorQuantity itemQuantity) (\<lambda>b.
     subtractDecimals a b)))"

definition readInventoryMovement :: "operations \<Rightarrow> uuid \<Rightarrow> source_fact option acc" where
  "readInventoryMovement D i =
     (case find (\<lambda>(m, item). mv_id m = i)
          (concat (map (\<lambda>m. map (\<lambda>item. (m, item))
            (filter (\<lambda>item. ii_id item = mv_inventoryItemId m) (inventory_items D))) (inventory_movements D))) of
        None \<Rightarrow> Inr None
      | Some (row, item) \<Rightarrow>
          let reversed = (case mv_reversesMovementId row of None \<Rightarrow> None
                | Some r \<Rightarrow> find (\<lambda>m. mv_id m = r) (inventory_movements D));
              lot = (case ii_acquisitionId item of None \<Rightarrow> None | Some a \<Rightarrow> find (\<lambda>x. aq_id x = a) (acquisitions D));
              orderId = (case mv_orderLineId row of None \<Rightarrow> None
                | Some l \<Rightarrow> map_option snd (find (\<lambda>(x, o'). x = l) (order_lines D)));
              measured = (case (mv_movementKind row = ''reversal'', reversed) of (True, Some r) \<Rightarrow> r | _ \<Rightarrow> row)
          in bindE (priorDepleted D row) (\<lambda>ownPrior.
          bindE (case reversed of None \<Rightarrow> Inr ownPrior | Some r \<Rightarrow> priorDepleted D r) (\<lambda>reversedPrior.
          let priorQuantity = (if measured = row then ownPrior else reversedPrior) in
          bindE (absDecimal (money_text (mv_quantity measured))) (\<lambda>quantity.
          bindE (movementBasis (money_text (ii_landedCostAmount item)) priorQuantity quantity (money_text (ii_quantity item))) (\<lambda>basis.
          Inr (Some \<lparr>sf_sourceFactType = InventoryMovementFact, sf_sourceFactId = i,
            sf_accountingDate = fst (mv_occurredAt row), sf_factEntityId = ii_economicEntityId item,
            sf_currency = ii_currency item,
            sf_amounts = amountsOf [(CostBasis, basis), (QuantityTimesBasis, basis), (Total, basis)],
            sf_attributes = noAttributes\<lparr>fa_movementKind := Some (mv_movementKind row),
              fa_sourceKind := map_option aq_sourceKind lot\<rparr>,
            sf_matchAmount = basis,
            sf_placeholders = [(''item_code'', ii_itemCode item), (''movement_kind'', mv_movementKind row),
              (''reference_code'', orBlank (map_option aq_referenceCode lot))],
            sf_description = (if mv_movementKind row = ''reversal''
              then js_trim (''Reversed depletion of '' @ ii_itemCode item)
              else js_trim (''Cost of goods sold '' @ EM_DASH @ '' '' @ ii_itemCode item)),
            sf_relatedFacts = (case orderId of None \<Rightarrow> [] | Some o' \<Rightarrow> [(''order'', o', Evidence)]),
            sf_accountingBookIdOverride = None, sf_allocations = [],
            sf_ineligibleReason = movementIneligibility (mv_movementKind row) (map_option mv_movementKind reversed)\<rparr>))))))"

fun readFactOf :: "operations \<Rightarrow> fact_type \<Rightarrow> uuid \<Rightarrow> source_fact option acc" where
  "readFactOf D OrderFact i = readOrder D i"
| "readFactOf D OrderFeeFact i = readOrderFee D i"
| "readFactOf D OrderRefundFact i = readOrderRefund D i"
| "readFactOf D ExpenseFact i = readExpense D i"
| "readFactOf D AcquisitionCostFact i = readAcquisitionCost D i"
| "readFactOf D InventoryMovementFact i = readInventoryMovement D i"

definition readFact :: "operations \<Rightarrow> string \<Rightarrow> uuid \<Rightarrow> source_fact option acc" where
  "readFact D sourceFactType sourceFactId =
     (case readableSourceFactType sourceFactType of
        None \<Rightarrow> Inl AccountingValidationError
      | Some t \<Rightarrow> readFactOf D t sourceFactId)"

section \<open>The backlog\<close>

fun factIds :: "operations \<Rightarrow> fact_type \<Rightarrow> uuid list" where
  "factIds D OrderFact = map or_id (orders D)"
| "factIds D OrderFeeFact = map of_id (order_fees D)"
| "factIds D OrderRefundFact = map rf_id (order_refunds D)"
| "factIds D ExpenseFact = map xf_id (filter (\<lambda>x. xf_status x \<noteq> ''void'') (expense_facts D))"
| "factIds D AcquisitionCostFact = map ac_id (acquisition_costs D)"
| "factIds D InventoryMovementFact =
     map mv_id (filter (\<lambda>m. mv_movementKind m = ''depletion_sale'' \<or> mv_movementKind m = ''reversal'') (inventory_movements D))"

text \<open>The rows come ordered by type, then by id.\<close>

fun insertById :: "string \<times> uuid \<Rightarrow> (string \<times> uuid) list \<Rightarrow> (string \<times> uuid) list" where
  "insertById x [] = [x]"
| "insertById x (y # ys) =
     (if lexLess (fst y) (fst x) \<or> (fst y = fst x \<and> lexLess (snd y) (snd x)) then y # insertById x ys else x # y # ys)"

definition unpostedFacts :: "operations \<Rightarrow> ledger \<Rightarrow> fact_type list \<Rightarrow> int \<Rightarrow> (string \<times> uuid) list" where
  "unpostedFacts D L types limit =
     (let union = concat (map (\<lambda>t. map (\<lambda>i. (factTypeText t, i)) (factIds D t)) types);
          unposted = filter (\<lambda>(t, i). \<not> list_ex (\<lambda>e. je_sourceFactType e = Some t \<and> je_sourceFactId e = Some i \<and>
              posted_status (je_status e)) (journal_entries L)) union
      in take (nat (max 1 limit)) (foldr insertById unposted []))"

end
