(* ===== verification/Posting_Rules.thy ===== *)
theory Posting_Rules
  imports Source_Facts Journal
begin

text \<open>
  \<^verbatim>\<open>posting-rules.ts\<close>: rules, their immutable versions and the line templates. A rule's text is
  checked when it is saved (\<open>validatePostingRuleTemplate\<close>), a version is minted and never edited,
  and \<open>resolveForFact\<close> picks the first rule, by priority and then code, whose predicates hold.
  The order of codes is the database's collation, so it is an argument \<open>rank\<close>. A field with a
  default in the schema is given its default by the caller; sentences are not modelled.
\<close>

section \<open>Input\<close>

record rule_line_input =
  li_lineNumber :: "int option"
  li_accountSystemKey :: "string option"
  li_ledgerAccountId :: "uuid option"
  li_amountSource :: amount_source
  li_amountMultiplier :: string
  li_inheritEntity :: bool
  li_dimensionValueId :: "uuid option"
  li_descriptionTemplate :: "string option"

record predicate_input =
  pi_effectiveFrom :: "date option"
  pi_effectiveTo :: "date option"
  pi_matchProvider :: "string option"
  pi_matchChannel :: "string option"
  pi_matchEconomicEntityId :: "uuid option"
  pi_matchFeeType :: "string option"
  pi_matchFeeDirection :: "string option"
  pi_matchMovementKind :: "string option"
  pi_matchSourceKind :: "string option"
  pi_matchExpenseCategory :: "string option"
  pi_matchCapitalize :: "bool option"
  pi_matchCurrency :: "string option"
  pi_matchMinAmount :: "string option"
  pi_matchMaxAmount :: "string option"
  pi_note :: "string option"

record create_rule_input =
  cr_code :: string
  cr_name :: string
  cr_sourceFactType :: string
  cr_accountingBookId :: "uuid option"
  cr_priority :: int
  cr_description :: "string option"
  cr_predicates :: predicate_input
  cr_lines :: "rule_line_input list"
  cr_activate :: bool
  cr_createdByUserId :: "string option"
  cr_requestId :: "string option"

record add_version_input =
  av_postingRuleId :: uuid
  av_predicates :: predicate_input
  av_lines :: "rule_line_input list"
  av_activate :: bool
  av_createdByUserId :: "string option"
  av_requestId :: "string option"

definition decimalOpt :: "string option \<Rightarrow> bool" where
  "decimalOpt s \<longleftrightarrow> (case s of None \<Rightarrow> True | Some x \<Rightarrow> DECIMAL_STRING x)"

definition parseRuleLine :: "rule_line_input \<Rightarrow> rule_line_input acc" where
  "parseRuleLine l =
     bindE (assertE (case li_lineNumber l of None \<Rightarrow> True | Some n \<Rightarrow> 0 < n) AccountingValidationError) (\<lambda>_.
     bindE (trimMinOpt (li_accountSystemKey l)) (\<lambda>key.
     bindE (assertE (DECIMAL_STRING (li_amountMultiplier l)) AccountingValidationError) (\<lambda>_.
     bindE (trimMinOpt (li_descriptionTemplate l)) (\<lambda>template.
     bindE (assertE ((li_accountSystemKey l = None) \<noteq> (li_ledgerAccountId l = None)) AccountingValidationError) (\<lambda>_.
       Inr (l\<lparr>li_accountSystemKey := key, li_descriptionTemplate := template\<rparr>))))))"

definition parsePredicates :: "predicate_input \<Rightarrow> predicate_input acc" where
  "parsePredicates p =
     bindE (trimMinOpt (pi_matchProvider p)) (\<lambda>provider.
     bindE (trimMinOpt (pi_matchChannel p)) (\<lambda>channel.
     bindE (trimMinOpt (pi_matchFeeType p)) (\<lambda>feeType.
     bindE (assertE (case pi_matchFeeDirection p of None \<Rightarrow> True
        | Some d \<Rightarrow> d = ''seller_charge'' \<or> d = ''buyer_surcharge'') AccountingValidationError) (\<lambda>_.
     bindE (trimMinOpt (pi_matchMovementKind p)) (\<lambda>movementKind.
     bindE (trimMinOpt (pi_matchSourceKind p)) (\<lambda>sourceKind.
     bindE (trimMinOpt (pi_matchExpenseCategory p)) (\<lambda>category.
     bindE (assertE (case pi_matchCurrency p of None \<Rightarrow> True | Some c \<Rightarrow> isAlpha3 c) AccountingValidationError) (\<lambda>_.
     bindE (assertE (decimalOpt (pi_matchMinAmount p) \<and> decimalOpt (pi_matchMaxAmount p)) AccountingValidationError) (\<lambda>_.
     bindE (trimMinOpt (pi_note p)) (\<lambda>note.
       Inr (p\<lparr>pi_matchProvider := provider, pi_matchChannel := channel, pi_matchFeeType := feeType,
         pi_matchMovementKind := movementKind, pi_matchSourceKind := sourceKind,
         pi_matchExpenseCategory := category, pi_note := note\<rparr>)))))))))))"

definition parseCreateRule :: "create_rule_input \<Rightarrow> create_rule_input acc" where
  "parseCreateRule i =
     bindE (parsePredicates (cr_predicates i)) (\<lambda>predicates.
     bindE (trimMin (cr_code i)) (\<lambda>code.
     bindE (assertE (length code \<le> 120) AccountingValidationError) (\<lambda>_.
     bindE (trimMin (cr_name i)) (\<lambda>name.
     bindE (trimMin (cr_sourceFactType i)) (\<lambda>factType.
     bindE (trimMinOpt (cr_description i)) (\<lambda>description.
     bindE (mapE parseRuleLine (cr_lines i)) (\<lambda>ls.
     bindE (assertE (2 \<le> length ls \<and> minOne (cr_createdByUserId i) \<and> minOne (cr_requestId i))
       AccountingValidationError) (\<lambda>_.
       Inr (i\<lparr>cr_predicates := predicates, cr_code := code, cr_name := name, cr_sourceFactType := factType,
         cr_description := description, cr_lines := ls\<rparr>)))))))))"

definition parseAddVersion :: "add_version_input \<Rightarrow> add_version_input acc" where
  "parseAddVersion i =
     bindE (parsePredicates (av_predicates i)) (\<lambda>predicates.
     bindE (mapE parseRuleLine (av_lines i)) (\<lambda>ls.
     bindE (assertE (2 \<le> length ls \<and> minOne (av_createdByUserId i) \<and> minOne (av_requestId i))
       AccountingValidationError) (\<lambda>_.
       Inr (i\<lparr>av_predicates := predicates, av_lines := ls\<rparr>))))"

definition predicatesUsed :: "predicate_input \<Rightarrow> fact_predicate list" where
  "predicatesUsed v = concat
     [if pi_matchProvider v \<noteq> None then [ByProvider] else [],
      if pi_matchChannel v \<noteq> None then [ByChannel] else [],
      if pi_matchEconomicEntityId v \<noteq> None then [ByEconomicEntity] else [],
      if pi_matchFeeType v \<noteq> None then [ByFeeType] else [],
      if pi_matchFeeDirection v \<noteq> None then [ByFeeDirection] else [],
      if pi_matchMovementKind v \<noteq> None then [ByMovementKind] else [],
      if pi_matchSourceKind v \<noteq> None then [BySourceKind] else [],
      if pi_matchExpenseCategory v \<noteq> None then [ByExpenseCategory] else [],
      if pi_matchCapitalize v \<noteq> None then [ByCapitalize] else [],
      if pi_matchCurrency v \<noteq> None then [ByCurrency] else [],
      if pi_matchMinAmount v \<noteq> None \<or> pi_matchMaxAmount v \<noteq> None then [ByAmount] else []]"

section \<open>Templates\<close>

definition isToken :: "char \<Rightarrow> bool" where
  "isToken c \<longleftrightarrow> isLowerAlnum c \<or> c = CHR ''_''"

text \<open>The match of \<^verbatim>\<open>/\{([a-z0-9_]+)\}/\<close> at the start of a string: the name and what follows.\<close>

definition tokenAt :: "string \<Rightarrow> (string \<times> string) option" where
  "tokenAt s =
     (case s of [] \<Rightarrow> None
      | c # t \<Rightarrow>
          let name = takeWhile isToken t; rest = dropWhile isToken t in
          if c = CHR ''{'' \<and> name \<noteq> [] \<and> startsWith ''}'' rest then Some (name, drop 1 rest) else None)"

lemma tokenAt_shorter: "tokenAt s = Some (n, r) \<Longrightarrow> length r < length s"
proof (cases s)
  case (Cons c t)
  assume a: "tokenAt s = Some (n, r)"
  have "length (dropWhile isToken t) \<le> length t" by (rule length_dropWhile_le)
  then show ?thesis using a by (auto simp: tokenAt_def Let_def Cons split: if_splits)
qed (simp add: tokenAt_def)

function pieces :: "string \<Rightarrow> (char + string) list" where
  "pieces s =
     (case s of [] \<Rightarrow> []
      | c # t \<Rightarrow>
          (case tokenAt s of
             Some (name, rest) \<Rightarrow> Inr name # pieces rest
           | None \<Rightarrow> Inl c # pieces t))"
  by auto
termination by (relation "measure length") (auto dest: tokenAt_shorter)

declare pieces.simps [simp del]

definition placeholdersIn :: "string \<Rightarrow> string list" where
  "placeholdersIn template = concat (map (\<lambda>p. case p of Inr name \<Rightarrow> [name] | Inl _ \<Rightarrow> []) (pieces template))"

definition renderTemplate :: "string \<Rightarrow> (string \<times> string) list \<Rightarrow> string" where
  "renderTemplate template placeholders =
     js_trim (concat (map (\<lambda>p. case p of Inl c \<Rightarrow> [c] | Inr name \<Rightarrow> orBlank (map_of placeholders name)) (pieces template)))"

text \<open>The basis a fact type's named amounts decompose into.\<close>

fun amountBasis :: "fact_type \<Rightarrow> amount_source \<Rightarrow> (string \<times> int) list option" where
  "amountBasis OrderFact Total = Some [(''subtotal'', 1), (''shipping'', 1), (''tax'', 1), (''discount'', - 1)]"
| "amountBasis OrderFact Subtotal = Some [(''subtotal'', 1)]"
| "amountBasis OrderFact Shipping = Some [(''shipping'', 1)]"
| "amountBasis OrderFact Tax = Some [(''tax'', 1)]"
| "amountBasis OrderFact Discount = Some [(''discount'', 1)]"
| "amountBasis OrderFact Fee = Some [(''fee'', 1)]"
| "amountBasis OrderFact Refund = Some [(''refund'', 1)]"
| "amountBasis OrderFact Net =
     Some [(''subtotal'', 1), (''shipping'', 1), (''tax'', 1), (''discount'', - 1), (''refund'', - 1)]"
| "amountBasis OrderFeeFact Fee = Some [(''fee'', 1)]"
| "amountBasis OrderFeeFact Total = Some [(''fee'', 1)]"
| "amountBasis OrderFeeFact Net = Some [(''fee'', 1)]"
| "amountBasis OrderRefundFact Refund = Some [(''refund'', 1)]"
| "amountBasis OrderRefundFact Total = Some [(''refund'', 1)]"
| "amountBasis OrderRefundFact Net = Some [(''refund'', 1)]"
| "amountBasis ExpenseFact Total = Some [(''net'', 1), (''tax'', 1)]"
| "amountBasis ExpenseFact Tax = Some [(''tax'', 1)]"
| "amountBasis ExpenseFact Net = Some [(''net'', 1)]"
| "amountBasis AcquisitionCostFact Total = Some [(''amount'', 1)]"
| "amountBasis AcquisitionCostFact Net = Some [(''amount'', 1)]"
| "amountBasis InventoryMovementFact CostBasis = Some [(''basis'', 1)]"
| "amountBasis InventoryMovementFact QuantityTimesBasis = Some [(''basis'', 1)]"
| "amountBasis InventoryMovementFact Total = Some [(''basis'', 1)]"
| "amountBasis _ _ = None"

definition templateTerms :: "fact_type \<Rightarrow> rule_line_input \<Rightarrow> (string \<times> int) list acc" where
  "templateTerms t l =
     (case amountBasis t (li_amountSource l) of
        None \<Rightarrow> Inr []
      | Some d \<Rightarrow> bindE (moneyUnits (li_amountMultiplier l)) (\<lambda>m. Inr (map (\<lambda>(c, k). (c, k * m)) d)))"

definition coefficientOf :: "(string \<times> int) list \<Rightarrow> string \<Rightarrow> int" where
  "coefficientOf terms c = sum_list (map snd (filter (\<lambda>(x, _). x = c) terms))"

definition assertTemplateBalances :: "fact_type \<Rightarrow> rule_line_input list \<Rightarrow> unit acc" where
  "assertTemplateBalances t ls =
     bindE (mapE (templateTerms t) ls) (\<lambda>terms.
     assertE (list_all (\<lambda>(c, _). coefficientOf (concat terms) c = 0) (concat terms)) AccountingValidationError)"

definition lineNumberOf :: "nat \<Rightarrow> rule_line_input \<Rightarrow> int" where
  "lineNumberOf index l = (case li_lineNumber l of None \<Rightarrow> int index + 1 | Some n \<Rightarrow> n)"

text \<open>The loop over the lines; it returns the number of \<^verbatim>\<open>remainder\<close> lines.\<close>

fun validateLines :: "fact_type \<Rightarrow> nat \<Rightarrow> int list \<Rightarrow> nat \<Rightarrow> rule_line_input list \<Rightarrow> nat acc" where
  "validateLines t index seen remainderCount [] = Inr remainderCount"
| "validateLines t index seen remainderCount (l # ls) =
     bindE (assertE (\<not> List.member seen (lineNumberOf index l)) AccountingValidationError) (\<lambda>_.
     bindE (assertE (case li_descriptionTemplate l of None \<Rightarrow> True
        | Some template \<Rightarrow> list_all (List.member (PLACEHOLDERS_BY_FACT_TYPE t)) (placeholdersIn template))
        AccountingValidationError) (\<lambda>_.
     if li_amountSource l = Remainder then
       bindE (assertE (remainderCount = 0) AccountingValidationError) (\<lambda>_.
       validateLines t (Suc index) (lineNumberOf index l # seen) (Suc remainderCount) ls)
     else
       bindE (assertE (List.member (AMOUNT_SOURCES_BY_FACT_TYPE t) (li_amountSource l)) AccountingValidationError) (\<lambda>_.
       bindE (assertE (case li_accountSystemKey l of None \<Rightarrow> True | Some k \<Rightarrow> List.member LEDGER_SYSTEM_KEYS k)
         AccountingValidationError) (\<lambda>_.
       validateLines t (Suc index) (lineNumberOf index l # seen) remainderCount ls))))"

definition validatePostingRuleTemplate :: "string \<Rightarrow> rule_line_input list \<Rightarrow> fact_predicate list \<Rightarrow> unit acc" where
  "validatePostingRuleTemplate sourceFactType ls predicates =
     bindE (fromOption AccountingValidationError (readableSourceFactType sourceFactType)) (\<lambda>t.
     bindE (assertE (list_all (List.member (PREDICATES_BY_FACT_TYPE t)) predicates) AccountingValidationError) (\<lambda>_.
     bindE (validateLines t 0 [] 0 ls) (\<lambda>remainderCount.
     if remainderCount = 0 then assertTemplateBalances t ls else Inr ())))"

section \<open>Writes\<close>

definition loadRule :: "ledger \<Rightarrow> uuid \<Rightarrow> posting_rule acc" where
  "loadRule L i = fromOption AccountingNotFoundError (find (\<lambda>r. pr_id r = i) (posting_rules L))"

definition int32 :: "int \<Rightarrow> bool" where
  "int32 n \<longleftrightarrow> - 2147483648 \<le> n \<and> n \<le> 2147483647"

definition insertRuleRow :: "posting_rule \<Rightarrow> ledger \<Rightarrow> ledger acc" where
  "insertRuleRow r L =
     bindE (assertE (int32 (pr_priority r)) (DatabaseError NumericOutOfRange)) (\<lambda>_.
     bindE (assertE (\<not> list_ex (\<lambda>x. pr_id x = pr_id r \<or> pr_code x = pr_code r) (posting_rules L))
       (DatabaseError UniqueViolation)) (\<lambda>_.
     bindE (assertE (case pr_accountingBookId r of None \<Rightarrow> True | Some b \<Rightarrow> bookExists L b)
       (DatabaseError ForeignKeyViolation)) (\<lambda>_.
     Inr (L\<lparr>posting_rules := posting_rules L @ [r]\<rparr>))))"

definition rangeOk :: "('a \<Rightarrow> 'a \<Rightarrow> bool) \<Rightarrow> 'a option \<Rightarrow> 'a option \<Rightarrow> bool" where
  "rangeOk le from to \<longleftrightarrow> (case (from, to) of (Some a, Some b) \<Rightarrow> le a b | _ \<Rightarrow> True)"

definition insertVersionRow :: "posting_rule_version \<Rightarrow> ledger \<Rightarrow> ledger acc" where
  "insertVersionRow v L =
     bindE (assertE ((case rv_effectiveFrom v of None \<Rightarrow> True | Some d \<Rightarrow> validDate d) \<and>
         (case rv_effectiveTo v of None \<Rightarrow> True | Some d \<Rightarrow> validDate d))
       (DatabaseError DatetimeFieldOverflow)) (\<lambda>_.
     bindE (assertE (int32 (rv_version v)) (DatabaseError NumericOutOfRange)) (\<lambda>_.
     bindE (assertE (0 < rv_version v \<and> rangeOk (\<le>) (rv_effectiveFrom v) (rv_effectiveTo v) \<and>
         rangeOk (\<le>) (rv_matchMinAmount v) (rv_matchMaxAmount v)) (DatabaseError CheckViolation)) (\<lambda>_.
     bindE (assertE (\<not> list_ex (\<lambda>x. rv_id x = rv_id v \<or>
         (rv_postingRuleId x = rv_postingRuleId v \<and> rv_version x = rv_version v)) (posting_rule_versions L))
       (DatabaseError UniqueViolation)) (\<lambda>_.
     bindE (assertE (list_ex (\<lambda>r. pr_id r = rv_postingRuleId v) (posting_rules L) \<and>
         (case rv_matchEconomicEntityId v of None \<Rightarrow> True | Some i \<Rightarrow> list_ex (\<lambda>x. ee_id x = i) (economic_entities L)))
       (DatabaseError ForeignKeyViolation)) (\<lambda>_.
     Inr (L\<lparr>posting_rule_versions := posting_rule_versions L @ [v]\<rparr>))))))"

text \<open>With trigger \<^verbatim>\<open>loxep_posting_rule_lines_immutable\<close>: a version an entry references takes no line.\<close>

definition insertRuleLineRow :: "posting_rule_line \<Rightarrow> ledger \<Rightarrow> ledger acc" where
  "insertRuleLineRow l L =
     bindE (assertE (\<not> list_ex (\<lambda>e. je_postingRuleVersionId e = Some (rl_postingRuleVersionId l)) (journal_entries L))
       (DatabaseError RaiseException)) (\<lambda>_.
     bindE (assertE (int32 (rl_lineNumber l)) (DatabaseError NumericOutOfRange)) (\<lambda>_.
     bindE (assertE ((rl_accountSystemKey l = None) \<noteq> (rl_ledgerAccountId l = None) \<and> rl_amountMultiplier l \<noteq> 0 \<and>
         0 < rl_lineNumber l) (DatabaseError CheckViolation)) (\<lambda>_.
     bindE (assertE (\<not> list_ex (\<lambda>x. rl_id x = rl_id l \<or>
         (rl_postingRuleVersionId x = rl_postingRuleVersionId l \<and>
           (rl_lineNumber x = rl_lineNumber l \<or> (rl_amountSource x = Remainder \<and> rl_amountSource l = Remainder))))
         (posting_rule_lines L)) (DatabaseError UniqueViolation)) (\<lambda>_.
     bindE (assertE (list_ex (\<lambda>v. rv_id v = rl_postingRuleVersionId l) (posting_rule_versions L) \<and>
         (case rl_ledgerAccountId l of None \<Rightarrow> True | Some i \<Rightarrow> list_ex (\<lambda>a. la_id a = i) (ledger_accounts L)) \<and>
         (case rl_dimensionValueId l of None \<Rightarrow> True
          | Some i \<Rightarrow> list_ex (\<lambda>x. dv_id x = i) (accounting_dimension_values L)))
       (DatabaseError ForeignKeyViolation)) (\<lambda>_.
     Inr (L\<lparr>posting_rule_lines := posting_rule_lines L @ [l]\<rparr>))))))"

fun insertRuleLineRows :: "posting_rule_line list \<Rightarrow> ledger \<Rightarrow> ledger acc" where
  "insertRuleLineRows [] L = Inr L"
| "insertRuleLineRows (l # ls) L = bindE (insertRuleLineRow l L) (insertRuleLineRows ls)"

definition versionRow ::
  "uuid \<Rightarrow> uuid \<Rightarrow> int \<Rightarrow> predicate_input \<Rightarrow> string option \<Rightarrow> posting_rule_version acc" where
  "versionRow i ruleId version p createdBy =
     bindE (moneyColumnOpt (pi_matchMinAmount p)) (\<lambda>minAmount.
     bindE (moneyColumnOpt (pi_matchMaxAmount p)) (\<lambda>maxAmount.
     Inr \<lparr>rv_id = i, rv_postingRuleId = ruleId, rv_version = version, rv_status = VersionDraft,
       rv_effectiveFrom = pi_effectiveFrom p, rv_effectiveTo = pi_effectiveTo p,
       rv_matchProvider = pi_matchProvider p, rv_matchChannel = pi_matchChannel p,
       rv_matchEconomicEntityId = pi_matchEconomicEntityId p, rv_matchFeeType = pi_matchFeeType p,
       rv_matchFeeDirection = pi_matchFeeDirection p, rv_matchMovementKind = pi_matchMovementKind p,
       rv_matchSourceKind = pi_matchSourceKind p, rv_matchExpenseCategory = pi_matchExpenseCategory p,
       rv_matchCapitalize = pi_matchCapitalize p, rv_matchCurrency = map_option toUpperCase (pi_matchCurrency p),
       rv_matchMinAmount = minAmount, rv_matchMaxAmount = maxAmount, rv_note = pi_note p,
       rv_createdByUserId = createdBy\<rparr>))"

definition ruleLineRow :: "env \<Rightarrow> uuid \<Rightarrow> nat \<Rightarrow> rule_line_input \<Rightarrow> posting_rule_line acc" where
  "ruleLineRow e versionId index l =
     bindE (toMoneyString (li_amountMultiplier l)) (\<lambda>m.
     bindE (numericColumn m) (\<lambda>multiplier.
     Inr \<lparr>rl_id = uuidAt e (3 + index), rl_postingRuleVersionId = versionId, rl_lineNumber = lineNumberOf index l,
       rl_accountSystemKey = li_accountSystemKey l, rl_ledgerAccountId = li_ledgerAccountId l,
       rl_amountSource = li_amountSource l, rl_amountMultiplier = multiplier, rl_inheritEntity = li_inheritEntity l,
       rl_dimensionValueId = li_dimensionValueId l, rl_descriptionTemplate = li_descriptionTemplate l\<rparr>))"

definition insertVersion ::
  "env \<Rightarrow> uuid \<Rightarrow> int \<Rightarrow> predicate_input \<Rightarrow> rule_line_input list \<Rightarrow> string option \<Rightarrow> ledger \<Rightarrow>
   (posting_rule_version \<times> ledger) acc" where
  "insertVersion e ruleId version p ls createdBy L =
     bindE (versionRow (uuidAt e 2) ruleId version p createdBy) (\<lambda>v.
     bindE (insertVersionRow v L) (\<lambda>L1.
     bindE (mapE (\<lambda>(index, l). ruleLineRow e (rv_id v) index l) (enumerate 0 ls)) (\<lambda>rows.
     bindE (insertRuleLineRows rows L1) (\<lambda>L2. Inr (v, L2)))))"

text \<open>Its three updates. A status change passes the immutability trigger.\<close>

definition activate :: "posting_rule_version \<Rightarrow> ledger \<Rightarrow> ledger" where
  "activate v L =
     L\<lparr>posting_rule_versions :=
         updateWhere (\<lambda>x. rv_id x = rv_id v) (rv_status_update (\<lambda>_. VersionActive))
           (updateWhere (\<lambda>x. rv_postingRuleId x = rv_postingRuleId v \<and> rv_id x \<noteq> rv_id v \<and> rv_status x = VersionActive)
             (rv_status_update (\<lambda>_. VersionSuperseded)) (posting_rule_versions L)),
       posting_rules := updateWhere (\<lambda>r. pr_id r = rv_postingRuleId v)
         (\<lambda>r. r\<lparr>pr_currentVersionId := Some (rv_id v), pr_status := RuleActive\<rparr>) (posting_rules L)\<rparr>"

section \<open>Operations\<close>

definition draftRule :: "env \<Rightarrow> create_rule_input \<Rightarrow> posting_rule" where
  "draftRule e v = \<lparr>pr_id = uuidAt e 0, pr_code = cr_code v, pr_name = cr_name v,
     pr_sourceFactType = cr_sourceFactType v, pr_accountingBookId = cr_accountingBookId v,
     pr_priority = cr_priority v, pr_status = RuleDraft, pr_currentVersionId = None,
     pr_description = cr_description v, pr_createdByUserId = cr_createdByUserId v\<rparr>"

definition createRule ::
  "env \<Rightarrow> create_rule_input \<Rightarrow> ledger \<Rightarrow> ((posting_rule \<times> posting_rule_version) \<times> ledger) acc" where
  "createRule e input L =
     bindE (parseCreateRule input) (\<lambda>v.
     bindE (validatePostingRuleTemplate (cr_sourceFactType v) (cr_lines v) (predicatesUsed (cr_predicates v))) (\<lambda>_.
     let rule = draftRule e v in bindE (insertRuleRow rule L) (\<lambda>L1.
        bindE (insertVersion e (pr_id rule) 1 (cr_predicates v) (cr_lines v) (cr_createdByUserId v) L1) (\<lambda>(version, L2).
        let L3 = (if cr_activate v then activate version L2 else L2) in
        bindE (appendAudit e 1
          (auditInput (cr_createdByUserId v) ''accounting.posting_rule.created'' ''posting_rule'' (pr_id rule) None
             (Some (JObj [(''code'', JStr (pr_code rule)), (''sourceFactType'', JStr (pr_sourceFactType rule)),
                (''priority'', JNum (pr_priority rule)), (''version'', JNum (rv_version version)),
                (''activated'', JBool (cr_activate v)), (''lineCount'', JNum (int (length (cr_lines v))))]))
             (cr_requestId v) None) L3) (\<lambda>L4.
        bindE (if cr_activate v then loadRule L4 (pr_id rule) else Inr rule) (\<lambda>r.
        Inr ((r, version), L4)))))))"

definition latestVersion :: "ledger \<Rightarrow> uuid \<Rightarrow> int" where
  "latestVersion L i = foldr max (map rv_version (filter (\<lambda>v. rv_postingRuleId v = i) (posting_rule_versions L))) 0"

definition addVersion ::
  "env \<Rightarrow> add_version_input \<Rightarrow> ledger \<Rightarrow> ((posting_rule \<times> posting_rule_version) \<times> ledger) acc" where
  "addVersion e input L =
     bindE (parseAddVersion input) (\<lambda>v.
     bindE (loadRule L (av_postingRuleId v)) (\<lambda>rule.
     bindE (validatePostingRuleTemplate (pr_sourceFactType rule) (av_lines v) (predicatesUsed (av_predicates v))) (\<lambda>_.
     let nextNumber = latestVersion L (pr_id rule) + 1 in
     bindE (insertVersion e (pr_id rule) nextNumber (av_predicates v) (av_lines v) (av_createdByUserId v) L) (\<lambda>(version, L1).
     let L2 = (if av_activate v then activate version L1 else L1) in
     bindE (appendAudit e 1
       (auditInput (av_createdByUserId v) ''accounting.posting_rule.versioned'' ''posting_rule'' (pr_id rule)
          (Some (JObj [(''currentVersionId'', jstro (pr_currentVersionId rule))]))
          (Some (JObj [(''version'', JNum nextNumber), (''postingRuleVersionId'', JStr (rv_id version)),
             (''activated'', JBool (av_activate v)), (''lineCount'', JNum (int (length (av_lines v))))]))
          (av_requestId v)
          (Some (JObj [(''code'', JStr (pr_code rule)), (''note'', JStr ''existing entries keep their version stamp'')]))) L2)
       (\<lambda>L3.
     bindE (loadRule L3 (pr_id rule)) (\<lambda>r. Inr ((r, version), L3)))))))"

definition activateVersion ::
  "env \<Rightarrow> uuid \<Rightarrow> string option \<Rightarrow> string option \<Rightarrow> ledger \<Rightarrow>
   ((posting_rule \<times> posting_rule_version) \<times> ledger) acc" where
  "activateVersion e i actor requestId L =
     bindE (fromOption AccountingNotFoundError (find (\<lambda>v. rv_id v = i) (posting_rule_versions L))) (\<lambda>version.
     bindE (assertE (rv_status version \<noteq> VersionSuperseded) LedgerImmutableError) (\<lambda>_.
     bindE (appendAudit e 1
       (auditInput actor ''accounting.posting_rule.activated'' ''posting_rule'' (rv_postingRuleId version) None
          (Some (JObj [(''postingRuleVersionId'', JStr (rv_id version)), (''version'', JNum (rv_version version))]))
          requestId None) (activate version L)) (\<lambda>L1.
     bindE (loadRule L1 (rv_postingRuleId version)) (\<lambda>r.
     Inr ((r, version\<lparr>rv_status := VersionActive\<rparr>), L1)))))"

fun ruleStatusText :: "rule_status \<Rightarrow> string" where
  "ruleStatusText RuleDraft = ''draft''"
| "ruleStatusText RuleActive = ''active''"
| "ruleStatusText RuleDisabled = ''disabled''"

definition setRuleStatus ::
  "env \<Rightarrow> uuid \<Rightarrow> rule_status \<Rightarrow> string option \<Rightarrow> string option \<Rightarrow> ledger \<Rightarrow> (posting_rule \<times> ledger) acc" where
  "setRuleStatus e i status actor requestId L =
     bindE (loadRule L i) (\<lambda>rule.
     bindE (assertE (\<not> (status = RuleActive \<and> pr_currentVersionId rule = None)) AccountingValidationError) (\<lambda>_.
     let L1 = L\<lparr>posting_rules := updateWhere (\<lambda>r. pr_id r = pr_id rule) (pr_status_update (\<lambda>_. status)) (posting_rules L)\<rparr> in
     bindE (appendAudit e 1
       (auditInput actor ''accounting.posting_rule.status_changed'' ''posting_rule'' (pr_id rule)
          (Some (JObj [(''status'', JStr (ruleStatusText (pr_status rule)))]))
          (Some (JObj [(''status'', JStr (ruleStatusText status))]))
          requestId (Some (JObj [(''code'', JStr (pr_code rule))]))) L1) (\<lambda>L2.
     bindE (loadRule L2 (pr_id rule)) (\<lambda>r. Inr (r, L2)))))"

section \<open>Reads\<close>

definition findRuleByCode :: "ledger \<Rightarrow> string \<Rightarrow> posting_rule option" where
  "findRuleByCode L code = find (\<lambda>r. pr_code r = code) (posting_rules L)"

definition inRuleOrder :: "(string \<Rightarrow> nat) \<Rightarrow> posting_rule list \<Rightarrow> posting_rule list" where
  "inRuleOrder rank rs = sort_key pr_priority (sort_key (\<lambda>r. rank (pr_code r)) rs)"

record rule_filter =
  rq_sourceFactType :: "string option"
  rq_statuses :: "rule_status list option"
  rq_accountingBookId :: "uuid nullish"

definition listRules :: "(string \<Rightarrow> nat) \<Rightarrow> ledger \<Rightarrow> rule_filter \<Rightarrow> posting_rule list" where
  "listRules rank L f = inRuleOrder rank (filter (\<lambda>r.
     (case rq_sourceFactType f of None \<Rightarrow> True | Some t \<Rightarrow> pr_sourceFactType r = t) \<and>
     (case rq_statuses f of None \<Rightarrow> True | Some ss \<Rightarrow> ss \<noteq> [] \<longrightarrow> List.member ss (pr_status r)) \<and>
     (case rq_accountingBookId f of Undefined \<Rightarrow> True | Null \<Rightarrow> pr_accountingBookId r = None
      | Val b \<Rightarrow> pr_accountingBookId r = Some b)) (posting_rules L))"

definition listVersions :: "ledger \<Rightarrow> uuid \<Rightarrow> posting_rule_version list" where
  "listVersions L i = sort_key rv_version (filter (\<lambda>v. rv_postingRuleId v = i) (posting_rule_versions L))"

definition linesOfVersion :: "ledger \<Rightarrow> uuid \<Rightarrow> posting_rule_line list" where
  "linesOfVersion L i = sort_key rl_lineNumber (filter (\<lambda>l. rl_postingRuleVersionId l = i) (posting_rule_lines L))"

definition getVersion :: "ledger \<Rightarrow> uuid \<Rightarrow> (posting_rule_version \<times> posting_rule_line list) acc" where
  "getVersion L i =
     bindE (fromOption AccountingNotFoundError (find (\<lambda>v. rv_id v = i) (posting_rule_versions L))) (\<lambda>v.
     Inr (v, linesOfVersion L (rv_id v)))"

section \<open>Resolution\<close>

definition unset :: "'a option \<Rightarrow> 'a option \<Rightarrow> bool" where
  "unset predicate attribute \<longleftrightarrow> (case predicate of None \<Rightarrow> True | Some x \<Rightarrow> attribute = Some x)"

definition amountAtLeast :: "string \<Rightarrow> int option \<Rightarrow> bool acc" where
  "amountAtLeast a m = (case m of None \<Rightarrow> Inr True | Some x \<Rightarrow>
     bindE (compareDecimals a (money_text x)) (\<lambda>c. Inr (\<not> c < 0)))"

definition amountAtMost :: "string \<Rightarrow> int option \<Rightarrow> bool acc" where
  "amountAtMost a m = (case m of None \<Rightarrow> Inr True | Some x \<Rightarrow>
     bindE (compareDecimals a (money_text x)) (\<lambda>c. Inr (\<not> 0 < c)))"

definition versionMatches :: "posting_rule_version \<Rightarrow> source_fact \<Rightarrow> bool acc" where
  "versionMatches v f =
     (let a = sf_attributes f in
      if (case rv_effectiveFrom v of None \<Rightarrow> True | Some d \<Rightarrow> \<not> sf_accountingDate f < d) \<and>
         (case rv_effectiveTo v of None \<Rightarrow> True | Some d \<Rightarrow> \<not> d < sf_accountingDate f) \<and>
         unset (rv_matchProvider v) (fa_provider a) \<and> unset (rv_matchChannel v) (fa_channel a) \<and>
         unset (rv_matchEconomicEntityId v) (sf_factEntityId f) \<and>
         unset (rv_matchFeeType v) (fa_feeType a) \<and> unset (rv_matchFeeDirection v) (fa_feeDirection a) \<and>
         unset (rv_matchMovementKind v) (fa_movementKind a) \<and> unset (rv_matchSourceKind v) (fa_sourceKind a) \<and>
         unset (rv_matchExpenseCategory v) (fa_expenseCategory a) \<and> unset (rv_matchCapitalize v) (fa_capitalize a) \<and>
         (case rv_matchCurrency v of None \<Rightarrow> True | Some c \<Rightarrow> toUpperCase c = toUpperCase (sf_currency f))
      then bindE (amountAtLeast (sf_matchAmount f) (rv_matchMinAmount v)) (\<lambda>lo.
           if lo then amountAtMost (sf_matchAmount f) (rv_matchMaxAmount v) else Inr False)
      else Inr False)"

record resolved_rule =
  rr_rule :: posting_rule
  rr_version :: posting_rule_version
  rr_lines :: "posting_rule_line list"

definition activeRules :: "(string \<Rightarrow> nat) \<Rightarrow> ledger \<Rightarrow> source_fact \<Rightarrow> posting_rule list" where
  "activeRules rank L f = inRuleOrder rank
     (filter (\<lambda>r. pr_sourceFactType r = factTypeText (sf_sourceFactType f) \<and> pr_status r = RuleActive) (posting_rules L))"

definition currentVersion :: "ledger \<Rightarrow> posting_rule \<Rightarrow> posting_rule_version option" where
  "currentVersion L r =
     (case pr_currentVersionId r of None \<Rightarrow> None | Some i \<Rightarrow> find (\<lambda>v. rv_id v = i) (posting_rule_versions L))"

definition inScope :: "uuid \<Rightarrow> posting_rule \<Rightarrow> bool" where
  "inScope b r \<longleftrightarrow> (case pr_accountingBookId r of None \<Rightarrow> True | Some x \<Rightarrow> x = b)"

fun firstMatch :: "ledger \<Rightarrow> source_fact \<Rightarrow> uuid \<Rightarrow> posting_rule list \<Rightarrow> resolved_rule option acc" where
  "firstMatch L f b [] = Inr None"
| "firstMatch L f b (r # rs) =
     (if \<not> inScope b r then firstMatch L f b rs
      else case currentVersion L r of
        None \<Rightarrow> firstMatch L f b rs
      | Some v \<Rightarrow>
          if rv_status v \<noteq> VersionActive then firstMatch L f b rs
          else bindE (versionMatches v f) (\<lambda>matched.
            if matched then Inr (Some \<lparr>rr_rule = r, rr_version = v, rr_lines = linesOfVersion L (rv_id v)\<rparr>)
            else firstMatch L f b rs))"

definition resolveForFact :: "(string \<Rightarrow> nat) \<Rightarrow> ledger \<Rightarrow> source_fact \<Rightarrow> uuid \<Rightarrow> resolved_rule option acc" where
  "resolveForFact rank L f b = firstMatch L f b (activeRules rank L f)"

definition candidatesForFact :: "(string \<Rightarrow> nat) \<Rightarrow> ledger \<Rightarrow> source_fact \<Rightarrow> uuid \<Rightarrow> (posting_rule \<times> bool) list acc" where
  "candidatesForFact rank L f b =
     mapE (\<lambda>r. if \<not> inScope b r then Inr (r, False)
        else case currentVersion L r of None \<Rightarrow> Inr (r, False)
          | Some v \<Rightarrow> bindE (versionMatches v f) (\<lambda>m. Inr (r, m))) (activeRules rank L f)"

end
