(* ===== verification/Rule_Templates.thy ===== *)
theory Rule_Templates
  imports Posting_Rules
begin

text \<open>
  What saving a version guarantees of its stored template: \<open>templateOk\<close>. The facts here follow the
  writes of \<open>insertVersion\<close> row by row; \<open>versionAdded\<close> is the state change they add up to.
\<close>

section \<open>Well-formed templates\<close>

definition rowTerms :: "fact_type \<Rightarrow> posting_rule_line \<Rightarrow> (string \<times> int) list" where
  "rowTerms t l = (case amountBasis t (rl_amountSource l) of None \<Rightarrow> []
     | Some d \<Rightarrow> map (\<lambda>(c, k). (c, k * rl_amountMultiplier l)) d)"

definition templateOk :: "fact_type \<Rightarrow> posting_rule_line list \<Rightarrow> bool" where
  "templateOk t ls \<longleftrightarrow>
     2 \<le> length ls \<and> distinct (map rl_lineNumber ls) \<and> length (filter (\<lambda>l. rl_amountSource l = Remainder) ls) \<le> 1 \<and>
     (\<forall>l \<in> set ls. rl_amountSource l \<in> set (AMOUNT_SOURCES_BY_FACT_TYPE t) \<and> rl_amountMultiplier l \<noteq> 0 \<and>
        (rl_accountSystemKey l = None) \<noteq> (rl_ledgerAccountId l = None) \<and>
        (\<forall>text. rl_descriptionTemplate l = Some text \<longrightarrow> set (placeholdersIn text) \<subseteq> set (PLACEHOLDERS_BY_FACT_TYPE t)) \<and>
        (\<forall>k. rl_accountSystemKey l = Some k \<longrightarrow> rl_amountSource l \<noteq> Remainder \<longrightarrow> k \<in> set LEDGER_SYSTEM_KEYS)) \<and>
     (Remainder \<notin> rl_amountSource ` set ls \<longrightarrow> (\<forall>c. coefficientOf (concat (map (rowTerms t) ls)) c = 0))"

section \<open>Validation\<close>

lemma remainder_allowed [simp]: "Remainder \<in> set (AMOUNT_SOURCES_BY_FACT_TYPE t)"
  by (cases t) simp_all

definition inputOk :: "fact_type \<Rightarrow> rule_line_input \<Rightarrow> bool" where
  "inputOk t l \<longleftrightarrow> li_amountSource l \<in> set (AMOUNT_SOURCES_BY_FACT_TYPE t) \<and>
     (\<forall>text. li_descriptionTemplate l = Some text \<longrightarrow> set (placeholdersIn text) \<subseteq> set (PLACEHOLDERS_BY_FACT_TYPE t)) \<and>
     (\<forall>k. li_accountSystemKey l = Some k \<longrightarrow> li_amountSource l \<noteq> Remainder \<longrightarrow> k \<in> set LEDGER_SYSTEM_KEYS)"

lemma validateLines_Inr:
  assumes "validateLines t k seen n ls = Inr m"
  shows "(\<forall>l \<in> set ls. inputOk t l) \<and> m = n + length (filter (\<lambda>l. li_amountSource l = Remainder) ls)"
  using assms
proof (induction ls arbitrary: k seen n)
  case (Cons l ls)
  have described: "case li_descriptionTemplate l of None \<Rightarrow> True
      | Some x \<Rightarrow> list_all (List.member (PLACEHOLDERS_BY_FACT_TYPE t)) (placeholdersIn x)"
    using Cons.prems by auto
  then have described: "\<forall>x. li_descriptionTemplate l = Some x \<longrightarrow> set (placeholdersIn x) \<subseteq> set (PLACEHOLDERS_BY_FACT_TYPE t)"
    by (auto simp: list_all_iff subset_iff)
  show ?case
  proof (cases "li_amountSource l = Remainder")
    case True
    then have "validateLines t (Suc k) (lineNumberOf k l # seen) (Suc n) ls = Inr m" using Cons.prems by auto
    from Cons.IH [OF this] show ?thesis using True described by (simp add: inputOk_def)
  next
    case False
    then have v: "validateLines t (Suc k) (lineNumberOf k l # seen) n ls = Inr m"
      "List.member (AMOUNT_SOURCES_BY_FACT_TYPE t) (li_amountSource l)"
      "case li_accountSystemKey l of None \<Rightarrow> True | Some k \<Rightarrow> List.member LEDGER_SYSTEM_KEYS k"
      using Cons.prems by auto
    have "inputOk t l" using v(2,3) described by (auto simp: inputOk_def)
    then show ?thesis using Cons.IH [OF v(1)] False by simp
  qed
qed simp

lemma coefficientOf_absent: "c \<notin> fst ` set ts \<Longrightarrow> coefficientOf ts c = 0"
  unfolding coefficientOf_def by (induction ts) auto

lemma assertTemplateBalances_Inr:
  assumes "assertTemplateBalances t ls = Inr ()"
  obtains terms where "mapE (templateTerms t) ls = Inr terms" "\<forall>c. coefficientOf (concat terms) c = 0"
proof -
  from assms obtain terms where t: "mapE (templateTerms t) ls = Inr terms"
    "list_all (\<lambda>(c, _). coefficientOf (concat terms) c = 0) (concat terms)"
    unfolding assertTemplateBalances_def by auto
  have "coefficientOf (concat terms) c = 0" for c
  proof (cases "c \<in> fst ` set (concat terms)")
    case True
    then obtain x where "(c, x) \<in> set (concat terms)" by force
    then show ?thesis using t(2) unfolding list_all_iff by blast
  qed (rule coefficientOf_absent)
  then show thesis using that t(1) by blast
qed

lemma validate_Inr:
  assumes "validatePostingRuleTemplate s ls ps = Inr ()"
  obtains t where "readableSourceFactType s = Some t" "\<forall>l \<in> set ls. inputOk t l"
    "Remainder \<notin> li_amountSource ` set ls \<longrightarrow> assertTemplateBalances t ls = Inr ()"
proof -
  from assms obtain t n where t: "readableSourceFactType s = Some t" "validateLines t 0 [] 0 ls = Inr n"
    "(if n = 0 then assertTemplateBalances t ls else Inr ()) = Inr ()"
    unfolding validatePostingRuleTemplate_def by (auto split: if_splits)
  have n: "\<forall>l \<in> set ls. inputOk t l" "n = length (filter (\<lambda>l. li_amountSource l = Remainder) ls)"
    using validateLines_Inr [OF t(2)] by simp_all
  have "assertTemplateBalances t ls = Inr ()" if "Remainder \<notin> li_amountSource ` set ls"
  proof -
    have "filter (\<lambda>l. li_amountSource l = Remainder) ls = []" using that by (force simp: filter_empty_conv)
    then have "n = 0" using n(2) by simp
    then show ?thesis using t(3) by simp
  qed
  then show thesis using that t(1) n(1) by blast
qed

section \<open>Stored rows\<close>

definition storedAs :: "uuid \<Rightarrow> rule_line_input \<Rightarrow> posting_rule_line \<Rightarrow> bool" where
  "storedAs i l r \<longleftrightarrow> rl_postingRuleVersionId r = i \<and> rl_accountSystemKey r = li_accountSystemKey l \<and>
     rl_ledgerAccountId r = li_ledgerAccountId l \<and> rl_amountSource r = li_amountSource l \<and>
     rl_descriptionTemplate r = li_descriptionTemplate l \<and> moneyUnits (li_amountMultiplier l) = Inr (rl_amountMultiplier r)"

lemma ruleLineRow_stored: "ruleLineRow e i k l = Inr r \<Longrightarrow> storedAs i l r"
  by (auto simp: ruleLineRow_def numericColumn_def toMoneyString_iff storedAs_def)

lemma ruleLineRows_stored:
  "mapE (\<lambda>(k, l). ruleLineRow e i k l) (enumerate n ls) = Inr rows \<Longrightarrow> list_all2 (storedAs i) ls rows"
  by (induction ls arbitrary: n rows) (auto dest: ruleLineRow_stored)

definition ruleLineClash :: "posting_rule_line \<Rightarrow> posting_rule_line \<Rightarrow> bool" where
  "ruleLineClash x l \<longleftrightarrow> rl_id x = rl_id l \<or>
     (rl_postingRuleVersionId x = rl_postingRuleVersionId l \<and>
       (rl_lineNumber x = rl_lineNumber l \<or> (rl_amountSource x = Remainder \<and> rl_amountSource l = Remainder)))"

lemma insertRuleLineRow_Inr [resE]:
  "insertRuleLineRow l L = Inr L' \<Longrightarrow>
     L' = L\<lparr>posting_rule_lines := posting_rule_lines L @ [l]\<rparr> \<and> rl_amountMultiplier l \<noteq> 0 \<and>
     (rl_accountSystemKey l = None) \<noteq> (rl_ledgerAccountId l = None) \<and>
     (\<forall>x \<in> set (posting_rule_lines L). \<not> ruleLineClash x l)"
  by (auto simp: insertRuleLineRow_def ruleLineClash_def list_ex_iff)

lemma insertRuleLineRows_Inr:
  assumes "insertRuleLineRows rows L = Inr L'"
  shows "L' = L\<lparr>posting_rule_lines := posting_rule_lines L @ rows\<rparr> \<and>
    (\<forall>l \<in> set rows. rl_amountMultiplier l \<noteq> 0 \<and> (rl_accountSystemKey l = None) \<noteq> (rl_ledgerAccountId l = None)) \<and>
    sorted_wrt (\<lambda>x l. \<not> ruleLineClash x l) rows"
  using assms
proof (induction rows arbitrary: L)
  case (Cons l rows)
  then obtain L1 where 1: "insertRuleLineRow l L = Inr L1" "insertRuleLineRows rows L1 = Inr L'" by auto
  have "\<forall>r \<in> set rows. \<not> ruleLineClash l r"
  proof -
    have "insertRuleLineRows rows M = Inr M' \<Longrightarrow> l \<in> set (posting_rule_lines M) \<Longrightarrow> \<forall>r \<in> set rows. \<not> ruleLineClash l r" for M M'
    proof (induction rows arbitrary: M)
      case (Cons r rows)
      then show ?case by (fastforce dest: insertRuleLineRow_Inr)
    qed simp
    then show ?thesis using 1(2) insertRuleLineRow_Inr [OF 1(1)] by simp
  qed
  then show ?case using insertRuleLineRow_Inr [OF 1(1)] Cons.IH [OF 1(2)] by auto
qed simp

lemma stored_mem: "list_all2 (storedAs i) ls rows \<Longrightarrow> r \<in> set rows \<Longrightarrow> \<exists>l \<in> set ls. storedAs i l r"
  by (induction rule: list_all2_induct) auto

lemma stored_sources:
  "list_all2 (storedAs i) ls rows \<Longrightarrow> map rl_amountSource rows = map li_amountSource ls"
  by (induction rule: list_all2_induct) (auto simp: storedAs_def)

lemma stored_terms:
  assumes "list_all2 (storedAs i) ls rows" and "mapE (templateTerms t) ls = Inr terms"
  shows "map (rowTerms t) rows = terms"
  using assms
proof (induction arbitrary: terms rule: list_all2_induct)
  case (Cons l ls r rows)
  then show ?case by (auto simp: storedAs_def templateTerms_def rowTerms_def split: option.splits)
qed simp

lemma stored_templateOk:
  assumes stored: "list_all2 (storedAs i) ls rows" and two: "2 \<le> length ls"
    and valid: "readableSourceFactType s = Some t" "\<forall>l \<in> set ls. inputOk t l"
      "Remainder \<notin> li_amountSource ` set ls \<longrightarrow> assertTemplateBalances t ls = Inr ()"
    and rows: "\<forall>l \<in> set rows. rl_amountMultiplier l \<noteq> 0 \<and> (rl_accountSystemKey l = None) \<noteq> (rl_ledgerAccountId l = None)"
      "sorted_wrt (\<lambda>x l. \<not> ruleLineClash x l) rows"
  shows "templateOk t rows"
proof -
  have same: "\<forall>r \<in> set rows. rl_postingRuleVersionId r = i"
    using stored_mem [OF stored] by (auto simp: storedAs_def)
  have src: "rl_amountSource ` set rows = li_amountSource ` set ls"
    using arg_cong [OF stored_sources [OF stored], of set] by simp
  have numbers: "distinct (map rl_lineNumber rows)" and plugs: "length (filter (\<lambda>l. rl_amountSource l = Remainder) rows) \<le> 1"
    using rows(2) same by (induction rows) (auto simp: ruleLineClash_def filter_empty_conv)
  have line: "rl_amountSource r \<in> set (AMOUNT_SOURCES_BY_FACT_TYPE t) \<and>
      (\<forall>text. rl_descriptionTemplate r = Some text \<longrightarrow> set (placeholdersIn text) \<subseteq> set (PLACEHOLDERS_BY_FACT_TYPE t)) \<and>
      (\<forall>k. rl_accountSystemKey r = Some k \<longrightarrow> rl_amountSource r \<noteq> Remainder \<longrightarrow> k \<in> set LEDGER_SYSTEM_KEYS)"
    if "r \<in> set rows" for r
  proof -
    obtain l where "l \<in> set ls" "storedAs i l r" using stored_mem [OF stored \<open>r \<in> set rows\<close>] by blast
    then show ?thesis using valid(2) by (simp add: storedAs_def inputOk_def)
  qed
  have bal: "coefficientOf (concat (map (rowTerms t) rows)) c = 0" if "Remainder \<notin> rl_amountSource ` set rows" for c
  proof -
    have "assertTemplateBalances t ls = Inr ()" using valid(3) that src by simp
    then obtain terms where "mapE (templateTerms t) ls = Inr terms" "\<forall>c. coefficientOf (concat terms) c = 0"
      by (rule assertTemplateBalances_Inr)
    then show ?thesis using stored_terms [OF stored] by simp
  qed
  have "length rows = length ls" using stored by (rule list_all2_lengthD [symmetric])
  then show ?thesis unfolding templateOk_def using two numbers plugs line bal rows(1) by simp
qed

end
