(* ===== verification/Rule_Machine.thy ===== *)
theory Rule_Machine
  imports Rule_Templates Ledger_Machine
begin

text \<open>
  The rules service as a state machine. \<open>rulesOk\<close> is what holds of the rule tables after any
  sequence of calls: a rule has at most one active version, its current one, and every stored
  template is well formed for the rule's fact type. \<open>rulesGrow\<close> is how they may change: a version
  keeps its text and its lines, and only moves from draft to active to superseded. Each operation
  is an interpretation of \<open>rules_operation\<close>.
\<close>

section \<open>The invariant\<close>

definition versionLines :: "ledger \<Rightarrow> uuid \<Rightarrow> posting_rule_line list" where
  "versionLines L i = filter (\<lambda>l. rl_postingRuleVersionId l = i) (posting_rule_lines L)"

definition ruleKeysOk :: "ledger \<Rightarrow> bool" where
  "ruleKeysOk L \<longleftrightarrow>
     distinct (map pr_id (posting_rules L)) \<and> distinct (map pr_code (posting_rules L)) \<and>
     distinct (map rv_id (posting_rule_versions L)) \<and>
     (\<forall>v \<in> set (posting_rule_versions L). \<exists>r \<in> set (posting_rules L). pr_id r = rv_postingRuleId v) \<and>
     (\<forall>l \<in> set (posting_rule_lines L). \<exists>v \<in> set (posting_rule_versions L). rv_id v = rl_postingRuleVersionId l)"

definition currentOk :: "ledger \<Rightarrow> bool" where
  "currentOk L \<longleftrightarrow>
     (\<forall>r \<in> set (posting_rules L). \<forall>i. pr_currentVersionId r = Some i \<longrightarrow>
        (\<exists>v \<in> set (posting_rule_versions L). rv_id v = i \<and> rv_postingRuleId v = pr_id r \<and> rv_status v = VersionActive)) \<and>
     (\<forall>v \<in> set (posting_rule_versions L). \<forall>r \<in> set (posting_rules L).
        rv_status v = VersionActive \<longrightarrow> pr_id r = rv_postingRuleId v \<longrightarrow> pr_currentVersionId r = Some (rv_id v)) \<and>
     (\<forall>r \<in> set (posting_rules L). pr_status r = RuleActive \<longrightarrow> pr_currentVersionId r \<noteq> None)"

definition templatesOk :: "ledger \<Rightarrow> bool" where
  "templatesOk L \<longleftrightarrow>
     (\<forall>v \<in> set (posting_rule_versions L). \<forall>r \<in> set (posting_rules L). pr_id r = rv_postingRuleId v \<longrightarrow>
        (\<exists>t. readableSourceFactType (pr_sourceFactType r) = Some t \<and> templateOk t (versionLines L (rv_id v))))"

definition rulesOk :: "ledger \<Rightarrow> bool" where
  "rulesOk L \<longleftrightarrow> ruleKeysOk L \<and> currentOk L \<and> templatesOk L"

fun statusRank :: "version_status \<Rightarrow> nat" where
  "statusRank VersionDraft = 0"
| "statusRank VersionActive = 1"
| "statusRank VersionSuperseded = 2"

definition rulesGrow :: "ledger \<Rightarrow> ledger \<Rightarrow> bool" where
  "rulesGrow L L' \<longleftrightarrow>
     (\<forall>v \<in> set (posting_rule_versions L). \<exists>w \<in> set (posting_rule_versions L').
        v\<lparr>rv_status := rv_status w\<rparr> = w \<and> statusRank (rv_status v) \<le> statusRank (rv_status w) \<and>
        versionLines L' (rv_id v) = versionLines L (rv_id v))"

definition sameRules :: "ledger \<Rightarrow> ledger \<Rightarrow> bool" where
  "sameRules L L' \<longleftrightarrow> posting_rules L' = posting_rules L \<and> posting_rule_versions L' = posting_rule_versions L \<and>
     posting_rule_lines L' = posting_rule_lines L"

lemma sameRules_ok: "sameRules L L' \<Longrightarrow> rulesOk L' = rulesOk L"
  by (simp add: sameRules_def rulesOk_def ruleKeysOk_def currentOk_def templatesOk_def versionLines_def)

lemma rulesGrow_same: "sameRules L L' \<Longrightarrow> rulesGrow L L'"
  by (auto simp: sameRules_def rulesGrow_def versionLines_def intro!: bexI)

lemma rulesGrow_refl [simp]: "rulesGrow L L"
  by (rule rulesGrow_same) (simp add: sameRules_def)

lemma rulesGrow_trans:
  assumes a: "rulesGrow L M" and b: "rulesGrow M N"
  shows "rulesGrow L N"
  unfolding rulesGrow_def
proof
  fix v assume "v \<in> set (posting_rule_versions L)"
  then obtain w where w: "w \<in> set (posting_rule_versions M)" "v\<lparr>rv_status := rv_status w\<rparr> = w"
    "statusRank (rv_status v) \<le> statusRank (rv_status w)" "versionLines M (rv_id v) = versionLines L (rv_id v)"
    using a unfolding rulesGrow_def by blast
  then obtain x where x: "x \<in> set (posting_rule_versions N)" "w\<lparr>rv_status := rv_status x\<rparr> = x"
    "statusRank (rv_status w) \<le> statusRank (rv_status x)" "versionLines N (rv_id w) = versionLines M (rv_id w)"
    using b unfolding rulesGrow_def by blast
  have i: "rv_id w = rv_id v" by (subst w(2) [symmetric]) simp
  have "v\<lparr>rv_status := rv_status x\<rparr> = x" by (subst x(2) [symmetric], subst w(2) [symmetric]) simp
  then show "\<exists>x \<in> set (posting_rule_versions N). v\<lparr>rv_status := rv_status x\<rparr> = x \<and>
      statusRank (rv_status v) \<le> statusRank (rv_status x) \<and> versionLines N (rv_id v) = versionLines L (rv_id v)"
    using w(3,4) x(1,3,4) i by auto
qed

section \<open>The writes\<close>

definition ruleTablesOnly :: "ledger \<Rightarrow> ledger \<Rightarrow> bool" where
  "ruleTablesOnly L L' \<longleftrightarrow>
     L' = L\<lparr>posting_rules := posting_rules L', posting_rule_versions := posting_rule_versions L',
       posting_rule_lines := posting_rule_lines L', audit_events := audit_events L'\<rparr>"

lemma ruleTablesOnly_foreign: "ruleTablesOnly L L' \<Longrightarrow> foreignChange L L'"
proof -
  assume "ruleTablesOnly L L'"
  then have L': "L' = L\<lparr>posting_rules := posting_rules L', posting_rule_versions := posting_rule_versions L',
       posting_rule_lines := posting_rule_lines L', audit_events := audit_events L'\<rparr>"
    unfolding ruleTablesOnly_def .
  show ?thesis unfolding foreignChange_def by (intro conjI; subst L', simp)
qed

text \<open>A draft rule with no version.\<close>

lemma insertRuleRow_sound:
  assumes ok: "rulesOk L" and a: "insertRuleRow r L = Inr L'" and draft: "pr_status r = RuleDraft" "pr_currentVersionId r = None"
  shows "rulesOk L'" and "rulesGrow L L'" and "L' = L\<lparr>posting_rules := posting_rules L @ [r]\<rparr>"
proof -
  have L': "L' = L\<lparr>posting_rules := posting_rules L @ [r]\<rparr>"
    and fresh: "\<forall>x \<in> set (posting_rules L). pr_id x \<noteq> pr_id r \<and> pr_code x \<noteq> pr_code r"
    using a by (auto simp: insertRuleRow_def list_ex_iff)
  have none: "\<forall>v \<in> set (posting_rule_versions L). rv_postingRuleId v \<noteq> pr_id r"
    using ok fresh by (fastforce simp: rulesOk_def ruleKeysOk_def)
  have "ruleKeysOk L'" using ok fresh unfolding rulesOk_def ruleKeysOk_def by (auto simp: L')
  moreover have "currentOk L'" using ok draft none unfolding rulesOk_def currentOk_def by (auto simp: L')
  moreover have "templatesOk L'" using ok none unfolding rulesOk_def templatesOk_def versionLines_def by (auto simp: L')
  ultimately show "rulesOk L'" by (simp add: rulesOk_def)
  show "rulesGrow L L'" by (auto simp: L' rulesGrow_def versionLines_def intro!: bexI)
  show "L' = L\<lparr>posting_rules := posting_rules L @ [r]\<rparr>" by (rule L')
qed

text \<open>A new draft version with its lines.\<close>

definition versionAdded :: "ledger \<Rightarrow> posting_rule_version \<Rightarrow> posting_rule_line list \<Rightarrow> ledger \<Rightarrow> bool" where
  "versionAdded L v rows L' \<longleftrightarrow>
     L' = L\<lparr>posting_rule_versions := posting_rule_versions L @ [v], posting_rule_lines := posting_rule_lines L @ rows\<rparr> \<and>
     rv_status v = VersionDraft \<and> (\<forall>x \<in> set (posting_rule_versions L). rv_id x \<noteq> rv_id v) \<and>
     (\<exists>r \<in> set (posting_rules L). pr_id r = rv_postingRuleId v) \<and> (\<forall>l \<in> set rows. rl_postingRuleVersionId l = rv_id v)"

lemma insertVersion_added:
  assumes a: "insertVersion e i n p ls by L = Inr (v, L')" and two: "2 \<le> length ls"
    and valid: "validatePostingRuleTemplate s ls ps = Inr ()"
  obtains rows t where "versionAdded L v rows L'" "rv_postingRuleId v = i" "rv_version v = n"
    "readableSourceFactType s = Some t" "templateOk t rows"
proof -
  from a obtain L1 rows where v: "versionRow (uuidAt e 2) i n p by = Inr v" "insertVersionRow v L = Inr L1"
    "mapE (\<lambda>(index, l). ruleLineRow e (rv_id v) index l) (enumerate 0 ls) = Inr rows" "insertRuleLineRows rows L1 = Inr L'"
    unfolding insertVersion_def by auto
  have status: "rv_status v = VersionDraft" "rv_postingRuleId v = i" "rv_version v = n"
    using v(1) by (auto simp: versionRow_def)
  have L1: "L1 = L\<lparr>posting_rule_versions := posting_rule_versions L @ [v]\<rparr>"
    "\<forall>x \<in> set (posting_rule_versions L). rv_id x \<noteq> rv_id v" "\<exists>r \<in> set (posting_rules L). pr_id r = rv_postingRuleId v"
    using v(2) by (auto simp: insertVersionRow_def list_ex_iff)
  note stored = ruleLineRows_stored [OF v(3)]
  have rows: "L' = L1\<lparr>posting_rule_lines := posting_rule_lines L1 @ rows\<rparr>"
    "\<forall>l \<in> set rows. rl_amountMultiplier l \<noteq> 0 \<and> (rl_accountSystemKey l = None) \<noteq> (rl_ledgerAccountId l = None)"
    "sorted_wrt (\<lambda>x l. \<not> ruleLineClash x l) rows"
    using insertRuleLineRows_Inr [OF v(4)] by - (elim conjE, assumption)+
  obtain t where t: "readableSourceFactType s = Some t" "\<forall>l \<in> set ls. inputOk t l"
    "Remainder \<notin> li_amountSource ` set ls \<longrightarrow> assertTemplateBalances t ls = Inr ()"
    by (rule validate_Inr [OF valid])
  have "templateOk t rows"
    by (rule stored_templateOk [OF stored two t rows(2,3)])
  moreover have "\<forall>l \<in> set rows. rl_postingRuleVersionId l = rv_id v"
    using stored_mem [OF stored] by (auto simp: storedAs_def)
  then have "versionAdded L v rows L'"
    using status L1(2,3) rows(1) unfolding versionAdded_def by (simp add: L1(1))
  ultimately show thesis using that status(2,3) t(1) by blast
qed

lemma versionAdded_sound:
  assumes ok: "rulesOk L" and a: "versionAdded L v rows L'" and t: "readableSourceFactType s = Some t" "templateOk t rows"
    and s: "\<And>r. r \<in> set (posting_rules L) \<Longrightarrow> pr_id r = rv_postingRuleId v \<Longrightarrow> pr_sourceFactType r = s"
  shows "rulesOk L'" and "rulesGrow L L'" and "ruleTablesOnly L L'"
proof -
  have L': "L' = L\<lparr>posting_rule_versions := posting_rule_versions L @ [v], posting_rule_lines := posting_rule_lines L @ rows\<rparr>"
    and v: "rv_status v = VersionDraft" "\<forall>x \<in> set (posting_rule_versions L). rv_id x \<noteq> rv_id v"
      "\<exists>r \<in> set (posting_rules L). pr_id r = rv_postingRuleId v" "\<forall>l \<in> set rows. rl_postingRuleVersionId l = rv_id v"
    using a by (simp_all add: versionAdded_def)
  have keys: "ruleKeysOk L" using ok by (simp add: rulesOk_def)
  have new: "versionLines L' (rv_id v) = rows"
  proof -
    have "versionLines L (rv_id v) = []"
      using keys v(2) by (fastforce simp: ruleKeysOk_def versionLines_def filter_empty_conv)
    then show ?thesis using v(4) by (simp add: versionLines_def L' filter_id_conv)
  qed
  have old: "versionLines L' (rv_id x) = versionLines L (rv_id x)" if "x \<in> set (posting_rule_versions L)" for x
    using v(2,4) that by (auto simp: versionLines_def L' filter_empty_conv)
  have "ruleKeysOk L'" using keys v(2-4) unfolding ruleKeysOk_def by (auto simp: L')
  moreover have "currentOk L'" using ok v(1) unfolding rulesOk_def currentOk_def by (auto simp: L')
  moreover have "templatesOk L'"
  proof -
    have "\<exists>t. readableSourceFactType (pr_sourceFactType r) = Some t \<and> templateOk t (versionLines L' (rv_id x))"
      if "x \<in> set (posting_rule_versions L) \<or> x = v" "r \<in> set (posting_rules L)" "pr_id r = rv_postingRuleId x" for x r
      using that(1)
    proof
      assume "x \<in> set (posting_rule_versions L)"
      then show ?thesis using ok that(2,3) old unfolding rulesOk_def templatesOk_def by simp
    next
      assume "x = v"
      then show ?thesis using s that(2,3) t new by simp
    qed
    then show ?thesis unfolding templatesOk_def by (simp add: L' versionLines_def)
  qed
  ultimately show "rulesOk L'" by (simp add: rulesOk_def)
  show "rulesGrow L L'" unfolding rulesGrow_def using old by (auto simp: L' intro!: bexI)
  show "ruleTablesOnly L L'" by (simp add: ruleTablesOnly_def L')
qed

text \<open>Activation of a stored version.\<close>

lemma activate_mem:
  assumes "w \<in> set (posting_rule_versions (activate v L))"
  obtains x where "x \<in> set (posting_rule_versions L)" "w = x\<lparr>rv_status := rv_status w\<rparr>"
    "rv_status w = (if rv_id x = rv_id v then VersionActive
       else if rv_postingRuleId x = rv_postingRuleId v \<and> rv_status x = VersionActive then VersionSuperseded else rv_status x)"
proof -
  let ?f = "\<lambda>x. if rv_postingRuleId x = rv_postingRuleId v \<and> rv_id x \<noteq> rv_id v \<and> rv_status x = VersionActive
     then rv_status_update (\<lambda>_. VersionSuperseded) x else x"
  let ?g = "\<lambda>x. if rv_id x = rv_id v then rv_status_update (\<lambda>_. VersionActive) x else x"
  obtain x where x: "x \<in> set (posting_rule_versions L)" "w = ?g (?f x)"
    using assms unfolding activate_def updateWhere_def by auto
  show thesis by (rule that [OF x(1)]) (use x(2) in \<open>auto split: if_splits\<close>)
qed

lemma activate_old:
  assumes "x \<in> set (posting_rule_versions L)"
  shows "x\<lparr>rv_status := (if rv_id x = rv_id v then VersionActive
       else if rv_postingRuleId x = rv_postingRuleId v \<and> rv_status x = VersionActive then VersionSuperseded else rv_status x)\<rparr>
     \<in> set (posting_rule_versions (activate v L))"
proof -
  let ?f = "\<lambda>x. if rv_postingRuleId x = rv_postingRuleId v \<and> rv_id x \<noteq> rv_id v \<and> rv_status x = VersionActive
     then rv_status_update (\<lambda>_. VersionSuperseded) x else x"
  let ?g = "\<lambda>x. if rv_id x = rv_id v then rv_status_update (\<lambda>_. VersionActive) x else x"
  have "?g (?f x) \<in> set (posting_rule_versions (activate v L))"
    using assms by (simp add: activate_def updateWhere_def)
  then show ?thesis by (auto split: if_splits)
qed

lemma activate_ids: "map rv_id (posting_rule_versions (activate v L)) = map rv_id (posting_rule_versions L)"
  by (simp add: activate_def updateWhere_def)

lemma activate_rules:
  "posting_rules (activate v L) = map (\<lambda>r. if pr_id r = rv_postingRuleId v
     then r\<lparr>pr_currentVersionId := Some (rv_id v), pr_status := RuleActive\<rparr> else r) (posting_rules L)"
  by (simp add: activate_def updateWhere_def)

lemma activate_ruleKeys:
  "map pr_id (posting_rules (activate v L)) = map pr_id (posting_rules L)"
  "map pr_code (posting_rules (activate v L)) = map pr_code (posting_rules L)"
  by (simp_all add: activate_rules)

lemma activate_lines: "posting_rule_lines (activate v L) = posting_rule_lines L"
  by (simp add: activate_def)

lemma activate_current:
  assumes ok: "rulesOk L" and v: "v \<in> set (posting_rule_versions L)"
  shows "currentOk (activate v L)"
proof -
  let ?M = "activate v L"
  have keys: "ruleKeysOk L" and cur: "currentOk L" using ok by (simp_all add: rulesOk_def)
  have act: "\<exists>w \<in> set (posting_rule_versions ?M). rv_id w = rv_id v \<and> rv_postingRuleId w = rv_postingRuleId v \<and> rv_status w = VersionActive"
    using activate_old [OF v, of v] by (intro bexI [of _ "v\<lparr>rv_status := VersionActive\<rparr>"]) simp_all
  have rule: "\<exists>s \<in> set (posting_rules L). pr_id s = pr_id r \<and>
      (if pr_id r = rv_postingRuleId v then pr_currentVersionId r = Some (rv_id v) else r = s)"
    if m: "r \<in> set (posting_rules ?M)" for r
  proof -
    obtain s where "s \<in> set (posting_rules L)" "r = (if pr_id s = rv_postingRuleId v
        then s\<lparr>pr_currentVersionId := Some (rv_id v), pr_status := RuleActive\<rparr> else s)"
      using m unfolding activate_rules set_map by (rule imageE) blast
    then show ?thesis by (intro bexI [of _ s]) simp_all
  qed
  show ?thesis
    unfolding currentOk_def
  proof (intro conjI ballI allI impI)
    fix r i assume r: "r \<in> set (posting_rules ?M)" and i: "pr_currentVersionId r = Some i"
    obtain s where s: "s \<in> set (posting_rules L)" "pr_id s = pr_id r"
      "if pr_id r = rv_postingRuleId v then pr_currentVersionId r = Some (rv_id v) else r = s" using rule [OF r] by blast
    show "\<exists>w \<in> set (posting_rule_versions ?M). rv_id w = i \<and> rv_postingRuleId w = pr_id r \<and> rv_status w = VersionActive"
    proof (cases "pr_id r = rv_postingRuleId v")
      case True
      then show ?thesis using act s(3) i by auto
    next
      case False
      then have "r \<in> set (posting_rules L)" using s by simp
      then obtain x where x: "x \<in> set (posting_rule_versions L)" "rv_id x = i" "rv_postingRuleId x = pr_id r" "rv_status x = VersionActive"
        using cur i unfolding currentOk_def by blast
      have "rv_id x \<noteq> rv_id v"
      proof
        assume "rv_id x = rv_id v"
        then have "x = v" by (intro distinct_key_eq [of rv_id "posting_rule_versions L"]) (use keys x(1) v in \<open>simp_all add: ruleKeysOk_def\<close>)
        then show False using False x(3) by simp
      qed
      then have "x\<lparr>rv_status := VersionActive\<rparr> \<in> set (posting_rule_versions ?M)"
        using activate_old [OF x(1), of v] x False by simp
      moreover have "x\<lparr>rv_status := VersionActive\<rparr> = x" using x(4) by (cases x) simp
      ultimately have "x \<in> set (posting_rule_versions ?M)" by (simp only:)
      then show ?thesis using x by blast
    qed
  next
    fix w r assume w: "w \<in> set (posting_rule_versions ?M)" and r: "r \<in> set (posting_rules ?M)"
      and st: "rv_status w = VersionActive" and id: "pr_id r = rv_postingRuleId w"
    obtain x where x: "x \<in> set (posting_rule_versions L)" "w = x\<lparr>rv_status := rv_status w\<rparr>"
      "rv_status w = (if rv_id x = rv_id v then VersionActive
         else if rv_postingRuleId x = rv_postingRuleId v \<and> rv_status x = VersionActive then VersionSuperseded else rv_status x)"
      using w by (rule activate_mem)
    have ids: "rv_id w = rv_id x" "rv_postingRuleId w = rv_postingRuleId x" by (subst x(2), simp)+
    obtain s where s: "s \<in> set (posting_rules L)" "pr_id s = pr_id r"
      "if pr_id r = rv_postingRuleId v then pr_currentVersionId r = Some (rv_id v) else r = s" using rule [OF r] by blast
    show "pr_currentVersionId r = Some (rv_id w)"
    proof (cases "pr_id r = rv_postingRuleId v")
      case True
      then have "rv_id x = rv_id v" using x(3) st id ids by (auto split: if_splits)
      then show ?thesis using s(3) True ids by simp
    next
      case False
      have "rv_id x \<noteq> rv_id v"
      proof
        assume "rv_id x = rv_id v"
        then have "x = v" by (intro distinct_key_eq [of rv_id "posting_rule_versions L"]) (use keys x(1) v in \<open>simp_all add: ruleKeysOk_def\<close>)
        then show False using False id ids by simp
      qed
      then have "rv_status x = VersionActive" using x(3) st False id ids by (auto split: if_splits)
      moreover have "r \<in> set (posting_rules L)" using s False by simp
      ultimately show ?thesis using cur x(1) id ids unfolding currentOk_def by metis
    qed
  next
    fix r assume "r \<in> set (posting_rules ?M)" "pr_status r = RuleActive"
    then show "pr_currentVersionId r \<noteq> None"
      using cur unfolding currentOk_def by (auto simp: activate_rules split: if_splits)
  qed
qed

lemma activate_sound:
  assumes ok: "rulesOk L" and v: "v \<in> set (posting_rule_versions L)" and live: "rv_status v \<noteq> VersionSuperseded"
  shows "rulesOk (activate v L)" and "rulesGrow L (activate v L)" and "ruleTablesOnly L (activate v L)"
proof -
  let ?M = "activate v L"
  have keys: "ruleKeysOk L" and cur: "currentOk L" and tem: "templatesOk L" using ok by (simp_all add: rulesOk_def)
  have uniq: "x = v" if "x \<in> set (posting_rule_versions L)" "rv_id x = rv_id v" for x
    by (rule distinct_key_eq [of rv_id "posting_rule_versions L"]) (use keys v that in \<open>simp_all add: ruleKeysOk_def\<close>)
  have lines: "versionLines ?M i = versionLines L i" for i by (simp add: versionLines_def activate_lines)
  have rules: "(\<exists>r \<in> set (posting_rules ?M). pr_id r = i) \<longleftrightarrow> (\<exists>r \<in> set (posting_rules L). pr_id r = i)" for i
    using arg_cong [OF activate_ruleKeys(1) [of v L], of set] by (simp add: set_eq_iff image_iff) metis
  have oldv: "\<exists>x \<in> set (posting_rule_versions L). rv_id x = rv_id w \<and> rv_postingRuleId x = rv_postingRuleId w"
    if w: "w \<in> set (posting_rule_versions ?M)" for w
  proof -
    obtain x where "x \<in> set (posting_rule_versions L)" "w = x\<lparr>rv_status := rv_status w\<rparr>" using w by (rule activate_mem)
    then show ?thesis by (metis posting_rule_version.select_convs(1,2) posting_rule_version.surjective posting_rule_version.update_convs(4))
  qed
  have vids: "(\<exists>w \<in> set (posting_rule_versions ?M). rv_id w = i) \<longleftrightarrow> (\<exists>x \<in> set (posting_rule_versions L). rv_id x = i)" for i
    using arg_cong [OF activate_ids [of v L], of set] by (simp add: set_eq_iff image_iff) metis
  have "ruleKeysOk ?M"
    unfolding ruleKeysOk_def
  proof (intro conjI ballI)
    show "distinct (map pr_id (posting_rules ?M))" "distinct (map pr_code (posting_rules ?M))"
      using keys by (simp_all add: ruleKeysOk_def activate_ruleKeys)
    show "distinct (map rv_id (posting_rule_versions ?M))" using keys by (simp add: activate_ids ruleKeysOk_def)
  next
    fix w assume "w \<in> set (posting_rule_versions ?M)"
    then show "\<exists>r \<in> set (posting_rules ?M). pr_id r = rv_postingRuleId w"
      using oldv keys rules unfolding ruleKeysOk_def by metis
  next
    fix l assume "l \<in> set (posting_rule_lines ?M)"
    then show "\<exists>w \<in> set (posting_rule_versions ?M). rv_id w = rl_postingRuleVersionId l"
      using keys vids unfolding ruleKeysOk_def activate_lines by blast
  qed
  moreover have "templatesOk ?M"
    unfolding templatesOk_def
  proof (intro ballI impI)
    fix w r assume w: "w \<in> set (posting_rule_versions ?M)" and r: "r \<in> set (posting_rules ?M)" "pr_id r = rv_postingRuleId w"
    obtain x where x: "x \<in> set (posting_rule_versions L)" "rv_id x = rv_id w" "rv_postingRuleId x = rv_postingRuleId w"
      using oldv [OF w] by blast
    obtain s where "s \<in> set (posting_rules L)" "pr_id s = pr_id r" "pr_sourceFactType s = pr_sourceFactType r"
      using r(1) by (auto simp: activate_rules split: if_splits)
    then show "\<exists>t. readableSourceFactType (pr_sourceFactType r) = Some t \<and> templateOk t (versionLines ?M (rv_id w))"
      using tem x r(2) unfolding templatesOk_def lines by metis
  qed
  moreover have "currentOk ?M" by (rule activate_current [OF ok v])
  ultimately show "rulesOk ?M" by (simp add: rulesOk_def)
  show "rulesGrow L ?M"
    unfolding rulesGrow_def
  proof
    fix x assume x: "x \<in> set (posting_rule_versions L)"
    let ?s = "if rv_id x = rv_id v then VersionActive
       else if rv_postingRuleId x = rv_postingRuleId v \<and> rv_status x = VersionActive then VersionSuperseded else rv_status x"
    have "statusRank (rv_status x) \<le> statusRank ?s"
      using uniq [OF x] live by (cases "rv_status x") auto
    then show "\<exists>w \<in> set (posting_rule_versions ?M). x\<lparr>rv_status := rv_status w\<rparr> = w \<and>
        statusRank (rv_status x) \<le> statusRank (rv_status w) \<and> versionLines ?M (rv_id x) = versionLines L (rv_id x)"
      using activate_old [OF x, of v] lines by (intro bexI [of _ "x\<lparr>rv_status := ?s\<rparr>"]) auto
  qed
  show "ruleTablesOnly L ?M" by (simp add: ruleTablesOnly_def activate_def)
qed

section \<open>The contract of an operation\<close>

locale rules_operation =
  fixes operation :: "env \<Rightarrow> 'i \<Rightarrow> ledger \<Rightarrow> ('r \<times> ledger) acc"
  assumes keeps: "rulesOk L \<Longrightarrow> operation e i L = Inr (r, L') \<Longrightarrow> rulesOk L' \<and> rulesGrow L L'"
    and confined: "operation e i L = Inr (r, L') \<Longrightarrow> ruleTablesOnly L L'"
begin

lemma committed_rules:
  assumes "rulesOk L"
  shows "rulesOk (committed L (operation e i L))" and "rulesGrow L (committed L (operation e i L))"
  using assms keeps by (auto simp: committed_def split: sum.split)

lemma committed_foreign: "foreignChange L (committed L (operation e i L))"
  using confined [THEN ruleTablesOnly_foreign] by (auto simp: committed_def foreignChange_def split: sum.split)

end

lemma appendAudit_rules:
  assumes "appendAudit e k a L = Inr L'"
  shows "sameRules L L'" and "ruleTablesOnly L L'"
  using assms by (auto simp: appendAudit_def sameRules_def ruleTablesOnly_def split: sum.splits)

lemma ruleTablesOnly_trans: "ruleTablesOnly L M \<Longrightarrow> ruleTablesOnly M N \<Longrightarrow> ruleTablesOnly L N"
proof -
  assume "ruleTablesOnly L M" and "ruleTablesOnly M N"
  then have 1: "M = L\<lparr>posting_rules := posting_rules M, posting_rule_versions := posting_rule_versions M,
       posting_rule_lines := posting_rule_lines M, audit_events := audit_events M\<rparr>"
    and 2: "N = M\<lparr>posting_rules := posting_rules N, posting_rule_versions := posting_rule_versions N,
       posting_rule_lines := posting_rule_lines N, audit_events := audit_events N\<rparr>"
    by (simp_all add: ruleTablesOnly_def)
  show "ruleTablesOnly L N" unfolding ruleTablesOnly_def by (subst 2, subst 1) simp
qed

lemma ruleTablesOnly_same [simp]: "ruleTablesOnly L L"
  by (simp add: ruleTablesOnly_def)

text \<open>The step from one set of rule tables to the next that every operation takes.\<close>

definition rulesStep :: "ledger \<Rightarrow> ledger \<Rightarrow> bool" where
  "rulesStep L L' \<longleftrightarrow> ruleTablesOnly L L' \<and> (rulesOk L \<longrightarrow> rulesOk L' \<and> rulesGrow L L')"

lemma rulesStep_trans: "rulesStep L M \<Longrightarrow> rulesStep M N \<Longrightarrow> rulesStep L N"
  using ruleTablesOnly_trans rulesGrow_trans unfolding rulesStep_def by blast

lemma rulesStep_audit: "appendAudit e k a L = Inr L' \<Longrightarrow> rulesStep L L'"
  using appendAudit_rules sameRules_ok rulesGrow_same unfolding rulesStep_def by blast

lemma rulesStep_activate:
  assumes "v \<in> set (posting_rule_versions L)" and "rv_status v \<noteq> VersionSuperseded"
  shows "rulesStep L (activate v L)"
  using activate_sound [OF _ assms] by (simp add: rulesStep_def ruleTablesOnly_def activate_def)

lemma createRule_step:
  assumes "createRule e i L = Inr (r, L')"
  shows "rulesStep L L'"
proof -
  from assms obtain v L1 version L2 where v: "parseCreateRule i = Inr v"
    "validatePostingRuleTemplate (cr_sourceFactType v) (cr_lines v) (predicatesUsed (cr_predicates v)) = Inr ()" and
    rule: "insertRuleRow (draftRule e v) L = Inr L1" and
    added: "insertVersion e (pr_id (draftRule e v)) 1 (cr_predicates v) (cr_lines v) (cr_createdByUserId v) L1 = Inr (version, L2)" and
    rest: "\<exists>a. appendAudit e 1 a (if cr_activate v then activate version L2 else L2) = Inr L'"
    unfolding createRule_def Let_def by (clarsimp simp del: appendAudit_Inr, blast)
  let ?rule = "draftRule e v"
  have draft: "pr_status ?rule = RuleDraft" "pr_currentVersionId ?rule = None" "pr_sourceFactType ?rule = cr_sourceFactType v"
    by (simp_all add: draftRule_def)
  have two: "2 \<le> length (cr_lines v)" using v(1) by (auto simp: parseCreateRule_def)
  obtain rows t where a: "versionAdded L1 version rows L2" "rv_postingRuleId version = pr_id ?rule"
    "readableSourceFactType (cr_sourceFactType v) = Some t" "templateOk t rows"
    using added two v(2) by (rule insertVersion_added)
  have L1: "L1 = L\<lparr>posting_rules := posting_rules L @ [?rule]\<rparr>"
    and fresh: "\<forall>x \<in> set (posting_rules L). pr_id x \<noteq> pr_id ?rule"
    using rule by (auto simp: insertRuleRow_def list_ex_iff)
  have "rulesStep L L1"
    using insertRuleRow_sound [OF _ rule draft(1,2)] by (simp add: rulesStep_def ruleTablesOnly_def L1)
  moreover have "rulesStep L1 L2"
    using versionAdded_sound [OF _ a(1,3,4)] a(2) fresh draft(3) a(1)
    by (auto simp: rulesStep_def L1 versionAdded_def ruleTablesOnly_def)
  moreover have "rulesStep L2 (if cr_activate v then activate version L2 else L2)"
    using rulesStep_activate [of version L2] a(1) by (auto simp: versionAdded_def rulesStep_def)
  ultimately show ?thesis using rest rulesStep_audit rulesStep_trans by blast
qed

lemma addVersion_step:
  assumes "addVersion e i L = Inr (r, L')"
  shows "rulesStep L L'"
proof -
  from assms obtain v rule version L1 where v: "parseAddVersion i = Inr v" "loadRule L (av_postingRuleId v) = Inr rule"
    "validatePostingRuleTemplate (pr_sourceFactType rule) (av_lines v) (predicatesUsed (av_predicates v)) = Inr ()" and
    added: "insertVersion e (pr_id rule) (latestVersion L (pr_id rule) + 1) (av_predicates v) (av_lines v)
      (av_createdByUserId v) L = Inr (version, L1)" and
    rest: "\<exists>a. appendAudit e 1 a (if av_activate v then activate version L1 else L1) = Inr L'"
    unfolding addVersion_def Let_def by (clarsimp simp del: appendAudit_Inr, blast)
  have two: "2 \<le> length (av_lines v)" using v(1) by (auto simp: parseAddVersion_def)
  obtain rows t where a: "versionAdded L version rows L1" "rv_postingRuleId version = pr_id rule"
    "readableSourceFactType (pr_sourceFactType rule) = Some t" "templateOk t rows"
    using added two v(3) by (rule insertVersion_added)
  have mem: "rule \<in> set (posting_rules L)" using v(2) find_SomeD by (fastforce simp: loadRule_def)
  have "rulesStep L L1"
  proof -
    have "x = rule" if "rulesOk L" "x \<in> set (posting_rules L)" "pr_id x = pr_id rule" for x
      by (rule distinct_key_eq [of pr_id "posting_rules L"]) (use mem that in \<open>simp_all add: rulesOk_def ruleKeysOk_def\<close>)
    then show ?thesis
      using versionAdded_sound [OF _ a(1,3,4)] a(1,2) by (auto simp: rulesStep_def versionAdded_def ruleTablesOnly_def)
  qed
  moreover have "rulesStep L1 (if av_activate v then activate version L1 else L1)"
    using rulesStep_activate [of version L1] a(1) by (auto simp: versionAdded_def rulesStep_def)
  ultimately show ?thesis using rest rulesStep_audit rulesStep_trans by blast
qed

lemma activateVersion_step:
  assumes "activateVersion e i actor req L = Inr (r, L')"
  shows "rulesStep L L'"
proof -
  from assms obtain v where v: "find (\<lambda>v. rv_id v = i) (posting_rule_versions L) = Some v" "rv_status v \<noteq> VersionSuperseded"
    and rest: "\<exists>a. appendAudit e 1 a (activate v L) = Inr L'"
    unfolding activateVersion_def by (auto simp del: appendAudit_Inr)
  show ?thesis
    using rulesStep_activate [of v L] find_SomeD [OF v(1)] v(2) rest rulesStep_audit rulesStep_trans by blast
qed

lemma setRuleStatus_step:
  assumes "setRuleStatus e i st actor req L = Inr (r, L')"
  shows "rulesStep L L'"
proof -
  from assms obtain rule where rule: "loadRule L i = Inr rule" "st = RuleActive \<longrightarrow> pr_currentVersionId rule \<noteq> None"
    and rest: "\<exists>a. appendAudit e 1 a (L\<lparr>posting_rules :=
        updateWhere (\<lambda>r. pr_id r = pr_id rule) (pr_status_update (\<lambda>_. st)) (posting_rules L)\<rparr>) = Inr L'"
    unfolding setRuleStatus_def Let_def by (auto simp del: appendAudit_Inr)
  let ?M = "L\<lparr>posting_rules := updateWhere (\<lambda>r. pr_id r = pr_id rule) (pr_status_update (\<lambda>_. st)) (posting_rules L)\<rparr>"
  have mem: "rule \<in> set (posting_rules L)" using rule(1) find_SomeD by (fastforce simp: loadRule_def)
  have ok: "rulesOk ?M" if "rulesOk L"
  proof -
    have uniq: "x = rule" if "x \<in> set (posting_rules L)" "pr_id x = pr_id rule" for x
      by (rule distinct_key_eq [of pr_id "posting_rules L"]) (use mem that \<open>rulesOk L\<close> in \<open>simp_all add: rulesOk_def ruleKeysOk_def\<close>)
    then have cur: "\<forall>x \<in> set (posting_rules L). pr_id x = pr_id rule \<longrightarrow> pr_currentVersionId x = pr_currentVersionId rule"
      by metis
    have "set (map pr_id (posting_rules ?M)) = set (map pr_id (posting_rules L))" by (simp add: map_updateWhere)
    then have rules: "(\<exists>r \<in> set (posting_rules ?M). pr_id r = j) \<longleftrightarrow> (\<exists>r \<in> set (posting_rules L). pr_id r = j)" for j
      by (simp add: set_eq_iff image_iff) metis
    have "ruleKeysOk ?M"
      using that rules unfolding rulesOk_def ruleKeysOk_def by (simp add: map_updateWhere)
    moreover have "currentOk ?M"
      using that rule(2) cur unfolding rulesOk_def currentOk_def by (auto simp: set_updateWhere)
    moreover have "templatesOk ?M"
      using that unfolding rulesOk_def templatesOk_def versionLines_def by (auto simp: set_updateWhere)
    ultimately show ?thesis by (simp add: rulesOk_def)
  qed
  have "rulesStep L ?M"
    using ok by (auto simp: rulesStep_def ruleTablesOnly_def rulesGrow_def versionLines_def intro!: bexI)
  then show ?thesis using rest rulesStep_audit rulesStep_trans by blast
qed

lemmas rules_steps = createRule_step addVersion_step activateVersion_step setRuleStatus_step

interpretation rule_create: rules_operation createRule
  by unfold_locales (use createRule_step in \<open>auto simp: rulesStep_def\<close>)

interpretation rule_version: rules_operation addVersion
  by unfold_locales (use addVersion_step in \<open>auto simp: rulesStep_def\<close>)

interpretation rule_activate: rules_operation "\<lambda>e (i, actor, req). activateVersion e i actor req"
  by unfold_locales (use activateVersion_step in \<open>auto simp: rulesStep_def\<close>)

interpretation rule_status: rules_operation "\<lambda>e (i, st, actor, req). setRuleStatus e i st actor req"
  by unfold_locales (use setRuleStatus_step in \<open>auto simp: rulesStep_def\<close>)

end
