(* ===== verification/Rule_Resolution.thy ===== *)
theory Rule_Resolution
  imports Posting_Rules
begin

text \<open>
  Which rule fires. \<open>eligible\<close> is what it means for a rule to apply to a fact in a book, without
  an order of search; the loop of \<open>resolveForFact\<close> returns the eligible rule that comes first by
  priority and then code, and nothing exactly when no rule is eligible. A fact the readers produce
  carries every amount its type promises, as canonical money text, so the search never throws.
\<close>

section \<open>Facts carry their amounts\<close>

definition moneyText :: "string \<Rightarrow> bool" where
  "moneyText s \<longleftrightarrow> (\<exists>u. s = money_text u)"

lemma moneyText_text [simp]: "moneyText (money_text u)"
  by (auto simp: moneyText_def)

definition factOk :: "source_fact \<Rightarrow> bool" where
  "factOk f \<longleftrightarrow> moneyText (sf_matchAmount f) \<and>
     (\<forall>s \<in> set (AMOUNT_SOURCES_BY_FACT_TYPE (sf_sourceFactType f)). s \<noteq> Remainder \<longrightarrow>
        (\<exists>a. sf_amounts f s = Some a \<and> moneyText a)) \<and>
     (\<forall>s a. sf_amounts f s = Some a \<longrightarrow> moneyText a) \<and> (\<forall>a \<in> set (sf_allocations f). moneyText (al_amount a))"

lemma proRataShare_money: "proRataShare a b c = Inr r \<Longrightarrow> moneyText r"
  by (auto simp: proRataShare_def Let_def moneyText_def ZERO_money_text toMoneyString_iff split: if_splits)

lemma subtractDecimals_money: "subtractDecimals a b = Inr r \<Longrightarrow> moneyText r"
  by (auto simp: subtractDecimals_def moneyText_def)

lemma readFactOf_type: "readFactOf D t i = Inr (Some f) \<Longrightarrow> sf_sourceFactType f = t \<and> sf_sourceFactId f = i"
  by (cases t)
    (auto simp: readOrder_def readOrderFee_def readOrderRefund_def readExpense_def readAcquisitionCost_def
      readInventoryMovement_def Let_def split: option.splits prod.splits)

lemma factOkI:
  assumes "sf_amounts f = amountsOf ps" and "\<forall>p \<in> set ps. moneyText (snd p)" and "moneyText (sf_matchAmount f)"
    and "set (AMOUNT_SOURCES_BY_FACT_TYPE (sf_sourceFactType f)) \<subseteq> insert Remainder (fst ` set ps)"
    and "\<forall>a \<in> set (sf_allocations f). moneyText (al_amount a)"
  shows "factOk f"
proof -
  have money: "moneyText a" if "sf_amounts f s = Some a" for s a
    using assms(1,2) that by (force dest: map_of_SomeD)
  have "\<exists>a. sf_amounts f s = Some a \<and> moneyText a"
    if s: "s \<in> set (AMOUNT_SOURCES_BY_FACT_TYPE (sf_sourceFactType f))" "s \<noteq> Remainder" for s
  proof -
    have "s \<in> insert Remainder (fst ` set ps)" using assms(4) s(1) by (rule subsetD)
    then have "map_of ps s \<noteq> None" using s(2) by (simp add: map_of_eq_None_iff)
    then obtain a where "sf_amounts f s = Some a" using assms(1) by auto
    then show ?thesis using money by simp
  qed
  then show ?thesis using assms(3,5) money by (simp add: factOk_def)
qed

lemma readOrder_ok: "readOrder D i = Inr (Some f) \<Longrightarrow> factOk f"
  by (auto simp: readOrder_def Let_def dest!: subtractDecimals_money split: option.splits intro!: factOkI)

lemma readOrderFee_ok: "readOrderFee D i = Inr (Some f) \<Longrightarrow> factOk f"
  by (auto simp: readOrderFee_def Let_def split: option.splits prod.splits intro!: factOkI)

lemma readOrderRefund_ok: "readOrderRefund D i = Inr (Some f) \<Longrightarrow> factOk f"
  by (auto simp: readOrderRefund_def Let_def split: option.splits prod.splits intro!: factOkI)

lemma readExpense_ok: "readExpense D i = Inr (Some f) \<Longrightarrow> factOk f"
  by (auto simp: readExpense_def Let_def dest!: subtractDecimals_money split: option.splits intro!: factOkI)

lemma readAcquisitionCost_ok: "readAcquisitionCost D i = Inr (Some f) \<Longrightarrow> factOk f"
  by (auto simp: readAcquisitionCost_def Let_def split: option.splits prod.splits intro!: factOkI)

lemma readInventoryMovement_ok: "readInventoryMovement D i = Inr (Some f) \<Longrightarrow> factOk f"
  by (auto simp: readInventoryMovement_def movementBasis_def Let_def dest!: subtractDecimals_money
    split: option.splits prod.splits intro!: factOkI)

lemma readFactOf_ok: "readFactOf D t i = Inr (Some f) \<Longrightarrow> factOk f"
  by (cases t) (auto intro: readOrder_ok readOrderFee_ok readOrderRefund_ok readExpense_ok readAcquisitionCost_ok
    readInventoryMovement_ok)

lemma readableSourceFactType_text: "readableSourceFactType s = Some t \<Longrightarrow> s = factTypeText t"
  by (auto simp: readableSourceFactType_def dest: find_SomeD)

lemma readFact_ok:
  assumes "readFact D t i = Inr (Some f)"
  shows "factOk f" and "factTypeText (sf_sourceFactType f) = t" and "sf_sourceFactId f = i"
  using assms readFactOf_ok readFactOf_type by (auto simp: readFact_def dest: readableSourceFactType_text split: option.splits)

section \<open>Eligible rules\<close>

definition eligible :: "ledger \<Rightarrow> source_fact \<Rightarrow> uuid \<Rightarrow> posting_rule \<Rightarrow> posting_rule_version \<Rightarrow> bool" where
  "eligible L f b r v \<longleftrightarrow>
     r \<in> set (posting_rules L) \<and> pr_sourceFactType r = factTypeText (sf_sourceFactType f) \<and> pr_status r = RuleActive \<and>
     inScope b r \<and> currentVersion L r = Some v \<and> rv_status v = VersionActive \<and> versionMatches v f = Inr True"

definition notAfter :: "(string \<Rightarrow> nat) \<Rightarrow> posting_rule \<Rightarrow> posting_rule \<Rightarrow> bool" where
  "notAfter rank r s \<longleftrightarrow> pr_priority r < pr_priority s \<or>
     (pr_priority r = pr_priority s \<and> rank (pr_code r) \<le> rank (pr_code s))"

lemma sorted_wrt_insort_key:
  assumes "sorted_wrt P ys" and "\<And>y. y \<in> set ys \<Longrightarrow> f x \<le> f y \<Longrightarrow> P x y" and "\<And>y. y \<in> set ys \<Longrightarrow> f y < f x \<Longrightarrow> P y x"
    and "sorted (map f ys)"
  shows "sorted_wrt P (insort_key f x ys)"
  using assms by (induction ys) (auto simp: set_insort_key not_le intro: order_trans)

lemma sorted_wrt_sort_key:
  assumes "sorted_wrt R xs"
  shows "sorted_wrt (\<lambda>x y. f x < f y \<or> f x = f y \<and> R x y) (sort_key f xs)"
  using assms
proof (induction xs)
  case (Cons x xs)
  then show ?case
    unfolding sort_key_simps by (intro sorted_wrt_insort_key) auto
qed simp

lemma inRuleOrder_sorted: "sorted_wrt (notAfter rank) (inRuleOrder rank rs)"
proof -
  have "sorted_wrt (\<lambda>r s. rank (pr_code r) \<le> rank (pr_code s)) (sort_key (\<lambda>r. rank (pr_code r)) rs)"
    using sorted_sort_key [of "\<lambda>r. rank (pr_code r)" rs] by (simp add: sorted_map)
  from sorted_wrt_sort_key [OF this, of pr_priority] show ?thesis
    by (simp add: inRuleOrder_def notAfter_def [abs_def])
qed

lemma set_activeRules:
  "set (activeRules rank L f) =
     {r \<in> set (posting_rules L). pr_sourceFactType r = factTypeText (sf_sourceFactType f) \<and> pr_status r = RuleActive}"
  by (auto simp: activeRules_def inRuleOrder_def)

section \<open>The search\<close>

lemma amountTests_total:
  assumes "moneyText a"
  shows "\<exists>b. amountAtLeast a m = Inr b" and "\<exists>b. amountAtMost a m = Inr b"
  using assms by (cases m; auto simp: amountAtLeast_def amountAtMost_def moneyText_def)+

lemma versionMatches_total:
  assumes "moneyText (sf_matchAmount f)"
  shows "\<exists>m. versionMatches v f = Inr m"
proof -
  obtain x y where "amountAtLeast (sf_matchAmount f) (rv_matchMinAmount v) = Inr x"
    "amountAtMost (sf_matchAmount f) (rv_matchMaxAmount v) = Inr y"
    using amountTests_total [OF assms] by blast
  then show ?thesis by (auto simp: versionMatches_def Let_def)
qed

lemma firstMatch_find:
  assumes ok: "moneyText (sf_matchAmount f)"
  shows "firstMatch L f b rs = Inr
    (case find (\<lambda>r. inScope b r \<and> (\<exists>v. currentVersion L r = Some v \<and> rv_status v = VersionActive \<and> versionMatches v f = Inr True)) rs of
       None \<Rightarrow> None
     | Some r \<Rightarrow> Some \<lparr>rr_rule = r, rr_version = the (currentVersion L r), rr_lines = linesOfVersion L (rv_id (the (currentVersion L r)))\<rparr>)"
proof (induction rs)
  case (Cons r rs)
  show ?case
  proof (cases "currentVersion L r")
    case None
    then show ?thesis using Cons.IH by simp
  next
    case (Some v)
    obtain m where m: "versionMatches v f = Inr m" using versionMatches_total [OF ok] by blast
    show ?thesis using Cons.IH by (cases "inScope b r"; cases "rv_status v = VersionActive"; cases m) (simp_all add: Some m)
  qed
qed simp

lemma sorted_find_first:
  assumes "sorted_wrt P xs" and "find p xs = Some x" and "y \<in> set xs" and "p y"
  shows "y = x \<or> P x y"
  using assms by (induction xs) (auto split: if_splits)

lemma resolveForFact_spec:
  assumes ok: "moneyText (sf_matchAmount f)"
  shows "\<exists>res. resolveForFact rank L f b = Inr res \<and>
    (case res of None \<Rightarrow> \<forall>r v. \<not> eligible L f b r v
     | Some x \<Rightarrow> eligible L f b (rr_rule x) (rr_version x) \<and> rr_lines x = linesOfVersion L (rv_id (rr_version x)) \<and>
         (\<forall>r v. eligible L f b r v \<longrightarrow> notAfter rank (rr_rule x) r))"
proof -
  let ?p = "\<lambda>r. inScope b r \<and> (\<exists>v. currentVersion L r = Some v \<and> rv_status v = VersionActive \<and> versionMatches v f = Inr True)"
  have sorted: "sorted_wrt (notAfter rank) (activeRules rank L f)"
    unfolding activeRules_def by (rule inRuleOrder_sorted)
  have el: "eligible L f b r v \<Longrightarrow> r \<in> set (activeRules rank L f) \<and> ?p r" for r v
    by (auto simp: eligible_def set_activeRules)
  show ?thesis
  proof (cases "find ?p (activeRules rank L f)")
    case None
    then have "\<forall>r v. \<not> eligible L f b r v" using el find_NoneD [of ?p] by meson
    then show ?thesis by (simp add: resolveForFact_def firstMatch_find [OF ok] None)
  next
    case (Some r)
    have r: "r \<in> set (activeRules rank L f)" "?p r" using find_SomeD [OF Some] by auto
    have first: "\<forall>s w. eligible L f b s w \<longrightarrow> notAfter rank r s"
    proof (intro allI impI)
      fix s w assume that: "eligible L f b s w"
      show "notAfter rank r s"
      using sorted_find_first [OF sorted Some] el [OF that] by (auto simp: notAfter_def)
    qed
    obtain v where "inScope b r" "currentVersion L r = Some v" "rv_status v = VersionActive"
      "versionMatches v f = Inr True" using r(2) by blast
    then have "eligible L f b r v" using r(1) by (simp add: eligible_def set_activeRules)
    then show ?thesis
      using first \<open>currentVersion L r = Some v\<close> by (simp add: resolveForFact_def firstMatch_find [OF ok] Some)
  qed
qed

end
