(* ===== verification/Rule_Properties.thy ===== *)
theory Rule_Properties
  imports Rule_Machine Rule_Resolution Ledger_Properties
begin

text \<open>
  What holds of the rules after any sequence of calls, and which rule fires. The sample rule books
  the total of an order to one account and the rest to another.
\<close>

section \<open>Runs of the rules service\<close>

datatype rule_request =
    CreateRule create_rule_input
  | AddVersion add_version_input
  | ActivateVersion uuid "string option" "string option"
  | SetRuleStatus uuid rule_status "string option" "string option"

fun serveRule :: "env \<Rightarrow> rule_request \<Rightarrow> ledger \<Rightarrow> ledger" where
  "serveRule e (CreateRule i) L = committed L (createRule e i L)"
| "serveRule e (AddVersion i) L = committed L (addVersion e i L)"
| "serveRule e (ActivateVersion i actor req) L = committed L (activateVersion e i actor req L)"
| "serveRule e (SetRuleStatus i st actor req) L = committed L (setRuleStatus e i st actor req L)"

definition serveRules :: "(env \<times> rule_request) list \<Rightarrow> ledger \<Rightarrow> ledger" where
  "serveRules calls = fold (\<lambda>(e, q). serveRule e q) calls"

lemma serveRule_sound:
  assumes "rulesOk L"
  shows "rulesOk (serveRule e q L) \<and> rulesGrow L (serveRule e q L)"
proof (cases q)
  case (ActivateVersion i actor req)
  then show ?thesis using rule_activate.committed_rules [OF assms, of e "(i, actor, req)"] by simp
next
  case (SetRuleStatus i st actor req)
  then show ?thesis using rule_status.committed_rules [OF assms, of e "(i, st, actor, req)"] by simp
qed (simp_all add: assms rule_create.committed_rules rule_version.committed_rules)

lemma serveRule_foreign: "foreignChange L (serveRule e q L)"
proof (cases q)
  case (ActivateVersion i actor req)
  then show ?thesis using rule_activate.committed_foreign [of L e "(i, actor, req)"] by simp
next
  case (SetRuleStatus i st actor req)
  then show ?thesis using rule_status.committed_foreign [of L e "(i, st, actor, req)"] by simp
qed (simp_all add: rule_create.committed_foreign rule_version.committed_foreign)

lemma serveRules_sound: "rulesOk L \<Longrightarrow> rulesOk (serveRules calls L) \<and> rulesGrow L (serveRules calls L)"
proof (induction calls arbitrary: L)
  case (Cons c calls)
  obtain e q where c: "c = (e, q)" by (cases c)
  have "rulesOk (serveRule e q L)" "rulesGrow L (serveRule e q L)" using serveRule_sound [OF Cons.prems] by blast+
  then show ?case using Cons.IH rulesGrow_trans by (auto simp: c serveRules_def)
qed (simp add: serveRules_def)

lemma reachable_serveRules: "reachable L \<Longrightarrow> reachable (serveRules calls L)"
proof (induction calls arbitrary: L)
  case (Cons c calls)
  obtain e q where c: "c = (e, q)" by (cases c)
  have "reachable (serveRule e q L)" by (rule reachable.step [OF Cons.prems ledger_step.foreign [OF serveRule_foreign]])
  then show ?case using Cons.IH by (simp add: c serveRules_def)
qed (simp add: serveRules_def)

text \<open>Every other service leaves the rule tables alone.\<close>

inductive rules_reachable :: "ledger \<Rightarrow> bool" where
  no_rules: "posting_rules L = [] \<Longrightarrow> posting_rule_versions L = [] \<Longrightarrow> posting_rule_lines L = [] \<Longrightarrow> rules_reachable L"
| rules_served: "rules_reachable L \<Longrightarrow> rules_reachable (serveRule e q L)"
| elsewhere: "rules_reachable L \<Longrightarrow> sameRules L L' \<Longrightarrow> rules_reachable L'"

lemma rules_reachable_ok: "rules_reachable L \<Longrightarrow> rulesOk L"
proof (induction rule: rules_reachable.induct)
  case (no_rules L)
  then show ?case by (simp add: rulesOk_def ruleKeysOk_def currentOk_def templatesOk_def)
qed (simp_all add: serveRule_sound sameRules_ok)

lemma rules_reachable_serveRules: "rules_reachable L \<Longrightarrow> rules_reachable (serveRules calls L)"
  by (induction calls arbitrary: L) (auto simp: serveRules_def intro: rules_reachable.rules_served)

section \<open>A sample rule\<close>

definition demoRuleLine :: "uuid \<Rightarrow> amount_source \<Rightarrow> rule_line_input" where
  "demoRuleLine account source = \<lparr>li_lineNumber = None, li_accountSystemKey = None, li_ledgerAccountId = Some account,
     li_amountSource = source, li_amountMultiplier = ''1'', li_inheritEntity = True, li_dimensionValueId = None,
     li_descriptionTemplate = None\<rparr>"

definition anyFact :: predicate_input where
  "anyFact = \<lparr>pi_effectiveFrom = None, pi_effectiveTo = None, pi_matchProvider = None, pi_matchChannel = None,
     pi_matchEconomicEntityId = None, pi_matchFeeType = None, pi_matchFeeDirection = None, pi_matchMovementKind = None,
     pi_matchSourceKind = None, pi_matchExpenseCategory = None, pi_matchCapitalize = None, pi_matchCurrency = None,
     pi_matchMinAmount = None, pi_matchMaxAmount = None, pi_note = None\<rparr>"

definition demoRule :: create_rule_input where
  "demoRule = \<lparr>cr_code = ''s'', cr_name = ''s'', cr_sourceFactType = ''order'', cr_accountingBookId = None,
     cr_priority = 100, cr_description = None, cr_predicates = anyFact,
     cr_lines = [demoRuleLine ''xxxa'' Total, demoRuleLine ''xxxxa'' Remainder], cr_activate = True,
     cr_createdByUserId = None, cr_requestId = None\<rparr>"

definition demoRules :: ledger where
  "demoRules = serveRules [(demoEnv ''q'', CreateRule demoRule)] demoLedger"

definition demoRevised :: ledger where
  "demoRevised = serveRules [(demoEnv ''w'', AddVersion \<lparr>av_postingRuleId = ''q'', av_predicates = anyFact,
     av_lines = cr_lines demoRule, av_activate = True, av_createdByUserId = None, av_requestId = None\<rparr>)] demoRules"

definition demoOrder :: "int \<Rightarrow> order_row" where
  "demoOrder amount = \<lparr>or_id = ''o'', or_provider = ''e'', or_channel = ''c'', or_externalOrderId = ''1'',
     or_externalOrderNumber = None, or_economicEntityId = None, or_status = ''complete'', or_currency = ''USD'',
     or_subtotalAmount = amount, or_shippingAmount = 0, or_discountAmount = 0, or_taxAmount = 0, or_feeAmount = 0,
     or_refundedAmount = 0, or_totalAmount = amount, or_placedAt = (Date 2026 1 20, 0), or_duplicateOfOrderId = None\<rparr>"

definition demoOperations :: "int \<Rightarrow> operations" where
  "demoOperations amount = \<lparr>orders = [demoOrder amount], order_lines = [], order_fees = [], order_refunds = [],
     expense_facts = [], expense_allocations = [], acquisitions = [], acquisition_costs = [], inventory_items = [],
     inventory_movements = []\<rparr>"

lemma demoLedger_no_rules: "posting_rules demoLedger = [] \<and> posting_rule_versions demoLedger = [] \<and> posting_rule_lines demoLedger = []"
  by code_simp

lemma demoRules_reachable: "reachable demoRules" "rules_reachable demoRules" "reachable demoRevised" "rules_reachable demoRevised"
  unfolding demoRevised_def demoRules_def
  by (simp_all add: reachable_serveRules rules_reachable_serveRules demoLedger_reachable demoLedger_no_rules rules_reachable.no_rules)

definition rulesSummary :: "ledger \<Rightarrow> (uuid \<times> rule_status \<times> uuid option) list \<times> (uuid \<times> uuid \<times> int \<times> version_status) list \<times> (uuid \<times> amount_source) list" where
  "rulesSummary L = (map (\<lambda>r. (pr_id r, pr_status r, pr_currentVersionId r)) (posting_rules L),
     map (\<lambda>v. (rv_id v, rv_postingRuleId v, rv_version v, rv_status v)) (posting_rule_versions L),
     map (\<lambda>l. (rl_postingRuleVersionId l, rl_amountSource l)) (posting_rule_lines L))"

lemma demoRevised_summary:
  "rulesSummary demoRevised = ([(''q'', RuleActive, Some ''xxw'')],
     [(''xxq'', ''q'', 1, VersionSuperseded), (''xxw'', ''q'', 2, VersionActive)],
     [(''xxq'', Total), (''xxq'', Remainder), (''xxw'', Total), (''xxw'', Remainder)])"
  by code_simp

section \<open>The rules\<close>

text \<open>C7. A rule fires by one version at a time: in every state of the rules service a rule has at
  most one active version, an active rule has exactly one, and it is the version the rule points at.\<close>

theorem rule_has_one_live_version:
  assumes "rules_reachable L" and "r \<in> set (posting_rules L)"
  shows "(\<forall>v \<in> set (posting_rule_versions L). rv_status v = VersionActive \<and> rv_postingRuleId v = pr_id r \<longleftrightarrow>
      pr_currentVersionId r = Some (rv_id v)) \<and>
    (pr_status r = RuleActive \<longrightarrow> (\<exists>v. currentVersion L r = Some v \<and> rv_status v = VersionActive \<and> rv_postingRuleId v = pr_id r))"
proof -
  have ok: "ruleKeysOk L" "currentOk L" using rules_reachable_ok [OF assms(1)] by (simp_all add: rulesOk_def)
  have cur: "rv_status v = VersionActive \<and> rv_postingRuleId v = pr_id r"
    if v: "v \<in> set (posting_rule_versions L)" "pr_currentVersionId r = Some (rv_id v)" for v
  proof -
    obtain w where w: "w \<in> set (posting_rule_versions L)" "rv_id w = rv_id v" "rv_postingRuleId w = pr_id r" "rv_status w = VersionActive"
      using ok(2) assms(2) v(2) unfolding currentOk_def by blast
    have "w = v" by (rule distinct_key_eq [of rv_id "posting_rule_versions L"]) (use ok(1) v(1) w in \<open>simp_all add: ruleKeysOk_def\<close>)
    then show ?thesis using w by simp
  qed
  have "\<exists>v. currentVersion L r = Some v \<and> rv_status v = VersionActive \<and> rv_postingRuleId v = pr_id r" if live: "pr_status r = RuleActive"
  proof -
    obtain i where i: "pr_currentVersionId r = Some i" using ok(2) assms(2) live unfolding currentOk_def by (metis option.exhaust)
    then obtain w where "w \<in> set (posting_rule_versions L)" "rv_id w = i" using ok(2) assms(2) unfolding currentOk_def by blast
    then obtain v where v: "find (\<lambda>v. rv_id v = i) (posting_rule_versions L) = Some v"
      by (cases "find (\<lambda>v. rv_id v = i) (posting_rule_versions L)") (auto simp: find_None_iff)
    then show ?thesis using cur [of v] find_SomeD [OF v] i by (simp add: currentVersion_def)
  qed
  then show ?thesis using cur ok(2) assms(2) unfolding currentOk_def by metis
qed

theorem rule_has_one_live_version_witness:
  "\<exists>r \<in> set (posting_rules demoRevised). \<exists>v. currentVersion demoRevised r = Some v \<and> rv_status v = VersionActive"
proof -
  obtain r where "r \<in> set (posting_rules demoRevised)" "pr_status r = RuleActive"
    using demoRevised_summary by (auto simp: rulesSummary_def map_eq_Cons_conv)
  then show ?thesis using rule_has_one_live_version [OF demoRules_reachable(4)] by blast
qed

text \<open>C39. A version's text is final: whatever is called afterwards, a version keeps every column
  but its status and keeps its lines, and its status only moves from draft to active to superseded.\<close>

theorem version_text_final:
  assumes "rules_reachable L" and "v \<in> set (posting_rule_versions L)"
  shows "\<exists>w \<in> set (posting_rule_versions (serveRules calls L)). v\<lparr>rv_status := rv_status w\<rparr> = w \<and>
    statusRank (rv_status v) \<le> statusRank (rv_status w) \<and>
    linesOfVersion (serveRules calls L) (rv_id v) = linesOfVersion L (rv_id v)"
proof -
  have "rulesGrow L (serveRules calls L)" using serveRules_sound [OF rules_reachable_ok [OF assms(1)]] by blast
  then show ?thesis using assms(2) unfolding rulesGrow_def versionLines_def linesOfVersion_def by metis
qed

theorem version_text_final_witness:
  "\<exists>v \<in> set (posting_rule_versions demoRules). \<exists>w \<in> set (posting_rule_versions demoRevised). v\<lparr>rv_status := rv_status w\<rparr> = w \<and>
     linesOfVersion demoRevised (rv_id v) = linesOfVersion demoRules (rv_id v)"
proof -
  have "posting_rule_versions demoRules \<noteq> []" by code_simp
  then obtain v where "v \<in> set (posting_rule_versions demoRules)" by (cases "posting_rule_versions demoRules") auto
  then show ?thesis using version_text_final [OF demoRules_reachable(2)] unfolding demoRevised_def by blast
qed

section \<open>Resolution\<close>

text \<open>C10. First match wins: for a fact the reader produced, resolution never throws; it returns
  nothing exactly when no rule is eligible (active, in the book's scope, with an active current
  version whose predicates all hold), and otherwise an eligible rule that no eligible rule precedes
  by priority and then by code, with the lines of its version.\<close>

theorem resolveForFact_first_match:
  assumes "readFact D t i = Inr (Some f)"
  shows "\<exists>res. resolveForFact rank L f b = Inr res \<and>
    (case res of None \<Rightarrow> \<forall>r v. \<not> eligible L f b r v
     | Some x \<Rightarrow> eligible L f b (rr_rule x) (rr_version x) \<and> rr_lines x = linesOfVersion L (rv_id (rr_version x)) \<and>
         (\<forall>r v. eligible L f b r v \<longrightarrow> notAfter rank (rr_rule x) r))"
  using resolveForFact_spec readFact_ok(1) [OF assms] by (simp add: factOk_def)

definition demoFact :: source_fact where
  "demoFact = the (projr (readFact (demoOperations 30000000) ''order'' ''o''))"

lemma demoFact_read: "readFact (demoOperations 30000000) ''order'' ''o'' = Inr (Some demoFact)"
proof -
  have "case readFact (demoOperations 30000000) ''order'' ''o'' of Inr (Some f) \<Rightarrow> True | _ \<Rightarrow> False" by code_simp
  then show ?thesis unfolding demoFact_def by (auto split: sum.splits option.splits)
qed

theorem resolveForFact_first_match_witness:
  "\<exists>x. resolveForFact (\<lambda>_. 0) demoRevised demoFact ''a'' = Inr (Some x) \<and>
     eligible demoRevised demoFact ''a'' (rr_rule x) (rr_version x) \<and> rv_id (rr_version x) = ''xxw''"
proof -
  have c: "map_sum id (map_option (\<lambda>x. rv_id (rr_version x)))
      (resolveForFact (\<lambda>_. 0) demoRevised (the (projr (readFact (demoOperations 30000000) ''order'' ''o''))) ''a'') = Inr (Some ''xxw'')"
    by code_simp
  show ?thesis
    using resolveForFact_first_match [OF demoFact_read, of "\<lambda>_. 0" demoRevised "''a''"] c
    unfolding demoFact_def [symmetric] by auto
qed

section \<open>A check that is skipped\<close>

text \<open>The system key of a remainder line is not checked: a template that sends its remainder
  to a key no account can carry is accepted when the rule is saved, although the same key on any
  other line is refused.\<close>

lemma remainder_key_unchecked:
  "\<not> List.member LEDGER_SYSTEM_KEYS ''no_such_key'' \<and>
   validatePostingRuleTemplate ''order''
     [demoRuleLine ''xxxa'' Total, (demoRuleLine ''x'' Remainder)\<lparr>li_ledgerAccountId := None, li_accountSystemKey := Some ''no_such_key''\<rparr>] [] = Inr () \<and>
   validatePostingRuleTemplate ''order''
     [(demoRuleLine ''x'' Total)\<lparr>li_ledgerAccountId := None, li_accountSystemKey := Some ''no_such_key''\<rparr>, demoRuleLine ''xxxa'' Remainder] []
     = Inl AccountingValidationError"
  by code_simp

end
