(* ===== verification/Posting_Engine.thy ===== *)
theory Posting_Engine
  imports Posting_Rules Ledger_Machine
begin

text \<open>
  \<^verbatim>\<open>posting-engine.ts\<close>: turning one operational fact into a journal entry. An evaluation reads
  the fact, routes it to a book, resolves the rule, fingerprints what the rule consumed, and then
  does nothing, posts, or reverses and reposts. The reversal and the post are separate
  transactions, so an evaluation returns its outcome or error together with the ledger it left.
  \<^verbatim>\<open>createHash("sha256")\<close> is the argument \<open>sha256\<close> (bytes to lower-case hex); sentences of an
  explanation are not modelled.
\<close>

section \<open>Outcomes\<close>

datatype unpostable_reason = FactNotFound | FactIneligible | NoRoute | NoRule | NoPeriod | NothingToPost

datatype outcome_status = IsPosted | IsUnchanged | IsReposted | IsUnpostable

record rule_stamp =
  rst_code :: string
  rst_version :: int
  rst_postingRuleVersionId :: uuid

record outcome =
  oc_sourceFactType :: string
  oc_sourceFactId :: uuid
  oc_status :: outcome_status
  oc_entry :: "journal_entry option"
  oc_reversalEntry :: "journal_entry option"
  oc_rule :: "rule_stamp option"
  oc_accountingBookId :: "uuid option"
  oc_reason :: "unpostable_reason option"

record evaluate_input =
  ev_sourceFactType :: string
  ev_sourceFactId :: uuid
  ev_installationDefaultBookId :: "uuid option"
  ev_allowBackdated :: bool
  ev_actorUserId :: "string option"
  ev_requestId :: "string option"

definition unpostable :: "evaluate_input \<Rightarrow> unpostable_reason \<Rightarrow> outcome" where
  "unpostable i reason =
     \<lparr>oc_sourceFactType = ev_sourceFactType i, oc_sourceFactId = ev_sourceFactId i, oc_status = IsUnpostable,
      oc_entry = None, oc_reversalEntry = None, oc_rule = None, oc_accountingBookId = None, oc_reason = Some reason\<rparr>"

section \<open>The fingerprint\<close>

definition hexDigit :: "nat \<Rightarrow> char" where
  "hexDigit n = (if n < 10 then digit_char n else char_of (n + 87))"

definition jsonChar :: "char \<Rightarrow> string" where
  "jsonChar c =
     (let n = of_char c :: nat in
      if c = CHR 0x22 then [CHR 0x5C, CHR 0x22]
      else if c = CHR 0x5C then [CHR 0x5C, CHR 0x5C]
      else if n = 8 then [CHR 0x5C, CHR ''b'']
      else if n = 9 then [CHR 0x5C, CHR ''t'']
      else if n = 10 then [CHR 0x5C, CHR ''n'']
      else if n = 12 then [CHR 0x5C, CHR ''f'']
      else if n = 13 then [CHR 0x5C, CHR ''r'']
      else if n < 32 then [CHR 0x5C, CHR ''u'', CHR ''0'', CHR ''0'', hexDigit (n div 16), hexDigit (n mod 16)]
      else [c])"

lemma jsonChar_code [code]:
  "jsonChar c =
     (let n = (of_char c :: int) in
      if c = CHR 0x22 then [CHR 0x5C, CHR 0x22]
      else if c = CHR 0x5C then [CHR 0x5C, CHR 0x5C]
      else if n = 8 then [CHR 0x5C, CHR ''b'']
      else if n = 9 then [CHR 0x5C, CHR ''t'']
      else if n = 10 then [CHR 0x5C, CHR ''n'']
      else if n = 12 then [CHR 0x5C, CHR ''f'']
      else if n = 13 then [CHR 0x5C, CHR ''r'']
      else if n < 32 then let m = of_char c :: nat in [CHR 0x5C, CHR ''u'', CHR ''0'', CHR ''0'', hexDigit (m div 16), hexDigit (m mod 16)]
      else [c])"
  by (simp add: jsonChar_def charCode_less Let_def not_le [symmetric])

definition jsonString :: "string \<Rightarrow> string" where
  "jsonString s = [CHR 0x22] @ concat (map jsonChar s) @ [CHR 0x22]"

definition intText :: "int \<Rightarrow> string" where
  "intText n = (if n < 0 then CHR ''-'' # nat_toString (nat (- n)) else nat_toString (nat n))"

text \<open>\<^verbatim>\<open>JSON.stringify\<close>, on numbers that are integers.\<close>

fun stringify :: "json \<Rightarrow> string" where
  "stringify JNull = ''null''"
| "stringify (JBool b) = (if b then ''true'' else ''false'')"
| "stringify (JNum n) = intText n"
| "stringify (JStr s) = jsonString s"
| "stringify (JArr xs) = ''['' @ joinWith '','' (map stringify xs) @ '']''"
| "stringify (JObj ps) = ''{'' @ joinWith '','' (map (\<lambda>(k, v). jsonString k @ '':'' @ stringify v) ps) @ ''}''"

fun amountSourceText :: "amount_source \<Rightarrow> string" where
  "amountSourceText Total = ''total''"
| "amountSourceText Subtotal = ''subtotal''"
| "amountSourceText Shipping = ''shipping''"
| "amountSourceText Discount = ''discount''"
| "amountSourceText Tax = ''tax''"
| "amountSourceText Fee = ''fee''"
| "amountSourceText Refund = ''refund''"
| "amountSourceText Net = ''net''"
| "amountSourceText CostBasis = ''cost_basis''"
| "amountSourceText QuantityTimesBasis = ''quantity_times_basis''"
| "amountSourceText Remainder = ''remainder''"

text \<open>The distinct sources a version reads, in the order of their text (\<^verbatim>\<open>[...new Set(..)].sort()\<close>).\<close>

definition SOURCES_BY_TEXT :: "amount_source list" where
  "SOURCES_BY_TEXT = [CostBasis, Discount, Fee, Net, QuantityTimesBasis, Refund, Shipping, Subtotal, Tax, Total]"

definition amountSources :: "posting_rule_line list \<Rightarrow> amount_source list" where
  "amountSources ls = filter (List.member (map rl_amountSource ls)) SOURCES_BY_TEXT"

definition amountOrZero :: "source_fact \<Rightarrow> amount_source \<Rightarrow> string" where
  "amountOrZero f s = (case sf_amounts f s of None \<Rightarrow> ZERO | Some a \<Rightarrow> a)"

text \<open>\<^verbatim>\<open>String(attribute ?? null)\<close>\<close>

definition orNullText :: "string option \<Rightarrow> string" where
  "orNullText a = (case a of None \<Rightarrow> ''null'' | Some s \<Rightarrow> s)"

definition matchedAttributes :: "source_fact \<Rightarrow> posting_rule_version \<Rightarrow> (string \<times> json) list" where
  "matchedAttributes f v =
     (let a = sf_attributes f;
          entry = (\<lambda>name predicate attribute. if predicate = None then [] else [(name, JStr (orNullText attribute))])
      in entry ''provider'' (rv_matchProvider v) (fa_provider a) @
         entry ''channel'' (rv_matchChannel v) (fa_channel a) @
         entry ''feeType'' (rv_matchFeeType v) (fa_feeType a) @
         entry ''feeDirection'' (rv_matchFeeDirection v) (fa_feeDirection a) @
         entry ''movementKind'' (rv_matchMovementKind v) (fa_movementKind a) @
         entry ''sourceKind'' (rv_matchSourceKind v) (fa_sourceKind a) @
         entry ''expenseCategory'' (rv_matchExpenseCategory v) (fa_expenseCategory a) @
         (if rv_matchCapitalize v = None then []
          else [(''capitalize'', JStr (case fa_capitalize a of None \<Rightarrow> ''null'' | Some True \<Rightarrow> ''true'' | Some False \<Rightarrow> ''false''))]))"

definition canonicalFact :: "source_fact \<Rightarrow> resolved_rule \<Rightarrow> json" where
  "canonicalFact f r = JObj
     [(''type'', JStr (factTypeText (sf_sourceFactType f))), (''id'', JStr (sf_sourceFactId f)),
      (''date'', JStr (isoDate (sf_accountingDate f))), (''entity'', jstro (sf_factEntityId f)),
      (''currency'', JStr (sf_currency f)),
      (''amounts'', JObj (map (\<lambda>s. (amountSourceText s, JStr (amountOrZero f s))) (amountSources (rr_lines r)))),
      (''matched'', JObj (matchedAttributes f (rr_version r))),
      (''allocations'', JArr (map (\<lambda>a. JArr [jstro (al_ledgerAccountId a), JStr (al_amount a),
         jstro (al_economicEntityId a), jstro (al_dimensionValueId a)]) (sf_allocations f)))]"

definition fingerprintFact :: "(string \<Rightarrow> string) \<Rightarrow> source_fact \<Rightarrow> resolved_rule \<Rightarrow> string" where
  "fingerprintFact sha256 f r = sha256 (stringify (canonicalFact f r))"

definition postingKeyFor :: "string \<Rightarrow> int \<Rightarrow> string \<Rightarrow> uuid \<Rightarrow> string \<Rightarrow> string" where
  "postingKeyFor ruleCode version factType factId fingerprint =
     joinWith '':'' [''pr'', ruleCode, ''v'' @ intText version, factType, factId, take 12 fingerprint]"

section \<open>Routing\<close>

definition routeFact :: "ledger \<Rightarrow> source_fact \<Rightarrow> uuid option \<Rightarrow> accounting_book option acc" where
  "routeFact L f installationDefault =
     (case sf_accountingBookIdOverride f of
        Some b \<Rightarrow> bindE (loadBook L b) (\<lambda>book. Inr (Some book))
      | None \<Rightarrow>
          (case resolveBookForEntity L (sf_factEntityId f) (sf_accountingDate f) installationDefault of
             None \<Rightarrow> Inr None
           | Some routing \<Rightarrow> bindE (loadBook L (br_accountingBookId routing)) (\<lambda>book. Inr (Some book))))"

section \<open>Building the lines\<close>

record built_line =
  bu_accountSystemKey :: "string option"
  bu_ledgerAccountId :: "uuid option"
  bu_amount :: string
  bu_description :: "string option"
  bu_economicEntityId :: "uuid option"
  bu_dimensionValueId :: "uuid option"

definition builtLine :: "source_fact \<Rightarrow> posting_rule_line \<Rightarrow> string \<Rightarrow> built_line" where
  "builtLine f l amount =
     \<lparr>bu_accountSystemKey = rl_accountSystemKey l, bu_ledgerAccountId = rl_ledgerAccountId l, bu_amount = amount,
      bu_description = map_option (\<lambda>t. renderTemplate t (sf_placeholders f)) (rl_descriptionTemplate l),
      bu_economicEntityId = (if rl_inheritEntity l then sf_factEntityId f else None),
      bu_dimensionValueId = rl_dimensionValueId l\<rparr>"

text \<open>One template line that is not the remainder: nothing when its amount is zero.\<close>

definition buildLine :: "source_fact \<Rightarrow> posting_rule_line \<Rightarrow> built_line list acc" where
  "buildLine f l =
     bindE (fromOption AccountingValidationError (sf_amounts f (rl_amountSource l))) (\<lambda>source.
     bindE (multiplyDecimals source (money_text (rl_amountMultiplier l))) (\<lambda>amount.
     bindE (isZeroDecimal amount) (\<lambda>zero. Inr (if zero then [] else [builtLine f l amount]))))"

text \<open>\<^verbatim>\<open>lines.filter((line) => line !== target)\<close> drops the one line that is not negative.\<close>

definition splitByAllocations :: "source_fact \<Rightarrow> built_line list \<Rightarrow> built_line list acc" where
  "splitByAllocations f ls =
     (let allocations = filter (\<lambda>a. al_ledgerAccountId a \<noteq> None) (sf_allocations f) in
      if sf_sourceFactType f \<noteq> ExpenseFact \<or> allocations = [] then Inr ls
      else case filter (\<lambda>l. \<not> startsWith ''-'' (bu_amount l)) ls of
        [target] \<Rightarrow>
         (bindE (sumDecimals (map al_amount allocations)) (\<lambda>allocated.
          bindE (isNegative allocated) (\<lambda>n1.
          bindE (isNegative (bu_amount target)) (\<lambda>n2.
          bindE (absDecimal allocated) (\<lambda>a1.
          bindE (absDecimal (bu_amount target)) (\<lambda>a2.
          bindE (compareDecimals a1 a2) (\<lambda>c.
          if n1 \<noteq> n2 \<or> 0 < c then Inr ls
          else
            bindE (mapE (\<lambda>a. bindE (toMoneyString (al_amount a)) (\<lambda>amount. Inr
              \<lparr>bu_accountSystemKey = None, bu_ledgerAccountId = al_ledgerAccountId a, bu_amount = amount,
               bu_description = bu_description target,
               bu_economicEntityId = (case al_economicEntityId a of None \<Rightarrow> bu_economicEntityId target | Some i \<Rightarrow> Some i),
               bu_dimensionValueId = al_dimensionValueId a\<rparr>)) allocations) (\<lambda>replacement.
            bindE (negateDecimal allocated) (\<lambda>negated.
            bindE (sumDecimals [bu_amount target, negated]) (\<lambda>unallocated.
            bindE (isZeroDecimal unallocated) (\<lambda>zero.
            Inr (filter (\<lambda>l. startsWith ''-'' (bu_amount l)) ls @ replacement @
              (if zero then [] else [target\<lparr>bu_amount := unallocated\<rparr>])))))))))))))
      | _ \<Rightarrow> Inr ls)"

text \<open>The last \<^verbatim>\<open>remainder\<close> line of the template is the one kept.\<close>

definition remainderTemplate :: "posting_rule_line list \<Rightarrow> posting_rule_line option" where
  "remainderTemplate ls = find (\<lambda>l. rl_amountSource l = Remainder) (rev ls)"

definition buildLines :: "source_fact \<Rightarrow> resolved_rule \<Rightarrow> built_line list acc" where
  "buildLines f r =
     bindE (mapE (buildLine f) (filter (\<lambda>l. rl_amountSource l \<noteq> Remainder) (rr_lines r))) (\<lambda>built.
     bindE (splitByAllocations f (concat built)) (\<lambda>split.
     case remainderTemplate (rr_lines r) of
       None \<Rightarrow> Inr split
     | Some template \<Rightarrow>
         bindE (sumDecimals (map bu_amount split)) (\<lambda>total.
         bindE (negateDecimal total) (\<lambda>residue.
         bindE (isZeroDecimal residue) (\<lambda>zero.
         Inr (if zero then split else split @ [builtLine f template residue]))))))"

section \<open>Posting a fact\<close>

text \<open>\<^verbatim>\<open>order by created_at desc limit 1\<close>: the last row written.\<close>

definition isEntryFor :: "string \<Rightarrow> uuid \<Rightarrow> journal_entry \<Rightarrow> bool" where
  "isEntryFor t i r \<longleftrightarrow> je_sourceFactType r = Some t \<and> je_sourceFactId r = Some i \<and>
     je_entrySource r = PostingRule \<and> je_status r = Posted \<and> je_reversesEntryId r = None"

definition existingEntryFor :: "ledger \<Rightarrow> source_fact \<Rightarrow> journal_entry option" where
  "existingEntryFor L f =
     find (isEntryFor (factTypeText (sf_sourceFactType f)) (sf_sourceFactId f)) (rev (journal_entries L))"

definition journalLine :: "source_fact \<Rightarrow> nat \<Rightarrow> built_line \<Rightarrow> line_input" where
  "journalLine f index l =
     \<lparr>ln_ledgerAccountId = bu_ledgerAccountId l, ln_accountSystemKey = bu_accountSystemKey l,
      ln_economicEntityId = bu_economicEntityId l, ln_lineNumber = Some (int index + 1),
      ln_description = bu_description l, ln_currency = Some (sf_currency f), ln_amount = bu_amount l,
      ln_dimensions = []\<rparr>"

definition factLink :: "string \<Rightarrow> uuid \<Rightarrow> source_role \<Rightarrow> source_link_input" where
  "factLink t i role = \<lparr>si_sourceFactType = t, si_sourceFactId = i, si_role = role,
     si_amountContributed = None, si_currency = None\<rparr>"

definition factEntry ::
  "source_fact \<Rightarrow> resolved_rule \<Rightarrow> uuid \<Rightarrow> string \<Rightarrow> evaluate_input \<Rightarrow> built_line list \<Rightarrow> entry_input" where
  "factEntry f r b fingerprint i ls =
     (let t = factTypeText (sf_sourceFactType f) in
      \<lparr>en_accountingBookId = Some b, en_economicEntityId = None, en_installationDefaultBookId = None,
       en_entryDate = sf_accountingDate f, en_description = sf_description f, en_memo = None,
       en_entrySource = PostingRule, en_postingRuleVersionId = Some (rv_id (rr_version r)),
       en_postingKey = Some (postingKeyFor (pr_code (rr_rule r)) (rv_version (rr_version r)) t (sf_sourceFactId f) fingerprint),
       en_sourceFactType = Some t, en_sourceFactId = Some (sf_sourceFactId f),
       en_sourceFactFingerprint = Some fingerprint,
       en_lines = map (\<lambda>(index, l). journalLine f index l) (enumerate 0 ls),
       en_sourceLinks = factLink t (sf_sourceFactId f) Primary # map (\<lambda>(t', i', role). factLink t' i' role) (sf_relatedFacts f),
       en_createdByUserId = ev_actorUserId i, en_requestId = ev_requestId i,
       en_allowBackdated = ev_allowBackdated i, en_postedByUserId = ev_actorUserId i\<rparr>)"

definition postFact ::
  "env \<Rightarrow> source_fact \<Rightarrow> resolved_rule \<Rightarrow> uuid \<Rightarrow> string \<Rightarrow> evaluate_input \<Rightarrow> ledger \<Rightarrow> (posted_entry \<times> ledger) acc" where
  "postFact e f r b fingerprint i L =
     bindE (buildLines f r) (\<lambda>ls. postEntry e (factEntry f r b fingerprint i ls) L)"

definition reversalOfFact :: "uuid \<Rightarrow> string \<Rightarrow> date \<Rightarrow> evaluate_input \<Rightarrow> reverse_input" where
  "reversalOfFact entryId reason d i =
     \<lparr>ri_journalEntryId = entryId, ri_entryDate = Some d, ri_reason = reason, ri_allowBackdated = ev_allowBackdated i,
      ri_actorUserId = ev_actorUserId i, ri_requestId = ev_requestId i\<rparr>"

section \<open>Evaluation\<close>

definition stampOf :: "resolved_rule \<Rightarrow> rule_stamp" where
  "stampOf r = \<lparr>rst_code = pr_code (rr_rule r), rst_version = rv_version (rr_version r),
     rst_postingRuleVersionId = rv_id (rr_version r)\<rparr>"

definition ruledOutcome :: "evaluate_input \<Rightarrow> outcome_status \<Rightarrow> journal_entry \<Rightarrow> journal_entry option \<Rightarrow> resolved_rule \<Rightarrow> uuid \<Rightarrow> outcome" where
  "ruledOutcome i status entry reversal r b =
     \<lparr>oc_sourceFactType = ev_sourceFactType i, oc_sourceFactId = ev_sourceFactId i, oc_status = status,
      oc_entry = Some entry, oc_reversalEntry = reversal, oc_rule = Some (stampOf r), oc_accountingBookId = Some b,
      oc_reason = None\<rparr>"

text \<open>A fact that may not post: what it had posted is reversed.\<close>

definition retireFact :: "env \<Rightarrow> source_fact \<Rightarrow> string \<Rightarrow> evaluate_input \<Rightarrow> ledger \<Rightarrow> outcome acc \<times> ledger" where
  "retireFact e f reason i L =
     (case existingEntryFor L f of
        None \<Rightarrow> (Inr (unpostable i FactIneligible), L)
      | Some posted \<Rightarrow>
          nextTx L (reverseEntry e (reversalOfFact (je_id posted)
              (''the source fact is no longer postable: '' @ reason) (sf_accountingDate f) i) L)
            (\<lambda>reversal L1. (Inr ((unpostable i FactIneligible)\<lparr>oc_reversalEntry := Some (pe_entry reversal)\<rparr>), L1)))"

definition repostReason :: "journal_entry \<Rightarrow> resolved_rule \<Rightarrow> string \<Rightarrow> string" where
  "repostReason existing r fingerprint =
     (if je_postingRuleVersionId existing = Some (rv_id (rr_version r))
      then ''the source fact changed after posting (fingerprint '' @
        (case je_sourceFactFingerprint existing of None \<Rightarrow> ''none'' | Some x \<Rightarrow> take 12 x) @ '' -> '' @
        take 12 fingerprint @ '')''
      else ''re-posted under rule '' @ pr_code (rr_rule r) @ '' v'' @ intText (rv_version (rr_version r)))"

text \<open>The identifiers a reversal of an entry draws: two and one per line.\<close>

definition drawsOf :: "ledger \<Rightarrow> journal_entry \<Rightarrow> nat" where
  "drawsOf L r = 2 + length (linesOf L (je_id r))"

definition applyRule ::
  "env \<Rightarrow> source_fact \<Rightarrow> resolved_rule \<Rightarrow> uuid \<Rightarrow> string \<Rightarrow> evaluate_input \<Rightarrow> ledger \<Rightarrow> outcome acc \<times> ledger" where
  "applyRule e f r b fingerprint i L =
     (case existingEntryFor L f of
        Some existing \<Rightarrow>
          if je_sourceFactFingerprint existing = Some fingerprint \<and>
             je_postingRuleVersionId existing = Some (rv_id (rr_version r))
          then (Inr (ruledOutcome i IsUnchanged existing None r b), L)
          else
            nextTx L (reverseEntry e (reversalOfFact (je_id existing) (repostReason existing r fingerprint)
                (sf_accountingDate f) i) L) (\<lambda>reversal L1.
            nextTx L1 (postFact (envShift (drawsOf L existing) e) f r b fingerprint i L1) (\<lambda>posted L2.
            (Inr (ruledOutcome i IsReposted (pe_entry posted) (Some (pe_entry reversal)) r b), L2)))
      | None \<Rightarrow>
          (case buildLines f r of
             Inl err \<Rightarrow> (Inl err, L)
           | Inr built \<Rightarrow>
               if length built < 2
               then (Inr ((unpostable i NothingToPost)\<lparr>oc_accountingBookId := Some b\<rparr>), L)
               else nextTx L (postFact e f r b fingerprint i L) (\<lambda>posted L1.
                 (Inr (ruledOutcome i (if pe_reused posted then IsUnchanged else IsPosted) (pe_entry posted) None r b), L1))))"

definition evaluate ::
  "(string \<Rightarrow> string) \<Rightarrow> (string \<Rightarrow> nat) \<Rightarrow> env \<Rightarrow> operations \<Rightarrow> evaluate_input \<Rightarrow> ledger \<Rightarrow> outcome acc \<times> ledger" where
  "evaluate sha256 rank e D i L =
     (case readFact D (ev_sourceFactType i) (ev_sourceFactId i) of
        Inl err \<Rightarrow> (Inl err, L)
      | Inr None \<Rightarrow> (Inr (unpostable i FactNotFound), L)
      | Inr (Some f) \<Rightarrow>
          (case sf_ineligibleReason f of
             Some reason \<Rightarrow> retireFact e f reason i L
           | None \<Rightarrow>
               (case routeFact L f (ev_installationDefaultBookId i) of
                  Inl err \<Rightarrow> (Inl err, L)
                | Inr None \<Rightarrow> (Inr (unpostable i NoRoute), L)
                | Inr (Some book) \<Rightarrow>
                    if bk_status book \<noteq> Active then (Inr (unpostable i NoRoute), L)
                    else
                      (case resolveForFact rank L f (bk_id book) of
                         Inl err \<Rightarrow> (Inl err, L)
                       | Inr None \<Rightarrow> (Inr ((unpostable i NoRule)\<lparr>oc_accountingBookId := Some (bk_id book)\<rparr>), L)
                       | Inr (Some r) \<Rightarrow> applyRule e f r (bk_id book) (fingerprintFact sha256 f r) i L))))"

text \<open>The service's \<^verbatim>\<open>evaluateFact\<close>: a routing error becomes an outcome, any other is rethrown.\<close>

definition evaluateFact ::
  "(string \<Rightarrow> string) \<Rightarrow> (string \<Rightarrow> nat) \<Rightarrow> env \<Rightarrow> operations \<Rightarrow> evaluate_input \<Rightarrow> ledger \<Rightarrow> outcome acc \<times> ledger" where
  "evaluateFact sha256 rank e D i L =
     (case evaluate sha256 rank e D i L of
        (Inl err, L') \<Rightarrow> (if err = BookRoutingError then Inr (unpostable i NoRoute) else Inl err, L')
      | (Inr x, L') \<Rightarrow> (Inr x, L'))"

text \<open>The loop over a list of facts, which calls \<open>evaluate\<close> itself: the first error ends it, and
  what the earlier facts wrote stays. Each fact has an environment of its own.\<close>

fun evaluateFacts ::
  "(string \<Rightarrow> string) \<Rightarrow> (string \<Rightarrow> nat) \<Rightarrow> operations \<Rightarrow> (env \<times> evaluate_input) list \<Rightarrow> ledger \<Rightarrow> outcome list acc \<times> ledger" where
  "evaluateFacts sha256 rank D [] L = (Inr [], L)"
| "evaluateFacts sha256 rank D ((e, i) # is) L =
     (case evaluate sha256 rank e D i L of
        (Inl err, L1) \<Rightarrow> (Inl err, L1)
      | (Inr x, L1) \<Rightarrow>
          (case evaluateFacts sha256 rank D is L1 of
             (Inl err, L2) \<Rightarrow> (Inl err, L2)
           | (Inr xs, L2) \<Rightarrow> (Inr (x # xs), L2)))"

section \<open>Default rules\<close>

text \<open>One transaction per missing rule; a throw keeps the rules created before it.\<close>

fun seedDefaultRules ::
  "nat \<Rightarrow> env \<Rightarrow> create_rule_input list \<Rightarrow> string option \<Rightarrow> string option \<Rightarrow> ledger \<Rightarrow>
   (string list \<times> string list) acc \<times> ledger" where
  "seedDefaultRules n e [] actor requestId L = (Inr ([], []), L)"
| "seedDefaultRules n e (t # ts) actor requestId L =
     (case findRuleByCode L (cr_code t) of
        Some _ \<Rightarrow>
          (case seedDefaultRules n e ts actor requestId L of
             (Inl err, L') \<Rightarrow> (Inl err, L')
           | (Inr (created, existing), L') \<Rightarrow> (Inr (created, cr_code t # existing), L'))
      | None \<Rightarrow>
          nextTx L (createRule (envShift n e) (t\<lparr>cr_createdByUserId := actor, cr_requestId := requestId\<rparr>) L) (\<lambda>_ L1.
          (case seedDefaultRules (n + 3 + length (cr_lines t)) e ts actor requestId L1 of
             (Inl err, L') \<Rightarrow> (Inl err, L')
           | (Inr (created, existing), L') \<Rightarrow> (Inr (cr_code t # created, existing), L'))))"

section \<open>Reads\<close>

definition factInput :: "uuid option \<Rightarrow> string \<times> uuid \<Rightarrow> evaluate_input" where
  "factInput installationDefault subject = \<lparr>ev_sourceFactType = fst subject, ev_sourceFactId = snd subject,
     ev_installationDefaultBookId = installationDefault, ev_allowBackdated = False,
     ev_actorUserId = None, ev_requestId = None\<rparr>"

text \<open>\<^verbatim>\<open>routeBook(..).catch(() => null)\<close>\<close>

definition routeOrNull :: "ledger \<Rightarrow> source_fact \<Rightarrow> uuid option \<Rightarrow> accounting_book option" where
  "routeOrNull L f installationDefault =
     (case routeFact L f installationDefault of Inl _ \<Rightarrow> None | Inr b \<Rightarrow> b)"

definition backlogOutcome ::
  "(string \<Rightarrow> nat) \<Rightarrow> operations \<Rightarrow> ledger \<Rightarrow> uuid option \<Rightarrow> string \<times> uuid \<Rightarrow> outcome list acc" where
  "backlogOutcome rank D L installationDefault subject =
     (let i = factInput installationDefault subject in
      bindE (readFact D (fst subject) (snd subject)) (\<lambda>found.
      case found of
        None \<Rightarrow> Inr []
      | Some f \<Rightarrow>
          (if sf_ineligibleReason f \<noteq> None then Inr [unpostable i FactIneligible]
           else case routeOrNull L f installationDefault of
             None \<Rightarrow> Inr [unpostable i NoRoute]
           | Some book \<Rightarrow>
               bindE (resolveForFact rank L f (bk_id book)) (\<lambda>resolved.
               Inr [(unpostable i (if resolved = None then NoRule else NoPeriod))
                 \<lparr>oc_accountingBookId := Some (bk_id book)\<rparr>]))))"

definition unpostableBacklog ::
  "(string \<Rightarrow> nat) \<Rightarrow> operations \<Rightarrow> ledger \<Rightarrow> fact_type list \<Rightarrow> uuid option \<Rightarrow> int \<Rightarrow> outcome list acc" where
  "unpostableBacklog rank D L types installationDefault limit =
     bindE (mapE (backlogOutcome rank D L installationDefault) (unpostedFacts D L types limit)) (\<lambda>out. Inr (concat out))"

definition explainFact ::
  "(string \<Rightarrow> nat) \<Rightarrow> operations \<Rightarrow> ledger \<Rightarrow> string \<Rightarrow> uuid \<Rightarrow> uuid option \<Rightarrow>
   (source_fact option \<times> uuid option \<times> (string \<times> bool) list) acc" where
  "explainFact rank D L t i installationDefault =
     bindE (readFact D t i) (\<lambda>found.
     case found of
       None \<Rightarrow> Inr (None, None, [])
     | Some f \<Rightarrow>
         (case routeOrNull L f installationDefault of
            None \<Rightarrow> Inr (Some f, None, [])
          | Some book \<Rightarrow>
              bindE (candidatesForFact rank L f (bk_id book)) (\<lambda>cs.
              Inr (Some f, Some (bk_id book), map (\<lambda>(r, matched). (pr_code r, matched)) cs))))"

end
