(* ===== verification/Engine_Steps.thy ===== *)
theory Engine_Steps
  imports Posting_Engine Journal_Properties Rule_Properties
begin

text \<open>
  What one evaluation does to the ledger. Every write of the engine is a call of \<open>postEntry\<close> or
  \<open>reverseEntry\<close>; these leave the tables that routing, rules and periods are read from alone
  (\<open>journalOnly\<close>), add at most one entry, and change the status of at most one.
\<close>

section \<open>What a journal call leaves alone\<close>

definition journalOnly :: "ledger \<Rightarrow> ledger \<Rightarrow> bool" where
  "journalOnly L L' \<longleftrightarrow> sameRules L L' \<and> economic_entities L' = economic_entities L \<and>
     book_entity_links L' = book_entity_links L \<and> ledger_accounts L' = ledger_accounts L \<and>
     fiscal_periods L' = fiscal_periods L \<and>
     map (bk_nextEntryNumber_update (\<lambda>_. 0)) (accounting_books L') = map (bk_nextEntryNumber_update (\<lambda>_. 0)) (accounting_books L)"

lemma journalOnly_refl [simp]: "journalOnly L L"
  by (simp add: journalOnly_def sameRules_def)

lemma journalOnly_trans: "journalOnly L M \<Longrightarrow> journalOnly M N \<Longrightarrow> journalOnly L N"
  by (simp add: journalOnly_def sameRules_def)

lemma writePosted_journalOnly:
  assumes "writePosted e b h ls links p bd u L = Inr (r, L')"
  shows "journalOnly L L'"
proof -
  obtain entry srt where r: "r = (entry, srt)" by (cases r)
  obtain rows where L': "L' = L\<lparr>accounting_books := bumpBook b (accounting_books L),
       journal_entries := journal_entries L @ [entry], journal_lines := journal_lines L @ rows,
       journal_line_dimensions := journal_line_dimensions L',
       journal_entry_source_links := journal_entry_source_links L'\<rparr>"
    using assms unfolding r by (rule writePosted_Inr)
  have same: "bk_nextEntryNumber_update (\<lambda>_. 0) (bk_nextEntryNumber_update f x) = bk_nextEntryNumber_update (\<lambda>_. 0) x"
    for f and x :: accounting_book by (cases x) simp
  have books: "map (bk_nextEntryNumber_update (\<lambda>_. 0)) (bumpBook b bs) = map (bk_nextEntryNumber_update (\<lambda>_. 0)) bs" for bs
    by (simp add: bumpBook_def updateWhere_def same)
  show ?thesis
    unfolding journalOnly_def sameRules_def by (intro conjI; subst L'; simp add: books)
qed

lemma postEntry_journalOnly:
  assumes "postEntry e i L = Inr (p, L')"
  shows "journalOnly L L'"
proof -
  obtain v where "attemptPost e v L = Inr (p, L')" using assms by (rule postEntry_attempt)
  then show ?thesis
  proof (cases rule: attemptPost_Inr)
    case (posted book routing ls period bd u L1 log)
    have "journalOnly L L1" by (rule writePosted_journalOnly [OF posted(7)])
    then show ?thesis by (simp add: posted(8) journalOnly_def sameRules_def)
  qed simp
qed

lemma reverseEntry_journalOnly:
  assumes "reverseEntry e i L = Inr (p, L')"
  shows "journalOnly L L'"
  using assms
proof (cases rule: reverseEntry_Inr)
  case (reversed original book period bd ls L1 L2 log)
  have "journalOnly L L1" by (rule writePosted_journalOnly [OF reversed(2)])
  moreover have "journalOnly L1 L2" using reversed(3) by (auto simp: updateEntry_def Let_def journalOnly_def sameRules_def split: option.splits)
  ultimately have "journalOnly L L2" by (rule journalOnly_trans)
  then show ?thesis by (auto simp: reversed(4) [symmetric] journalOnly_def sameRules_def)
qed simp

section \<open>Reads that do not change\<close>

definition sameBook :: "accounting_book \<Rightarrow> accounting_book \<Rightarrow> bool" where
  "sameBook x y \<longleftrightarrow> bk_nextEntryNumber_update (\<lambda>_. 0) x = bk_nextEntryNumber_update (\<lambda>_. 0) y"

lemma sameBook_fields: "sameBook x y \<Longrightarrow> bk_id x = bk_id y \<and> bk_status x = bk_status y"
  unfolding sameBook_def by (cases x; cases y) simp

lemma journalOnly_books: "journalOnly L L' \<Longrightarrow> list_all2 sameBook (accounting_books L) (accounting_books L')"
  unfolding journalOnly_def sameBook_def by (simp add: list_all2_conv_all_nth list_eq_iff_nth_eq)

lemma find_all2:
  assumes "list_all2 P xs ys" and "\<And>x y. P x y \<Longrightarrow> p x = q y"
  shows "rel_option P (find p xs) (find q ys)"
  using assms(1) by (induction rule: list_all2_induct) (use assms(2) in auto)

lemma loadBook_journalOnly:
  assumes "journalOnly L L'"
  shows "rel_sum (=) sameBook (loadBook L b) (loadBook L' b)"
proof -
  have "rel_option sameBook (find (\<lambda>r. bk_id r = b) (accounting_books L)) (find (\<lambda>r. bk_id r = b) (accounting_books L'))"
    by (rule find_all2 [OF journalOnly_books [OF assms]]) (simp add: sameBook_fields)
  then show ?thesis unfolding loadBook_def
    by (cases "find (\<lambda>r. bk_id r = b) (accounting_books L)"; cases "find (\<lambda>r. bk_id r = b) (accounting_books L')") auto
qed

lemma resolveForFact_sameRules: "sameRules L L' \<Longrightarrow> resolveForFact rank L' f b = resolveForFact rank L f b"
proof -
  assume s: "sameRules L L'"
  have "currentVersion L' = currentVersion L" by (intro ext) (use s in \<open>simp add: sameRules_def currentVersion_def split: option.split\<close>)
  moreover have "linesOfVersion L' = linesOfVersion L" by (intro ext) (use s in \<open>simp add: sameRules_def linesOfVersion_def\<close>)
  moreover have rules: "activeRules rank L' f = activeRules rank L f" using s by (simp add: sameRules_def activeRules_def)
  ultimately have "firstMatch L' f b rs = firstMatch L f b rs" for rs
    by (induction rs) (simp_all cong: option.case_cong bindE_cong if_cong)
  then show ?thesis using rules by (simp add: resolveForFact_def)
qed


lemma resolveBookForEntity_journalOnly:
  assumes "journalOnly L L'"
  shows "resolveBookForEntity L' ent d dflt = resolveBookForEntity L ent d dflt"
proof -
  have "primaryLinkOn L' = primaryLinkOn L" by (intro ext) (use assms in \<open>simp add: journalOnly_def primaryLinkOn_def\<close>)
  then have "routeAlong L' d k is = routeAlong L d k is" for k "is"
    by (induction "is" arbitrary: k) (simp_all split: option.split)
  then have "routeThroughEntity L' i d = routeThroughEntity L i d" for i
    using assms by (simp add: routeThroughEntity_def journalOnly_def)
  then show ?thesis by (simp add: resolveBookForEntity_def cong: option.case_cong)
qed

lemma routeFact_journalOnly:
  assumes "journalOnly L L'"
  shows "rel_sum (=) (rel_option sameBook) (routeFact L f dflt) (routeFact L' f dflt)"
proof -
  have "rel_sum (=) (rel_option sameBook) (bindE (loadBook L b) (\<lambda>x. Inr (Some x))) (bindE (loadBook L' b) (\<lambda>x. Inr (Some x)))" for b
    using loadBook_journalOnly [OF assms, of b] by (auto elim!: rel_sum.cases)
  then show ?thesis unfolding routeFact_def resolveBookForEntity_journalOnly [OF assms] by (simp split: option.split)
qed

section \<open>Live entries\<close>

text \<open>The entries the engine counts as a fact's: in the books, by a rule, not a reversal.\<close>

definition liveEntries :: "ledger \<Rightarrow> string \<Rightarrow> uuid \<Rightarrow> journal_entry list" where
  "liveEntries L t i = filter (isEntryFor t i) (journal_entries L)"

lemma find_rev_filter: "find p (rev xs) = (if filter p xs = [] then None else Some (last (filter p xs)))"
  by (induction xs rule: rev_induct) simp_all

lemma existingEntryFor_live:
  "existingEntryFor L f = 
    (let es = liveEntries L (factTypeText (sf_sourceFactType f)) (sf_sourceFactId f) in if es = [] then None else Some (last es))"
  by (simp add: existingEntryFor_def liveEntries_def find_rev_filter)

text \<open>A post that is not a replay adds its entry.\<close>

lemma writePosted_entries:
  assumes "writePosted e b h ls links p bd u L = Inr ((entry, srt), L')"
  shows "\<exists>n u'. entry = postedStamp e n p bd u' (headerRow e b h) \<and> journal_entries L' = journal_entries L @ [entry] \<and>
    entry \<notin> set (journal_entries L)"
proof -
  obtain n rows u' where "entry = postedStamp e n p bd u' (headerRow e b h)" "\<forall>x \<in> set (journal_entries L). \<not> entryClash entry x"
    and L': "L' = L\<lparr>accounting_books := bumpBook b (accounting_books L),
       journal_entries := journal_entries L @ [entry], journal_lines := journal_lines L @ rows,
       journal_line_dimensions := journal_line_dimensions L',
       journal_entry_source_links := journal_entry_source_links L'\<rparr>"
    using assms by (rule writePosted_Inr)
  moreover have "journal_entries L' = journal_entries L @ [entry]" by (subst L') simp
  ultimately show ?thesis by (auto simp: entryClash_def)
qed

lemma postEntry_adds:
  assumes "ledger_ok L" and "postEntry e i L = Inr (p, L')"
  shows "(pe_reused p \<and> L' = L \<and> pe_entry p \<in> set (journal_entries L)) \<or>
    (\<not> pe_reused p \<and> journal_entries L' = journal_entries L @ [pe_entry p] \<and> pe_entry p \<notin> set (journal_entries L) \<and>
     (\<exists>v. parseEntryInput i = Inr v \<and> je_status (pe_entry p) = Posted \<and> je_reversesEntryId (pe_entry p) = None \<and>
        je_entrySource (pe_entry p) = en_entrySource v \<and> je_sourceFactType (pe_entry p) = en_sourceFactType v \<and>
        je_sourceFactId (pe_entry p) = en_sourceFactId v \<and>
        je_sourceFactFingerprint (pe_entry p) = en_sourceFactFingerprint v \<and>
        je_postingRuleVersionId (pe_entry p) = en_postingRuleVersionId v))"
proof -
  obtain v where v: "parseEntryInput i = Inr v" "attemptPost e v L = Inr (p, L')" using assms(2) by (rule postEntry_attempt)
  from v(2) show ?thesis
  proof (cases rule: attemptPost_Inr)
    case (reused k)
    then show ?thesis by (auto simp: existingByPostingKey_def dest: find_SomeD)
  next
    case (posted book routing ls period bd u L1 log)
    obtain n u' where w: "pe_entry p = postedStamp e n (fp_id period) bd u' (headerRow e (bk_id book) (headerOf v))"
        "journal_entries L1 = journal_entries L @ [pe_entry p]" "pe_entry p \<notin> set (journal_entries L)"
      using writePosted_entries [OF posted(7)] by blast
    have "journal_entries L' = journal_entries L @ [pe_entry p]" using posted(8) w(2) by simp
    then show ?thesis using posted(10) v(1) w(3) by (simp add: w(1) headerRow_def headerOf_def postedStamp_def)
  qed
qed


lemma isEntryFor_reversed [simp]: "\<not> isEntryFor t i (r\<lparr>je_status := Reversed\<rparr>)"
  by (simp add: isEntryFor_def)

lemma postEntry_live:
  assumes "ledger_ok L" and "postEntry e j L = Inr (p, L')" and "parseEntryInput j = Inr v"
  shows "liveEntries L' t i = liveEntries L t i @
    (if \<not> pe_reused p \<and> en_entrySource v = PostingRule \<and> en_sourceFactType v = Some t \<and> en_sourceFactId v = Some i
     then [pe_entry p] else [])"
  using postEntry_adds [OF assms(1,2)] assms(3) by (auto simp: liveEntries_def isEntryFor_def)

lemma filter_updateWhere:
  assumes "\<And>x. \<not> P (f x)"
  shows "filter P (updateWhere c f xs) = filter (\<lambda>x. \<not> c x) (filter P xs)"
  by (induction xs) (simp_all add: updateWhere_def assms)

text \<open>Reversing a live entry takes it out of its fact's live entries, and touches no other's.\<close>

lemma reverseEntry_live:
  assumes ok: "ledger_ok L" and a: "reverseEntry e j L = Inr (p, L')"
    and x: "x \<in> set (journal_entries L)" "je_status x = Posted" "ri_journalEntryId j = je_id x"
  shows "\<not> pe_reused p" "pe_entry p \<notin> set (journal_entries L)" "je_reversesEntryId (pe_entry p) = Some (je_id x)"
    "liveEntries L' t i = filter (\<lambda>y. je_id y \<noteq> je_id x) (liveEntries L t i)"
proof -
  have rev: "reversals_ok (journal_entries L) (linesOf L)" and core: "core_ok L" using ok by (simp_all add: ledger_ok_def)
  have keys: "distinct (map je_id (journal_entries L))" using core by (simp add: core_ok_def entries_ok_def)
  show new: "\<not> pe_reused p"
  proof
    assume "pe_reused p"
    with a obtain y where y: "find (\<lambda>x. je_id x = ri_journalEntryId j) (journal_entries L) = Some y"
      "pe_entry p \<in> set (journal_entries L)" "je_reversesEntryId (pe_entry p) = Some (je_id y)"
      by (cases rule: reverseEntry_Inr) auto
    have "je_id y = je_id x" using find_SomeD [OF y(1)] x(3) by simp
    moreover obtain z where z: "z \<in> set (journal_entries L)" "reversalOf (linesOf L) (pe_entry p) z"
      using rev y unfolding reversals_ok_def by blast
    ultimately have "z = x" using y(3) x(1) distinct_key_eq [OF keys] by (simp add: reversalOf_def)
    then show False using z(2) x(2) by (simp add: reversalOf_def)
  qed
  obtain y rows L1 where y: "find (\<lambda>x. je_id x = ri_journalEntryId j) (journal_entries L) = Some y" and
    w: "entryPosted L (pe_entry p) rows L1" "je_reversesEntryId (pe_entry p) = Some (je_id y)" and
    L': "journal_entries L' = updateWhere (\<lambda>s. je_id s = je_id y) (je_status_update (\<lambda>_. Reversed)) (journal_entries L1)"
    by (rule reverseEntry_new [OF ok a new])
  have yx: "je_id y = je_id x" using find_SomeD [OF y] x(3) by simp
  have e1: "journal_entries L1 = journal_entries L @ [pe_entry p]" and fresh: "\<forall>y \<in> set (journal_entries L). \<not> entryClash (pe_entry p) y"
    using w(1) unfolding entryPosted_def by blast+
  show "pe_entry p \<notin> set (journal_entries L)" using fresh by (auto simp: entryClash_def)
  show r: "je_reversesEntryId (pe_entry p) = Some (je_id x)" using w(2) yx by simp
  have "liveEntries L' t i = filter (\<lambda>y. \<not> je_id y = je_id x) (filter (isEntryFor t i) (journal_entries L1))"
    unfolding liveEntries_def L' yx by (rule filter_updateWhere) simp
  also have "filter (isEntryFor t i) (journal_entries L1) = liveEntries L t i"
    using r by (simp add: e1 liveEntries_def isEntryFor_def)
  finally show "liveEntries L' t i = filter (\<lambda>y. je_id y \<noteq> je_id x) (liveEntries L t i)" .
qed

section \<open>The cases of an evaluation\<close>

lemma applyRule_cases:
  assumes "applyRule e f r b fp i L = (res, L')"
  obtains (failed) err where "res = Inl err" "L' = L"
  | (unchanged) x where "existingEntryFor L f = Some x" "je_sourceFactFingerprint x = Some fp"
      "je_postingRuleVersionId x = Some (rv_id (rr_version r))" "res = Inr (ruledOutcome i IsUnchanged x None r b)" "L' = L"
  | (stuck) x p err where "existingEntryFor L f = Some x" "res = Inl err"
      "\<not> (je_sourceFactFingerprint x = Some fp \<and> je_postingRuleVersionId x = Some (rv_id (rr_version r)))"
      "reverseEntry e (reversalOfFact (je_id x) (repostReason x r fp) (sf_accountingDate f) i) L = Inr (p, L')"
      "postFact (envShift (drawsOf L x) e) f r b fp i L' = Inl err"
  | (reposted) x p L1 q where "existingEntryFor L f = Some x"
      "\<not> (je_sourceFactFingerprint x = Some fp \<and> je_postingRuleVersionId x = Some (rv_id (rr_version r)))"
      "reverseEntry e (reversalOfFact (je_id x) (repostReason x r fp) (sf_accountingDate f) i) L = Inr (p, L1)"
      "postFact (envShift (drawsOf L x) e) f r b fp i L1 = Inr (q, L')"
      "res = Inr (ruledOutcome i IsReposted (pe_entry q) (Some (pe_entry p)) r b)"
  | (too_few) built where "existingEntryFor L f = None" "buildLines f r = Inr built" "length built < 2" "L' = L"
      "res = Inr ((unpostable i NothingToPost)\<lparr>oc_accountingBookId := Some b\<rparr>)"
  | (posted) q where "existingEntryFor L f = None" "postFact e f r b fp i L = Inr (q, L')"
      "res = Inr (ruledOutcome i (if pe_reused q then IsUnchanged else IsPosted) (pe_entry q) None r b)"
proof (cases "existingEntryFor L f")
  case None
  show ?thesis
  proof (cases "\<exists>built. buildLines f r = Inr built \<and> length built < 2")
    case True
    then obtain built where built: "buildLines f r = Inr built" "length built < 2" by blast
    show ?thesis by (rule too_few [OF None built]) (use assms None built in \<open>simp_all add: applyRule_def\<close>)
  next
    case False
    then show ?thesis using assms None failed posted [OF None]
      by (auto simp: applyRule_def nextTx_def split: sum.splits if_splits)
  qed
next
  case (Some x)
  then show ?thesis
    using assms failed [of _] unchanged [OF Some] stuck [OF Some] reposted [OF Some]
    unfolding applyRule_def nextTx_def by (auto split: sum.splits if_splits)
qed

lemma evaluate_cases:
  assumes "evaluate sha256 rank e D i L = (res, L')"
  obtains (kept) "L' = L" "(\<exists>err. res = Inl err) \<or> (\<exists>x s. res = Inr x \<and> oc_status x = IsUnpostable \<and> oc_entry x = None \<and>
      oc_reversalEntry x = None \<and> oc_reason x = Some s \<and> s \<in> {FactNotFound, FactIneligible, NoRoute, NoRule})"
  | (retired) f reason x p where "readFact D (ev_sourceFactType i) (ev_sourceFactId i) = Inr (Some f)"
      "sf_ineligibleReason f = Some reason" "existingEntryFor L f = Some x"
      "reverseEntry e (reversalOfFact (je_id x) (''the source fact is no longer postable: '' @ reason)
         (sf_accountingDate f) i) L = Inr (p, L')"
      "res = Inr ((unpostable i FactIneligible)\<lparr>oc_reversalEntry := Some (pe_entry p)\<rparr>)"
  | (ruled) f book r where "readFact D (ev_sourceFactType i) (ev_sourceFactId i) = Inr (Some f)"
      "sf_ineligibleReason f = None" "routeFact L f (ev_installationDefaultBookId i) = Inr (Some book)"
      "bk_status book = Active" "resolveForFact rank L f (bk_id book) = Inr (Some r)"
      "applyRule e f r (bk_id book) (fingerprintFact sha256 f r) i L = (res, L')"
proof -
  note ev = assms [unfolded evaluate_def]
  show ?thesis
  proof (cases "readFact D (ev_sourceFactType i) (ev_sourceFactId i)")
    case (Inr found)
    show ?thesis
    proof (cases found)
      case (Some f)
      note read = Inr [unfolded Some]
      show ?thesis
      proof (cases "sf_ineligibleReason f")
        case None
        show ?thesis
        proof (cases "\<exists>book r. routeFact L f (ev_installationDefaultBookId i) = Inr (Some book) \<and> bk_status book = Active \<and>
            resolveForFact rank L f (bk_id book) = Inr (Some r)")
          case True
          then show ?thesis using ev ruled [OF read None] by (auto simp: read None)
        next
          case False
          then show ?thesis using ev kept
            by (auto simp: read None unpostable_def split: sum.splits option.splits if_splits)
        qed
      next
        fix reason assume no: "sf_ineligibleReason f = Some reason"
        then show ?thesis using ev kept retired [OF read no]
          by (auto simp: read retireFact_def nextTx_def unpostable_def split: option.splits sum.splits)
      qed
    qed (use ev kept in \<open>auto simp: Inr unpostable_def\<close>)
  qed (use ev kept in auto)
qed

end
