(* ===== verification/Engine_Postings.thy ===== *)
theory Engine_Postings
  imports Engine_Steps
begin

text \<open>
  The postings the engine keeps. Seen from the facts, a ledger is a table from facts to the
  fingerprint and rule version they are posted under (\<open>postedAs\<close>); here is what one evaluation does
  to that table (\<open>settles\<close>), through which calls (\<open>byJournal\<close>), and what evaluating again does.
\<close>

section \<open>The engine writes through the journal\<close>

definition journalCall :: "request \<Rightarrow> bool" where
  "journalCall q = (case q of PostEntry _ \<Rightarrow> True | ReverseEntry _ \<Rightarrow> True | _ \<Rightarrow> False)"

definition byJournal :: "nat \<Rightarrow> ledger \<Rightarrow> ledger \<Rightarrow> bool" where
  "byJournal n L L' \<longleftrightarrow> (\<exists>calls. L' = serveAll calls L \<and> length calls \<le> n \<and> (\<forall>c \<in> set calls. journalCall (snd c)))"

lemma byJournal_refl [simp]: "byJournal n L L"
  unfolding byJournal_def by (rule exI [of _ "[]"]) (simp add: serveAll_def)

lemma byJournal_post: "postEntry e j L = Inr (p, L') \<Longrightarrow> byJournal 1 L L'"
  unfolding byJournal_def by (rule exI [of _ "[(e, PostEntry j)]"]) (simp add: serveAll_def committed_def journalCall_def)

lemma byJournal_reverse: "reverseEntry e j L = Inr (p, L') \<Longrightarrow> byJournal 1 L L'"
  unfolding byJournal_def by (rule exI [of _ "[(e, ReverseEntry j)]"]) (simp add: serveAll_def committed_def journalCall_def)

lemma byJournal_trans: "byJournal m L M \<Longrightarrow> byJournal n M N \<Longrightarrow> byJournal (m + n) L N"
  unfolding byJournal_def serveAll_def
proof (elim exE conjE)
  fix calls calls' assume "M = fold (\<lambda>(e, q). serve e q) calls L" "N = fold (\<lambda>(e, q). serve e q) calls' M"
    "length calls \<le> m" "length calls' \<le> n" "\<forall>c\<in>set calls. journalCall (snd c)" "\<forall>c\<in>set calls'. journalCall (snd c)"
  then show "\<exists>calls. N = fold (\<lambda>(e, q). serve e q) calls L \<and> length calls \<le> m + n \<and> (\<forall>c\<in>set calls. journalCall (snd c))"
    by (intro exI [of _ "calls @ calls'"]) auto
qed

lemma byJournal_mono: "byJournal m L M \<Longrightarrow> m \<le> n \<Longrightarrow> byJournal n L M"
  unfolding byJournal_def using le_trans by blast

lemma serve_journalOnly: "journalCall q \<Longrightarrow> journalOnly L (serve e q L)"
  by (cases q) (auto simp: journalCall_def committed_def dest: postEntry_journalOnly reverseEntry_journalOnly split: sum.split)

lemma byJournal_journalOnly: "byJournal n L L' \<Longrightarrow> journalOnly L L'"
proof -
  have "\<forall>c \<in> set calls. journalCall (snd c) \<Longrightarrow> journalOnly L (serveAll calls L)" for calls L
  proof (induction calls arbitrary: L)
    case (Cons c calls)
    obtain e q where c: "c = (e, q)" by (cases c)
    have "journalOnly L (serve e q L)" "journalOnly (serve e q L) (serveAll calls (serve e q L))"
      using Cons by (simp_all add: c serve_journalOnly)
    from journalOnly_trans [OF this] show ?case by (simp add: c serveAll_def)
  qed (simp add: serveAll_def)
  then show "byJournal n L L' \<Longrightarrow> journalOnly L L'" unfolding byJournal_def by blast
qed

lemma postFact_entry:
  assumes "postFact e f r b fp i L = Inr (p, L')"
  obtains ls where "buildLines f r = Inr ls" "postEntry e (factEntry f r b fp i ls) L = Inr (p, L')"
  using assms by (auto simp: postFact_def)

lemma postFact_byJournal: "postFact e f r b fp i L = Inr (p, L') \<Longrightarrow> byJournal 1 L L'"
  using byJournal_post by (blast elim: postFact_entry)

lemma evaluate_byJournal: "byJournal 2 L (snd (evaluate sha256 rank e D i L))"
proof -
  obtain res L' where ev: "evaluate sha256 rank e D i L = (res, L')" by (cases "evaluate sha256 rank e D i L")
  have one: "byJournal 1 M N \<Longrightarrow> byJournal 2 M N" for M N by (erule byJournal_mono) simp
  from ev have "byJournal 2 L L'"
  proof (cases rule: evaluate_cases)
    case (ruled f book r)
    from ruled(6) show ?thesis
    proof (cases rule: applyRule_cases)
      case (reposted x p L1 q)
      show ?thesis
        using byJournal_trans [OF byJournal_reverse [OF reposted(3)] postFact_byJournal [OF reposted(4)]]
        by (simp add: numeral_2_eq_2)
    qed (use one byJournal_reverse postFact_byJournal in auto)
  qed (use one byJournal_reverse in auto)
  then show ?thesis by (simp add: ev)
qed

lemma evaluateFacts_byJournal: "byJournal (2 * length is) L (snd (evaluateFacts sha256 rank D is L))"
proof (induction "is" arbitrary: L)
  case (Cons c "is")
  obtain e i where c: "c = (e, i)" by (cases c)
  obtain res L1 where ev: "evaluate sha256 rank e D i L = (res, L1)" by (cases "evaluate sha256 rank e D i L")
  have 1: "byJournal 2 L L1" using evaluate_byJournal [of L sha256 rank e D i] by (simp add: ev)
  have 2: "byJournal (2 * length (c # is)) L (snd (evaluateFacts sha256 rank D is L1))"
    using byJournal_trans [OF 1 Cons.IH [of L1]] by simp
  have 3: "byJournal (2 * length (c # is)) L L1" by (rule byJournal_mono [OF 1]) simp
  show ?case using 2 3 by (auto simp: c ev split: sum.split prod.split)
qed simp

lemma evaluateFacts_ok: "ledger_ok L \<Longrightarrow> ledger_ok (snd (evaluateFacts sha256 rank D is L))"
  using evaluateFacts_byJournal [of "is" L sha256 rank D] serveAll_sound unfolding byJournal_def by metis

section \<open>Postings\<close>

text \<open>The abstract state: for each fact, the fingerprint and rule version it is posted under.\<close>

definition oneLive :: "ledger \<Rightarrow> bool" where
  "oneLive L \<longleftrightarrow> (\<forall>t i. length (liveEntries L t i) \<le> 1)"

definition postedAs :: "ledger \<Rightarrow> string \<times> uuid \<Rightarrow> (string option \<times> uuid option) option" where
  "postedAs L k = (case liveEntries L (fst k) (snd k) of [] \<Rightarrow> None
     | x # _ \<Rightarrow> Some (je_sourceFactFingerprint x, je_postingRuleVersionId x))"


text \<open>\<^verbatim>\<open>createHash("sha256")\<close> writes lower-case hex digits.\<close>

definition hexDigest :: "(string \<Rightarrow> string) \<Rightarrow> bool" where
  "hexDigest h \<longleftrightarrow> (\<forall>s. h s \<noteq> [] \<and> (\<forall>c \<in> set (h s). c \<in> set ''0123456789abcdef''))"

lemma js_trim_id: "s \<noteq> [] \<Longrightarrow> \<not> isSpace (hd s) \<Longrightarrow> \<not> isSpace (last s) \<Longrightarrow> js_trim s = s"
  by (simp add: js_trim_def dropWhile_eq_self_iff [THEN iffD2] hd_rev)

lemma hex_not_space: "c \<in> set ''0123456789abcdef'' \<Longrightarrow> \<not> isSpace c"
  by (auto simp: isSpace_def Let_def)

lemma fingerprint_trim:
  assumes "hexDigest h"
  shows "js_trim (h s) = h s" and "h s \<noteq> []"
proof -
  have *: "h s \<noteq> []" "\<forall>c \<in> set (h s). \<not> isSpace c" using assms hex_not_space unfolding hexDigest_def by blast+
  show "js_trim (h s) = h s" by (rule js_trim_id) (use * in simp_all)
  show "h s \<noteq> []" by (rule *(1))
qed

lemma postingKey_trim:
  assumes "hexDigest h"
  shows "js_trim (postingKeyFor code v t i (h s)) = postingKeyFor code v t i (h s)" and "postingKeyFor code v t i (h s) \<noteq> []"
proof -
  let ?k = "postingKeyFor code v t i (h s)"
  have all: "h s \<noteq> []" "\<forall>c \<in> set (h s). \<not> isSpace c" using assms hex_not_space unfolding hexDigest_def by blast+
  have ne: "take 12 (h s) \<noteq> []" using all(1) by simp
  have c: "\<forall>c \<in> set (take 12 (h s)). \<not> isSpace c" using all(2) in_set_takeD by fast
  show k: "?k \<noteq> []" by (simp add: postingKeyFor_def)
  have "last ?k = last (take 12 (h s))" using ne by (simp add: postingKeyFor_def)
  moreover have "hd ?k = CHR ''p''" by (simp add: postingKeyFor_def)
  moreover have "\<not> isSpace (CHR ''p'')" by (simp add: isSpace_def)
  moreover have "\<not> isSpace (last (take 12 (h s)))" using c last_in_set [OF ne] by blast
  ultimately show "js_trim ?k = ?k" by (intro js_trim_id k) simp_all
qed

lemma trimMin_id: "js_trim s = s \<Longrightarrow> s \<noteq> [] \<Longrightarrow> trimMin s = Inr s"
  by (simp add: trimMin_def)

lemma factTypeText_trim: "trimMin (factTypeText t) = Inr (factTypeText t)"
  by (induction t; code_simp)

definition ruleKey :: "source_fact \<Rightarrow> resolved_rule \<Rightarrow> string \<Rightarrow> string" where
  "ruleKey f r fp = postingKeyFor (pr_code (rr_rule r)) (rv_version (rr_version r)) (factTypeText (sf_sourceFactType f))
     (sf_sourceFactId f) fp"

lemma parse_factEntry:
  assumes "hexDigest h" and "parseEntryInput (factEntry f r b (h s) i ls) = Inr v"
  shows "en_entrySource v = PostingRule" "en_sourceFactType v = Some (factTypeText (sf_sourceFactType f))"
    "en_sourceFactId v = Some (sf_sourceFactId f)" "en_sourceFactFingerprint v = Some (h s)"
    "en_postingKey v = Some (ruleKey f r (h s))" "en_postingRuleVersionId v = Some (rv_id (rr_version r))"
  using assms(2)
  by (auto simp: parseEntryInput_def factEntry_def Let_def ruleKey_def factTypeText_trim
      trimMin_id [OF fingerprint_trim [OF assms(1)]] trimMin_id [OF postingKey_trim [OF assms(1)]])


lemma postFact_live:
  assumes "hexDigest h" and "ledger_ok L" and "postFact e f r b (h s) i L = Inr (p, L')"
  shows "liveEntries L' t j = liveEntries L t j @
      (if \<not> pe_reused p \<and> factTypeText (sf_sourceFactType f) = t \<and> sf_sourceFactId f = j then [pe_entry p] else [])"
    and "\<not> pe_reused p \<Longrightarrow> je_sourceFactFingerprint (pe_entry p) = Some (h s) \<and>
      je_postingRuleVersionId (pe_entry p) = Some (rv_id (rr_version r))"
    and "pe_reused p \<Longrightarrow> L' = L \<and> pe_entry p \<in> set (journal_entries L) \<and> je_postingKey (pe_entry p) = Some (ruleKey f r (h s))"
proof -
  obtain ls where ls: "postEntry e (factEntry f r b (h s) i ls) L = Inr (p, L')" using assms(3) by (rule postFact_entry)
  obtain v where v: "parseEntryInput (factEntry f r b (h s) i ls) = Inr v" "attemptPost e v L = Inr (p, L')"
    using ls by (rule postEntry_attempt)
  note en = parse_factEntry [OF assms(1) v(1)]
  show "liveEntries L' t j = liveEntries L t j @
      (if \<not> pe_reused p \<and> factTypeText (sf_sourceFactType f) = t \<and> sf_sourceFactId f = j then [pe_entry p] else [])"
    using postEntry_live [OF assms(2) ls v(1), of t j] by (simp add: en)
  show "je_sourceFactFingerprint (pe_entry p) = Some (h s) \<and> je_postingRuleVersionId (pe_entry p) = Some (rv_id (rr_version r))"
    if "\<not> pe_reused p"
    using postEntry_adds [OF assms(2) ls] that v(1) en by auto
  assume "pe_reused p"
  with v(2) show "L' = L \<and> pe_entry p \<in> set (journal_entries L) \<and> je_postingKey (pe_entry p) = Some (ruleKey f r (h s))"
    by (cases rule: attemptPost_Inr) (auto simp: existingByPostingKey_def en(5) dest: find_SomeD)
qed

lemma oneLive_existing:
  assumes "oneLive L"
  shows "existingEntryFor L f = Some x \<Longrightarrow> liveEntries L (factTypeText (sf_sourceFactType f)) (sf_sourceFactId f) = [x]"
    and "existingEntryFor L f = None \<Longrightarrow> liveEntries L (factTypeText (sf_sourceFactType f)) (sf_sourceFactId f) = []"
proof -
  let ?es = "liveEntries L (factTypeText (sf_sourceFactType f)) (sf_sourceFactId f)"
  have "length ?es \<le> 1" using assms unfolding oneLive_def by blast
  then show "existingEntryFor L f = Some x \<Longrightarrow> ?es = [x]" and "existingEntryFor L f = None \<Longrightarrow> ?es = []"
    by (cases ?es; simp add: existingEntryFor_live)+
qed

lemma liveEntries_mem: "x \<in> set (liveEntries L t i) \<longleftrightarrow> x \<in> set (journal_entries L) \<and> isEntryFor t i x"
  by (auto simp: liveEntries_def)

text \<open>Reversing the entry of a fact empties the fact's postings and no other's.\<close>

lemma reverse_existing:
  assumes ok: "ledger_ok L" and one: "oneLive L" and x: "existingEntryFor L f = Some x"
    and a: "reverseEntry e (reversalOfFact (je_id x) reason d i) L = Inr (p, L')"
  shows "liveEntries L' t j = (if t = factTypeText (sf_sourceFactType f) \<and> j = sf_sourceFactId f then [] else liveEntries L t j)"
proof -
  have live: "liveEntries L (factTypeText (sf_sourceFactType f)) (sf_sourceFactId f) = [x]" by (rule oneLive_existing(1) [OF one x])
  then have "x \<in> set (liveEntries L (factTypeText (sf_sourceFactType f)) (sf_sourceFactId f))" by simp
  then have m: "x \<in> set (journal_entries L)" "isEntryFor (factTypeText (sf_sourceFactType f)) (sf_sourceFactId f) x"
    unfolding liveEntries_mem by blast+
  have eq: "liveEntries L' t j = filter (\<lambda>y. je_id y \<noteq> je_id x) (liveEntries L t j)"
    by (rule reverseEntry_live(4) [OF ok a m(1)]) (use m(2) in \<open>simp_all add: isEntryFor_def reversalOfFact_def\<close>)
  show ?thesis
  proof (cases "t = factTypeText (sf_sourceFactType f) \<and> j = sf_sourceFactId f")
    case False
    have "je_id y \<noteq> je_id x" if "y \<in> set (liveEntries L t j)" for y
    proof
      assume "je_id y = je_id x"
      then have "y = x" using that m(1) ok by (auto simp: liveEntries_mem ledger_ok_def core_ok_def entries_ok_def intro: distinct_key_eq)
      then show False using that m(2) False by (simp add: liveEntries_mem isEntryFor_def)
    qed
    then show ?thesis unfolding eq using False by (auto simp: filter_id_conv)
  next
    case True
    then have "liveEntries L t j = [x]" using live by simp
    then show ?thesis unfolding eq using True by simp
  qed
qed


definition factKey :: "evaluate_input \<Rightarrow> string \<times> uuid" where
  "factKey i = (ev_sourceFactType i, ev_sourceFactId i)"

text \<open>What a fact should be posted under: nothing when it may not post, no book takes it or no rule
  applies to it.\<close>

definition wanted ::
  "(string \<Rightarrow> string) \<Rightarrow> (string \<Rightarrow> nat) \<Rightarrow> operations \<Rightarrow> evaluate_input \<Rightarrow> ledger \<Rightarrow> (string option \<times> uuid option) option" where
  "wanted sha256 rank D i L =
     (case readFact D (ev_sourceFactType i) (ev_sourceFactId i) of
        Inr (Some f) \<Rightarrow>
          (case (sf_ineligibleReason f, routeFact L f (ev_installationDefaultBookId i)) of
             (None, Inr (Some book)) \<Rightarrow>
               (case resolveForFact rank L f (bk_id book) of
                  Inr (Some r) \<Rightarrow> if bk_status book = Active then Some (Some (fingerprintFact sha256 f r), Some (rv_id (rr_version r))) else None
                | _ \<Rightarrow> None)
           | _ \<Rightarrow> None)
      | _ \<Rightarrow> None)"

text \<open>The change one evaluation may make, by how it ends; \<open>p\<close> is the fact's posting afterwards.\<close>

fun settles ::
  "(string option \<times> uuid option) option \<Rightarrow> (string option \<times> uuid option) option \<Rightarrow> outcome acc \<Rightarrow>
   (string option \<times> uuid option) option \<Rightarrow> bool" where
  "settles was want (Inl _) p = (p = was \<or> p = None)"
| "settles was want (Inr x) p =
     (case oc_status x of
        IsPosted \<Rightarrow> was = None \<and> p = want \<and> p \<noteq> None
      | IsUnchanged \<Rightarrow> p = was \<and> (was \<noteq> None \<longrightarrow> p = want)
      | IsReposted \<Rightarrow> was \<noteq> None \<and> was \<noteq> want \<and> (p = want \<or> p = None)
      | IsUnpostable \<Rightarrow> p = (if oc_reversalEntry x = None then was else None))"

lemma postedAs_upd:
  assumes "\<And>t j. (t, j) \<noteq> k \<Longrightarrow> liveEntries L' t j = liveEntries L t j"
  shows "postedAs L' = (postedAs L)(k := postedAs L' k)"
  by (rule ext) (use assms in \<open>auto simp: postedAs_def\<close>)

lemma oneLive_upd:
  assumes "oneLive L" and "\<And>t j. (t, j) \<noteq> k \<Longrightarrow> liveEntries L' t j = liveEntries L t j"
    and "length (liveEntries L' (fst k) (snd k)) \<le> 1"
  shows "oneLive L'"
  unfolding oneLive_def
proof (intro allI)
  fix t j show "length (liveEntries L' t j) \<le> 1"
    by (cases "(t, j) = k") (use assms in \<open>auto simp: oneLive_def\<close>)
qed

lemma applyRule_settles:
  assumes h: "hexDigest h" and ok: "ledger_ok L" and one: "oneLive L"
    and k: "k = (factTypeText (sf_sourceFactType f), sf_sourceFactId f)"
    and a: "applyRule e f r b (h s) i L = (res, L')"
  shows "settles (postedAs L k) (Some (Some (h s), Some (rv_id (rr_version r)))) res (postedAs L' k) \<and>
    (\<forall>t j. (t, j) \<noteq> k \<longrightarrow> liveEntries L' t j = liveEntries L t j) \<and> length (liveEntries L' (fst k) (snd k)) \<le> 1"
  using a
proof (cases rule: applyRule_cases)
  case (unchanged x)
  then show ?thesis using oneLive_existing(1) [OF one unchanged(1)] by (simp add: k postedAs_def ruledOutcome_def)
next
  case (stuck x p err)
  then show ?thesis using reverse_existing [OF ok one stuck(1,4)] by (auto simp: k postedAs_def)
next
  case (reposted x p L1 q)
  have live: "liveEntries L (fst k) (snd k) = [x]" using oneLive_existing(1) [OF one reposted(1)] by (simp add: k)
  have l1: "liveEntries L1 t j = (if (t, j) = k then [] else liveEntries L t j)" for t j
    using reverse_existing [OF ok one reposted(1,3)] by (simp add: k)
  have ok1: "ledger_ok L1" using reverseEntry_ok [OF ok reposted(3)] by blast
  note q = postFact_live [OF h ok1 reposted(4)]
  show ?thesis using q(1,2) live reposted(2) by (auto simp: l1 k postedAs_def reposted(5) ruledOutcome_def)
next
  case (posted q)
  have live: "liveEntries L (fst k) (snd k) = []" using oneLive_existing(2) [OF one posted(1)] by (simp add: k)
  note q = postFact_live [OF h ok posted(2)]
  show ?thesis using q live by (auto simp: k postedAs_def posted(3) ruledOutcome_def)
next
  case (too_few built)
  then show ?thesis using oneLive_existing(2) [OF one too_few(1)] by (simp add: k unpostable_def)
next
  case (failed err)
  then show ?thesis using one by (simp add: oneLive_def)
qed

lemma evaluate_settles:
  assumes ok: "ledger_ok L" and one: "oneLive L" and h: "hexDigest sha256"
    and ev: "evaluate sha256 rank e D i L = (res, L')"
  shows "settles (postedAs L (factKey i)) (wanted sha256 rank D i L) res (postedAs L' (factKey i)) \<and>
    (\<forall>t j. (t, j) \<noteq> factKey i \<longrightarrow> liveEntries L' t j = liveEntries L t j) \<and>
    length (liveEntries L' (fst (factKey i)) (snd (factKey i))) \<le> 1"
proof -
  have key: "factKey i = (factTypeText (sf_sourceFactType f), sf_sourceFactId f)"
    if "readFact D (ev_sourceFactType i) (ev_sourceFactId i) = Inr (Some f)" for f
    using readFact_ok(2,3) [OF that] by (simp add: factKey_def)
  from ev show ?thesis
  proof (cases rule: evaluate_cases)
    case kept
    then show ?thesis using one by (auto simp: oneLive_def)
  next
    case (retired f reason x p)
    show ?thesis using reverse_existing [OF ok one retired(3,4)]
      by (auto simp: key [OF retired(1)] postedAs_def retired(5) unpostable_def)
  next
    case (ruled f book r)
    have "wanted sha256 rank D i L = Some (Some (fingerprintFact sha256 f r), Some (rv_id (rr_version r)))"
      by (simp add: wanted_def ruled)
    then show ?thesis
      using applyRule_settles [OF h ok one key [OF ruled(1)] ruled(6) [unfolded fingerprintFact_def]]
      by (simp add: fingerprintFact_def)
  qed
qed

lemma evaluate_oneLive:
  assumes "ledger_ok L" and "oneLive L" and "hexDigest sha256" and "evaluate sha256 rank e D i L = (res, L')"
  shows "oneLive L'"
  using evaluate_settles [OF assms] by (intro oneLive_upd [OF assms(2), of "factKey i"]) blast+

lemma evaluateFacts_frame:
  assumes "ledger_ok L" and "oneLive L" and "hexDigest sha256" and "evaluateFacts sha256 rank D is L = (res, L')"
  shows "oneLive L' \<and> (\<forall>k. (\<forall>c \<in> set is. factKey (snd c) \<noteq> k) \<longrightarrow> postedAs L' k = postedAs L k)"
  using assms
proof (induction "is" arbitrary: L res)
  case (Cons c "is")
  obtain e i where c: "c = (e, i)" by (cases c)
  obtain r L1 where ev: "evaluate sha256 rank e D i L = (r, L1)" by (cases "evaluate sha256 rank e D i L")
  have "L1 = snd (evaluateFacts sha256 rank D [(e, i)] L)" by (simp add: ev split: sum.split)
  then have ok1: "ledger_ok L1" by (simp only: evaluateFacts_ok [OF Cons.prems(1)])
  have one1: "oneLive L1" by (rule evaluate_oneLive [OF Cons.prems(1-3) ev])
  have frame: "postedAs L1 k = postedAs L k" if "k \<noteq> factKey i" for k
    using evaluate_settles [OF Cons.prems(1-3) ev] that by (cases k) (simp add: postedAs_def)
  show ?case
  proof (cases "L' = L1")
    case True
    then show ?thesis using one1 frame by (auto simp: c simp del: split_paired_All)
  next
    case False
    then obtain res' where "evaluateFacts sha256 rank D is L1 = (res', L')"
      using Cons.prems(4) by (auto simp: c ev split: sum.splits prod.splits)
    from Cons.IH [OF ok1 one1 Cons.prems(3) this] show ?thesis using frame by (auto simp: c simp del: split_paired_All)
  qed
qed simp

section \<open>Evaluating again\<close>

text \<open>What an evaluation will do, decided before it writes.\<close>

datatype plan =
    Throws acc_error
  | Leaves unpostable_reason "uuid option"
  | Retires source_fact string
  | Applies source_fact resolved_rule uuid

definition planOf :: "(string \<Rightarrow> nat) \<Rightarrow> operations \<Rightarrow> evaluate_input \<Rightarrow> ledger \<Rightarrow> plan" where
  "planOf rank D i L =
     (case readFact D (ev_sourceFactType i) (ev_sourceFactId i) of
        Inl err \<Rightarrow> Throws err
      | Inr None \<Rightarrow> Leaves FactNotFound None
      | Inr (Some f) \<Rightarrow>
          (case sf_ineligibleReason f of
             Some reason \<Rightarrow> Retires f reason
           | None \<Rightarrow>
               (case routeFact L f (ev_installationDefaultBookId i) of
                  Inl err \<Rightarrow> Throws err
                | Inr None \<Rightarrow> Leaves NoRoute None
                | Inr (Some book) \<Rightarrow>
                    if bk_status book \<noteq> Active then Leaves NoRoute None
                    else (case resolveForFact rank L f (bk_id book) of
                        Inl err \<Rightarrow> Throws err
                      | Inr None \<Rightarrow> Leaves NoRule (Some (bk_id book))
                      | Inr (Some r) \<Rightarrow> Applies f r (bk_id book)))))"

lemma evaluate_plan:
  "evaluate sha256 rank e D i L =
     (case planOf rank D i L of
        Throws err \<Rightarrow> (Inl err, L)
      | Leaves reason b \<Rightarrow> (Inr ((unpostable i reason)\<lparr>oc_accountingBookId := b\<rparr>), L)
      | Retires f reason \<Rightarrow> retireFact e f reason i L
      | Applies f r b \<Rightarrow> applyRule e f r b (fingerprintFact sha256 f r) i L)"
  by (simp add: evaluate_def planOf_def unpostable_def split: sum.split option.split)

lemma planOf_journalOnly:
  assumes "journalOnly L L'"
  shows "planOf rank D i L' = planOf rank D i L"
proof -
  have rules: "resolveForFact rank L' f b = resolveForFact rank L f b" for f b
    by (rule resolveForFact_sameRules) (use assms in \<open>simp add: journalOnly_def\<close>)
  have route: "rel_sum (=) (rel_option sameBook) (routeFact L f d) (routeFact L' f d)" for f d
    by (rule routeFact_journalOnly [OF assms])
  have same: "(case routeFact L' f d of Inl err \<Rightarrow> A err | Inr None \<Rightarrow> B | Inr (Some book) \<Rightarrow> C (bk_id book) (bk_status book)) =
      (case routeFact L f d of Inl err \<Rightarrow> A err | Inr None \<Rightarrow> B | Inr (Some book) \<Rightarrow> C (bk_id book) (bk_status book))" for f d A B C
    using route [of f d] by (auto elim!: rel_sum.cases option.rel_cases dest: sameBook_fields)
  have "(case routeFact L' f d of
        Inl err \<Rightarrow> Throws err
      | Inr None \<Rightarrow> Leaves NoRoute None
      | Inr (Some book) \<Rightarrow> if bk_status book \<noteq> Active then Leaves NoRoute None
          else (case resolveForFact rank L' f (bk_id book) of Inl err \<Rightarrow> Throws err
             | Inr None \<Rightarrow> Leaves NoRule (Some (bk_id book)) | Inr (Some r) \<Rightarrow> Applies f r (bk_id book))) =
      (case routeFact L f d of
        Inl err \<Rightarrow> Throws err
      | Inr None \<Rightarrow> Leaves NoRoute None
      | Inr (Some book) \<Rightarrow> if bk_status book \<noteq> Active then Leaves NoRoute None
          else (case resolveForFact rank L f (bk_id book) of Inl err \<Rightarrow> Throws err
             | Inr None \<Rightarrow> Leaves NoRule (Some (bk_id book)) | Inr (Some r) \<Rightarrow> Applies f r (bk_id book)))" for f d
    unfolding rules by (rule same)
  then show ?thesis by (simp only: planOf_def)
qed


lemma existing_of_live:
  "liveEntries L (factTypeText (sf_sourceFactType f)) (sf_sourceFactId f) = [] \<Longrightarrow> existingEntryFor L f = None"
  "liveEntries L (factTypeText (sf_sourceFactType f)) (sf_sourceFactId f) = [x] \<Longrightarrow> existingEntryFor L f = Some x"
  by (simp_all add: existingEntryFor_live)

text \<open>Posting with a key that is taken replays.\<close>

lemma postFact_replay:
  assumes h: "hexDigest h" and ok: "ledger_ok L" and p: "postFact e f r b (h s) i M = Inr (p, M')"
    and x: "x \<in> set (journal_entries L)" "je_postingKey x = Some (ruleKey f r (h s))"
  shows "\<exists>q. postFact e' f r b (h s) i L = Inr (q, L) \<and> pe_reused q \<and> pe_entry q = x"
proof -
  obtain ls v where ls: "buildLines f r = Inr ls" "parseEntryInput (factEntry f r b (h s) i ls) = Inr v"
    using p by (auto elim!: postFact_entry postEntry_attempt)
  have "core_ok L" using ok by (simp add: ledger_ok_def)
  from postEntry_replay [OF this x ls(2) parse_factEntry(5) [OF h ls(2)], of e'] show ?thesis
    by (simp add: postFact_def ls(1))
qed

text \<open>With the fact's entry live under this version and fingerprint, or taken by an entry that is no
  longer live, applying the rule writes nothing.\<close>

lemma applyRule_live:
  assumes "liveEntries L (factTypeText (sf_sourceFactType f)) (sf_sourceFactId f) = [x]"
    and "je_sourceFactFingerprint x = Some fp" and "je_postingRuleVersionId x = Some (rv_id (rr_version r))"
  shows "applyRule e f r b fp i L = (Inr (ruledOutcome i IsUnchanged x None r b), L)"
  by (simp add: applyRule_def existing_of_live(2) [OF assms(1)] assms)

lemma applyRule_taken:
  assumes h: "hexDigest h" and ok: "ledger_ok L" and p: "postFact e f r b (h s) i M = Inr (p, M')"
    and none: "liveEntries L (factTypeText (sf_sourceFactType f)) (sf_sourceFactId f) = []"
    and x: "x \<in> set (journal_entries L)" "je_postingKey x = Some (ruleKey f r (h s))"
  shows "\<exists>y. applyRule e' f r b (h s) i L = (Inr y, L) \<and> oc_status y \<in> {IsUnchanged, IsUnpostable}"
proof -
  obtain ls where ls: "buildLines f r = Inr ls" using p by (rule postFact_entry)
  obtain q where "postFact e' f r b (h s) i L = Inr (q, L)" "pe_reused q" using postFact_replay [OF h ok p x] by blast
  then show ?thesis
    by (auto simp: applyRule_def existing_of_live(1) [OF none] ls nextTx_def unpostable_def ruledOutcome_def)
qed

lemma applyRule_again:
  assumes h: "hexDigest h" and ok: "ledger_ok L" and one: "oneLive L" and a: "applyRule e f r b (h s) i L = (Inr x, L')"
  shows "\<exists>y. applyRule e' f r b (h s) i L' = (Inr y, L') \<and> oc_status y \<in> {IsUnchanged, IsUnpostable} \<and>
    (\<forall>u. oc_entry x = Some u \<longrightarrow> u \<in> set (liveEntries L' (factTypeText (sf_sourceFactType f)) (sf_sourceFactId f)) \<longrightarrow>
       y = x\<lparr>oc_status := IsUnchanged, oc_reversalEntry := None\<rparr>)"
proof -
  let ?live = "\<lambda>L. liveEntries L (factTypeText (sf_sourceFactType f)) (sf_sourceFactId f)"
  have fresh: ?thesis if q: "postFact e1 f r b (h s) i L1 = Inr (q, L')" "ledger_ok L1" "?live L1 = []"
    and x: "x = ruledOutcome i st (pe_entry q) rev r b" for e1 L1 q st rev
  proof (cases "pe_reused q")
    case True
    have t: "L' = L1" "pe_entry q \<in> set (journal_entries L1)" "je_postingKey (pe_entry q) = Some (ruleKey f r (h s))"
      using postFact_live(3) [OF h q(2,1) True] by blast+
    show ?thesis using applyRule_taken [OF h q(2,1,3) t(2,3), of e'] q(3) by (auto simp: t(1))
  next
    case False
    have live: "?live L' = [pe_entry q]" using postFact_live(1) [OF h q(2,1)] q(3) False by simp
    show ?thesis using applyRule_live [OF live] postFact_live(2) [OF h q(2,1) False] by (simp add: x ruledOutcome_def)
  qed
  from a show ?thesis
  proof (cases rule: applyRule_cases)
    case (unchanged u)
    then show ?thesis using applyRule_live [OF oneLive_existing(1) [OF one unchanged(1)] unchanged(2,3)]
      by (simp add: ruledOutcome_def)
  next
    case (reposted u p L1 q)
    have "ledger_ok L1" using reverseEntry_ok [OF ok reposted(3)] by blast
    moreover have "?live L1 = []" using reverse_existing [OF ok one reposted(1,3)] by simp
    ultimately show ?thesis using fresh [OF reposted(4)] reposted(5) by simp
  next
    case (too_few built)
    then show ?thesis by (auto simp: applyRule_def unpostable_def)
  next
    case (posted q)
    show ?thesis by (rule fresh [OF posted(2) ok oneLive_existing(2) [OF one posted(1)]]) (use posted(3) in simp)
  qed simp_all
qed


lemma retireFact_again:
  assumes ok: "ledger_ok L" and one: "oneLive L" and a: "retireFact e f reason i L = (Inr x, L')"
  shows "\<exists>y. retireFact e' f reason i L' = (Inr y, L') \<and> oc_status y = IsUnpostable \<and> oc_entry x = None"
proof (cases "existingEntryFor L f")
  case None
  then show ?thesis using a by (auto simp: retireFact_def unpostable_def)
next
  case (Some u)
  then obtain p where p: "reverseEntry e (reversalOfFact (je_id u) (''the source fact is no longer postable: '' @ reason)
      (sf_accountingDate f) i) L = Inr (p, L')" and x: "x = (unpostable i FactIneligible)\<lparr>oc_reversalEntry := Some (pe_entry p)\<rparr>"
    using a by (auto simp: retireFact_def nextTx_def split: sum.splits)
  have "existingEntryFor L' f = None"
    by (rule existing_of_live(1)) (simp add: reverse_existing [OF ok one Some p])
  then show ?thesis by (simp add: retireFact_def x unpostable_def)
qed

lemma planOf_fact:
  assumes "planOf rank D i L = Applies f r b"
  shows "ev_sourceFactType i = factTypeText (sf_sourceFactType f)" and "ev_sourceFactId i = sf_sourceFactId f"
    and "resolveForFact rank L f b = Inr (Some r)"
    and "readFact D (ev_sourceFactType i) (ev_sourceFactId i) = Inr (Some f)"
proof -
  show read: "readFact D (ev_sourceFactType i) (ev_sourceFactId i) = Inr (Some f)"
    and "resolveForFact rank L f b = Inr (Some r)"
    using assms unfolding planOf_def by (auto split: sum.splits option.splits if_splits)
  show "ev_sourceFactType i = factTypeText (sf_sourceFactType f)" "ev_sourceFactId i = sf_sourceFactId f"
    using readFact_ok(2,3) [OF read] by simp_all
qed

section \<open>A key that is taken\<close>

lemma reverse_keeps_key:
  assumes ok: "ledger_ok L" and a: "reverseEntry e j L = Inr (p, L')" and z: "z \<in> set (journal_entries L)"
  shows "\<exists>y \<in> set (journal_entries L'). je_id y = je_id z \<and> je_postingKey y = je_postingKey z"
proof (cases "pe_reused p")
  case True
  have "L' = L" using a by (cases rule: reverseEntry_Inr) (use True in simp_all)
  then show ?thesis using z by blast
next
  case False
  obtain x rows L1 where "find (\<lambda>x. je_id x = ri_journalEntryId j) (journal_entries L) = Some x"
    and w: "entryPosted L (pe_entry p) rows L1"
    and L': "journal_entries L' = updateWhere (\<lambda>s. je_id s = je_id x) (je_status_update (\<lambda>_. Reversed)) (journal_entries L1)"
    by (rule reverseEntry_new [OF ok a False])
  have "z \<in> set (journal_entries L1)" using z w by (simp add: entryPosted_def)
  then have "(if je_id z = je_id x then je_status_update (\<lambda>_. Reversed) z else z) \<in> set (journal_entries L')"
    unfolding L' updateWhere_def set_map by (rule image_eqI [OF refl])
  then show ?thesis by (rule bexI [rotated]) simp
qed

lemma applyRule_returned:
  assumes h: "hexDigest h" and ok: "ledger_ok L" and one: "oneLive L" and a: "applyRule e f r b (h s) i L = (Inr x, L')"
    and z: "z \<in> set (journal_entries L)" "je_postingKey z = Some (ruleKey f r (h s))"
    and k: "postedAs L (factTypeText (sf_sourceFactType f), sf_sourceFactId f) \<noteq> Some (Some (h s), Some (rv_id (rr_version r)))"
  shows "liveEntries L' (factTypeText (sf_sourceFactType f)) (sf_sourceFactId f) = [] \<and> oc_status x \<noteq> IsPosted \<and>
    (postedAs L (factTypeText (sf_sourceFactType f), sf_sourceFactId f) \<noteq> None \<longrightarrow> oc_status x = IsReposted) \<and>
    (\<forall>u. oc_entry x = Some u \<longrightarrow> je_id u = je_id z)"
proof -
  let ?live = "\<lambda>L. liveEntries L (factTypeText (sf_sourceFactType f)) (sf_sourceFactId f)"
  have taken: "pe_reused q \<and> L2 = L1 \<and> pe_entry q = y" if q: "postFact e1 f r b (h s) i L1 = Inr (q, L2)"
    and y: "ledger_ok L1" "y \<in> set (journal_entries L1)" "je_postingKey y = Some (ruleKey f r (h s))" for e1 L1 L2 q y
    using postFact_replay [OF h y(1) q y(2,3), of e1] q by auto
  from a show ?thesis
  proof (cases rule: applyRule_cases)
    case (unchanged u)
    then show ?thesis using oneLive_existing(1) [OF one unchanged(1)] k by (simp add: postedAs_def)
  next
    case (reposted u p L1 q)
    obtain y where y: "y \<in> set (journal_entries L1)" "je_id y = je_id z" "je_postingKey y = je_postingKey z"
      using reverse_keeps_key [OF ok reposted(3) z(1)] by blast
    have "ledger_ok L1" using reverseEntry_ok [OF ok reposted(3)] by blast
    from taken [OF reposted(4) this y(1)] y(3) z(2) have q: "L' = L1" "pe_entry q = y" by simp_all
    have "?live L1 = []" using reverse_existing [OF ok one reposted(1,3)] by simp
    then show ?thesis using reposted(5) by (simp add: q y(2) ruledOutcome_def)
  next
    case (posted q)
    from taken [OF posted(2) ok z] have q: "pe_reused q" "L' = L" "pe_entry q = z" by simp_all
    then show ?thesis using oneLive_existing(2) [OF one posted(1)] posted(3) by (simp add: postedAs_def ruledOutcome_def)
  next
    case (too_few built)
    then show ?thesis using oneLive_existing(2) [OF one too_few(1)] by (simp add: postedAs_def unpostable_def)
  qed simp_all
qed

end
