(* ===== verification/Engine_Demo.thy ===== *)
theory Engine_Demo
  imports Engine_Postings
begin

text \<open>
  A sample world for the engine: the sample book with its two accounts and one open period, and one
  rule that books an order's total to the bank and the rest to sales. The digest stands in for
  \<^verbatim>\<open>sha256\<close>; it keeps the digits 3 and 4 of what it digests, which tells the sample facts apart.
\<close>

definition engineLedger :: ledger where
  "engineLedger = emptyLedger\<lparr>
     accounting_books := [\<lparr>bk_id = ''a'', bk_code = ''m'', bk_name = ''m'', bk_functionalCurrency = ''USD'',
       bk_accountingBasis = Accrual, bk_fiscalYearStartMonth = 1, bk_fiscalYearStartDay = 1,
       bk_requiresEntityDimension = False, bk_nextEntryNumber = 1, bk_status = Active, bk_openedOn = Date 2026 1 1,
       bk_notes = None, bk_createdByUserId = None\<rparr>],
     ledger_accounts := [
       \<lparr>la_id = ''xxxa'', la_accountingBookId = ''a'', la_code = ''1'', la_name = ''1'', la_accountType = Asset,
        la_accountSubtype = None, la_parentAccountId = None, la_isPostable = True, la_isContra = False,
        la_systemKey = Some ''bank'', la_currency = None, la_description = None, la_status = Active\<rparr>,
       \<lparr>la_id = ''xxxxa'', la_accountingBookId = ''a'', la_code = ''4'', la_name = ''4'', la_accountType = Revenue,
        la_accountSubtype = None, la_parentAccountId = None, la_isPostable = True, la_isContra = False,
        la_systemKey = Some ''sales'', la_currency = None, la_description = None, la_status = Active\<rparr>],
     fiscal_periods := [\<lparr>fp_id = ''xp'', fp_accountingBookId = ''a'', fp_periodCode = ''FY2026-P01'', fp_fiscalYear = 2026,
       fp_sequence = 1, fp_startsOn = Date 2026 1 1, fp_endsOn = Date 2026 1 31, fp_status = Open, fp_closedAt = None,
       fp_closedByUserId = None, fp_note = None\<rparr>],
     posting_rules := [\<lparr>pr_id = ''q'', pr_code = ''s'', pr_name = ''s'', pr_sourceFactType = ''order'',
       pr_accountingBookId = None, pr_priority = 100, pr_status = RuleActive, pr_currentVersionId = Some ''xxq'',
       pr_description = None, pr_createdByUserId = None\<rparr>],
     posting_rule_versions := [\<lparr>rv_id = ''xxq'', rv_postingRuleId = ''q'', rv_version = 1, rv_status = VersionActive,
       rv_effectiveFrom = None, rv_effectiveTo = None, rv_matchProvider = None, rv_matchChannel = None,
       rv_matchEconomicEntityId = None, rv_matchFeeType = None, rv_matchFeeDirection = None, rv_matchMovementKind = None,
       rv_matchSourceKind = None, rv_matchExpenseCategory = None, rv_matchCapitalize = None, rv_matchCurrency = None,
       rv_matchMinAmount = None, rv_matchMaxAmount = None, rv_note = None, rv_createdByUserId = None\<rparr>],
     posting_rule_lines := [
       \<lparr>rl_id = ''xxxq'', rl_postingRuleVersionId = ''xxq'', rl_lineNumber = 1, rl_accountSystemKey = None,
        rl_ledgerAccountId = Some ''xxxa'', rl_amountSource = Total, rl_amountMultiplier = 1000000, rl_inheritEntity = True,
        rl_dimensionValueId = None, rl_descriptionTemplate = None\<rparr>,
       \<lparr>rl_id = ''xxxxq'', rl_postingRuleVersionId = ''xxq'', rl_lineNumber = 2, rl_accountSystemKey = None,
        rl_ledgerAccountId = Some ''xxxxa'', rl_amountSource = Remainder, rl_amountMultiplier = 1000000,
        rl_inheritEntity = True, rl_dimensionValueId = None, rl_descriptionTemplate = None\<rparr>]\<rparr>"

lemma engineLedger_books: "accounting_books engineLedger = accounting_books (serveAll (take 2 demoCalls) emptyLedger)"
  by code_simp

lemma engineLedger_links: "book_entity_links engineLedger = book_entity_links (serveAll (take 2 demoCalls) emptyLedger)"
  by code_simp

lemma engineLedger_accounts: "ledger_accounts engineLedger = ledger_accounts (serveAll (take 2 demoCalls) emptyLedger)"
  by code_simp

lemma engineLedger_periods: "fiscal_periods engineLedger = fiscal_periods (serveAll (take 2 demoCalls) emptyLedger)"
  by code_simp

lemma engineLedger_entries: "journal_entries engineLedger = journal_entries (serveAll (take 2 demoCalls) emptyLedger)"
  by code_simp

lemma engineLedger_lines: "journal_lines engineLedger = journal_lines (serveAll (take 2 demoCalls) emptyLedger)"
  by code_simp

lemma engineLedger_reachable: "reachable engineLedger"
proof (rule reachable.step)
  show "reachable (serveAll (take 2 demoCalls) emptyLedger)"
    by (rule reachable_serveAll, rule reachable.start) (simp add: foreignChange_def)
  show "ledger_step (serveAll (take 2 demoCalls) emptyLedger) engineLedger"
    by (rule ledger_step.foreign) (simp only: foreignChange_def engineLedger_books engineLedger_links engineLedger_accounts
      engineLedger_periods engineLedger_entries engineLedger_lines simp_thms)
qed

definition toyDigest :: "string \<Rightarrow> string" where
  "toyDigest s = CHR ''0'' # filter (\<lambda>c. c = CHR ''3'' \<or> c = CHR ''4'') s"

definition demoEvaluation :: evaluate_input where
  "demoEvaluation = factInput (Some ''a'') (''order'', ''o'')"

definition demoEvaluate :: "string \<Rightarrow> int \<Rightarrow> ledger \<Rightarrow> outcome acc \<times> ledger" where
  "demoEvaluate tag amount L = evaluate toyDigest (\<lambda>_. 0) (demoEnv tag) (demoOperations amount) demoEvaluation L"

definition outcomeSummary :: "outcome acc \<Rightarrow> (outcome_status \<times> uuid option \<times> uuid option) acc" where
  "outcomeSummary r = map_sum id (\<lambda>x. (oc_status x, map_option je_id (oc_entry x), map_option je_id (oc_reversalEntry x))) r"

definition engineSummary :: "ledger \<Rightarrow> (uuid \<times> entry_status \<times> string option \<times> string option) list" where
  "engineSummary L = map (\<lambda>r. (je_id r, je_status r, je_sourceFactFingerprint r, je_postingKey r)) (journal_entries L)"




definition engineFirst :: ledger where
  "engineFirst = snd (demoEvaluate ''e'' 30000000 engineLedger)"

definition engineChanged :: ledger where
  "engineChanged = snd (demoEvaluate ''f'' 40000000 engineFirst)"

lemma toyDigest_hex: "hexDigest toyDigest"
  by (auto simp: hexDigest_def toyDigest_def)

lemma engineLedger_oneLive: "oneLive engineLedger"
  by (simp add: oneLive_def liveEntries_def engineLedger_def emptyLedger_def)

lemma demoEvaluate_reachable: "reachable L \<Longrightarrow> reachable (snd (demoEvaluate tag amount L))"
  using evaluate_byJournal [of L toyDigest] reachable_serveAll unfolding demoEvaluate_def byJournal_def by metis

lemma demoEvaluate_oneLive: "reachable L \<Longrightarrow> oneLive L \<Longrightarrow> oneLive (snd (demoEvaluate tag amount L))"
  unfolding demoEvaluate_def using evaluate_oneLive [OF reachable_ok _ toyDigest_hex prod.collapse [symmetric]] by blast

lemma engineRun_ok: "reachable engineFirst" "oneLive engineFirst" "reachable engineChanged" "oneLive engineChanged"
  unfolding engineChanged_def engineFirst_def
  by (intro demoEvaluate_reachable demoEvaluate_oneLive engineLedger_reachable engineLedger_oneLive)+

lemma engineFirst_outcome: "outcomeSummary (fst (demoEvaluate ''e'' 30000000 engineLedger)) = Inr (IsPosted, Some ''e'', None)"
  by code_simp

lemma engineFirst_entries: "engineSummary engineFirst = [(''e'', Posted, Some ''03'', Some ''pr:s:v1:order:o:03'')]"
  by code_simp

lemma engineChanged_entries: "engineSummary engineChanged =
    [(''e'', Reversed, Some ''03'', Some ''pr:s:v1:order:o:03''), (''f'', Posted, Some ''03'', Some ''rev:pr:s:v1:order:o:03''),
     (''xxxxf'', Posted, Some ''04'', Some ''pr:s:v1:order:o:04'')]"
  by code_simp

lemma engineChanged_posted: "map_option fst (postedAs engineChanged (factKey demoEvaluation)) = Some (Some ''04'')"
  by code_simp

lemma engineChanged_plan:
  "(case planOf (\<lambda>_. 0) (demoOperations 30000000) demoEvaluation engineChanged of
      Applies f r b \<Rightarrow> Some (fingerprintFact toyDigest f r, ruleKey f r (fingerprintFact toyDigest f r))
    | _ \<Rightarrow> None) = Some (''03'', ''pr:s:v1:order:o:03'')"
  by code_simp

lemma engineFirst_evaluated:
  obtains x where "evaluate toyDigest (\<lambda>_. 0) (demoEnv ''e'') (demoOperations 30000000) demoEvaluation engineLedger = (Inr x, engineFirst)"
    "oc_status x = IsPosted"
proof -
  obtain x where "fst (demoEvaluate ''e'' 30000000 engineLedger) = Inr x" "oc_status x = IsPosted"
    using engineFirst_outcome by (auto simp: outcomeSummary_def map_sum_def split: sum.splits)
  then show thesis using that by (auto simp: engineFirst_def demoEvaluate_def prod_eq_iff)
qed

lemma engineReverted_outcome:
  "outcomeSummary (fst (demoEvaluate ''g'' 30000000 engineChanged)) = Inr (IsReposted, Some ''e'', Some ''g'')"
  by code_simp

end
