(* ===== verification/Engine_Properties.thy ===== *)
theory Engine_Properties
  imports Engine_Demo
begin

text \<open>
  What the posting engine promises. It writes through the journal alone; a fact is posted by at most
  one live entry; one evaluation moves that posting towards what the fact and the rules now say and
  evaluating again changes nothing. A fact that returns to a state it was posted in is the exception
  the last section is about.
\<close>

section \<open>One write path\<close>

text \<open>C15. The engine has no write path of its own: whatever it is given, the ledger it leaves is the
  one that a sequence of \<open>postEntry\<close> and \<open>reverseEntry\<close> calls leaves, at most two for each fact; so
  everything that holds of every run of the journal service holds after the engine has run.\<close>

theorem engine_writes_through_journal:
  "\<exists>calls. snd (evaluateFacts sha256 rank D is L) = serveAll calls L \<and> length calls \<le> 2 * length is \<and>
     snd ` set calls \<subseteq> range PostEntry \<union> range ReverseEntry"
proof -
  have "journalCall q \<Longrightarrow> q \<in> range PostEntry \<union> range ReverseEntry" for q
    by (cases q) (simp_all add: journalCall_def)
  then show ?thesis using evaluateFacts_byJournal [of "is" L sha256 rank D] unfolding byJournal_def by blast
qed

section \<open>The posting table\<close>



text \<open>C9. A fact is never posted twice: from a ledger in which every fact has at most one live entry,
  evaluating any list of facts, whether it ends or throws, leaves such a ledger, and the facts that
  are not in the list stay posted as they were.\<close>

theorem evaluateFacts_posts_once:
  assumes "reachable L" and "oneLive L" and "hexDigest sha256" and "evaluateFacts sha256 rank D is L = (res, L')"
  shows "(\<forall>t i. length (liveEntries L' t i) \<le> 1) \<and>
    (\<forall>k. (\<forall>c \<in> set is. factKey (snd c) \<noteq> k) \<longrightarrow> postedAs L' k = postedAs L k)"
  using evaluateFacts_frame [OF reachable_ok [OF assms(1)] assms(2-4)] by (simp add: oneLive_def)

theorem evaluateFacts_posts_once_witness:
  "\<forall>t i. length (liveEntries (snd (evaluateFacts toyDigest (\<lambda>_. 0) (demoOperations 30000000)
     [(demoEnv ''g'', demoEvaluation), (demoEnv ''h'', demoEvaluation)] engineChanged)) t i) \<le> 1"
  using evaluateFacts_posts_once [OF engineRun_ok(3,4) toyDigest_hex prod.collapse [symmetric]] by blast

section \<open>Evaluating again\<close>

text \<open>C12. Evaluation is idempotent: after an evaluation that returned, evaluating the fact again
  writes nothing and reports it unchanged or unpostable; if the entry it reported is live, the second
  report is the first one with the status unchanged.\<close>

theorem evaluate_idempotent:
  assumes "reachable L" and "oneLive L" and "hexDigest sha256" and "evaluate sha256 rank e D i L = (Inr x, L')"
  shows "\<exists>y. evaluate sha256 rank e' D i L' = (Inr y, L') \<and> oc_status y \<in> {IsUnchanged, IsUnpostable} \<and>
    (\<forall>u. oc_entry x = Some u \<longrightarrow> u \<in> set (liveEntries L' (ev_sourceFactType i) (ev_sourceFactId i)) \<longrightarrow>
       y = x\<lparr>oc_status := IsUnchanged, oc_reversalEntry := None\<rparr>)"
proof -
  have ok: "ledger_ok L" by (rule reachable_ok [OF assms(1)])
  have "journalOnly L (snd (evaluate sha256 rank e D i L))" by (rule byJournal_journalOnly [OF evaluate_byJournal])
  then have plan: "planOf rank D i L' = planOf rank D i L" by (intro planOf_journalOnly) (simp add: assms(4))
  note ev = assms(4) [unfolded evaluate_plan]
  show ?thesis
  proof (cases "planOf rank D i L")
    case (Leaves reason b)
    then show ?thesis using ev by (auto simp: evaluate_plan unpostable_def)
  next
    case (Retires f reason)
    have "\<exists>y. retireFact e' f reason i L' = (Inr y, L') \<and> oc_status y = IsUnpostable \<and> oc_entry x = None"
      using ev retireFact_again [OF ok assms(2)] by (simp add: Retires)
    then show ?thesis by (auto simp: evaluate_plan plan Retires)
  next
    case (Applies f r b)
    have "applyRule e f r b (sha256 (stringify (canonicalFact f r))) i L = (Inr x, L')" using ev by (simp add: Applies fingerprintFact_def)
    from applyRule_again [OF assms(3) ok assms(2) this, of e'] planOf_fact(1,2) [OF Applies] show ?thesis
      by (simp add: evaluate_plan plan Applies fingerprintFact_def)
  qed (use ev in simp)
qed

theorem evaluate_idempotent_witness:
  "\<exists>y. evaluate toyDigest (\<lambda>_. 0) (demoEnv ''h'') (demoOperations 30000000) demoEvaluation engineFirst = (Inr y, engineFirst) \<and>
     oc_status y \<in> {IsUnchanged, IsUnpostable}"
proof -
  obtain x where x: "evaluate toyDigest (\<lambda>_. 0) (demoEnv ''e'') (demoOperations 30000000) demoEvaluation engineLedger = (Inr x, engineFirst)"
    by (rule engineFirst_evaluated)
  show ?thesis using evaluate_idempotent [OF engineLedger_reachable engineLedger_oneLive toyDigest_hex x] by blast
qed



end
