(* ===== verification/Engine_Lines.thy ===== *)
theory Engine_Lines
  imports Engine_Demo
begin

text \<open>
  The lines a rule writes for a fact. With a fact from the readers and a template that was saved,
  building the lines never throws and every amount is money text; splitting an expense by its
  allocations keeps the total; the remainder line closes the sum to zero. A template without a
  remainder is checked on its multipliers only, and rounding can leave its lines off balance.
\<close>

definition lineUnits :: "built_line \<Rightarrow> int" where
  "lineUnits l = projr (moneyUnits (bu_amount l))"

definition moneyLines :: "built_line list \<Rightarrow> bool" where
  "moneyLines ls \<longleftrightarrow> (\<forall>l \<in> set ls. moneyText (bu_amount l))"

lemma lineUnits_text [simp]: "bu_amount l = money_text u \<Longrightarrow> lineUnits l = u"
  by (simp add: lineUnits_def)

lemma moneyLines_simps [simp]:
  "moneyLines []" "moneyLines (l # ls) \<longleftrightarrow> moneyText (bu_amount l) \<and> moneyLines ls"
  "moneyLines (ls @ ms) \<longleftrightarrow> moneyLines ls \<and> moneyLines ms"
  by (auto simp: moneyLines_def)

lemma moneyLines_filter: "moneyLines ls \<Longrightarrow> moneyLines (filter p ls)"
  by (simp add: moneyLines_def)

lemma moneyLines_text: "moneyLines ls \<Longrightarrow> map bu_amount ls = map money_text (map lineUnits ls)"
  by (auto simp: moneyLines_def moneyText_def)

lemma sumDecimals_lines: "moneyLines ls \<Longrightarrow> sumDecimals (map bu_amount ls) = Inr (money_text (sum_list (map lineUnits ls)))"
  by (simp only: moneyLines_text sumDecimals_text)

lemma sumDecimals_two: "sumDecimals [money_text a, money_text b] = Inr (money_text (a + b))"
  using sumDecimals_text [of "[a, b]"] by simp

section \<open>One template line\<close>

definition lineProduct :: "source_fact \<Rightarrow> posting_rule_line \<Rightarrow> int" where
  "lineProduct f l = round_half_away (projr (moneyUnits (amountOrZero f (rl_amountSource l))) * rl_amountMultiplier l) (10 ^ MONEY_SCALE)"

lemma buildLine_product:
  assumes "factOk f" and "rl_amountSource l \<in> set (AMOUNT_SOURCES_BY_FACT_TYPE (sf_sourceFactType f))" and "rl_amountSource l \<noteq> Remainder"
  shows "buildLine f l = Inr (if lineProduct f l = 0 then [] else [builtLine f l (money_text (lineProduct f l))])"
proof -
  obtain u where "sf_amounts f (rl_amountSource l) = Some (money_text u)"
    using assms unfolding factOk_def moneyText_def by blast
  then show ?thesis by (simp add: buildLine_def fromOption_def lineProduct_def amountOrZero_def)
qed

lemma buildLine_map:
  assumes "factOk f" and "\<forall>l \<in> set ls. rl_amountSource l \<in> set (AMOUNT_SOURCES_BY_FACT_TYPE (sf_sourceFactType f)) \<and> rl_amountSource l \<noteq> Remainder"
  shows "mapE (buildLine f) ls = Inr (map (\<lambda>l. if lineProduct f l = 0 then [] else [builtLine f l (money_text (lineProduct f l))]) ls)"
  using assms(2) by (induction ls) (simp_all add: buildLine_product [OF assms(1)])

section \<open>Splitting by allocations\<close>

lemma sum_partition: "sum_list (map g (filter p xs)) + sum_list (map g (filter (\<lambda>x. \<not> p x) xs)) = (sum_list (map g xs) :: int)"
  by (induction xs) auto

lemma splitByAllocations_total:
  assumes "moneyLines ls" and "\<forall>a \<in> set (sf_allocations f). moneyText (al_amount a)"
  shows "\<exists>ms. splitByAllocations f ls = Inr ms \<and> moneyLines ms \<and> sum_list (map lineUnits ms) = sum_list (map lineUnits ls) \<and>
    (sf_allocations f = [] \<longrightarrow> ms = ls)"
proof -
  let ?as = "filter (\<lambda>a. al_ledgerAccountId a \<noteq> None) (sf_allocations f)"
  let ?neg = "filter (\<lambda>l. startsWith ''-'' (bu_amount l)) ls"
  show ?thesis
  proof (cases "sf_sourceFactType f \<noteq> ExpenseFact \<or> ?as = [] \<or> (\<nexists>t. filter (\<lambda>l. \<not> startsWith ''-'' (bu_amount l)) ls = [t])")
    case True
    then have "splitByAllocations f ls = Inr ls"
      by (auto simp: splitByAllocations_def Let_def split: list.split)
    then show ?thesis using assms(1) by simp
  next
    case False
    define allocs where "allocs = ?as"
    from False have given: "sf_sourceFactType f = ExpenseFact" "allocs \<noteq> []" by (simp_all add: allocs_def)
    from False obtain t where t: "filter (\<lambda>l. \<not> startsWith ''-'' (bu_amount l)) ls = [t]" by blast
    have "t \<in> set ls" using arg_cong [OF t, of set] by auto
    then obtain u where u: "bu_amount t = money_text u" using assms(1) unfolding moneyLines_def moneyText_def by blast
    define g where "g a = projr (moneyUnits (al_amount a))" for a :: fact_allocation
    have am: "al_amount a = money_text (g a)" if "a \<in> set allocs" for a
      using assms(2) that by (auto simp: g_def moneyText_def allocs_def)
    define line where "line a = \<lparr>bu_accountSystemKey = None, bu_ledgerAccountId = al_ledgerAccountId a, bu_amount = money_text (g a),
       bu_description = bu_description t,
       bu_economicEntityId = (case al_economicEntityId a of None \<Rightarrow> bu_economicEntityId t | Some i \<Rightarrow> Some i),
       bu_dimensionValueId = al_dimensionValueId a\<rparr>" for a :: fact_allocation
    have rep: "set as \<subseteq> set allocs \<Longrightarrow> mapE (\<lambda>a. bindE (toMoneyString (al_amount a)) (\<lambda>amount. Inr
              \<lparr>bu_accountSystemKey = None, bu_ledgerAccountId = al_ledgerAccountId a, bu_amount = amount,
               bu_description = bu_description t,
               bu_economicEntityId = (case al_economicEntityId a of None \<Rightarrow> bu_economicEntityId t | Some i \<Rightarrow> Some i),
               bu_dimensionValueId = al_dimensionValueId a\<rparr>)) as = Inr (map line as)" for "as"
      by (induction "as") (simp_all add: am line_def)
    define d where "d = sum_list (map g allocs)"
    have "map al_amount allocs = map money_text (map g allocs)" using am by simp
    then have sd: "sumDecimals (map al_amount allocs) = Inr (money_text d)" by (simp only: sumDecimals_text d_def)
    define rest where "rest = (if u = d then [] else [t\<lparr>bu_amount := money_text (u - d)\<rparr>])"
    have "splitByAllocations f ls = Inr (if (d < 0) \<noteq> (u < 0) \<or> \<bar>u\<bar> < \<bar>d\<bar> then ls else ?neg @ map line allocs @ rest)"
      unfolding splitByAllocations_def Let_def allocs_def [symmetric] t list.case
      using given by (simp add: sd u rep [OF subset_refl] sumDecimals_two rest_def)
    moreover have "sum_list (map lineUnits (?neg @ map line allocs @ rest)) = sum_list (map lineUnits ls)"
    proof -
      have "map lineUnits (map line allocs) = map g allocs" by (simp add: line_def lineUnits_def)
      moreover have "sum_list (map lineUnits rest) = u - d" by (simp add: rest_def)
      ultimately have "sum_list (map lineUnits (?neg @ map line allocs @ rest)) = sum_list (map lineUnits ?neg) + u"
        by (simp only: map_append sum_list_append d_def)
      moreover have "sum_list (map lineUnits (filter (\<lambda>l. \<not> startsWith ''-'' (bu_amount l)) ls)) = u" by (simp add: t u)
      ultimately show ?thesis using sum_partition [of lineUnits "\<lambda>l. startsWith ''-'' (bu_amount l)" ls] by simp
    qed
    moreover have "moneyLines (?neg @ map line allocs @ rest)"
      using moneyLines_filter [OF assms(1)] by (auto simp: moneyLines_def line_def rest_def)
    moreover have "sf_allocations f \<noteq> []" using given(2) by (auto simp: allocs_def)
    ultimately show ?thesis using assms(1) by simp
  qed
qed

section \<open>All lines\<close>

text \<open>The amounts, line by line: each line but the remainder is its source times its multiplier, to
  the nearest micro-unit, and left out when zero; the remainder is what is missing to zero.\<close>

definition expectedUnits :: "source_fact \<Rightarrow> posting_rule_line list \<Rightarrow> int list" where
  "expectedUnits f ls =
     (let us = filter (\<lambda>u. u \<noteq> 0) (map (lineProduct f) (filter (\<lambda>l. rl_amountSource l \<noteq> Remainder) ls))
      in us @ (if Remainder \<in> set (map rl_amountSource ls) \<and> sum_list us \<noteq> 0 then [- sum_list us] else []))"

lemma builtUnits:
  "moneyLines (concat (map (\<lambda>l. if lineProduct f l = 0 then [] else [builtLine f l (money_text (lineProduct f l))]) ls)) \<and>
   map lineUnits (concat (map (\<lambda>l. if lineProduct f l = 0 then [] else [builtLine f l (money_text (lineProduct f l))]) ls)) =
     filter (\<lambda>u. u \<noteq> 0) (map (lineProduct f) ls)"
  by (induction ls) (simp_all add: builtLine_def)

lemma buildLines_spec:
  assumes f: "factOk f" and "\<forall>l \<in> set (rr_lines r). rl_amountSource l \<in> set (AMOUNT_SOURCES_BY_FACT_TYPE (sf_sourceFactType f))"
  shows "\<exists>ls. buildLines f r = Inr ls \<and> moneyLines ls \<and>
    (Remainder \<in> set (map rl_amountSource (rr_lines r)) \<longrightarrow> sum_list (map lineUnits ls) = 0) \<and>
    (sf_allocations f = [] \<longrightarrow> map lineUnits ls = expectedUnits f (rr_lines r))"
proof -
  let ?ts = "filter (\<lambda>l. rl_amountSource l \<noteq> Remainder) (rr_lines r)"
  define built where "built = concat (map (\<lambda>l. if lineProduct f l = 0 then [] else [builtLine f l (money_text (lineProduct f l))]) ?ts)"
  have b: "mapE (buildLine f) ?ts = Inr (map (\<lambda>l. if lineProduct f l = 0 then [] else [builtLine f l (money_text (lineProduct f l))]) ?ts)"
    by (rule buildLine_map [OF f]) (use assms(2) in auto)
  have units: "moneyLines built \<and> map lineUnits built = filter (\<lambda>u. u \<noteq> 0) (map (lineProduct f) ?ts)"
    unfolding built_def by (rule builtUnits)
  obtain ms where ms: "splitByAllocations f built = Inr ms" "moneyLines ms" "sum_list (map lineUnits ms) = sum_list (map lineUnits built)"
    "sf_allocations f = [] \<longrightarrow> ms = built"
    using splitByAllocations_total [of built f] units f unfolding factOk_def by blast
  let ?s = "sum_list (map lineUnits ms)"
  have rem: "remainderTemplate (rr_lines r) = None \<longleftrightarrow> Remainder \<notin> set (map rl_amountSource (rr_lines r))"
    by (force simp: remainderTemplate_def find_None_iff)
  have sum: "sumDecimals (map bu_amount ms) = Inr (money_text ?s)" by (rule sumDecimals_lines [OF ms(2)])
  have eq: "buildLines f r = Inr (case remainderTemplate (rr_lines r) of None \<Rightarrow> ms
      | Some t \<Rightarrow> if ?s = 0 then ms else ms @ [builtLine f t (money_text (- ?s))])"
    by (simp add: buildLines_def b built_def [symmetric] ms(1) sum split: option.split)
  show ?thesis
  proof (cases "remainderTemplate (rr_lines r)")
    case None
    then show ?thesis using eq ms units rem by (simp add: expectedUnits_def)
  next
    case (Some t)
    then have "Remainder \<in> set (map rl_amountSource (rr_lines r))" using rem by simp
    then show ?thesis using eq ms units Some by (auto simp: expectedUnits_def Let_def builtLine_def)
  qed
qed


lemma eligible_template:
  assumes ok: "rulesOk L" and el: "eligible L f b r v"
  shows "templateOk (sf_sourceFactType f) (versionLines L (rv_id v))"
proof -
  have r: "r \<in> set (posting_rules L)" "pr_sourceFactType r = factTypeText (sf_sourceFactType f)" "currentVersion L r = Some v"
    using el by (simp_all add: eligible_def)
  obtain c where c: "pr_currentVersionId r = Some c" "find (\<lambda>v. rv_id v = c) (posting_rule_versions L) = Some v"
    using r(3) by (auto simp: currentVersion_def split: option.splits)
  have v: "v \<in> set (posting_rule_versions L)" "rv_id v = c" using find_SomeD [OF c(2)] by simp_all
  obtain w where w: "w \<in> set (posting_rule_versions L)" "rv_id w = c" "rv_postingRuleId w = pr_id r"
    using ok r(1) c(1) unfolding rulesOk_def currentOk_def by blast
  have "w = v"
    by (rule distinct_key_eq [of rv_id "posting_rule_versions L"]) (use ok v w in \<open>simp_all add: rulesOk_def ruleKeysOk_def\<close>)
  then obtain t where t: "readableSourceFactType (pr_sourceFactType r) = Some t" "templateOk t (versionLines L (rv_id v))"
    using ok v(1) w(3) r(1) unfolding rulesOk_def templatesOk_def by metis
  have "factTypeText t = factTypeText (sf_sourceFactType f)" using readableSourceFactType_text [OF t(1)] r(2) by simp
  then have "t = sf_sourceFactType f" by (cases t; cases "sf_sourceFactType f") simp_all
  then show ?thesis using t(2) by simp
qed

section \<open>The lines of a fact\<close>

text \<open>C8. Type soundness of the engine: with a rule from the rules service and a fact from the readers,
  building the lines cannot throw. Every amount is canonical money text. When the template has a
  remainder line the amounts sum to zero, allocations or not; and for a fact without allocations the
  amounts are exactly source times multiplier to the nearest micro-unit, zero lines left out, and
  the remainder last.\<close>

theorem rule_lines_sound:
  assumes "rules_reachable L" and "readFact D t i = Inr (Some f)" and "resolveForFact rank L f b = Inr (Some r)"
  shows "\<exists>ls. buildLines f r = Inr ls \<and> (\<forall>l \<in> set ls. toMoneyString (bu_amount l) = Inr (bu_amount l)) \<and>
    (Remainder \<in> rl_amountSource ` set (rr_lines r) \<longrightarrow> sum_list (map lineUnits ls) = 0) \<and>
    (sf_allocations f = [] \<longrightarrow> map lineUnits ls = expectedUnits f (rr_lines r))"
proof -
  have f: "factOk f" by (rule readFact_ok(1) [OF assms(2)])
  have r: "eligible L f b (rr_rule r) (rr_version r)" "rr_lines r = linesOfVersion L (rv_id (rr_version r))"
    using resolveForFact_spec [of f rank L b] f assms(3) by (auto simp: factOk_def)
  have "templateOk (sf_sourceFactType f) (versionLines L (rv_id (rr_version r)))"
    by (rule eligible_template [OF rules_reachable_ok [OF assms(1)] r(1)])
  then have "\<forall>l \<in> set (rr_lines r). rl_amountSource l \<in> set (AMOUNT_SOURCES_BY_FACT_TYPE (sf_sourceFactType f))"
    by (simp add: r(2) linesOfVersion_def versionLines_def templateOk_def)
  moreover have "moneyText a \<Longrightarrow> toMoneyString a = Inr a" for a by (auto simp: moneyText_def)
  ultimately show ?thesis using buildLines_spec [OF f, of r] unfolding moneyLines_def set_map by blast
qed

theorem rule_lines_sound_witness:
  "\<exists>r ls. resolveForFact (\<lambda>_. 0) demoRevised demoFact ''a'' = Inr (Some r) \<and> buildLines demoFact r = Inr ls \<and>
     (\<forall>l \<in> set ls. toMoneyString (bu_amount l) = Inr (bu_amount l))"
proof -
  have "map_sum id (map_option (\<lambda>x. rv_id (rr_version x)))
      (resolveForFact (\<lambda>_. 0) demoRevised (the (projr (readFact (demoOperations 30000000) ''order'' ''o''))) ''a'') = Inr (Some ''xxw'')"
    by code_simp
  then obtain r where r: "resolveForFact (\<lambda>_. 0) demoRevised demoFact ''a'' = Inr (Some r)"
    unfolding demoFact_def [symmetric] by (cases "resolveForFact (\<lambda>_. 0) demoRevised demoFact ''a''") auto
  show ?thesis using rule_lines_sound [OF demoRules_reachable(4) demoFact_read r] r by blast
qed

section \<open>Rounding without a remainder\<close>

definition thirdLine :: "uuid \<Rightarrow> string \<Rightarrow> rule_line_input" where
  "thirdLine account multiplier = (demoRuleLine account Total)\<lparr>li_amountMultiplier := multiplier\<rparr>"

definition thirdsRule :: "rule_line_input list" where
  "thirdsRule = [thirdLine ''x'' ''-1'', thirdLine ''a'' ''0.333333'', thirdLine ''b'' ''0.333333'', thirdLine ''c'' ''0.333334'']"

definition thirdsRows :: "posting_rule_line list" where
  "thirdsRows = projr (mapE (\<lambda>(k, l). ruleLineRow (demoEnv ''t'') ''v'' k l) (enumerate 0 thirdsRule))"


end
