(* ===== verification/Accounting_Sweep.thy ===== *)
theory Accounting_Sweep
  imports Posting_Engine
begin

text \<open>
  \<^verbatim>\<open>packages/app/src/accounting-posting.ts\<close>: the worker task that pumps unposted facts through the
  engine. A run seeds the shipped rules, reads a bounded list of facts with no entry, and evaluates
  them in that order; an error of one fact ends the run, and what was written before it stays. The
  value of the setting \<^verbatim>\<open>accounting.default_book_id\<close> is an argument, and so is the environment of
  each fact's evaluation.
\<close>

definition DEFAULT_POST_FACTS_LIMIT :: int where
  "DEFAULT_POST_FACTS_LIMIT = 500"

record sweep_result =
  sw_candidates :: nat
  sw_posted :: nat
  sw_unchanged :: nat
  sw_reposted :: nat
  sw_unpostable :: nat
  sw_unpostableByReason :: "unpostable_reason \<Rightarrow> nat"
  sw_more :: bool

definition countOutcome :: "outcome \<Rightarrow> sweep_result \<Rightarrow> sweep_result" where
  "countOutcome x s =
     (case oc_status x of
        IsPosted \<Rightarrow> s\<lparr>sw_posted := sw_posted s + 1\<rparr>
      | IsUnchanged \<Rightarrow> s\<lparr>sw_unchanged := sw_unchanged s + 1\<rparr>
      | IsReposted \<Rightarrow> s\<lparr>sw_reposted := sw_reposted s + 1\<rparr>
      | IsUnpostable \<Rightarrow>
          (case oc_reason x of
             None \<Rightarrow> s\<lparr>sw_unpostable := sw_unpostable s + 1\<rparr>
           | Some reason \<Rightarrow> s\<lparr>sw_unpostable := sw_unpostable s + 1,
               sw_unpostableByReason := (sw_unpostableByReason s)(reason := sw_unpostableByReason s reason + 1)\<rparr>))"

definition sweepResult :: "int \<Rightarrow> (string \<times> uuid) list \<Rightarrow> outcome list \<Rightarrow> sweep_result" where
  "sweepResult limit candidates outcomes =
     fold countOutcome outcomes
       \<lparr>sw_candidates = length candidates, sw_posted = 0, sw_unchanged = 0, sw_reposted = 0, sw_unpostable = 0,
        sw_unpostableByReason = (\<lambda>_. 0), sw_more = (limit \<le> int (length candidates))\<rparr>"

definition runAccountingPostFactsSweep ::
  "(string \<Rightarrow> string) \<Rightarrow> (string \<Rightarrow> nat) \<Rightarrow> create_rule_input list \<Rightarrow> env \<Rightarrow> (nat \<Rightarrow> env) \<Rightarrow> operations \<Rightarrow>
   uuid option \<Rightarrow> int option \<Rightarrow> ledger \<Rightarrow> sweep_result acc \<times> ledger" where
  "runAccountingPostFactsSweep sha256 rank rules e envs D installationDefault limitOption L =
     (let limit = (case limitOption of None \<Rightarrow> DEFAULT_POST_FACTS_LIMIT | Some n \<Rightarrow> n) in
      case seedDefaultRules 0 e rules None None L of
        (Inl err, L1) \<Rightarrow> (Inl err, L1)
      | (Inr _, L1) \<Rightarrow>
          let candidates = unpostedFacts D L1 READABLE_SOURCE_FACT_TYPES limit in
          (case evaluateFacts sha256 rank D
              (map (\<lambda>(n, subject). (envs n, factInput installationDefault subject)) (enumerate 0 candidates)) L1 of
             (Inl err, L2) \<Rightarrow> (Inl err, L2)
           | (Inr outcomes, L2) \<Rightarrow> (Inr (sweepResult limit candidates outcomes), L2)))"

end
