(* ===== verification/Engine_Sweep.thy ===== *)
theory Engine_Sweep
  imports Accounting_Sweep Engine_Demo
begin

text \<open>
  The recurring sweep over unposted facts. A candidate has no entry in the books, so its evaluation
  either posts or writes nothing; a sweep therefore shrinks the backlog or leaves the ledger as it is.
\<close>

section \<open>Candidates\<close>

definition inBooks :: "ledger \<Rightarrow> string \<times> uuid \<Rightarrow> bool" where
  "inBooks L k \<longleftrightarrow> (\<exists>r \<in> set (journal_entries L). je_sourceFactType r = Some (fst k) \<and> je_sourceFactId r = Some (snd k) \<and>
     posted_status (je_status r))"

text \<open>Every readable fact that has no entry in the books, before the limit cuts the list.\<close>

definition backlog :: "operations \<Rightarrow> ledger \<Rightarrow> fact_type list \<Rightarrow> (string \<times> uuid) list" where
  "backlog D L types = filter (\<lambda>k. \<not> inBooks L k) (concat (map (\<lambda>t. map (\<lambda>i. (factTypeText t, i)) (factIds D t)) types))"

lemma set_insertById: "set (insertById x ys) = insert x (set ys)"
  by (induction x ys rule: insertById.induct) auto

lemma unpostedFacts_backlog:
  assumes "k \<in> set (unpostedFacts D L types limit)"
  shows "k \<in> set (backlog D L types)"
proof -
  have "set (foldr insertById xs []) = set xs" for xs :: "(string \<times> uuid) list"
    by (induction xs) (simp_all add: set_insertById)
  then show ?thesis
    using in_set_takeD [OF assms [unfolded unpostedFacts_def Let_def]]
    by (auto simp: backlog_def inBooks_def list_ex_iff)
qed

lemma inBooks_grows:
  assumes "journalGrows L L'" and "inBooks L k"
  shows "inBooks L' k"
proof -
  obtain r where r: "r \<in> set (journal_entries L)" "je_sourceFactType r = Some (fst k)" "je_sourceFactId r = Some (snd k)"
    "posted_status (je_status r)" using assms(2) unfolding inBooks_def by blast
  have "r \<in> set (journal_entries L') \<or> r\<lparr>je_status := Reversed\<rparr> \<in> set (journal_entries L')"
    using assms(1) r(1,4) unfolding journalGrows_def by blast
  then show ?thesis
  proof
    assume "r\<lparr>je_status := Reversed\<rparr> \<in> set (journal_entries L')"
    then show ?thesis unfolding inBooks_def by (rule bexI [rotated]) (use r in \<open>simp add: posted_status_def\<close>)
  qed (use r in \<open>auto simp: inBooks_def\<close>)
qed

lemma evaluateFacts_grows: "ledger_ok L \<Longrightarrow> journalGrows L (snd (evaluateFacts sha256 rank D is L))"
  using evaluateFacts_byJournal [of "is" L sha256 rank D] serveAll_sound unfolding byJournal_def by metis

section \<open>Evaluating a candidate\<close>

lemma candidate_existing:
  assumes "\<not> inBooks L (factTypeText (sf_sourceFactType f), sf_sourceFactId f)"
  shows "existingEntryFor L f = None"
  using assms by (intro existing_of_live(1)) (auto simp: liveEntries_def filter_empty_conv isEntryFor_def inBooks_def posted_status_def)

lemma evaluate_candidate:
  assumes ok: "ledger_ok L" and h: "hexDigest sha256" and new: "\<not> inBooks L (factKey i)"
    and ev: "evaluate sha256 rank e D i L = (Inr x, L')"
  shows "oc_status x = IsPosted \<and> inBooks L' (factKey i) \<or> oc_status x \<in> {IsUnchanged, IsUnpostable} \<and> L' = L"
proof -
  have none: "existingEntryFor L f = None" if "readFact D (ev_sourceFactType i) (ev_sourceFactId i) = Inr (Some f)" for f
    using candidate_existing [of L f] new readFact_ok(2,3) [OF that] by (simp add: factKey_def)
  from ev show ?thesis
  proof (cases rule: evaluate_cases)
    case (retired f reason u p)
    then show ?thesis using none by simp
  next
    case (ruled f book r)
    have key: "factKey i = (factTypeText (sf_sourceFactType f), sf_sourceFactId f)"
      using readFact_ok(2,3) [OF ruled(1)] by (simp add: factKey_def)
    from ruled(6) show ?thesis
    proof (cases rule: applyRule_cases)
      case (posted q)
      note p = postFact_live [OF h ok posted(2) [unfolded fingerprintFact_def]]
      show ?thesis
      proof (cases "pe_reused q")
        case False
        have "pe_entry q \<in> set (liveEntries L' (fst (factKey i)) (snd (factKey i)))" using p(1) False by (simp add: key)
        then have "inBooks L' (factKey i)" unfolding liveEntries_mem isEntryFor_def inBooks_def posted_status_def by blast
        then show ?thesis using posted(3) False by (simp add: ruledOutcome_def)
      qed (use p(3) posted(3) in \<open>simp add: ruledOutcome_def\<close>)
    qed (use none [OF ruled(1)] in \<open>simp_all add: unpostable_def\<close>)
  qed auto
qed

lemma evaluateFacts_candidates:
  assumes "ledger_ok L" and "hexDigest sha256" and "\<forall>c \<in> set is. \<not> inBooks L (factKey (snd c))"
    and "evaluateFacts sha256 rank D is L = (Inr xs, L')"
  shows "(\<forall>x \<in> set xs. oc_status x \<in> {IsUnchanged, IsUnpostable}) \<and> L' = L \<or>
    (\<exists>x \<in> set xs. oc_status x = IsPosted) \<and> (\<exists>c \<in> set is. inBooks L' (factKey (snd c)))"
  using assms(3,4)
proof (induction "is" arbitrary: xs)
  case (Cons c "is")
  obtain e i where c: "c = (e, i)" by (cases c)
  from Cons.prems(2) obtain x L1 ys where ev: "evaluate sha256 rank e D i L = (Inr x, L1)"
    and rest: "evaluateFacts sha256 rank D is L1 = (Inr ys, L')" and xs: "xs = x # ys"
    by (auto simp: c split: sum.splits prod.splits)
  have new: "\<not> inBooks L (factKey i)" using Cons.prems(1) by (simp add: c)
  consider "oc_status x = IsPosted" "inBooks L1 (factKey i)" | "oc_status x \<in> {IsUnchanged, IsUnpostable}" "L1 = L"
    using evaluate_candidate [OF assms(1,2) new ev] by blast
  then show ?case
  proof cases
    case 1
    have "L1 = snd (evaluateFacts sha256 rank D [(e, i)] L)" by (simp add: ev)
    then have "ledger_ok L1" by (simp only: evaluateFacts_ok [OF assms(1)])
    from evaluateFacts_grows [OF this, of sha256 rank D "is"] have "inBooks L' (factKey i)"
      using inBooks_grows 1(2) by (simp add: rest)
    then show ?thesis using 1(1) by (auto simp: c xs)
  next
    case 2
    then show ?thesis using Cons.IH [of ys] rest Cons.prems(1) by (auto simp: xs)
  qed
qed simp


section \<open>A sweep\<close>

lemma seedDefaultRules_seeded:
  "\<forall>t \<in> set ts. findRuleByCode L (cr_code t) \<noteq> None \<Longrightarrow>
     seedDefaultRules n e ts actor requestId L = (Inr ([], map cr_code ts), L)"
  by (induction ts arbitrary: n) auto

lemma countOutcome_posted: "sw_posted (countOutcome x s) = sw_posted s + (if oc_status x = IsPosted then 1 else 0)"
  by (simp add: countOutcome_def split: outcome_status.split option.split)

lemma sweepResult_posted: "sw_posted (sweepResult limit cs xs) = length (filter (\<lambda>x. oc_status x = IsPosted) xs)"
proof -
  have "sw_posted (fold countOutcome xs s) = sw_posted s + length (filter (\<lambda>x. oc_status x = IsPosted) xs)" for s
    by (induction xs arbitrary: s) (simp_all add: countOutcome_posted)
  then show ?thesis by (simp add: sweepResult_def)
qed

lemma factKey_input [simp]: "factKey (factInput d k) = k"
  by (simp add: factKey_def factInput_def)

lemma filter_shrinks: "(\<And>x. x \<in> set xs \<Longrightarrow> p x \<Longrightarrow> q x) \<Longrightarrow> y \<in> set xs \<Longrightarrow> q y \<Longrightarrow> \<not> p y \<Longrightarrow> length (filter p xs) < length (filter q xs)"
proof -
  assume *: "\<And>x. x \<in> set xs \<Longrightarrow> p x \<Longrightarrow> q x" "y \<in> set xs" "q y" "\<not> p y"
  have "filter p xs = filter p (filter q xs)" using *(1) by (auto intro: filter_cong)
  moreover have "length (filter p (filter q xs)) < length (filter q xs)"
    by (rule length_filter_less [of y]) (use * in auto)
  ultimately show ?thesis by simp
qed

text \<open>C17. The sweep makes progress or is stuck: once the shipped rules are seeded, a sweep that returns
  either posted something, and then the backlog of unposted facts is strictly smaller, or posted
  nothing, and then it left the ledger exactly as it was. So if the first candidates up to the limit
  cannot be posted, every later sweep reads the same candidates and the facts behind them are never
  reached.\<close>

theorem sweep_progress_or_stuck:
  assumes "reachable L" and "hexDigest sha256" and "\<forall>t \<in> set rules. findRuleByCode L (cr_code t) \<noteq> None"
    and "runAccountingPostFactsSweep sha256 rank rules e envs D dflt limit L = (Inr s, L')"
  shows "(sw_posted s = 0 \<longrightarrow> L' = L) \<and>
    (0 < sw_posted s \<longrightarrow> length (backlog D L' READABLE_SOURCE_FACT_TYPES) < length (backlog D L READABLE_SOURCE_FACT_TYPES))"
proof -
  define n where "n = (case limit of None \<Rightarrow> DEFAULT_POST_FACTS_LIMIT | Some n \<Rightarrow> n)"
  define cs where "cs = unpostedFacts D L READABLE_SOURCE_FACT_TYPES n"
  define inputs where "inputs = map (\<lambda>(n, subject). (envs n, factInput dflt subject)) (enumerate 0 cs)"
  have ok: "ledger_ok L" by (rule reachable_ok [OF assms(1)])
  obtain xs where xs: "evaluateFacts sha256 rank D inputs L = (Inr xs, L')" and s: "s = sweepResult n cs xs"
    using assms(4) unfolding runAccountingPostFactsSweep_def seedDefaultRules_seeded [OF assms(3)] Let_def n_def cs_def inputs_def
    by (auto split: sum.splits prod.splits)
  have keys: "factKey (snd c) \<in> set (backlog D L READABLE_SOURCE_FACT_TYPES)" if c: "c \<in> set inputs" for c
  proof -
    from c obtain m k where k: "(m, k) \<in> set (enumerate 0 cs)" "c = (envs m, factInput dflt k)" by (auto simp: inputs_def)
    have "k \<in> set (map snd (enumerate 0 cs))" using k(1) by (force simp del: map_snd_enumerate)
    then show ?thesis unfolding map_snd_enumerate k(2) cs_def snd_conv factKey_input by (rule unpostedFacts_backlog)
  qed
  then have new: "\<forall>c \<in> set inputs. \<not> inBooks L (factKey (snd c))" by (auto simp: backlog_def)
  have grows: "inBooks L k \<Longrightarrow> inBooks L' k" for k
    using evaluateFacts_grows [OF ok, of sha256 rank D inputs] inBooks_grows by (simp add: xs)
  from evaluateFacts_candidates [OF ok assms(2) new xs] show ?thesis
  proof
    assume "(\<exists>x \<in> set xs. oc_status x = IsPosted) \<and> (\<exists>c \<in> set inputs. inBooks L' (factKey (snd c)))"
    then obtain x c where x: "x \<in> set xs" "oc_status x = IsPosted" and c: "c \<in> set inputs" "inBooks L' (factKey (snd c))" by blast
    have "length (backlog D L' READABLE_SOURCE_FACT_TYPES) < length (backlog D L READABLE_SOURCE_FACT_TYPES)"
      unfolding backlog_def
      by (rule filter_shrinks [of _ _ _ "factKey (snd c)"]) (use keys [OF c(1)] c(2) grows in \<open>auto simp: backlog_def\<close>)
    moreover have "filter (\<lambda>x. oc_status x = IsPosted) xs \<noteq> []" using x by (auto simp: filter_empty_conv)
    ultimately show ?thesis by (simp add: s sweepResult_posted)
  next
    assume "(\<forall>x \<in> set xs. oc_status x \<in> {IsUnchanged, IsUnpostable}) \<and> L' = L"
    then show ?thesis by (auto simp: s sweepResult_posted filter_empty_conv)
  qed
qed

definition demoSweep :: "int \<Rightarrow> ledger \<Rightarrow> sweep_result acc \<times> ledger" where
  "demoSweep amount L = runAccountingPostFactsSweep toyDigest (\<lambda>_. 0) [] (demoEnv ''s'') (\<lambda>n. demoEnv (replicate n CHR ''n'' @ ''e''))
     (demoOperations amount) (Some ''a'') None L"

lemma demoSweep_posts: "map_sum id sw_posted (fst (demoSweep 30000000 engineLedger)) = Inr 1"
  by code_simp

theorem sweep_progress_or_stuck_witness:
  "length (backlog (demoOperations 30000000) (snd (demoSweep 30000000 engineLedger)) READABLE_SOURCE_FACT_TYPES) <
   length (backlog (demoOperations 30000000) engineLedger READABLE_SOURCE_FACT_TYPES)"
proof -
  obtain s where s: "fst (demoSweep 30000000 engineLedger) = Inr s" "sw_posted s = 1"
    using demoSweep_posts by (cases "fst (demoSweep 30000000 engineLedger)") auto
  then have "runAccountingPostFactsSweep toyDigest (\<lambda>_. 0) [] (demoEnv ''s'') (\<lambda>n. demoEnv (replicate n CHR ''n'' @ ''e''))
     (demoOperations 30000000) (Some ''a'') None engineLedger = (Inr s, snd (demoSweep 30000000 engineLedger))"
    by (simp add: demoSweep_def prod_eq_iff)
  from sweep_progress_or_stuck [OF engineLedger_reachable toyDigest_hex _ this] s(2) show ?thesis by simp
qed

end
