(* ===== verification/Engine_Errors.thy ===== *)
theory Engine_Errors
  imports Engine_Demo
begin

text \<open>
  What happens to a fact dated in a closed period. The engine has a reason \<open>NoPeriod\<close> for it, and the
  task's comment says a bad fact is an outcome and not a throw; the code throws.
\<close>

section \<open>The reason that is never given\<close>

lemma evaluate_reason:
  assumes "evaluate sha256 rank e D i L = (Inr x, L')"
  shows "oc_reason x \<noteq> Some NoPeriod"
  using assms
proof (cases rule: evaluate_cases)
  case (ruled f book r)
  from ruled(6) show ?thesis by (cases rule: applyRule_cases) (auto simp: ruledOutcome_def unpostable_def)
qed (auto simp: unpostable_def)

section \<open>Posting into a closed period\<close>

lemma parse_factEntry_target:
  assumes "parseEntryInput (factEntry f r b fp i ls) = Inr v"
  shows "en_accountingBookId v = Some b" "en_entryDate v = sf_accountingDate f" "en_allowBackdated v = ev_allowBackdated i"
  using assms by (auto simp: parseEntryInput_def factEntry_def Let_def)

lemma postFact_closed:
  assumes h: "hexDigest h" and period: "resolvePeriodRow L b (sf_accountingDate f) = Inr p"
      "assertPeriodAcceptsPosting p (ev_allowBackdated i) = Inl err"
    and free: "\<forall>z \<in> set (journal_entries L). je_postingKey z \<noteq> Some (ruleKey f r (h s))"
  shows "\<exists>err. postFact e f r b (h s) i L = Inl err"
proof (rule ccontr)
  assume "\<nexists>err. postFact e f r b (h s) i L = Inl err"
  then obtain q L' where "postFact e f r b (h s) i L = Inr (q, L')" by (metis old.sum.exhaust surj_pair)
  then obtain ls v where v: "parseEntryInput (factEntry f r b (h s) i ls) = Inr v" "attemptPost e v L = Inr (q, L')"
    by (auto elim!: postFact_entry postEntry_attempt)
  note target = parse_factEntry_target [OF v(1)]
  from v(2) show False
  proof (cases rule: attemptPost_Inr)
    case (reused k)
    then show False using free parse_factEntry(5) [OF h v(1)] by (auto simp: existingByPostingKey_def dest: find_SomeD)
  next
    case (posted book routing ls' period' bd u L1 log)
    have "bk_id book = b" using posted(2) target(1) by (auto simp: routeBook_def dest: loadPostingBook_id)
    then show False using posted(5,6) period target by simp
  qed
qed


definition engineClosed :: ledger where
  "engineClosed = serveAll [(demoEnv ''c'', SetPeriodStatus \<lparr>ss_fiscalPeriodId = ''xp'', ss_status = Closed, ss_note = Undefined,
     ss_actorUserId = None, ss_requestId = None\<rparr>)] engineLedger"

lemma engineClosed_plan:
  "(case planOf (\<lambda>_. 0) (demoOperations 30000000) demoEvaluation engineClosed of
      Applies f r b \<Rightarrow> existingEntryFor engineClosed f = None \<and> b = ''a'' \<and>
        (case buildLines f r of Inr ls \<Rightarrow> length ls = 2 | Inl _ \<Rightarrow> False) \<and>
        (case resolvePeriodRow engineClosed b (sf_accountingDate f) of
           Inr p \<Rightarrow> assertPeriodAcceptsPosting p False = Inl FiscalPeriodClosedError | Inl _ \<Rightarrow> False)
    | _ \<Rightarrow> False)"
  by code_simp

lemma engineClosed_entries: "journal_entries engineClosed = []"
  by code_simp


end
