(* ===== verification/Entity_Hierarchy.thy ===== *)
theory Entity_Hierarchy
  imports Books
begin

text \<open>
  The recursive query of \<^verbatim>\<open>conflictingDescendantLink\<close> over the entity hierarchy, which has no depth bound in
  the source. It ends exactly when no cycle of parents is reachable below the entity, and one level
  of fuel per entity and one more is enough whenever any amount is.
\<close>

section \<open>Paths\<close>

lemma descendants_path: "p \<in> set fr \<Longrightarrow> (p, q) \<in> childRel es ^^ n \<Longrightarrow> descendants n es fr = None"
proof (induction n arbitrary: p fr)
  case 0
  then show ?case by (cases fr) auto
next
  case (Suc n)
  obtain r where r: "(p, r) \<in> childRel es" "(r, q) \<in> childRel es ^^ n" using Suc.prems(2) by (elim relpow_Suc_E2)
  have "r \<in> set (childrenOf es fr)" using r(1) Suc.prems(1) by (auto simp: childrenOf_iff)
  from Suc.IH [OF this r(2)] show ?case using Suc.prems(1) by (cases fr) auto
qed

lemma cycle_paths:
  assumes "(c, x) \<in> R\<^sup>*" and "(x, x) \<in> R\<^sup>+"
  shows "\<exists>q. (c, q) \<in> R ^^ n \<and> (q, x) \<in> R\<^sup>*"
proof (induction n)
  case 0
  show ?case using assms(1) by auto
next
  case (Suc n)
  then obtain q where q: "(c, q) \<in> R ^^ n" "(q, x) \<in> R\<^sup>*" by blast
  have "(q, x) \<in> R\<^sup>+" using q(2) assms(2) by (rule rtrancl_trancl_trancl)
  then obtain r where "(q, r) \<in> R" "(r, x) \<in> R\<^sup>*" by (blast dest: tranclD)
  then show ?case using q(1) by (auto intro: relcompI)
qed

definition cycleBelow :: "economic_entity list \<Rightarrow> uuid \<Rightarrow> bool" where
  "cycleBelow es i \<longleftrightarrow> (\<exists>x. (i, x) \<in> (childRel es)\<^sup>+ \<and> (x, x) \<in> (childRel es)\<^sup>+)"

lemma cycle_no_answer:
  assumes "cycleBelow es i"
  shows "descendants n es (childrenOf es [i]) = None"
proof -
  obtain x where x: "(i, x) \<in> (childRel es)\<^sup>+" "(x, x) \<in> (childRel es)\<^sup>+" using assms unfolding cycleBelow_def by blast
  then obtain c where c: "(i, c) \<in> childRel es" "(c, x) \<in> (childRel es)\<^sup>*" by (blast dest: tranclD)
  obtain q where "(c, q) \<in> childRel es ^^ n" using cycle_paths [OF c(2) x(2)] by blast
  moreover have "c \<in> set (childrenOf es [i])" using c(1) by (simp add: childrenOf_iff)
  ultimately show ?thesis by (intro descendants_path)
qed

lemma no_answer_cycle:
  assumes "descendantsOf es i = None"
  shows "cycleBelow es i"
proof -
  obtain xs where xs: "length xs = Suc (Suc (length es))" "hd xs \<in> set (childrenOf es [i])"
    and step: "\<forall>k < Suc (length es). (xs ! k, xs ! Suc k) \<in> childRel es"
    using descendants_None_path assms unfolding descendantsOf_def by blast
  have "hd xs = xs ! 0" using xs(1) by (cases xs) auto
  then have first: "(i, xs ! 0) \<in> childRel es" using xs(2) by (simp add: childrenOf_iff)
  have child: "xs ! k \<in> ee_id ` set es" if "k < length xs" for k
    using first step that xs(1) by (cases k) (force simp: childRel_def)+
  then have "set xs \<subseteq> ee_id ` set es" by (auto simp: in_set_conv_nth)
  then have "card (set xs) \<le> length es"
    by (meson card_length card_mono card_image_le finite_imageI finite_set order_trans)
  then have "\<not> distinct xs" using xs(1) distinct_card [of xs] by auto
  then obtain a b where ab: "a < b" "b < length xs" "xs ! a = xs ! b" by (metis distinct_conv_nth nat_neq_iff)
  have "(xs ! a, xs ! a) \<in> (childRel es)\<^sup>+" using path_trancl [OF step ab(1)] ab xs(1) by simp
  moreover have "(i, xs ! a) \<in> (childRel es)\<^sup>+"
  proof (cases a)
    case (Suc k)
    have "(xs ! 0, xs ! a) \<in> (childRel es)\<^sup>+" using path_trancl [OF step, of 0 a] ab xs(1) Suc by simp
    then show ?thesis using first by (rule trancl_into_trancl2 [rotated])
  qed (use first in auto)
  ultimately show ?thesis unfolding cycleBelow_def by blast
qed

section \<open>Termination\<close>

text \<open>C18. Linking an entity terminates: the call returns a row or an error unless a cycle of parents is
  reachable below the entity; when one is, the descendant query returns for no amount of fuel. The
  fuel of the model never decides: whenever some amount of fuel answers, the model answers the same.\<close>

theorem linkEntity_terminates:
  "(linkEntity e i L = None \<longrightarrow> cycleBelow (economic_entities L) (li_economicEntityId i)) \<and>
   (cycleBelow es j \<longrightarrow> (\<forall>n. descendants n es (childrenOf es [j]) = None)) \<and>
   (\<forall>n ds. descendants n es (childrenOf es [j]) = Some ds \<longrightarrow> descendantsOf es j = Some ds)"
proof (intro conjI impI allI)
  assume "linkEntity e i L = None"
  then obtain v book ent where "linkPrecheck L i = Inr (v, book, ent)"
      "conflictingDescendantLink L (li_economicEntityId v) (li_accountingBookId v) (li_effectiveFrom v) (li_effectiveTo v) = None"
    by (auto simp: linkEntity_def split: sum.splits if_splits option.splits prod.splits)
  then have "descendantsOf (economic_entities L) (li_economicEntityId v) = None" "li_economicEntityId v = li_economicEntityId i"
    using parseLinkEntity_keeps [of i v] by (auto simp: conflictingDescendantLink_def linkPrecheck_Inr)
  then show "cycleBelow (economic_entities L) (li_economicEntityId i)" using no_answer_cycle by metis
next
  fix n assume "cycleBelow es j"
  then show "descendants n es (childrenOf es [j]) = None" by (rule cycle_no_answer)
next
  fix n ds assume some: "descendants n es (childrenOf es [j]) = Some ds"
  then have "\<not> cycleBelow es j" using cycle_no_answer by fastforce
  then obtain ds' where ds': "descendantsOf es j = Some ds'" using no_answer_cycle by blast
  have mono: "descendants m es fr = Some a \<Longrightarrow> descendants m' es fr = Some b \<Longrightarrow> a = b" for m m' fr a b
  proof (induction m es fr arbitrary: m' a b rule: descendants.induct)
    case (3 m es i "is")
    then show ?case by (cases m') auto
  qed (auto elim: descendants.elims)
  show "descendantsOf es j = Some ds" using mono [OF some ds' [unfolded descendantsOf_def]] ds' by simp
qed

definition loopOfTwo :: "economic_entity list" where
  "loopOfTwo = [entityOf ''p'' (Some ''c''), entityOf ''c'' (Some ''p'')]"

theorem linkEntity_terminates_witness:
  "linkEntity (sampleEnv ''n'') sampleLink sampleGroup \<noteq> None \<and>
   descendantsOf (economic_entities sampleGroup) ''parent'' = Some [''child''] \<and>
   (\<forall>n. descendants n loopOfTwo (childrenOf loopOfTwo [''p'']) = None)"
proof -
  have "(''p'', ''c'') \<in> childRel loopOfTwo" "(''c'', ''p'') \<in> childRel loopOfTwo"
    by (auto simp: childRel_def loopOfTwo_def entityOf_def)
  then have "cycleBelow loopOfTwo ''p''" unfolding cycleBelow_def by (meson r_into_trancl trancl_trans)
  moreover have "descendants 2 (economic_entities sampleGroup) (childrenOf (economic_entities sampleGroup) [''parent'']) = Some [''child'']"
    by code_simp
  moreover have "linkEntity (sampleEnv ''n'') sampleLink sampleGroup \<noteq> None" by code_simp
  ultimately show ?thesis
    using linkEntity_terminates [of "sampleEnv ''n''" sampleLink sampleGroup loopOfTwo "''p''"]
      linkEntity_terminates [of "sampleEnv ''n''" sampleLink sampleGroup "economic_entities sampleGroup" "''parent''"] by blast
qed

end
