(* ===== verification/Shipped_Templates.thy ===== *)
theory Shipped_Templates
  imports Posting_Rules
begin

text \<open>
  The data a new installation starts with: the chart of \<^verbatim>\<open>chart-template.ts\<close> and the posting rules
  of \<^verbatim>\<open>posting-rules-template.ts\<close>, row by row, with the defaults of the input schema filled in.
\<close>

section \<open>The chart\<close>

definition DEFAULT_CHART_TEMPLATE :: "chart_template_account list" where
  "DEFAULT_CHART_TEMPLATE = [
     \<lparr>ct_code = ''1000'', ct_name = ''Assets'', ct_accountType = Asset, ct_accountSubtype = None,
      ct_systemKey = None, ct_parentCode = None, ct_isPostable = Some False, ct_isContra = None,
      ct_description = Some ''Roll-up header.''\<rparr>,
     \<lparr>ct_code = ''1100'', ct_name = ''Marketplace Clearing'', ct_accountType = Asset,
      ct_accountSubtype = Some ''clearing'', ct_systemKey = Some ''marketplace_clearing'', ct_parentCode = Some
      ''1000'', ct_isPostable = None, ct_isContra = None, ct_description = Some
      ''Money the marketplace owes us. A sale debits it, fees and refunds credit it, and the payout clears it. A non-zero residual after a settlement window is THE finding: an uningested fee, a missing order, a refund commerce never saw, or a rule that fired twice.''
      \<rparr>,
     \<lparr>ct_code = ''1200'', ct_name = ''Undeposited Funds'', ct_accountType = Asset,
      ct_accountSubtype = Some ''undeposited_funds'', ct_systemKey = Some ''undeposited_funds'',
      ct_parentCode = Some ''1000'', ct_isPostable = None, ct_isContra = None, ct_description = Some
      ''Settled by the processor, not yet in the bank.''\<rparr>,
     \<lparr>ct_code = ''1300'', ct_name = ''Business Checking'', ct_accountType = Asset,
      ct_accountSubtype = Some ''bank'', ct_systemKey = None, ct_parentCode = Some ''1000'',
      ct_isPostable = None, ct_isContra = None, ct_description = Some
      ''An ordinary operator-owned account, not a system account: the banking milestone maps real financial_accounts onto chart accounts, and which one is a bank is the operator's statement, not Loxep's.''
      \<rparr>,
     \<lparr>ct_code = ''1400'', ct_name = ''Inventory'', ct_accountType = Asset, ct_accountSubtype = Some
      ''inventory'', ct_systemKey = Some ''inventory'', ct_parentCode = Some ''1000'', ct_isPostable = None,
      ct_isContra = None, ct_description = Some
      ''Stock at landed cost, as frozen on the item by Phase 4. Depletion credits it and debits COGS at that same frozen basis; valuation judgements are a later, separate posting.''
      \<rparr>,
     \<lparr>ct_code = ''1900'', ct_name = ''Suspense'', ct_accountType = Asset, ct_accountSubtype = Some
      ''suspense'', ct_systemKey = Some ''suspense'', ct_parentCode = Some ''1000'', ct_isPostable = None,
      ct_isContra = None, ct_description = Some
      ''The plug of last resort, used when a rule matched but an account could not be resolved. It earns its place by being permanently visible in a named report: a suspense balance nobody looks at is worse than a failed posting, and one on the front page is a work queue.''
      \<rparr>,
     \<lparr>ct_code = ''2000'', ct_name = ''Liabilities'', ct_accountType = Liability,
      ct_accountSubtype = None, ct_systemKey = None, ct_parentCode = None, ct_isPostable = Some False,
      ct_isContra = None, ct_description = Some ''Roll-up header.''\<rparr>,
     \<lparr>ct_code = ''2100'', ct_name = ''Sales Tax Payable'', ct_accountType = Liability,
      ct_accountSubtype = Some ''sales_tax_payable'', ct_systemKey = Some ''sales_tax_payable'',
      ct_parentCode = Some ''2000'', ct_isPostable = None, ct_isContra = None, ct_description = Some
      ''Tax WE collected and must remit. Seller liability only.''\<rparr>,
     \<lparr>ct_code = ''2200'', ct_name = ''Facilitator Tax Clearing'', ct_accountType = Liability,
      ct_accountSubtype = Some ''clearing'', ct_systemKey = Some ''facilitator_tax_clearing'',
      ct_parentCode = Some ''2000'', ct_isPostable = None, ct_isContra = None, ct_description = Some
      ''Tax a marketplace collects from the buyer and remits itself. It passes through gross sales and is never our liability, so it clears to zero once the payout settles and never touches sales tax payable or P&L. Crediting it to Sales Tax Payable instead would create a liability that will never be paid and grows forever.''
      \<rparr>,
     \<lparr>ct_code = ''3000'', ct_name = ''Equity'', ct_accountType = Equity, ct_accountSubtype = None,
      ct_systemKey = None, ct_parentCode = None, ct_isPostable = Some False, ct_isContra = None,
      ct_description = Some ''Roll-up header.''\<rparr>,
     \<lparr>ct_code = ''3100'', ct_name = ''Opening Balance Equity'', ct_accountType = Equity,
      ct_accountSubtype = Some ''opening_balance_equity'', ct_systemKey = Some ''opening_balance_equity'',
      ct_parentCode = Some ''3000'', ct_isPostable = None, ct_isContra = None, ct_description = Some
      ''The other side of an opening-balance entry. Retained earnings is NOT an account here: it is computed in the balance-sheet read model from prior fiscal years' net income, because stored closing entries double a small book's entry count and make the trial balance depend on whether a job ran.''
      \<rparr>,
     \<lparr>ct_code = ''4000'', ct_name = ''Revenue'', ct_accountType = Revenue, ct_accountSubtype = None,
      ct_systemKey = None, ct_parentCode = None, ct_isPostable = Some False, ct_isContra = None,
      ct_description = Some ''Roll-up header.''\<rparr>,
     \<lparr>ct_code = ''4100'', ct_name = ''Sales Revenue'', ct_accountType = Revenue,
      ct_accountSubtype = None, ct_systemKey = Some ''sales_revenue'', ct_parentCode = Some ''4000'',
      ct_isPostable = None, ct_isContra = None, ct_description = None\<rparr>,
     \<lparr>ct_code = ''4200'', ct_name = ''Shipping Income'', ct_accountType = Revenue,
      ct_accountSubtype = None, ct_systemKey = Some ''shipping_income'', ct_parentCode = Some ''4000'',
      ct_isPostable = None, ct_isContra = None, ct_description = Some
      ''Customer-paid shipping, which is income and not a fee.''\<rparr>,
     \<lparr>ct_code = ''4300'', ct_name = ''Buyer Fee Income'', ct_accountType = Revenue,
      ct_accountSubtype = None, ct_systemKey = Some ''buyer_fee_income'', ct_parentCode = Some ''4000'',
      ct_isPostable = None, ct_isContra = None, ct_description = Some (
      ''Surcharges the SELLER charges the BUYER '' @ EM_DASH @ '' handling, small-order, COD, gift wrap ''
       @ EM_DASH @
      '' which arrive as order_fees with fee_direction = 'buyer_surcharge' and are already inside the order total. Income, never a fee expense.''
      )\<rparr>,
     \<lparr>ct_code = ''4900'', ct_name = ''Sales Returns'', ct_accountType = Revenue,
      ct_accountSubtype = None, ct_systemKey = Some ''sales_returns'', ct_parentCode = Some ''4000'',
      ct_isPostable = None, ct_isContra = Some True, ct_description = Some
      ''Contra revenue: a flag on the ordinary type rather than a sixth account type, which keeps statement grouping trivial.''
      \<rparr>,
     \<lparr>ct_code = ''5000'', ct_name = ''Cost of Goods Sold'', ct_accountType = Expense,
      ct_accountSubtype = None, ct_systemKey = None, ct_parentCode = None, ct_isPostable = Some False,
      ct_isContra = None, ct_description = Some ''Roll-up header.''\<rparr>,
     \<lparr>ct_code = ''5100'', ct_name = ''Cost of Goods Sold'', ct_accountType = Expense,
      ct_accountSubtype = Some ''cogs'', ct_systemKey = Some ''cogs'', ct_parentCode = Some ''5000'',
      ct_isPostable = None, ct_isContra = None, ct_description = Some
      ''Posted from depletion movements at the item's frozen landed cost. This is the only way per-item realized contribution and the P&L can agree.''
      \<rparr>,
     \<lparr>ct_code = ''6000'', ct_name = ''Operating Expenses'', ct_accountType = Expense,
      ct_accountSubtype = None, ct_systemKey = None, ct_parentCode = None, ct_isPostable = Some False,
      ct_isContra = None, ct_description = Some ''Roll-up header.''\<rparr>,
     \<lparr>ct_code = ''6100'', ct_name = ''Marketplace Fees'', ct_accountType = Expense,
      ct_accountSubtype = Some ''marketplace_fees'', ct_systemKey = Some ''marketplace_fees'',
      ct_parentCode = Some ''6000'', ct_isPostable = None, ct_isContra = None, ct_description = Some
      ''Seller-charged platform fees only (fee_direction = 'seller_charge'): final value, insertion, regulatory operating, promoted listing.''
      \<rparr>,
     \<lparr>ct_code = ''6200'', ct_name = ''Payment Processing Fees'', ct_accountType = Expense,
      ct_accountSubtype = Some ''marketplace_fees'', ct_systemKey = Some ''payment_processing_fees'',
      ct_parentCode = Some ''6000'', ct_isPostable = None, ct_isContra = None, ct_description = None\<rparr>,
     \<lparr>ct_code = ''6300'', ct_name = ''Shipping Expense'', ct_accountType = Expense,
      ct_accountSubtype = Some ''shipping_expense'', ct_systemKey = Some ''shipping_expense'',
      ct_parentCode = Some ''6000'', ct_isPostable = None, ct_isContra = None, ct_description = Some (
      ''Actual postage and label cost '' @ EM_DASH @
      '' the outbound side of the shipping pair whose income half is 4200.'')\<rparr>,
     \<lparr>ct_code = ''6900'', ct_name = ''FX Gain / Loss'', ct_accountType = Expense,
      ct_accountSubtype = Some ''fx_gain_loss'', ct_systemKey = Some ''fx_gain_loss'', ct_parentCode = Some
      ''6000'', ct_isPostable = None, ct_isContra = None, ct_description = Some
      ''Realized conversion difference. Unused while this build is USD-only, and seeded anyway: it is the account the posting engine must be able to reach the moment a second currency exists, and an entry that cannot resolve it silently plugs to suspense instead.''
      \<rparr>]"

section \<open>The posting rules\<close>

definition noPredicates :: predicate_input where
  "noPredicates = \<lparr>pi_effectiveFrom = None, pi_effectiveTo = None, pi_matchProvider = None, pi_matchChannel = None,
     pi_matchEconomicEntityId = None, pi_matchFeeType = None, pi_matchFeeDirection = None,
     pi_matchMovementKind = None, pi_matchSourceKind = None, pi_matchExpenseCategory = None,
     pi_matchCapitalize = None, pi_matchCurrency = None, pi_matchMinAmount = None, pi_matchMaxAmount = None,
     pi_note = None\<rparr>"

definition saleRules :: "create_rule_input list" where
  "saleRules = [
     \<lparr>cr_code = ''order_sale'', cr_name = ''Marketplace sale'', cr_sourceFactType = ''order'',
      cr_accountingBookId = None, cr_priority = 100, cr_description = Some
      ''Revenue at sale. Debits marketplace clearing for the provider-asserted total and credits each component Loxep recognizes; the residue parks in suspense until a fee fact explains it.''
      , cr_predicates = noPredicates, cr_lines = [
        \<lparr>li_lineNumber = Some 1, li_accountSystemKey = Some ''marketplace_clearing'',
          li_ledgerAccountId = None, li_amountSource = Total, li_amountMultiplier = ''1'',
          li_inheritEntity = True, li_dimensionValueId = None, li_descriptionTemplate = Some
          ''{provider} sale {external_order_number}''\<rparr>,
        \<lparr>li_lineNumber = Some 2, li_accountSystemKey = Some ''sales_revenue'', li_ledgerAccountId = None,
          li_amountSource = Subtotal, li_amountMultiplier = ''-1'', li_inheritEntity = True,
          li_dimensionValueId = None, li_descriptionTemplate = None\<rparr>,
        \<lparr>li_lineNumber = Some 3, li_accountSystemKey = Some ''shipping_income'',
          li_ledgerAccountId = None, li_amountSource = Shipping, li_amountMultiplier = ''-1'',
          li_inheritEntity = True, li_dimensionValueId = None, li_descriptionTemplate = None\<rparr>,
        \<lparr>li_lineNumber = Some 4, li_accountSystemKey = Some ''facilitator_tax_clearing'',
          li_ledgerAccountId = None, li_amountSource = Tax, li_amountMultiplier = ''-1'',
          li_inheritEntity = True, li_dimensionValueId = None, li_descriptionTemplate = None\<rparr>,
        \<lparr>li_lineNumber = Some 5, li_accountSystemKey = Some ''sales_revenue'', li_ledgerAccountId = None,
          li_amountSource = Discount, li_amountMultiplier = ''1'', li_inheritEntity = True,
          li_dimensionValueId = None, li_descriptionTemplate = None\<rparr>,
        \<lparr>li_lineNumber = Some 9, li_accountSystemKey = Some ''suspense'', li_ledgerAccountId = None,
          li_amountSource = Remainder, li_amountMultiplier = ''1'', li_inheritEntity = True,
          li_dimensionValueId = None, li_descriptionTemplate = None\<rparr>],
      cr_activate = True, cr_createdByUserId = None, cr_requestId = None\<rparr>,
     \<lparr>cr_code = ''order_fee_seller_charge'', cr_name = ''Marketplace fee charged to the seller'',
      cr_sourceFactType = ''order_fee'', cr_accountingBookId = None, cr_priority = 100, cr_description = Some
      ''A deduction from proceeds: an expense, and a reduction of what the marketplace owes.'',
      cr_predicates = noPredicates\<lparr>pi_matchFeeDirection := Some ''seller_charge''\<rparr>, cr_lines = [
        \<lparr>li_lineNumber = Some 1, li_accountSystemKey = Some ''marketplace_fees'',
          li_ledgerAccountId = None, li_amountSource = Fee, li_amountMultiplier = ''1'',
          li_inheritEntity = True, li_dimensionValueId = None, li_descriptionTemplate = Some
          ''{fee_type} fee on {external_order_number}''\<rparr>,
        \<lparr>li_lineNumber = Some 2, li_accountSystemKey = Some ''marketplace_clearing'',
          li_ledgerAccountId = None, li_amountSource = Fee, li_amountMultiplier = ''-1'',
          li_inheritEntity = True, li_dimensionValueId = None, li_descriptionTemplate = None\<rparr>],
      cr_activate = True, cr_createdByUserId = None, cr_requestId = None\<rparr>,
     \<lparr>cr_code = ''order_fee_buyer_surcharge'', cr_name = ''Surcharge the seller charged the buyer'',
      cr_sourceFactType = ''order_fee'', cr_accountingBookId = None, cr_priority = 100, cr_description = Some (
      ''Handling, small-order, COD, and gift-wrap surcharges: income, never a fee expense, and already inside the order total ''
       @ EM_DASH @ '' so it clears the sale's suspense residue rather than debiting clearing a second time.''),
      cr_predicates = noPredicates\<lparr>pi_matchFeeDirection := Some ''buyer_surcharge''\<rparr>, cr_lines = [
        \<lparr>li_lineNumber = Some 1, li_accountSystemKey = Some ''suspense'', li_ledgerAccountId = None,
          li_amountSource = Fee, li_amountMultiplier = ''1'', li_inheritEntity = True,
          li_dimensionValueId = None, li_descriptionTemplate = Some
          ''{fee_type} surcharge on {external_order_number}''\<rparr>,
        \<lparr>li_lineNumber = Some 2, li_accountSystemKey = Some ''buyer_fee_income'',
          li_ledgerAccountId = None, li_amountSource = Fee, li_amountMultiplier = ''-1'',
          li_inheritEntity = True, li_dimensionValueId = None, li_descriptionTemplate = None\<rparr>],
      cr_activate = True, cr_createdByUserId = None, cr_requestId = None\<rparr>,
     \<lparr>cr_code = ''order_refund'', cr_name = ''Refund to the buyer'', cr_sourceFactType = ''order_refund''
      , cr_accountingBookId = None, cr_priority = 100, cr_description = Some
      ''Contra revenue, and a reduction of what the marketplace owes. Sales returns is a contra flag on the ordinary revenue type rather than a sixth account type, which keeps statement grouping trivial.''
      , cr_predicates = noPredicates, cr_lines = [
        \<lparr>li_lineNumber = Some 1, li_accountSystemKey = Some ''sales_returns'', li_ledgerAccountId = None,
          li_amountSource = Refund, li_amountMultiplier = ''1'', li_inheritEntity = True,
          li_dimensionValueId = None, li_descriptionTemplate = Some ''Refund on {external_order_number}''
          \<rparr>,
        \<lparr>li_lineNumber = Some 2, li_accountSystemKey = Some ''marketplace_clearing'',
          li_ledgerAccountId = None, li_amountSource = Refund, li_amountMultiplier = ''-1'',
          li_inheritEntity = True, li_dimensionValueId = None, li_descriptionTemplate = None\<rparr>],
      cr_activate = True, cr_createdByUserId = None, cr_requestId = None\<rparr>]"

definition expenseRules :: "create_rule_input list" where
  "expenseRules = [
     \<lparr>cr_code = ''expense_postage'', cr_name = (''Expense '' @ EM_DASH @ '' postage''),
      cr_sourceFactType = ''expense'', cr_accountingBookId = None, cr_priority = 50, cr_description = None,
      cr_predicates = noPredicates\<lparr>pi_matchExpenseCategory := Some ''postage''\<rparr>, cr_lines = [
        \<lparr>li_lineNumber = Some 1, li_accountSystemKey = Some ''shipping_expense'',
          li_ledgerAccountId = None, li_amountSource = Total, li_amountMultiplier = ''1'',
          li_inheritEntity = True, li_dimensionValueId = None, li_descriptionTemplate = Some (''{category} ''
           @ EM_DASH @ '' {payee_name}'')\<rparr>,
        \<lparr>li_lineNumber = Some 2, li_accountSystemKey = Some ''opening_balance_equity'',
          li_ledgerAccountId = None, li_amountSource = Total, li_amountMultiplier = ''-1'',
          li_inheritEntity = True, li_dimensionValueId = None, li_descriptionTemplate = None\<rparr>],
      cr_activate = True, cr_createdByUserId = None, cr_requestId = None\<rparr>,
     \<lparr>cr_code = ''expense_shipping_supplies'', cr_name = (''Expense '' @ EM_DASH @ '' shipping supplies''
      ), cr_sourceFactType = ''expense'', cr_accountingBookId = None, cr_priority = 50, cr_description = None,
      cr_predicates = noPredicates\<lparr>pi_matchExpenseCategory := Some ''shipping_supplies''\<rparr>, cr_lines = [
        \<lparr>li_lineNumber = Some 1, li_accountSystemKey = Some ''shipping_expense'',
          li_ledgerAccountId = None, li_amountSource = Total, li_amountMultiplier = ''1'',
          li_inheritEntity = True, li_dimensionValueId = None, li_descriptionTemplate = Some (''{category} ''
           @ EM_DASH @ '' {payee_name}'')\<rparr>,
        \<lparr>li_lineNumber = Some 2, li_accountSystemKey = Some ''opening_balance_equity'',
          li_ledgerAccountId = None, li_amountSource = Total, li_amountMultiplier = ''-1'',
          li_inheritEntity = True, li_dimensionValueId = None, li_descriptionTemplate = None\<rparr>],
      cr_activate = True, cr_createdByUserId = None, cr_requestId = None\<rparr>,
     \<lparr>cr_code = ''expense_marketplace_subscription'', cr_name = (''Expense '' @ EM_DASH @
      '' marketplace subscription''), cr_sourceFactType = ''expense'', cr_accountingBookId = None,
      cr_priority = 50, cr_description = Some
      ''A store subscription is a marketplace fee that no single order caused. It lands in the same expense account as the per-order fees so the P&L line reads as one cost of selling there.''
      , cr_predicates = noPredicates\<lparr>pi_matchExpenseCategory := Some ''marketplace_subscription''
      \<rparr>, cr_lines = [
        \<lparr>li_lineNumber = Some 1, li_accountSystemKey = Some ''marketplace_fees'',
          li_ledgerAccountId = None, li_amountSource = Total, li_amountMultiplier = ''1'',
          li_inheritEntity = True, li_dimensionValueId = None, li_descriptionTemplate = Some (''{category} ''
           @ EM_DASH @ '' {payee_name}'')\<rparr>,
        \<lparr>li_lineNumber = Some 2, li_accountSystemKey = Some ''opening_balance_equity'',
          li_ledgerAccountId = None, li_amountSource = Total, li_amountMultiplier = ''-1'',
          li_inheritEntity = True, li_dimensionValueId = None, li_descriptionTemplate = None\<rparr>],
      cr_activate = True, cr_createdByUserId = None, cr_requestId = None\<rparr>,
     \<lparr>cr_code = ''expense_bank_fees'', cr_name = (''Expense '' @ EM_DASH @ '' bank and processor fees''),
      cr_sourceFactType = ''expense'', cr_accountingBookId = None, cr_priority = 50, cr_description = None,
      cr_predicates = noPredicates\<lparr>pi_matchExpenseCategory := Some ''bank_fees''\<rparr>, cr_lines = [
        \<lparr>li_lineNumber = Some 1, li_accountSystemKey = Some ''payment_processing_fees'',
          li_ledgerAccountId = None, li_amountSource = Total, li_amountMultiplier = ''1'',
          li_inheritEntity = True, li_dimensionValueId = None, li_descriptionTemplate = Some (''{category} ''
           @ EM_DASH @ '' {payee_name}'')\<rparr>,
        \<lparr>li_lineNumber = Some 2, li_accountSystemKey = Some ''opening_balance_equity'',
          li_ledgerAccountId = None, li_amountSource = Total, li_amountMultiplier = ''-1'',
          li_inheritEntity = True, li_dimensionValueId = None, li_descriptionTemplate = None\<rparr>],
      cr_activate = True, cr_createdByUserId = None, cr_requestId = None\<rparr>,
     \<lparr>cr_code = ''expense_uncategorized'', cr_name = (''Expense '' @ EM_DASH @ '' no mapped account''),
      cr_sourceFactType = ''expense'', cr_accountingBookId = None, cr_priority = 900, cr_description = Some (
      ''The catch-all. The shipped chart carries a handful of expense accounts and an operator's categories will outgrow them within a month, so an unmapped expense posts to suspense ''
       @ EM_DASH @
      '' visible in a named report, and replaced the moment the operator writes a rule naming their own account. Refusing to post it instead would leave the expense invisible in both the ledger AND the backlog.''
      ), cr_predicates = noPredicates, cr_lines = [
        \<lparr>li_lineNumber = Some 1, li_accountSystemKey = Some ''suspense'', li_ledgerAccountId = None,
          li_amountSource = Total, li_amountMultiplier = ''1'', li_inheritEntity = True,
          li_dimensionValueId = None, li_descriptionTemplate = Some (''{category} '' @ EM_DASH @
          '' {payee_name}'')\<rparr>,
        \<lparr>li_lineNumber = Some 2, li_accountSystemKey = Some ''opening_balance_equity'',
          li_ledgerAccountId = None, li_amountSource = Total, li_amountMultiplier = ''-1'',
          li_inheritEntity = True, li_dimensionValueId = None, li_descriptionTemplate = None\<rparr>],
      cr_activate = True, cr_createdByUserId = None, cr_requestId = None\<rparr>]"

definition goodsRules :: "create_rule_input list" where
  "goodsRules = [
     \<lparr>cr_code = ''acquisition_cost_capitalized'', cr_name = (''Purchase of goods '' @ EM_DASH @
      '' capitalized into inventory''), cr_sourceFactType = ''acquisition_cost'', cr_accountingBookId = None,
      cr_priority = 100, cr_description = Some
      ''Money spent on goods is an ASSET, not an expense: it becomes cost basis on the item and reaches the income statement only as COGS when the item depletes. Posting it as an expense here would deduct the same dollar twice.''
      , cr_predicates = noPredicates\<lparr>pi_matchCapitalize := Some True\<rparr>, cr_lines = [
        \<lparr>li_lineNumber = Some 1, li_accountSystemKey = Some ''inventory'', li_ledgerAccountId = None,
          li_amountSource = Total, li_amountMultiplier = ''1'', li_inheritEntity = True,
          li_dimensionValueId = None, li_descriptionTemplate = Some ''{cost_type} on {reference_code}''\<rparr>,
        \<lparr>li_lineNumber = Some 2, li_accountSystemKey = Some ''opening_balance_equity'',
          li_ledgerAccountId = None, li_amountSource = Total, li_amountMultiplier = ''-1'',
          li_inheritEntity = True, li_dimensionValueId = None, li_descriptionTemplate = None\<rparr>],
      cr_activate = True, cr_createdByUserId = None, cr_requestId = None\<rparr>,
     \<lparr>cr_code = ''acquisition_cost_expensed'', cr_name =
      ''Acquisition cost the operator chose not to capitalize'', cr_sourceFactType = ''acquisition_cost'',
      cr_accountingBookId = None, cr_priority = 100, cr_description = Some (
      ''Mileage to the estate sale, a buyer's premium the operator will not capitalize: real spend that never became basis. It posts from where it sits and is never copied into `expenses`. The account is `suspense` because this fact type carries no cost-type predicate to route on ''
       @ EM_DASH @ '' the same honest catch-all the unmapped-expense rule uses.''),
      cr_predicates = noPredicates\<lparr>pi_matchCapitalize := Some False\<rparr>, cr_lines = [
        \<lparr>li_lineNumber = Some 1, li_accountSystemKey = Some ''suspense'', li_ledgerAccountId = None,
          li_amountSource = Total, li_amountMultiplier = ''1'', li_inheritEntity = True,
          li_dimensionValueId = None, li_descriptionTemplate = Some ''{cost_type} on {reference_code}''\<rparr>,
        \<lparr>li_lineNumber = Some 2, li_accountSystemKey = Some ''opening_balance_equity'',
          li_ledgerAccountId = None, li_amountSource = Total, li_amountMultiplier = ''-1'',
          li_inheritEntity = True, li_dimensionValueId = None, li_descriptionTemplate = None\<rparr>],
      cr_activate = True, cr_createdByUserId = None, cr_requestId = None\<rparr>,
     \<lparr>cr_code = ''cogs_on_depletion'', cr_name = ''Cost of goods sold, at depletion'',
      cr_sourceFactType = ''inventory_movement'', cr_accountingBookId = None, cr_priority = 100,
      cr_description = Some
      ''The design's own worked example: DR cogs / CR inventory at the item's FROZEN landed cost. This is the only way per-item realized contribution and the P&L can agree, because both read the same frozen number rather than each recomputing one.''
      , cr_predicates = noPredicates\<lparr>pi_matchMovementKind := Some ''depletion_sale''\<rparr>, cr_lines = [
        \<lparr>li_lineNumber = Some 1, li_accountSystemKey = Some ''cogs'', li_ledgerAccountId = None,
          li_amountSource = QuantityTimesBasis, li_amountMultiplier = ''1'', li_inheritEntity = True,
          li_dimensionValueId = None, li_descriptionTemplate = Some (''Cost of goods sold '' @ EM_DASH @
          '' {item_code}'')\<rparr>,
        \<lparr>li_lineNumber = Some 2, li_accountSystemKey = Some ''inventory'', li_ledgerAccountId = None,
          li_amountSource = QuantityTimesBasis, li_amountMultiplier = ''-1'', li_inheritEntity = True,
          li_dimensionValueId = None, li_descriptionTemplate = None\<rparr>],
      cr_activate = True, cr_createdByUserId = None, cr_requestId = None\<rparr>,
     \<lparr>cr_code = ''cogs_depletion_reversed'', cr_name = (''Reversed depletion '' @ EM_DASH @
      '' cost of goods sold, returned''), cr_sourceFactType = ''inventory_movement'',
      cr_accountingBookId = None, cr_priority = 100, cr_description = Some
      ''A `reversal` movement is how @loxep/inventory corrects an append-only ledger, and a depletion that did not happen must not leave COGS overstated while the stock comes back. The reader refuses to produce a basis for a reversal of anything other than a depletion_sale, so this rule can be unconditional on the kind it reverses.''
      , cr_predicates = noPredicates\<lparr>pi_matchMovementKind := Some ''reversal''\<rparr>, cr_lines = [
        \<lparr>li_lineNumber = Some 1, li_accountSystemKey = Some ''inventory'', li_ledgerAccountId = None,
          li_amountSource = QuantityTimesBasis, li_amountMultiplier = ''1'', li_inheritEntity = True,
          li_dimensionValueId = None, li_descriptionTemplate = Some (''Reversed depletion '' @ EM_DASH @
          '' {item_code}'')\<rparr>,
        \<lparr>li_lineNumber = Some 2, li_accountSystemKey = Some ''cogs'', li_ledgerAccountId = None,
          li_amountSource = QuantityTimesBasis, li_amountMultiplier = ''-1'', li_inheritEntity = True,
          li_dimensionValueId = None, li_descriptionTemplate = None\<rparr>],
      cr_activate = True, cr_createdByUserId = None, cr_requestId = None\<rparr>]"

definition DEFAULT_POSTING_RULES :: "create_rule_input list" where
  "DEFAULT_POSTING_RULES = saleRules @ expenseRules @ goodsRules"


section \<open>What the shipped text satisfies\<close>

lemma shipped_rules_validate:
  "list_all (\<lambda>r. map_sum id (\<lambda>_. ()) (bindE (parseCreateRule r) (\<lambda>v.
     validatePostingRuleTemplate (cr_sourceFactType v) (cr_lines v) (predicatesUsed (cr_predicates v)))) = Inr ()) DEFAULT_POSTING_RULES"
  by code_simp

end
