(* ===== verification/Spec2Isabelle.thy ===== *)
theory Spec2Isabelle
  imports Decimal Calendar Audit_Log Currency Periods Chart Books Journal_Properties Ledger_Reports Rule_Properties Engine_Properties Engine_Lines Engine_Sweep Engine_Errors Entity_Hierarchy Accounting_Sweep Shipped_Templates
begin

text \<open>
  The accounting core of Loxep, as executable definitions and the properties that make it correct.
  The code is TypeScript over PostgreSQL: \<^verbatim>\<open>src/packages/accounting/src\<close>, the constraints and triggers of
  \<^verbatim>\<open>src/packages/db\<close> it relies on, \<^verbatim>\<open>src/packages/audit\<close>, and the worker task
  \<^verbatim>\<open>src/packages/app/src/accounting-posting.ts\<close> that drives it.

  \<^bold>\<open>The parts and how they interact.\<close> Operational facts (orders, fees, refunds, expenses, acquisition
  costs, inventory movements) are read by \<^verbatim>\<open>source-facts.ts\<close> and turned into journal entries by
  \<^verbatim>\<open>posting-engine.ts\<close>: the engine routes a fact to a book (\<^verbatim>\<open>books.ts\<close>), picks the first matching rule
  (\<^verbatim>\<open>posting-rules.ts\<close>), builds lines with exact decimals (\<^verbatim>\<open>decimal.ts\<close>) and calls the journal
  (\<^verbatim>\<open>journal.ts\<close>), which checks the balance, the accounts (\<^verbatim>\<open>chart.ts\<close>), the currency (\<^verbatim>\<open>currency.ts\<close>)
  and the period (\<^verbatim>\<open>periods.ts\<close>), numbers the entry and writes an audit event. Reports
  (\<^verbatim>\<open>ledger-reports.ts\<close>, \<^verbatim>\<open>statements.ts\<close>) read what the journal wrote. A sweep runs the engine over the
  facts that have no entry yet.

  \<^bold>\<open>Theories.\<close>
  \<^item> \<open>Prelude\<close>: results (\<open>error + value\<close>, \<open>bindE\<close> is \<^verbatim>\<open>await\<close> of a call that may throw), row updates,
    strings. \<open>Errors\<close>: the error classes of \<^verbatim>\<open>errors.ts\<close> and the database's.
  \<^item> \<open>Decimal\<close>: \<^verbatim>\<open>decimal.ts\<close> on strings, with money as a number of micro-units (\<open>money_text\<close>).
    \<open>Calendar\<close>: dates and the last day of a month. \<open>Currency\<close>: \<^verbatim>\<open>currency.ts\<close>.
  \<^item> \<open>Audit_Log\<close>: \<^verbatim>\<open>audit/src\<close>, redaction and paging. \<open>Ledger_Schema\<close>: one record per table of
    \<^verbatim>\<open>db/src/schema/accounting.ts\<close>, the record \<open>ledger\<close> of all tables, and the constraints and triggers of
    the migrations, checked at each write.
  \<^item> \<open>Periods\<close>, \<open>Chart\<close>, \<open>Books\<close>, \<open>Journal\<close>: the four services, one definition per function, in the order
    of the files. \<open>Entity_Hierarchy\<close>: the recursive query of the books service.
  \<^item> \<open>Journal_Writes\<close>, \<open>Journal_Shapes\<close>: what a successful call did, statement by statement.
    \<open>Journal_Invariant\<close>, \<open>Journal_Safety\<close>: the invariant \<open>ledger_ok\<close> (keys, gapless numbers, balanced
    entries inside their periods, exact reversals) and that every journal call keeps it.
  \<^item> \<open>Ledger_Machine\<close>: the services as a state machine. \<open>request\<close> has one constructor per state-changing
    call, \<open>serve\<close> runs one, \<open>reachable\<close> closes under calls and under changes of the tables other
    services own. The locales \<open>ledger_operation\<close> and \<open>setup_operation\<close> state the contract of a call
    and are interpreted on every operation. \<open>Ledger_Properties\<close>, \<open>Journal_Properties\<close>: what follows for runs.
  \<^item> \<open>Ledger_Reports\<close>: trial balance, income statement, balance sheet, and their identities.
  \<^item> \<open>Source_Facts\<close>, \<open>Posting_Rules\<close>, \<open>Posting_Engine\<close>, \<open>Accounting_Sweep\<close>, \<open>Shipped_Templates\<close>: the
    fact readers, the rules service, the engine, the sweep, and the shipped chart and rules as data.
  \<^item> \<open>Rule_Templates\<close>, \<open>Rule_Machine\<close>, \<open>Rule_Resolution\<close>, \<open>Rule_Properties\<close>: what saving a version
    guarantees, the contract \<open>rules_operation\<close> of the four calls of the rules service, and which rule fires.
  \<^item> \<open>Engine_Steps\<close>, \<open>Engine_Postings\<close>: what one evaluation does to the ledger and to the table of
    postings (\<open>postedAs\<close>, the abstract state). \<open>Engine_Lines\<close>, \<open>Engine_Properties\<close>, \<open>Engine_Sweep\<close>,
    \<open>Engine_Errors\<close>: the engine's properties. \<open>Engine_Demo\<close>: the sample world of their witnesses.

  \<^bold>\<open>State and effects.\<close> A table is the list of its rows in insertion order, so \<^verbatim>\<open>order by created_at desc limit
  1\<close> is the last row. A call takes an \<open>env\<close>, the clock and the identifiers it draws, and returns an error or
  a result with the new ledger; an error stands for the rolled-back transaction. A call of several
  transactions (creating a book, evaluating a fact) returns its result or error together with the ledger
  it left (\<open>nextTx\<close>). \<^verbatim>\<open>numeric(20,6)\<close> columns are integers of micro-units; instants are a UTC date and the
  microseconds of the day.

  \<^bold>\<open>What the lemmas show.\<close> Entries in the books are numbered without gaps, balance, lie in their period and
  are never changed but for becoming reversed; a reversal cancels its entry and happens once; a posting key
  posts once; periods tile the fiscal year, and a locked one is final. The reports agree with each other and the
  balance sheet balances. A rule has one live version and its text is final; the first eligible rule
  fires. Lines built from a stored rule cannot throw and a remainder closes them to zero. The engine
  writes only through the journal; one evaluation changes the posting of its own fact only, to what the
  rules want, and is idempotent; a sweep shrinks the backlog or changes nothing. Several properties state
  a limit of the code instead: the roll-up rule is checked on one day, the key of a draft blocks its
  post, a fact that returns to an earlier state is left unposted, a closed period stops a sweep, a
  template is balanced before rounding.

  \<^bold>\<open>Bounds and fuel.\<close> The ancestor walk has the 32 levels of the source. The descendant query has none; the
  model gives it one level per entity and one more, and \<open>linkEntity_terminates\<close> shows that this never
  decides the answer. Every other loop is structural or has a measure. Entry numbers are checked
  against \<^verbatim>\<open>Number.MAX_SAFE_INTEGER\<close> and money columns against \<^verbatim>\<open>numeric(20,6)\<close> where they are written.

  \<^bold>\<open>Parameters.\<close> \<open>sha256\<close> (the digest, assumed to be lower-case hex text), \<open>rank\<close> (the collation order of the
  database), the environment of each call, and the operational tables (\<open>operations\<close>) the readers select from.

  \<^bold>\<open>Not modelled.\<close> Error and explanation sentences; the zod schemas beyond the checks they make; concurrency of
  transactions (each call runs alone, as the row locks and constraints of the code are there to ensure); strings
  beyond 8 bits per character. Expenses, receipts and confirmation of expense documents, codes and
  attribution, and the other packages (commerce, inventory, providers, infrastructure, media, jobs, auth
  and the web application) are listed in the manifest.
\<close>

end
